(* ===== verification/Raft_Prelude.thy ===== *)
theory Raft_Prelude
  imports Main "HOL-Library.Word" "HOL-Library.Monad_Syntax" "HOL-Library.Multiset"
begin

text \<open>
  Shared vocabulary of the development: the machine types of the C code, process abort as
  the value \<^term>\<open>None\<close> of an option, the errno values the code returns, little-endian
  encodings of machine words, and the generic facts on lists and order statistics that the
  components use.
\<close>

section \<open>Machine types\<close>

text \<open>
  Raft indices and terms are \<open>int64_t\<close> in the source. Signed overflow is undefined in C and
  would need \<open>2 ^ 63\<close> log entries, so both are unbounded integers here. Sizes, counts, crcs
  and sequence numbers are unsigned in C and wrap: they are words of their width.
\<close>

type_synonym u8 = "8 word"
type_synonym u32 = "32 word"
type_synonym u64 = "64 word"
type_synonym uuid = "128 word"
type_synonym raft_entry_idx_t = int
type_synonym term_t = int
type_synonym crc32_t = "32 word"

text \<open>A \<open>struct timespec\<close> is a number of nanoseconds.\<close>

type_synonym timespec = nat

definition timespec_2_msec :: "timespec \<Rightarrow> nat" where
  "timespec_2_msec ts = ts div 1000000"

definition uuid_is_null :: "uuid \<Rightarrow> bool" where
  "uuid_is_null u \<longleftrightarrow> u = 0"

abbreviation null_uuid :: uuid where
  "null_uuid \<equiv> 0"

section \<open>Return codes\<close>

text \<open>
  Linux errno values. The source returns them negated; a C \<open>bool\<close> that ends up in an
  \<open>int\<close> return code is 0 or 1.
\<close>

abbreviation ENOENT :: int where "ENOENT \<equiv> 2"
abbreviation EIO :: int where "EIO \<equiv> 5"
abbreviation E2BIG :: int where "E2BIG \<equiv> 7"
abbreviation EPERM :: int where "EPERM \<equiv> 1"
abbreviation EAGAIN :: int where "EAGAIN \<equiv> 11"
abbreviation ENOMEM :: int where "ENOMEM \<equiv> 12"
abbreviation EBUSY :: int where "EBUSY \<equiv> 16"
abbreviation EEXIST :: int where "EEXIST \<equiv> 17"
abbreviation EXDEV :: int where "EXDEV \<equiv> 18"
abbreviation ENODEV :: int where "ENODEV \<equiv> 19"
abbreviation EINVAL :: int where "EINVAL \<equiv> 22"
abbreviation ENOSPC :: int where "ENOSPC \<equiv> 28"
abbreviation EDOM :: int where "EDOM \<equiv> 33"
abbreviation ERANGE :: int where "ERANGE \<equiv> 34"
abbreviation ENOSYS :: int where "ENOSYS \<equiv> 38"
abbreviation EBADR :: int where "EBADR \<equiv> 53"
abbreviation EBADSLT :: int where "EBADSLT \<equiv> 57"
abbreviation ENODATA :: int where "ENODATA \<equiv> 61"
abbreviation EBADMSG :: int where "EBADMSG \<equiv> 74"
abbreviation EMSGSIZE :: int where "EMSGSIZE \<equiv> 90"
abbreviation EOPNOTSUPP :: int where "EOPNOTSUPP \<equiv> 95"
abbreviation ETIMEDOUT :: int where "ETIMEDOUT \<equiv> 110"
abbreviation EALREADY :: int where "EALREADY \<equiv> 114"
abbreviation EINPROGRESS :: int where "EINPROGRESS \<equiv> 115"
abbreviation ESTALE :: int where "ESTALE \<equiv> 116"
abbreviation EKEYREJECTED :: int where "EKEYREJECTED \<equiv> 129"
abbreviation EINTR :: int where "EINTR \<equiv> 4"
abbreviation ENXIO :: int where "ENXIO \<equiv> 6"
abbreviation EBADF :: int where "EBADF \<equiv> 9"
abbreviation ENOTDIR :: int where "ENOTDIR \<equiv> 20"
abbreviation ENAMETOOLONG :: int where "ENAMETOOLONG \<equiv> 36"
abbreviation EBADE :: int where "EBADE \<equiv> 52"
abbreviation ENOTCONN :: int where "ENOTCONN \<equiv> 107"
abbreviation ESHUTDOWN :: int where "ESHUTDOWN \<equiv> 108"
abbreviation EUCLEAN :: int where "EUCLEAN \<equiv> 117"
abbreviation ENOKEY :: int where "ENOKEY \<equiv> 126"

definition bool_to_int :: "bool \<Rightarrow> int" where
  "bool_to_int b = (if b then 1 else 0)"

section \<open>Process abort\<close>

text \<open>
  A failed \<open>NIOVA_ASSERT\<close> and every log message at level \<open>LL_FATAL\<close> abort the process.
  An operation that may abort returns an option; \<^term>\<open>None\<close> is the abort.
\<close>

definition NIOVA_ASSERT :: "bool \<Rightarrow> unit option" where
  "NIOVA_ASSERT c = (if c then Some () else None)"

definition FATAL_IF :: "bool \<Rightarrow> unit option" where
  "FATAL_IF c = (if c then None else Some ())"

lemma NIOVA_ASSERT_Some [simp]: "NIOVA_ASSERT c = Some u \<longleftrightarrow> c"
  by (simp add: NIOVA_ASSERT_def)

lemma NIOVA_ASSERT_bind [simp]: "NIOVA_ASSERT c \<bind> f = (if c then f () else None)"
  by (simp add: NIOVA_ASSERT_def)

lemma FATAL_IF_Some [simp]: "FATAL_IF c = Some u \<longleftrightarrow> \<not> c"
  by (simp add: FATAL_IF_def)

lemma FATAL_IF_bind [simp]: "FATAL_IF c \<bind> f = (if c then None else f ())"
  by (simp add: FATAL_IF_def)

text \<open>Inversion of a sequence of operations that did not abort.\<close>

lemmas bind_Some = bind_eq_Some_conv

text \<open>
  A postcondition of an operation that may abort: it holds of the result unless the operation
  aborts. The equations push it through the code; \<open>wp_call\<close> uses what is known of a callee.
\<close>

definition wp :: "'a option \<Rightarrow> ('a \<Rightarrow> bool) \<Rightarrow> bool" where
  "wp m Q \<longleftrightarrow> (\<forall>x. m = Some x \<longrightarrow> Q x)"

named_theorems wp_simps \<open>postconditions of the constructs of the code\<close>

lemma wp_Some [wp_simps]: "wp (Some x) Q = Q x"
  by (simp add: wp_def)

lemma wp_None [wp_simps]: "wp None Q"
  by (simp add: wp_def)

lemma wp_bind [wp_simps]: "wp (m \<bind> f) Q = wp m (\<lambda>x. wp (f x) Q)"
  by (auto simp: wp_def bind_Some)

lemma wp_if [wp_simps]: "wp (if c then a else b) Q = ((c \<longrightarrow> wp a Q) \<and> (\<not> c \<longrightarrow> wp b Q))"
  by simp

lemma wp_assert [wp_simps]: "wp (NIOVA_ASSERT c) Q = (c \<longrightarrow> Q ())"
  by (simp add: wp_def NIOVA_ASSERT_def)

lemma wp_fatal [wp_simps]: "wp (FATAL_IF c) Q = (\<not> c \<longrightarrow> Q ())"
  by (simp add: wp_def FATAL_IF_def)

lemma wp_case_prod [wp_simps]: "wp (case p of (a, b) \<Rightarrow> f a b) Q = wp (f (fst p) (snd p)) Q"
  by (simp add: case_prod_beta)

lemma wp_call: "wp m P \<Longrightarrow> (\<And>x. P x \<Longrightarrow> Q x) \<Longrightarrow> wp m Q"
  by (simp add: wp_def)

lemma wp_call2: "wp m (\<lambda>(a, b). P a b) \<Longrightarrow> (\<And>a b. P a b \<Longrightarrow> Q (a, b)) \<Longrightarrow> wp m Q"
  by (auto simp: wp_def)

lemma wp_call3:
  "wp m (\<lambda>(a, b, c). P a b c) \<Longrightarrow> (\<And>a b c. P a b c \<Longrightarrow> Q (a, b, c)) \<Longrightarrow> wp m Q"
  by (auto simp: wp_def)

lemma wpD: "wp m Q \<Longrightarrow> m = Some x \<Longrightarrow> Q x"
  by (simp add: wp_def)

lemma wpI: "(\<And>x. m = Some x \<Longrightarrow> Q x) \<Longrightarrow> wp m Q"
  by (simp add: wp_def)

lemma wp_conj: "wp m P \<Longrightarrow> wp m Q \<Longrightarrow> wp m (\<lambda>x. P x \<and> Q x)"
  by (simp add: wp_def)

lemma wp_True [simp]: "wp m (\<lambda>_. True)"
  by (simp add: wp_def)

section \<open>Conversions\<close>

lemma u8_in_u32 [simp]:
  "unat (ucast (w :: u8) :: u32) = unat w" "(ucast (ucast (w :: u8) :: u32) :: u8) = w"
  by (transfer, simp)+

section \<open>Little-endian encodings\<close>

definition le_bytes :: "nat \<Rightarrow> 'a::len word \<Rightarrow> u8 list" where
  "le_bytes n w = map (\<lambda>i. ucast (drop_bit (8 * i) w)) [0..<n]"

lemma length_le_bytes [simp]: "length (le_bytes n w) = n"
  by (simp add: le_bytes_def)

section \<open>Sums of machine words\<close>

fun word_sum :: "'a::len word list \<Rightarrow> 'a word" where
  "word_sum [] = 0"
| "word_sum (w # ws) = w + word_sum ws"

lemma word_sum_append [simp]: "word_sum (xs @ ys) = word_sum xs + word_sum ys"
  by (induction xs) (simp_all add: add.assoc)

lemma unat_word_sum: "unat (word_sum ws :: 'a::len word) = sum_list (map unat ws) mod 2 ^ LENGTH('a)"
  by (induction ws) (simp_all add: unat_word_ariths mod_simps)

lemma unat_word_sum_no_wrap:
  fixes ws :: "'a::len word list"
  assumes "sum_list (map unat ws) < 2 ^ LENGTH('a)"
  shows "unat (word_sum ws) = sum_list (map unat ws)"
  using assms by (simp add: unat_word_sum)

section \<open>Lists\<close>

lemma list_all_update:
  "list_all P xs \<Longrightarrow> P x \<Longrightarrow> list_all P (xs[i := x])"
  using set_update_subset_insert [of xs i x] by (auto simp: list_all_iff)

lemma length_filter_update_le:
  "length (filter P (xs[i := x])) \<le> Suc (length (filter P xs))"
proof (induction xs arbitrary: i)
  case Nil
  then show ?case by simp
next
  case (Cons y ys)
  then show ?case by (cases i) (auto simp: le_SucI)
qed

text \<open>
  Order statistics of a sorted list: at least \<open>length xs - k\<close> elements are greater than or
  equal to the one at position \<open>k\<close>.
\<close>

lemma sorted_nth_count_ge:
  fixes xs :: "'a::linorder list"
  assumes "sorted xs" and "k < length xs"
  shows "length xs - k \<le> length (filter (\<lambda>x. xs ! k \<le> x) xs)"
proof -
  have "set (drop k xs) \<subseteq> {x. xs ! k \<le> x}"
    using assms by (auto simp: in_set_conv_nth sorted_nth_mono)
  then have "filter (\<lambda>x. xs ! k \<le> x) (drop k xs) = drop k xs"
    by (auto simp: filter_id_conv)
  then have "length (filter (\<lambda>x. xs ! k \<le> x) (take k xs @ drop k xs)) \<ge> length xs - k"
    by (simp del: append_take_drop_id)
  then show ?thesis by simp
qed

lemma sorted_nth_count_gt:
  fixes xs :: "'a::linorder list"
  assumes "sorted xs" and "k < length xs" and "xs ! k < v"
  shows "length (filter (\<lambda>x. v \<le> x) xs) \<le> length xs - Suc k"
proof -
  have "filter (\<lambda>x. v \<le> x) (take (Suc k) xs) = []"
    using assms by (force simp: filter_empty_conv in_set_conv_nth sorted_nth_mono not_le
        intro: le_less_trans [of _ "xs ! k"])
  then have "length (filter (\<lambda>x. v \<le> x) (take (Suc k) xs @ drop (Suc k) xs))
      \<le> length (drop (Suc k) xs)"
    using length_filter_le [of "\<lambda>x. v \<le> x" "drop (Suc k) xs"]
    by (simp del: append_take_drop_id)
  then show ?thesis by simp
qed

lemma length_filter_sort [simp]: "length (filter P (sort xs)) = length (filter P xs)"
  by (metis mset_filter mset_sort size_mset)

section \<open>Majorities\<close>

lemma majorities_intersect:
  assumes "finite U" and "A \<subseteq> U" and "B \<subseteq> U"
    and "card U < 2 * card A" and "card U < 2 * card B"
  shows "A \<inter> B \<noteq> {}"
proof
  assume "A \<inter> B = {}"
  then have "card A + card B = card (A \<union> B)"
    using assms(1-3) by (metis card_Un_disjoint finite_subset)
  also have "\<dots> \<le> card U"
    using assms(1-3) by (intro card_mono) auto
  finally show False using assms(4,5) by linarith
qed

end
