(* ===== verification/Raft_Types.thy ===== *)
theory Raft_Types
  imports Raft_Prelude
begin

text \<open>
  The data model of \<open>src/src/include/raft.h\<close>: the enums and structs of the server, the
  messages servers exchange, the raft instance, the table of backend functions, and the
  environment a handler runs in (everything the server calls that is not part of this
  repository).
\<close>

section \<open>Enums\<close>

datatype raft_event_pipe_types =
    RAFT_EVP_REMOTE_SEND
  | RAFT_EVP_ASYNC_COMMIT_IDX_ADV
  | RAFT_EVP_SM_APPLY

datatype raft_init_state_type =
    RAFT_INIT_BOOTUP_STATE
  | RAFT_INIT_BECOMING_LEADER_STATE
  | RAFT_INIT_BECOMING_CANDIDATE_STATE
  | RAFT_INIT_SHUTDOWN_STATE

datatype raft_process_state =
    RAFT_PROC_STATE_BOOTING
  | RAFT_PROC_STATE_RUNNING
  | RAFT_PROC_STATE_RECOVERING
  | RAFT_PROC_STATE_SHUTDOWN

datatype raft_state =
    RAFT_STATE__NONE
  | RAFT_STATE_LEADER
  | RAFT_STATE_FOLLOWER
  | RAFT_STATE_CANDIDATE_PREVOTE
  | RAFT_STATE_CANDIDATE
  | RAFT_STATE_CLIENT

datatype raft_vote_result =
    RAFT_VOTE_RESULT_UNKNOWN
  | RAFT_PRE_VOTE_RESULT_YES
  | RAFT_PRE_VOTE_RESULT_NO
  | RAFT_VOTE_RESULT_YES
  | RAFT_VOTE_RESULT_NO

datatype raft_follower_reasons =
    RAFT_BFRSN_NONE
  | RAFT_BFRSN_VOTED_FOR_PEER
  | RAFT_BFRSN_STALE_TERM_WHILE_CANDIDATE
  | RAFT_BFRSN_STALE_TERM_WHILE_LEADER
  | RAFT_BFRSN_LEADER_ALREADY_PRESENT

datatype raft_instance_store_type =
    RAFT_INSTANCE_STORE_POSIX_FLAT_FILE
  | RAFT_INSTANCE_STORE_ROCKSDB
  | RAFT_INSTANCE_STORE_ROCKSDB_PERSISTENT_APP

datatype raft_write_entry_opts =
    RAFT_WR_ENTRY_OPT_NONE
  | RAFT_WR_ENTRY_OPT_LEADER_CHANGE_MARKER
  | RAFT_WR_ENTRY_OPT_LOG_HEADER
  | RAFT_WR_ENTRY_OPT_FOLLOWER_WRITE

text \<open>The two slots of \<open>ri_newest_entry_hdr\<close>, and the selector that may name both.\<close>

datatype newest_slot = RI_NEHDR_SYNC | RI_NEHDR_UNSYNC

datatype raft_instance_newest_entry_hdr_types = NEHDR_ONE newest_slot | RI_NEHDR_ALL

section \<open>Constants\<close>

definition RAFT_ENTRY_NUM_ENTRIES :: nat where "RAFT_ENTRY_NUM_ENTRIES = 100"
definition RAFT_ENTRY_MAGIC :: u64 where "RAFT_ENTRY_MAGIC = 0x1a2b3c4dd4c3b2a1"
definition RAFT_HEADER_MAGIC :: u64 where "RAFT_HEADER_MAGIC = 0xafaeadacabaaa9a8"
definition RAFT_ENTRY_HEADER_RESERVE :: nat where "RAFT_ENTRY_HEADER_RESERVE = 496"
definition RAFT_ENTRY_SIZE_MIN :: nat where "RAFT_ENTRY_SIZE_MIN = 65536"

abbreviation RAFT_ENTRY_IDX_ANY :: raft_entry_idx_t where "RAFT_ENTRY_IDX_ANY \<equiv> -1"
abbreviation RAFT_MIN_APPEND_ENTRY_IDX :: raft_entry_idx_t where "RAFT_MIN_APPEND_ENTRY_IDX \<equiv> -1"

text \<open>
  \<open>sizeof (struct raft_rpc_msg)\<close>: 56 bytes of type, version and uuids, and the largest
  member of the union, the append-entries request (480 bytes).
\<close>

definition sizeof_raft_rpc_msg :: nat where "sizeof_raft_rpc_msg = 536"

section \<open>Log entries\<close>

record raft_entry_header =
  reh_magic :: u64
  reh_self_uuid :: uuid
  reh_store_time :: timespec
  reh_crc :: crc32_t
  reh_data_size :: u32
  reh_index :: raft_entry_idx_t
  reh_term :: term_t
  reh_raft_uuid :: uuid
  reh_entry_sz :: "u32 list"
  reh_apply_handler_version :: u64
  reh_leader_change_marker :: bool
  reh_num_entries :: u8

record raft_entry =
  re_header :: raft_entry_header
  re_data :: "u8 list"

record raft_log_header =
  rlh_version :: u64
  rlh_magic :: u64
  rlh_term :: term_t
  rlh_seqno :: u64
  rlh_voted_for :: uuid

section \<open>Messages between servers\<close>

record raft_vote_request_msg =
  rvrqm_proposed_term :: term_t
  rvrqm_last_log_term :: term_t
  rvrqm_last_log_index :: raft_entry_idx_t

record raft_vote_reply_msg =
  rvrpm_voted_granted :: bool
  rvrpm_term :: term_t
  rvrpm_current_leader :: uuid

record raft_append_entries_request_msg =
  raerqm_leader_term :: term_t
  raerqm_log_term :: term_t
  raerqm_commit_index :: raft_entry_idx_t
  raerqm_lowest_index :: raft_entry_idx_t
  raerqm_chkpt_index :: raft_entry_idx_t
  raerqm_prev_log_term :: term_t
  raerqm_prev_log_index :: raft_entry_idx_t
  raerqm_prev_idx_crc :: crc32_t
  raerqm_this_idx_crc :: crc32_t
  raerqm_size_arr :: "u32 list"
  raerqm_entries_sz :: u32
  raerqm_num_entries :: u32
  raerqm_heartbeat_msg :: bool
  raerqm_leader_change_marker :: bool
  raerqm_entry_out_of_range :: bool
  raerqm_entries :: "u8 list"

record raft_append_entries_reply_msg =
  raerpm_leader_term :: term_t
  raerpm_prev_log_index :: raft_entry_idx_t
  raerpm_synced_log_index :: raft_entry_idx_t
  raerpm_heartbeat_msg :: bool
  raerpm_err_stale_term :: bool
  raerpm_err_non_matching_prev_term :: bool
  raerpm_newly_initialized_peer :: bool
  raerpm_update_sli :: bool

record raft_sync_idx_update_msg =
  rsium_synced_log_index :: raft_entry_idx_t
  rsium_term :: term_t

text \<open>
  \<open>rrm_type\<close> selects the member of the union of \<open>struct raft_rpc_msg\<close>: a tagged union.
\<close>

datatype raft_rpc_payload =
    PRE_VOTE_REQUEST raft_vote_request_msg
  | PRE_VOTE_REPLY raft_vote_reply_msg
  | VOTE_REQUEST raft_vote_request_msg
  | VOTE_REPLY raft_vote_reply_msg
  | APPEND_ENTRIES_REQUEST raft_append_entries_request_msg
  | APPEND_ENTRIES_REPLY raft_append_entries_reply_msg
  | SYNC_IDX_UPDATE raft_sync_idx_update_msg
  | UNHANDLED_MSG

record raft_rpc_msg =
  rrm_sender_id :: uuid
  rrm_raft_id :: uuid
  rrm_db_id :: uuid
  rrm_payload :: raft_rpc_payload

section \<open>Messages between clients and servers\<close>

datatype raft_client_rpc_msg_type =
    RAFT_CLIENT_RPC_MSG_TYPE_INVALID
  | RAFT_CLIENT_RPC_MSG_TYPE_READ
  | RAFT_CLIENT_RPC_MSG_TYPE_WRITE
  | RAFT_CLIENT_RPC_MSG_TYPE_REPLY
  | RAFT_CLIENT_RPC_MSG_TYPE_REDIRECT
  | RAFT_CLIENT_RPC_MSG_TYPE_PING
  | RAFT_CLIENT_RPC_MSG_TYPE_PING_REPLY
  | RAFT_CLIENT_RPC_MSG_TYPE_ANY

text \<open>\<open>rcrm_redirect_id\<close> shares its storage with \<open>rcrm_dest_id\<close>: one field.\<close>

record raft_client_rpc_msg =
  rcrm_type :: raft_client_rpc_msg_type
  rcrm_data_size :: u32
  rcrm_msg_id :: u64
  rcrm_raft_id :: uuid
  rcrm_sender_id :: uuid
  rcrm_dest_id :: uuid
  rcrm_app_error :: int
  rcrm_sys_error :: int
  rcrm_user_tag :: u64
  rcrm_data :: "u8 list"

definition sizeof_raft_client_rpc_msg :: nat where "sizeof_raft_client_rpc_msg = 88"

section \<open>State of an instance\<close>

record raft_candidate_state =
  rcs_term :: term_t
  rcs_prevote :: bool
  rcs_results :: "raft_vote_result list"

record raft_follower_info =
  rfi_next_idx :: raft_entry_idx_t
  rfi_ackd_idx :: raft_entry_idx_t
  rfi_synced_idx :: raft_entry_idx_t
  rfi_current_idx_term :: term_t
  rfi_current_idx_crc :: crc32_t
  rfi_prev_idx_term :: term_t
  rfi_prev_idx_crc :: crc32_t
  rfi_last_ack :: timespec
  rfi_ae_sends_wait_until :: nat

record raft_leader_state =
  rls_initial_term_idx :: raft_entry_idx_t
  rls_leader_term :: term_t
  rls_quorum_ok_cnt :: nat
  rls_leader_start :: timespec
  rls_leader_accumulated :: timespec
  rls_rfi :: "raft_follower_info list"

record raft_last_applied =
  rla_idx :: raft_entry_idx_t
  rla_sub_idx :: u32
  rla_sub_idx_max :: u32
  rla_synced_idx :: raft_entry_idx_t
  rla_cumulative_crc :: crc32_t
  rla_kv_cumulative_crc :: crc32_t

record raft_recovery_handle =
  rrh_peer_uuid :: uuid
  rrh_peer_db_uuid :: uuid
  rrh_peer_chkpt_idx :: raft_entry_idx_t
  rrh_chkpt_size :: int
  rrh_remaining :: int
  rrh_completed :: nat
  rrh_start :: timespec
  rrh_from_recovery_marker :: bool

text \<open>
  Write supplements: key-value items the application attaches to a write. The handle, the
  completion callback and the memory of an item are the application's.
\<close>

datatype raft_net_wr_supp_op = RAFT_NET_WR_SUPP_OP_WRITE | RAFT_NET_WR_SUPP_OP_DELETE

record raft_net_wr_supp =
  rnws_op :: raft_net_wr_supp_op
  rnws_cf_name :: "string option"
  rnws_key :: "u8 list"
  rnws_value :: "u8 list"

record raft_net_sm_write_supplements =
  rnsws_ws :: "raft_net_wr_supp list"
  rnsws_kv_crc :: crc32_t
  rnsws_kv_crc_enabled :: bool

record raft_instance_co_wr =
  rcwi_nentries :: u32
  rcwi_entry_sizes :: "u32 list"
  rcwi_total_size :: nat
  rcwi_ws :: raft_net_sm_write_supplements
  rcwi_buffer :: "u8 list"

text \<open>
  What a handler does besides changing the instance: it hands messages to peers and clients,
  notifies an event pipe, arms the timer, and calls the application's init callback.
\<close>

datatype raft_effect =
    Eff_send uuid raft_rpc_msg
  | Eff_client_send uuid raft_client_rpc_msg
  | Eff_notify raft_event_pipe_types
  | Eff_timer nat nat
  | Eff_init_cb raft_init_state_type

text \<open>
  The raft instance. Peers are named by their uuid: \<open>ri_csn_raft_peers\<close> lists the configured
  members, so its length is \<open>ctl_svc_node_raft_2_num_members\<close>. \<open>ri_backend_arg\<close> is the private
  state of the backend, of any type; \<open>ri_timer_fd_cb\<close> says whether that callback is set.
  \<open>ri_effects\<close> collects what a handler emitted, in order.
\<close>

record 'b raft_instance =
  ri_csn_raft :: uuid
  ri_csn_raft_peers :: "uuid list"
  ri_csn_this_peer :: uuid
  ri_csn_leader :: "uuid option"
  ri_last_send :: "timespec list"
  ri_last_recv :: "timespec list"
  ri_raft_uuid_str :: string
  ri_this_peer_uuid_str :: string
  ri_db_uuid :: uuid
  ri_db_recovery_uuid :: uuid
  ri_candidate :: raft_candidate_state
  ri_leader :: raft_leader_state
  ri_state :: raft_state
  ri_proc_state :: raft_process_state
  ri_store_type :: raft_instance_store_type
  ri_ignore_timerfd :: bool
  ri_synchronous_writes :: bool
  ri_coalesced_writes :: bool
  ri_user_requested_checkpoint :: bool
  ri_user_requested_reap :: bool
  ri_auto_checkpoints_enabled :: bool
  ri_needs_bulk_recovery :: bool
  ri_lreg_registered :: bool
  ri_incomplete_recovery :: bool
  ri_successful_recovery :: bool
  ri_follower_reason :: raft_follower_reasons
  ri_startup_error :: int
  ri_log :: string
  ri_log_hdr :: raft_log_header
  ri_commit_idx :: raft_entry_idx_t
  ri_last_applied :: raft_last_applied
  ri_checkpoint_last_idx :: raft_entry_idx_t
  ri_lowest_idx :: raft_entry_idx_t
  ri_pending_read_idx :: raft_entry_idx_t
  ri_last_chkpt_err :: int
  ri_sync_cnt :: nat
  ri_max_scan_entries :: int
  ri_log_reap_factor :: nat
  ri_num_checkpoints :: nat
  ri_max_entry_size :: nat
  ri_newest_entry_hdr :: "newest_slot \<Rightarrow> raft_entry_header"
  ri_election_timeout_max_ms :: nat
  ri_heartbeat_freq_per_election_min :: nat
  ri_check_quorum_timeout_factor :: nat
  ri_timer_fd_cb :: bool
  ri_backend_arg :: 'b
  ri_entries_detected_at_startup :: int
  ri_recovery_handle :: raft_recovery_handle
  ri_apply_handler_version :: u64
  ri_coalesced_wr :: raft_instance_co_wr
  ri_timer_cnt :: nat
  ri_effects :: "raft_effect list"

text \<open>
  The backend function table \<open>struct raft_instance_backend\<close>. A function returns the changed
  instance (it may change \<open>ri_backend_arg\<close>, and \<open>rib_header_load\<close> sets \<open>ri_log_hdr\<close>) or aborts.
  The reads also return the code and the entry (or header) they filled in.
\<close>

record 'b raft_instance_backend =
  rib_entry_write :: "'b raft_instance \<Rightarrow> raft_entry \<Rightarrow> raft_net_sm_write_supplements option
     \<Rightarrow> 'b raft_instance option"
  rib_entry_header_read :: "'b raft_instance \<Rightarrow> raft_entry_header \<Rightarrow> (int \<times> raft_entry_header) option"
  rib_entry_read :: "'b raft_instance \<Rightarrow> raft_entry \<Rightarrow> (int \<times> raft_entry) option"
  rib_log_truncate :: "'b raft_instance \<Rightarrow> raft_entry_idx_t \<Rightarrow> 'b raft_instance option"
  rib_log_reap :: "'b raft_instance \<Rightarrow> raft_entry_idx_t \<Rightarrow> 'b raft_instance option"
  rib_header_load :: "'b raft_instance \<Rightarrow> (int \<times> 'b raft_instance) option"
  rib_header_write :: "'b raft_instance \<Rightarrow> (int \<times> 'b raft_instance) option"
  rib_backend_sync :: "'b raft_instance \<Rightarrow> (int \<times> 'b raft_instance) option"
  rib_backend_checkpoint :: "('b raft_instance \<Rightarrow> (int \<times> 'b raft_instance) option) option"
  rib_sm_apply_opt :: "('b raft_instance \<Rightarrow> raft_net_sm_write_supplements option
     \<Rightarrow> 'b raft_instance option) option"

text \<open>The fault injection points the modelled code tests.\<close>

datatype raft_fault =
    raft_candidate_state_disabled
  | raft_pvc_becomes_candidate
  | raft_force_bulk_recovery
  | raft_follower_ignores_AE
  | raft_leader_may_be_deposed
  | coalesced_writes_fault
  | raft_server_bypass_sm_apply
  | raft_server_fail_partial_apply

text \<open>
  The environment of a handler: the backend in use and the code outside this repository that
  the handler calls. The clocks are read once per handler. \<open>env_udp_send\<close> and \<open>env_tcp_send\<close>
  are the transports (bytes sent or a negative error, for a peer and a message size);
  \<open>env_uninit\<close> is what freshly allocated memory holds; \<open>env_lowest_race\<close> is the lowest index the
  checkpoint thread sets, if it does, between the range check of a log read and the critical
  section that registers the read; \<open>env_addr_matches\<close> says whether the address a message came
  from is the configured one of a peer; \<open>env_has_init_cb\<close> whether the application set \<open>ri_init_cb\<close>;
  \<open>CTL_SVC_MAX_RAFT_PEERS\<close> and \<open>CTL_SVC_MIN_RAFT_PEERS\<close> are constants of the control service.
\<close>

record 'b raft_env =
  env_rib :: "'b raft_instance_backend"
  env_crc :: "u8 list \<Rightarrow> crc32_t \<Rightarrow> crc32_t"
  env_fault :: "raft_fault \<Rightarrow> bool"
  env_realtime :: timespec
  env_unstable :: timespec
  env_random :: nat
  env_uninit :: raft_entry
  env_lowest_race :: "raft_entry_idx_t option"
  env_max_raft_peers :: nat
  env_min_raft_peers :: nat
  env_net_can_send :: "uuid \<Rightarrow> bool"
  env_net_can_recv :: "uuid \<Rightarrow> bool"
  env_addr_matches :: "uuid \<Rightarrow> bool"
  env_has_init_cb :: bool
  env_udp_max_size :: nat
  env_tcp_max_size :: nat
  env_tcp_disabled :: bool
  env_udp_send :: "uuid \<Rightarrow> nat \<Rightarrow> int"
  env_tcp_send :: "uuid \<Rightarrow> nat \<Rightarrow> int"

section \<open>Inline functions of the header\<close>

definition raft_instance_is_client :: "'b raft_instance \<Rightarrow> bool" where
  "raft_instance_is_client ri \<longleftrightarrow> ri_state ri = RAFT_STATE_CLIENT"

definition raft_instance_is_leader :: "'b raft_instance \<Rightarrow> bool" where
  "raft_instance_is_leader ri \<longleftrightarrow> ri_state ri = RAFT_STATE_LEADER"

definition raft_instance_is_candidate :: "'b raft_instance \<Rightarrow> bool" where
  "raft_instance_is_candidate ri \<longleftrightarrow> ri_state ri = RAFT_STATE_CANDIDATE"

definition raft_instance_is_candidate_prevote :: "'b raft_instance \<Rightarrow> bool" where
  "raft_instance_is_candidate_prevote ri \<longleftrightarrow> ri_state ri = RAFT_STATE_CANDIDATE_PREVOTE"

definition raft_instance_is_follower :: "'b raft_instance \<Rightarrow> bool" where
  "raft_instance_is_follower ri \<longleftrightarrow> ri_state ri = RAFT_STATE_FOLLOWER"

definition raft_instance_is_booting :: "'b raft_instance \<Rightarrow> bool" where
  "raft_instance_is_booting ri \<longleftrightarrow> ri_proc_state ri = RAFT_PROC_STATE_BOOTING"

definition raft_instance_is_shutdown :: "'b raft_instance \<Rightarrow> bool" where
  "raft_instance_is_shutdown ri \<longleftrightarrow> ri_proc_state ri = RAFT_PROC_STATE_SHUTDOWN"

definition raft_instance_is_running :: "'b raft_instance \<Rightarrow> bool" where
  "raft_instance_is_running ri \<longleftrightarrow> ri_proc_state ri = RAFT_PROC_STATE_RUNNING"

definition raft_instance_is_recovering :: "'b raft_instance \<Rightarrow> bool" where
  "raft_instance_is_recovering ri \<longleftrightarrow> ri_proc_state ri = RAFT_PROC_STATE_RECOVERING"

lemmas raft_instance_is_defs =
  raft_instance_is_client_def raft_instance_is_leader_def raft_instance_is_candidate_def
  raft_instance_is_candidate_prevote_def raft_instance_is_follower_def
  raft_instance_is_booting_def raft_instance_is_shutdown_def

definition raft_server_does_synchronous_writes :: "'b raft_instance \<Rightarrow> bool" where
  "raft_server_does_synchronous_writes ri = ri_synchronous_writes ri"

definition num_members :: "'b raft_instance \<Rightarrow> nat" where
  "num_members ri = length (ri_csn_raft_peers ri)"

definition raft_num_members_is_valid :: "'b raft_env \<Rightarrow> nat \<Rightarrow> bool" where
  "raft_num_members_is_valid env n \<longleftrightarrow>
     \<not> (env_max_raft_peers env < n \<or> n < env_min_raft_peers env)"

definition raft_num_members_validate_and_get :: "'b raft_env \<Rightarrow> 'b raft_instance \<Rightarrow> nat option" where
  "raft_num_members_validate_and_get env ri = do {
     FATAL_IF (\<not> raft_num_members_is_valid env (num_members ri));
     Some (num_members ri) }"

text \<open>
  \<open>raft_peer_2_idx\<close> returns \<open>RAFT_PEER_ANY\<close> for an unknown uuid, here \<^term>\<open>None\<close>. The search
  loop returns the first match.
\<close>

fun peer_search :: "uuid list \<Rightarrow> uuid \<Rightarrow> nat option" where
  "peer_search [] u = None"
| "peer_search (p # ps) u = (if p = u then Some 0 else map_option Suc (peer_search ps u))"

definition raft_peer_2_idx :: "'b raft_instance \<Rightarrow> uuid \<Rightarrow> nat option" where
  "raft_peer_2_idx ri u = peer_search (ri_csn_raft_peers ri) u"

definition raft_peer_uuid_to_csn :: "'b raft_env \<Rightarrow> 'b raft_instance \<Rightarrow> uuid \<Rightarrow> uuid option option" where
  "raft_peer_uuid_to_csn env ri u =
     (if uuid_is_null u then Some None
      else do {
        npeers \<leftarrow> raft_num_members_validate_and_get env ri;
        Some (if u \<in> set (ri_csn_raft_peers ri) then Some u else None) })"

definition raft_member_idx_is_valid :: "'b raft_env \<Rightarrow> 'b raft_instance \<Rightarrow> nat \<Rightarrow> bool option" where
  "raft_member_idx_is_valid env ri member = do {
     n \<leftarrow> raft_num_members_validate_and_get env ri;
     Some (member < n) }"

text \<open>The slot of a follower in the leader state, and the instance with that slot replaced.\<close>

definition raft_server_get_follower_info ::
  "'b raft_env \<Rightarrow> 'b raft_instance \<Rightarrow> nat \<Rightarrow> raft_follower_info option" where
  "raft_server_get_follower_info env ri member = do {
     valid \<leftarrow> raft_member_idx_is_valid env ri member;
     NIOVA_ASSERT valid;
     Some (rls_rfi (ri_leader ri) ! member) }"

definition set_follower_info :: "nat \<Rightarrow> raft_follower_info \<Rightarrow> 'b raft_instance \<Rightarrow> 'b raft_instance" where
  "set_follower_info i rfi ri =
     ri\<lparr>ri_leader := (ri_leader ri)\<lparr>rls_rfi := (rls_rfi (ri_leader ri))[i := rfi]\<rparr>\<rparr>"

definition emit :: "raft_effect \<Rightarrow> 'b raft_instance \<Rightarrow> 'b raft_instance" where
  "emit e ri = ri\<lparr>ri_effects := ri_effects ri @ [e]\<rparr>"

definition raft_server_instance_chkpt_compact_max_idx :: "'b raft_instance \<Rightarrow> raft_entry_idx_t" where
  "raft_server_instance_chkpt_compact_max_idx ri = rla_synced_idx (ri_last_applied ri)"

text \<open>\<open>RAFT_ENTRY_MAX_DATA_SIZE\<close>: the subtraction is on \<open>size_t\<close>.\<close>

definition RAFT_ENTRY_MAX_DATA_SIZE :: "'b raft_instance \<Rightarrow> nat" where
  "RAFT_ENTRY_MAX_DATA_SIZE ri = ri_max_entry_size ri - RAFT_ENTRY_HEADER_RESERVE"

definition raft_server_entry_to_total_size :: "raft_entry \<Rightarrow> nat" where
  "raft_server_entry_to_total_size re =
     RAFT_ENTRY_HEADER_RESERVE + unat (reh_data_size (re_header re))"

text \<open>
  A wiped header: \<open>memset\<close> to zero and \<open>reh_index = -1\<close>. The strict check of
  \<open>raft_server_entry_header_is_null\<close> aborts on a header that is neither valid nor wiped.
\<close>

definition null_reh :: raft_entry_header where
  "null_reh = \<lparr>reh_magic = 0, reh_self_uuid = 0, reh_store_time = 0, reh_crc = 0,
     reh_data_size = 0, reh_index = -1, reh_term = 0, reh_raft_uuid = 0,
     reh_entry_sz = replicate RAFT_ENTRY_NUM_ENTRIES 0, reh_apply_handler_version = 0,
     reh_leader_change_marker = False, reh_num_entries = 0\<rparr>"

definition raft_server_entry_header_is_null :: "raft_entry_header \<Rightarrow> bool option" where
  "raft_server_entry_header_is_null reh =
     (if reh_magic reh = RAFT_ENTRY_MAGIC then Some False
      else do { NIOVA_ASSERT (reh = null_reh); Some True })"

definition raft_instance_get_newest_header ::
  "'b raft_instance \<Rightarrow> newest_slot \<Rightarrow> raft_entry_header \<Rightarrow> raft_entry_header" where
  "raft_instance_get_newest_header ri slot reh =
     (if raft_instance_is_client ri then reh else ri_newest_entry_hdr ri slot)"

text \<open>The all-zero header the callers start from (\<open>struct raft_entry_header reh = {0}\<close>).\<close>

definition zero_reh :: raft_entry_header where
  "zero_reh = null_reh\<lparr>reh_index := 0\<rparr>"

abbreviation newest_header :: "'b raft_instance \<Rightarrow> newest_slot \<Rightarrow> raft_entry_header" where
  "newest_header ri slot \<equiv> raft_instance_get_newest_header ri slot zero_reh"

definition raft_server_get_current_raft_entry_term :: "'b raft_instance \<Rightarrow> newest_slot \<Rightarrow> term_t" where
  "raft_server_get_current_raft_entry_term ri slot =
     (if raft_instance_is_client ri then 0 else reh_term (newest_header ri slot))"

definition raft_server_get_current_raft_entry_index ::
  "'b raft_instance \<Rightarrow> newest_slot \<Rightarrow> raft_entry_idx_t option" where
  "raft_server_get_current_raft_entry_index ri slot =
     (if raft_instance_is_client ri then Some (-1)
      else do {
        let reh = newest_header ri slot;
        is_null \<leftarrow> raft_server_entry_header_is_null reh;
        if is_null then Some (-1)
        else do { NIOVA_ASSERT (0 \<le> reh_index reh); Some (reh_index reh) } })"

section \<open>Facts on the accessors\<close>

lemma peer_search_Some:
  "peer_search ps u = Some i \<longleftrightarrow> i < length ps \<and> ps ! i = u \<and> (\<forall>j<i. ps ! j \<noteq> u)"
proof (induction ps arbitrary: i)
  case Nil
  then show ?case by simp
next
  case (Cons p ps)
  then show ?case
    by (cases i) (auto simp: less_Suc_eq_0_disj nth_Cons' split: if_splits)
qed

lemma peer_search_None: "peer_search ps u = None \<longleftrightarrow> u \<notin> set ps"
  by (induction ps) auto

lemma raft_peer_2_idx_less:
  "raft_peer_2_idx ri u = Some i \<Longrightarrow> i < num_members ri"
  by (simp add: raft_peer_2_idx_def peer_search_Some num_members_def)

lemma emit_simps [simp]:
  "ri_state (emit e ri) = ri_state ri"
  "ri_log_hdr (emit e ri) = ri_log_hdr ri"
  "ri_candidate (emit e ri) = ri_candidate ri"
  "ri_leader (emit e ri) = ri_leader ri"
  "ri_newest_entry_hdr (emit e ri) = ri_newest_entry_hdr ri"
  "ri_commit_idx (emit e ri) = ri_commit_idx ri"
  "ri_last_applied (emit e ri) = ri_last_applied ri"
  "ri_csn_raft_peers (emit e ri) = ri_csn_raft_peers ri"
  "ri_csn_this_peer (emit e ri) = ri_csn_this_peer ri"
  "ri_csn_leader (emit e ri) = ri_csn_leader ri"
  "ri_lowest_idx (emit e ri) = ri_lowest_idx ri"
  "ri_backend_arg (emit e ri) = ri_backend_arg ri"
  "ri_effects (emit e ri) = ri_effects ri @ [e]"
  by (simp_all add: emit_def)

end
