(* ===== verification/Raft_Entry.thy ===== *)
theory Raft_Entry
  imports Raft_Types
begin

text \<open>
  Log entries (\<open>raft_server.c\<close>): the crc of an entry, building an entry, validating an entry
  header, the cached headers of the newest synced and unsynced entry, and writing an entry at
  the end of the log.
\<close>

section \<open>The crc of an entry\<close>

text \<open>
  The bytes the crc covers: the header from \<open>reh_data_size\<close> on (452 bytes, the last six being
  the zero pad) and the data. The uuid bytes are taken in a fixed order.
\<close>

definition entry_crc_region :: "raft_entry \<Rightarrow> u8 list" where
  "entry_crc_region re = (let h = re_header re in
     le_bytes 4 (reh_data_size h) @
     le_bytes 8 (word_of_int (reh_index h) :: u64) @
     le_bytes 8 (word_of_int (reh_term h) :: u64) @
     le_bytes 16 (reh_raft_uuid h) @
     concat (map (le_bytes 4) (reh_entry_sz h)) @
     le_bytes 8 (reh_apply_handler_version h) @
     [if reh_leader_change_marker h then 1 else 0, reh_num_entries h] @
     replicate 6 0 @
     take (unat (reh_data_size h)) (re_data re))"

text \<open>\<open>crc_len\<close> is an \<open>int\<close> and asserted to be non-negative.\<close>

definition raft_server_entry_calc_crc :: "'b raft_env \<Rightarrow> raft_entry \<Rightarrow> crc32_t option" where
  "raft_server_entry_calc_crc env re = do {
     NIOVA_ASSERT (452 + unat (reh_data_size (re_header re)) < 2 ^ 31);
     Some (env_crc env (entry_crc_region re) 0) }"

definition raft_server_entry_check_crc :: "'b raft_env \<Rightarrow> raft_entry \<Rightarrow> int option" where
  "raft_server_entry_check_crc env re = do {
     crc \<leftarrow> raft_server_entry_calc_crc env re;
     Some (if crc = reh_crc (re_header re) then 0 else - EBADMSG) }"

section \<open>Building an entry\<close>

text \<open>
  The sum of the entry sizes is taken in \<open>uint32_t\<close>. Reading past the size array is undefined
  behaviour, modelled as abort.
\<close>

definition raft_server_wr_entries_get_total_size :: "u32 list \<Rightarrow> u32 \<Rightarrow> u32 option" where
  "raft_server_wr_entries_get_total_size entry_sizes num_entries =
     (if unat num_entries \<le> length entry_sizes
      then Some (word_sum (take (unat num_entries) entry_sizes))
      else None)"

text \<open>
  \<open>data\<close> may be \<open>NULL\<close> for a leader change marker. The sizes are copied over a zeroed array of
  \<^term>\<open>RAFT_ENTRY_NUM_ENTRIES\<close> slots; copying more, or copying more data than the caller
  passed, is undefined.
\<close>

definition raft_server_entry_init ::
  "'b raft_env \<Rightarrow> 'b raft_instance \<Rightarrow> raft_entry_idx_t \<Rightarrow> term_t \<Rightarrow> u8 list option \<Rightarrow> u32 list
     \<Rightarrow> u32 \<Rightarrow> raft_write_entry_opts \<Rightarrow> raft_entry option" where
  "raft_server_entry_init env ri re_idx current_term data entry_sizes nentries opts = do {
     NIOVA_ASSERT (opts = RAFT_WR_ENTRY_OPT_LEADER_CHANGE_MARKER \<or> (data \<noteq> None \<and> nentries \<noteq> 0));
     NIOVA_ASSERT (if opts = RAFT_WR_ENTRY_OPT_LOG_HEADER then re_idx < 0 else 0 \<le> re_idx);
     total_size \<leftarrow> raft_server_wr_entries_get_total_size entry_sizes nentries;
     NIOVA_ASSERT (unat total_size \<le> RAFT_ENTRY_MAX_DATA_SIZE ri);
     NIOVA_ASSERT (total_size = 0 \<or> (unat nentries \<le> RAFT_ENTRY_NUM_ENTRIES \<and>
        (case data of None \<Rightarrow> False | Some d \<Rightarrow> unat total_size \<le> length d)));
     let sizes = (if total_size = 0 then replicate RAFT_ENTRY_NUM_ENTRIES 0
        else take (unat nentries) entry_sizes @
             replicate (RAFT_ENTRY_NUM_ENTRIES - unat nentries) 0);
     let re = \<lparr>re_header = \<lparr>reh_magic = RAFT_ENTRY_MAGIC,
          reh_self_uuid = ri_csn_this_peer ri,
          reh_store_time = env_realtime env,
          reh_crc = 0,
          reh_data_size = total_size,
          reh_index = re_idx,
          reh_term = current_term,
          reh_raft_uuid = ri_csn_raft ri,
          reh_entry_sz = sizes,
          reh_apply_handler_version = ri_apply_handler_version ri,
          reh_leader_change_marker = (opts = RAFT_WR_ENTRY_OPT_LEADER_CHANGE_MARKER),
          reh_num_entries = ucast nentries\<rparr>,
        re_data = (case data of None \<Rightarrow> [] | Some d \<Rightarrow> take (unat total_size) d)\<rparr>;
     crc \<leftarrow> raft_server_entry_calc_crc env re;
     Some (re\<lparr>re_header := (re_header re)\<lparr>reh_crc := crc\<rparr>\<rparr>) }"

definition raft_server_entry_init_for_log_header ::
  "'b raft_env \<Rightarrow> 'b raft_instance \<Rightarrow> raft_entry_idx_t \<Rightarrow> term_t \<Rightarrow> u8 list \<Rightarrow> u32 \<Rightarrow> raft_entry option" where
  "raft_server_entry_init_for_log_header env ri re_idx current_term data entry_size = do {
     NIOVA_ASSERT (re_idx < 0);
     raft_server_entry_init env ri re_idx current_term (Some data) [entry_size] 1
       RAFT_WR_ENTRY_OPT_LOG_HEADER }"

section \<open>Validating a header\<close>

definition read_server_entry_validate ::
  "'b raft_instance \<Rightarrow> raft_entry_header \<Rightarrow> raft_entry_idx_t \<Rightarrow> int" where
  "read_server_entry_validate ri rh expected_reh_idx =
     (if reh_magic rh \<noteq> RAFT_ENTRY_MAGIC \<or> RAFT_ENTRY_MAX_DATA_SIZE ri < unat (reh_data_size rh)
      then - EINVAL
      else if reh_index rh \<noteq> expected_reh_idx then - EBADSLT
      else if reh_self_uuid rh \<noteq> ri_csn_this_peer ri \<or> reh_raft_uuid rh \<noteq> ri_csn_raft ri
      then - EKEYREJECTED
      else 0)"

section \<open>The newest entry headers\<close>

text \<open>One iteration of the loop over the header slots.\<close>

definition update_newest_slot ::
  "bool \<Rightarrow> bool \<Rightarrow> raft_entry_header \<Rightarrow> newest_slot \<Rightarrow> (newest_slot \<Rightarrow> raft_entry_header)
     \<Rightarrow> (newest_slot \<Rightarrow> raft_entry_header) option" where
  "update_newest_slot sync_writes force reh slot hdrs =
     (if force \<or> reh_index (hdrs slot) < reh_index reh then Some (hdrs(slot := reh))
      else do { NIOVA_ASSERT (\<not> sync_writes); Some hdrs })"

definition raft_instance_update_newest_entry_hdr ::
  "raft_entry_header \<Rightarrow> raft_instance_newest_entry_hdr_types \<Rightarrow> bool \<Rightarrow> 'b raft_instance
     \<Rightarrow> 'b raft_instance option" where
  "raft_instance_update_newest_entry_hdr reh type force ri =
     (if reh_index reh < 0 then Some ri
      else do {
        let upd = update_newest_slot (raft_server_does_synchronous_writes ri) force reh;
        hdrs \<leftarrow> (case type of
            NEHDR_ONE slot \<Rightarrow> upd slot (ri_newest_entry_hdr ri)
          | RI_NEHDR_ALL \<Rightarrow> upd RI_NEHDR_SYNC (ri_newest_entry_hdr ri) \<bind> upd RI_NEHDR_UNSYNC);
        Some (ri\<lparr>ri_newest_entry_hdr := hdrs\<rparr>) })"

definition raft_instance_initialize_newest_entry_hdr :: "'b raft_instance \<Rightarrow> 'b raft_instance" where
  "raft_instance_initialize_newest_entry_hdr ri = ri\<lparr>ri_newest_entry_hdr := (\<lambda>_. null_reh)\<rparr>"

definition raft_server_has_unsynced_entries :: "'b raft_instance \<Rightarrow> bool option" where
  "raft_server_has_unsynced_entries ri = (
     let s = ri_newest_entry_hdr ri RI_NEHDR_SYNC;
         u = ri_newest_entry_hdr ri RI_NEHDR_UNSYNC;
         diff = (s \<noteq> u)
     in do {
       FATAL_IF (diff \<and> (reh_index u < reh_index s \<or> reh_term u < reh_term s \<or>
                         raft_server_does_synchronous_writes ri));
       Some diff })"

section \<open>Appending an entry\<close>

definition raft_server_entry_next_entry_is_valid ::
  "'b raft_instance \<Rightarrow> raft_entry_header \<Rightarrow> bool option" where
  "raft_server_entry_next_entry_is_valid ri next_reh =
     (if reh_index next_reh < 0 then Some True
      else do {
        let unsync_hdr = newest_header ri RI_NEHDR_UNSYNC;
        let expected_raft_unsync_index = reh_index unsync_hdr + 1;
        (if raft_server_does_synchronous_writes ri
         then do {
           sync_idx \<leftarrow> raft_server_get_current_raft_entry_index ri RI_NEHDR_SYNC;
           FATAL_IF (expected_raft_unsync_index \<noteq> sync_idx + 1) }
         else Some ());
        Some (\<not> (reh_index next_reh \<noteq> expected_raft_unsync_index \<or>
                  reh_term next_reh < reh_term unsync_hdr)) })"

definition raft_server_entry_write_by_store ::
  "'b raft_env \<Rightarrow> raft_entry \<Rightarrow> raft_net_sm_write_supplements option \<Rightarrow> 'b raft_instance
     \<Rightarrow> 'b raft_instance option" where
  "raft_server_entry_write_by_store env re ws ri = rib_entry_write (env_rib env) ri re ws"

text \<open>Memory allocation is taken to succeed, so \<open>-ENOMEM\<close> does not occur.\<close>

definition raft_server_entry_write ::
  "'b raft_env \<Rightarrow> raft_entry_idx_t \<Rightarrow> term_t \<Rightarrow> u8 list option \<Rightarrow> u32 list \<Rightarrow> u32
     \<Rightarrow> raft_write_entry_opts \<Rightarrow> raft_net_sm_write_supplements option \<Rightarrow> 'b raft_instance
     \<Rightarrow> (int \<times> 'b raft_instance) option" where
  "raft_server_entry_write env re_idx term data entry_sizes nentries opts ws ri =
     (if opts \<noteq> RAFT_WR_ENTRY_OPT_LEADER_CHANGE_MARKER \<and> data = None then Some (- EINVAL, ri)
      else do {
        entry_size \<leftarrow> raft_server_wr_entries_get_total_size entry_sizes nentries;
        if RAFT_ENTRY_MAX_DATA_SIZE ri < unat entry_size then Some (- E2BIG, ri)
        else do {
          re \<leftarrow> raft_server_entry_init env ri re_idx term data entry_sizes nentries opts;
          valid \<leftarrow> raft_server_entry_next_entry_is_valid ri (re_header re);
          FATAL_IF (\<not> valid);
          ri \<leftarrow> raft_server_entry_write_by_store env re ws ri;
          ri \<leftarrow> raft_instance_update_newest_entry_hdr (re_header re)
                 (if raft_server_does_synchronous_writes ri then RI_NEHDR_ALL
                  else NEHDR_ONE RI_NEHDR_UNSYNC) False ri;
          (if raft_server_does_synchronous_writes ri
           then do {
             unsynced \<leftarrow> raft_server_has_unsynced_entries ri;
             FATAL_IF unsynced }
           else Some ());
          Some (0, ri) } })"

section \<open>The crc region\<close>

lemma length_entry_crc_region:
  assumes "length (reh_entry_sz (re_header re)) = RAFT_ENTRY_NUM_ENTRIES"
    and "unat (reh_data_size (re_header re)) \<le> length (re_data re)"
  shows "length (entry_crc_region re) = 452 + unat (reh_data_size (re_header re))"
  using assms
  by (simp add: entry_crc_region_def Let_def length_concat comp_def sum_list_triv
      RAFT_ENTRY_NUM_ENTRIES_def)

text \<open>The crc does not cover the crc field, the magic, the store time and the self uuid.\<close>

lemma entry_crc_region_frame [simp]:
  "entry_crc_region (re\<lparr>re_header := (re_header re)\<lparr>reh_crc := c\<rparr>\<rparr>) = entry_crc_region re"
  by (simp add: entry_crc_region_def Let_def)

section \<open>Entries built by the code are valid\<close>

lemma entry_init_check_crc:
  "raft_server_entry_init env ri i t data sizes n opts = Some re \<Longrightarrow>
   raft_server_entry_check_crc env re = Some 0"
  by (auto simp: raft_server_entry_init_def raft_server_entry_check_crc_def Let_def
      raft_server_entry_calc_crc_def entry_crc_region_def bind_Some split: if_splits)

lemma entry_init_fields:
  assumes "raft_server_entry_init env ri i t data sizes n opts = Some re"
  shows "reh_index (re_header re) = i" and "reh_term (re_header re) = t"
    and "reh_magic (re_header re) = RAFT_ENTRY_MAGIC"
    and "reh_num_entries (re_header re) = ucast n"
    and "raft_server_wr_entries_get_total_size sizes n = Some (reh_data_size (re_header re))"
    and "unat (reh_data_size (re_header re)) \<le> RAFT_ENTRY_MAX_DATA_SIZE ri"
    and "reh_self_uuid (re_header re) = ri_csn_this_peer ri"
    and "reh_raft_uuid (re_header re) = ri_csn_raft ri"
    and "reh_leader_change_marker (re_header re)
           = (opts = RAFT_WR_ENTRY_OPT_LEADER_CHANGE_MARKER)"
    and "opts = RAFT_WR_ENTRY_OPT_LOG_HEADER \<longleftrightarrow> i < 0"
  using assms
  by (auto simp: raft_server_entry_init_def Let_def bind_Some split: if_splits)

lemma entry_init_validate:
  "raft_server_entry_init env ri i t data sizes n opts = Some re \<Longrightarrow>
   read_server_entry_validate ri (re_header re) i = 0"
  by (simp add: read_server_entry_validate_def entry_init_fields not_less)

lemma entry_init_data_length:
  "raft_server_entry_init env ri i t data sizes n opts = Some re \<Longrightarrow>
   length (re_data re) = unat (reh_data_size (re_header re))"
  by (auto simp: raft_server_entry_init_def Let_def bind_Some split: if_splits option.splits)

lemma entry_init_entry_sz_length:
  "raft_server_entry_init env ri i t data sizes n opts = Some re \<Longrightarrow>
   length (reh_entry_sz (re_header re)) = RAFT_ENTRY_NUM_ENTRIES"
  by (auto simp: raft_server_entry_init_def raft_server_wr_entries_get_total_size_def Let_def
      bind_Some min_def split: if_splits)

section \<open>The newest headers stay ordered\<close>

text \<open>
  The synced header is never ahead of the unsynced one, in index or in term, and the two
  agree when writes are synchronous. A cached header is either wiped or one of an entry.
\<close>

definition hdr_ok :: "raft_entry_header \<Rightarrow> bool" where
  "hdr_ok h \<longleftrightarrow> h = null_reh \<or> (reh_magic h = RAFT_ENTRY_MAGIC \<and> 0 \<le> reh_index h)"

definition newest_hdrs_ok :: "'b raft_instance \<Rightarrow> bool" where
  "newest_hdrs_ok ri \<longleftrightarrow> (
     let s = ri_newest_entry_hdr ri RI_NEHDR_SYNC; u = ri_newest_entry_hdr ri RI_NEHDR_UNSYNC
     in hdr_ok s \<and> hdr_ok u \<and> reh_index s \<le> reh_index u \<and> reh_term s \<le> reh_term u \<and>
        (ri_synchronous_writes ri \<longrightarrow> s = u) \<and> (reh_index s = reh_index u \<longrightarrow> s = u))"

lemma null_reh_simps [simp]:
  "reh_magic null_reh = 0" "reh_index null_reh = -1" "reh_term null_reh = 0"
  by (simp_all add: null_reh_def)

lemma RAFT_ENTRY_MAGIC_neq_0 [simp]: "RAFT_ENTRY_MAGIC \<noteq> 0" "0 \<noteq> RAFT_ENTRY_MAGIC"
  by (simp_all add: RAFT_ENTRY_MAGIC_def)

lemma hdr_ok_index: "hdr_ok h \<Longrightarrow> -1 \<le> reh_index h"
  by (auto simp: hdr_ok_def)

lemma header_is_null_ok:
  "hdr_ok h \<Longrightarrow> raft_server_entry_header_is_null h = Some (h = null_reh)"
  by (auto simp: hdr_ok_def raft_server_entry_header_is_null_def)

lemma current_idx_ok:
  assumes "hdr_ok (ri_newest_entry_hdr ri slot)" and "\<not> raft_instance_is_client ri"
  shows "raft_server_get_current_raft_entry_index ri slot
     = Some (reh_index (ri_newest_entry_hdr ri slot))"
  using assms
  by (auto simp: raft_server_get_current_raft_entry_index_def raft_instance_get_newest_header_def
      header_is_null_ok hdr_ok_def Let_def)

lemma newest_hdrs_ok_init: "newest_hdrs_ok (raft_instance_initialize_newest_entry_hdr ri)"
  by (simp add: newest_hdrs_ok_def raft_instance_initialize_newest_entry_hdr_def hdr_ok_def)

text \<open>With ordered headers the sanity check of \<open>raft_server_has_unsynced_entries\<close> passes.\<close>

lemma has_unsynced_entries_ok:
  assumes "newest_hdrs_ok ri"
  shows "raft_server_has_unsynced_entries ri
     = Some (ri_newest_entry_hdr ri RI_NEHDR_SYNC \<noteq> ri_newest_entry_hdr ri RI_NEHDR_UNSYNC)"
  using assms
  by (auto simp: newest_hdrs_ok_def raft_server_has_unsynced_entries_def Let_def
      raft_server_does_synchronous_writes_def)

lemma both_slots: "h(RI_NEHDR_SYNC := x, RI_NEHDR_UNSYNC := x) = (\<lambda>_. x)"
  by (rule ext) (metis fun_upd_other fun_upd_same newest_slot.exhaust)

lemma update_newest_frame:
  "raft_instance_update_newest_entry_hdr reh type force ri = Some ri' \<Longrightarrow>
   ri' = ri\<lparr>ri_newest_entry_hdr := ri_newest_entry_hdr ri'\<rparr>"
  by (auto simp: raft_instance_update_newest_entry_hdr_def Let_def bind_Some
      split: if_splits raft_instance_newest_entry_hdr_types.splits)

end
