(* ===== verification/Raft_Net.thy ===== *)
theory Raft_Net
  imports Raft_Types
begin

text \<open>
  Sending and receiving (\<open>raft_net.c\<close> and the senders of \<open>raft_server.c\<close>): the limits on a
  message, the choice of the transport, the times of the last communication with a peer, the
  verification of a sender, and the timer.
\<close>

section \<open>Sending\<close>

definition raft_net_max_rpc_size :: "raft_instance_store_type \<Rightarrow> nat" where
  "raft_net_max_rpc_size t = (case t of
       RAFT_INSTANCE_STORE_POSIX_FLAT_FILE \<Rightarrow> 64 * 1024 - 512
     | RAFT_INSTANCE_STORE_ROCKSDB \<Rightarrow> 4096 * 1024 - 512
     | RAFT_INSTANCE_STORE_ROCKSDB_PERSISTENT_APP \<Rightarrow> 4096 * 1024 - 512)"

definition raft_net_update_last_comm_time ::
  "'b raft_env \<Rightarrow> uuid \<Rightarrow> bool \<Rightarrow> 'b raft_instance \<Rightarrow> 'b raft_instance" where
  "raft_net_update_last_comm_time env peer send_or_recv ri =
     (if uuid_is_null peer then ri
      else case raft_peer_2_idx ri peer of None \<Rightarrow> ri
        | Some i \<Rightarrow>
            if send_or_recv then ri\<lparr>ri_last_send := (ri_last_send ri)[i := env_realtime env]\<rparr>
            else ri\<lparr>ri_last_recv := (ri_last_recv ri)[i := env_realtime env]\<rparr>)"

definition raft_net_send_tcp ::
  "'b raft_env \<Rightarrow> uuid \<Rightarrow> nat \<Rightarrow> 'b raft_instance \<Rightarrow> int \<times> 'b raft_instance" where
  "raft_net_send_tcp env peer msg_size ri =
     (env_tcp_send env peer msg_size, raft_net_update_last_comm_time env peer True ri)"

definition raft_net_send_msg ::
  "'b raft_env \<Rightarrow> uuid \<Rightarrow> nat \<Rightarrow> bool \<Rightarrow> 'b raft_instance \<Rightarrow> int \<times> 'b raft_instance" where
  "raft_net_send_msg env peer msg_size client_sock ri =
     (if raft_net_max_rpc_size (ri_store_type ri) < msg_size then (- E2BIG, ri)
      else let (size_rc, ri) =
          (if \<not> env_net_can_send env peer then (int msg_size, ri)
           else if raft_instance_is_client ri \<or> client_sock
           then raft_net_send_tcp env peer msg_size ri
           else if msg_size \<le> env_udp_max_size env then (env_udp_send env peer msg_size, ri)
           else if \<not> env_tcp_disabled env \<and> msg_size \<le> env_tcp_max_size env
           then raft_net_send_tcp env peer msg_size ri
           else (- E2BIG, ri))
        in if size_rc \<noteq> int msg_size then (size_rc, ri)
           else (0, raft_net_update_last_comm_time env peer True ri))"

definition raft_rpc_msg_size :: "raft_rpc_msg \<Rightarrow> nat" where
  "raft_rpc_msg_size rrm = sizeof_raft_rpc_msg +
     (case rrm_payload rrm of APPEND_ENTRIES_REQUEST m \<Rightarrow> unat (raerqm_entries_sz m) | _ \<Rightarrow> 0)"

text \<open>A message leaves the process when the transport took all of it.\<close>

definition raft_server_send_msg ::
  "'b raft_env \<Rightarrow> uuid \<Rightarrow> raft_rpc_msg \<Rightarrow> 'b raft_instance \<Rightarrow> int \<times> 'b raft_instance" where
  "raft_server_send_msg env peer rrm ri =
     (let (rc, ri) = raft_net_send_msg env peer (raft_rpc_msg_size rrm) False ri
      in (rc, if rc = 0 \<and> env_net_can_send env peer then emit (Eff_send peer rrm) ri else ri))"

fun broadcast_to :: "'b raft_env \<Rightarrow> raft_rpc_msg \<Rightarrow> uuid list \<Rightarrow> 'b raft_instance \<Rightarrow> 'b raft_instance" where
  "broadcast_to env rrm [] ri = ri"
| "broadcast_to env rrm (p # ps) ri =
     broadcast_to env rrm ps
       (if p = ri_csn_this_peer ri then ri else snd (raft_server_send_msg env p rrm ri))"

definition raft_server_broadcast_msg ::
  "'b raft_env \<Rightarrow> raft_rpc_msg \<Rightarrow> 'b raft_instance \<Rightarrow> 'b raft_instance option" where
  "raft_server_broadcast_msg env rrm ri = do {
     num_peers \<leftarrow> raft_num_members_validate_and_get env ri;
     Some (broadcast_to env rrm (ri_csn_raft_peers ri) ri) }"

definition raft_server_set_uuids_in_rpc_msg :: "'b raft_instance \<Rightarrow> raft_rpc_payload \<Rightarrow> raft_rpc_msg" where
  "raft_server_set_uuids_in_rpc_msg ri payload =
     \<lparr>rrm_sender_id = ri_csn_this_peer ri, rrm_raft_id = ri_csn_raft ri,
      rrm_db_id = ri_db_uuid ri, rrm_payload = payload\<rparr>"

section \<open>Recency of communication\<close>

datatype raft_net_comm_recency_type =
    RAFT_COMM_RECENCY_RECV
  | RAFT_COMM_RECENCY_SEND
  | RAFT_COMM_RECENCY_UNACKED_SEND

definition raft_net_comm_recency ::
  "'b raft_env \<Rightarrow> 'b raft_instance \<Rightarrow> nat \<Rightarrow> raft_net_comm_recency_type \<Rightarrow> int \<times> nat" where
  "raft_net_comm_recency env ri peer type =
     (if num_members ri \<le> peer then (- EINVAL, 0)
      else let last_send = timespec_2_msec (ri_last_send ri ! peer);
               last_recv = timespec_2_msec (ri_last_recv ri ! peer) in
        if last_send = 0 then (- EALREADY, 0)
        else let now = max (timespec_2_msec (env_realtime env)) (max last_recv last_send) in
          (0, case type of
               RAFT_COMM_RECENCY_RECV \<Rightarrow> (if last_recv \<noteq> 0 then now - last_recv else 0)
             | RAFT_COMM_RECENCY_SEND \<Rightarrow> (if last_send \<noteq> 0 then now - last_send else 0)
             | RAFT_COMM_RECENCY_UNACKED_SEND \<Rightarrow>
                 (if last_recv < last_send then now - last_recv else 0)))"

section \<open>Verifying the sender of a server message\<close>

definition raft_net_verify_sender_server_msg ::
  "'b raft_env \<Rightarrow> 'b raft_instance \<Rightarrow> uuid \<Rightarrow> uuid \<Rightarrow> uuid option" where
  "raft_net_verify_sender_server_msg env ri sender_uuid sender_raft_uuid =
     (if uuid_is_null sender_uuid then None
      else case raft_peer_2_idx ri sender_uuid of None \<Rightarrow> None
        | Some i \<Rightarrow>
            if ri_csn_raft ri \<noteq> sender_raft_uuid then None
            else if \<not> env_addr_matches env sender_uuid then None
            else if \<not> env_net_can_recv env sender_uuid then None
            else Some (ri_csn_raft_peers ri ! i))"

section \<open>The timer\<close>

definition RAFT_LEADER_WAKEUP_MS :: nat where "RAFT_LEADER_WAKEUP_MS = 2"

definition raft_election_timeout_lower_bound :: "'b raft_instance \<Rightarrow> nat" where
  "raft_election_timeout_lower_bound ri = ri_election_timeout_max_ms ri div 2"

text \<open>A modulus of zero traps.\<close>

definition raft_election_timeout_calc :: "'b raft_env \<Rightarrow> 'b raft_instance \<Rightarrow> nat option" where
  "raft_election_timeout_calc env ri = (
     let halved_timeout = raft_election_timeout_lower_bound ri
     in if halved_timeout = 0 then None
        else Some (halved_timeout + env_random env mod halved_timeout))"

definition raft_heartbeat_timeout_msec :: "'b raft_instance \<Rightarrow> nat option" where
  "raft_heartbeat_timeout_msec ri =
     (if ri_heartbeat_freq_per_election_min ri = 0 then None
      else do {
        let msec = ri_election_timeout_max_ms ri div ri_heartbeat_freq_per_election_min ri;
        NIOVA_ASSERT (10 \<le> msec);
        Some msec })"

definition raft_server_timerfd_settime :: "'b raft_env \<Rightarrow> 'b raft_instance \<Rightarrow> 'b raft_instance option" where
  "raft_server_timerfd_settime env ri =
     (if ri_state ri = RAFT_STATE_LEADER
      then Some (emit (Eff_timer RAFT_LEADER_WAKEUP_MS RAFT_LEADER_WAKEUP_MS) ri)
      else do {
        msec \<leftarrow> raft_election_timeout_calc env ri;
        Some (emit (Eff_timer msec 0) ri) })"

section \<open>Sending does not change the raft state\<close>

text \<open>
  Sending, the timer and the communication times touch \<open>ri_last_send\<close>, \<open>ri_last_recv\<close> and the
  emitted effects only: the rest of the instance is its core.
\<close>

definition net_core :: "'b raft_instance \<Rightarrow> 'b raft_instance" where
  "net_core ri = ri\<lparr>ri_last_send := [], ri_last_recv := [], ri_effects := []\<rparr>"

lemma net_core_updates [simp]:
  "net_core (ri\<lparr>ri_last_send := s\<rparr>) = net_core ri"
  "net_core (ri\<lparr>ri_last_recv := r\<rparr>) = net_core ri"
  "net_core (ri\<lparr>ri_effects := es\<rparr>) = net_core ri"
  "net_core (emit e ri) = net_core ri"
  by (simp_all add: net_core_def emit_def)

lemma net_core_comm_time [simp]:
  "net_core (raft_net_update_last_comm_time env peer sr ri) = net_core ri"
  by (simp add: raft_net_update_last_comm_time_def split: option.split)

lemma net_core_send_msg:
  "raft_net_send_msg env peer sz cs ri = (rc, ri') \<Longrightarrow> net_core ri' = net_core ri"
  by (auto simp: raft_net_send_msg_def raft_net_send_tcp_def Let_def split: prod.splits if_splits)

lemma net_core_net_send [simp]: "net_core (snd (raft_net_send_msg env p n b ri)) = net_core ri"
  by (metis net_core_send_msg prod.collapse)

lemma net_core_server_send:
  "raft_server_send_msg env peer rrm ri = (rc, ri') \<Longrightarrow> net_core ri' = net_core ri"
  by (auto simp: raft_server_send_msg_def split: prod.splits if_splits dest: net_core_send_msg)

lemma net_core_server_send_snd [simp]:
  "net_core (snd (raft_server_send_msg env peer rrm ri)) = net_core ri"
  by (metis net_core_server_send prod.collapse)

lemma net_core_broadcast_to [simp]: "net_core (broadcast_to env rrm ps ri) = net_core ri"
  by (induction ps arbitrary: ri) simp_all

lemma net_core_broadcast:
  "raft_server_broadcast_msg env rrm ri = Some ri' \<Longrightarrow> net_core ri' = net_core ri"
  by (auto simp: raft_server_broadcast_msg_def bind_Some)

lemma net_core_timer:
  "raft_server_timerfd_settime env ri = Some ri' \<Longrightarrow> net_core ri' = net_core ri"
  by (auto simp: raft_server_timerfd_settime_def bind_Some split: if_splits)

text \<open>A field of the core that is a function of the core is the same before and after.\<close>

lemma net_core_fields:
  assumes "net_core ri' = net_core ri"
  shows "ri_state ri' = ri_state ri" and "ri_log_hdr ri' = ri_log_hdr ri"
    and "ri_candidate ri' = ri_candidate ri" and "ri_leader ri' = ri_leader ri"
    and "ri_newest_entry_hdr ri' = ri_newest_entry_hdr ri"
    and "ri_commit_idx ri' = ri_commit_idx ri" and "ri_last_applied ri' = ri_last_applied ri"
    and "ri_csn_raft_peers ri' = ri_csn_raft_peers ri"
    and "ri_csn_this_peer ri' = ri_csn_this_peer ri" and "ri_csn_leader ri' = ri_csn_leader ri"
    and "ri_lowest_idx ri' = ri_lowest_idx ri" and "ri_backend_arg ri' = ri_backend_arg ri"
    and "ri_synchronous_writes ri' = ri_synchronous_writes ri"
    and "ri_csn_raft ri' = ri_csn_raft ri" and "ri_db_uuid ri' = ri_db_uuid ri"
    and "ri_pending_read_idx ri' = ri_pending_read_idx ri"
    and "ri_max_entry_size ri' = ri_max_entry_size ri"
  using assms [THEN arg_cong [where f = ri_state]] assms [THEN arg_cong [where f = ri_log_hdr]]
    assms [THEN arg_cong [where f = ri_candidate]] assms [THEN arg_cong [where f = ri_leader]]
    assms [THEN arg_cong [where f = ri_newest_entry_hdr]]
    assms [THEN arg_cong [where f = ri_commit_idx]] assms [THEN arg_cong [where f = ri_last_applied]]
    assms [THEN arg_cong [where f = ri_csn_raft_peers]]
    assms [THEN arg_cong [where f = ri_csn_this_peer]] assms [THEN arg_cong [where f = ri_csn_leader]]
    assms [THEN arg_cong [where f = ri_lowest_idx]] assms [THEN arg_cong [where f = ri_backend_arg]]
    assms [THEN arg_cong [where f = ri_synchronous_writes]]
    assms [THEN arg_cong [where f = ri_csn_raft]] assms [THEN arg_cong [where f = ri_db_uuid]]
    assms [THEN arg_cong [where f = ri_pending_read_idx]]
    assms [THEN arg_cong [where f = ri_max_entry_size]]
  by (simp_all add: net_core_def)

end
