(* ===== verification/Raft_Backend.thy ===== *)
theory Raft_Backend
  imports Raft_Entry Raft_Net
begin

text \<open>
  What the server relies on when it calls a backend through the function table
  \<open>struct raft_instance_backend\<close>, as locales. \<open>backend_frame\<close> says which fields a backend
  function may change; \<open>log_backend\<close> adds the contents: a backend stores a partial map from
  indices to entries. Both are interpreted for the flat-file backend in
  \<open>Raft_Posix\<close> and for the RocksDB backend in \<open>Raft_Rocksdb\<close>.
\<close>

section \<open>The protocol state of an instance\<close>

text \<open>The fields no log operation and no backend function touches.\<close>

definition proto_view where
  "proto_view ri = (ri_state ri, ri_log_hdr ri, ri_candidate ri, ri_leader ri, ri_csn_leader ri,
     ri_commit_idx ri, ri_csn_raft_peers ri, ri_csn_this_peer ri, ri_csn_raft ri,
     ri_synchronous_writes ri, ri_proc_state ri, ri_max_entry_size ri)"

lemma proto_view_net_core:
  assumes "net_core ri' = net_core ri"
  shows "proto_view ri' = proto_view ri"
  using net_core_fields [OF assms] assms [THEN arg_cong [where f = ri_proc_state]]
  by (simp add: proto_view_def net_core_def)

lemma proto_view_updates [simp]:
  "proto_view (ri\<lparr>ri_backend_arg := b\<rparr>) = proto_view ri"
  "proto_view (ri\<lparr>ri_newest_entry_hdr := h\<rparr>) = proto_view ri"
  "proto_view (ri\<lparr>ri_last_applied := la\<rparr>) = proto_view ri"
  "proto_view (ri\<lparr>ri_pending_read_idx := p\<rparr>) = proto_view ri"
  "proto_view (ri\<lparr>ri_lowest_idx := l\<rparr>) = proto_view ri"
  "proto_view (emit e ri) = proto_view ri"
  by (simp_all add: proto_view_def emit_def)

lemma proto_view_fields:
  assumes "proto_view ri' = proto_view ri"
  shows "ri_state ri' = ri_state ri" and "ri_log_hdr ri' = ri_log_hdr ri"
    and "ri_candidate ri' = ri_candidate ri" and "ri_leader ri' = ri_leader ri"
    and "ri_csn_leader ri' = ri_csn_leader ri" and "ri_commit_idx ri' = ri_commit_idx ri"
    and "ri_csn_raft_peers ri' = ri_csn_raft_peers ri"
    and "ri_csn_this_peer ri' = ri_csn_this_peer ri" and "ri_csn_raft ri' = ri_csn_raft ri"
    and "ri_synchronous_writes ri' = ri_synchronous_writes ri"
    and "ri_proc_state ri' = ri_proc_state ri"
    and "ri_max_entry_size ri' = ri_max_entry_size ri"
  using assms by (simp_all add: proto_view_def)

section \<open>Frame contract\<close>

definition backend_only :: "'b raft_instance \<Rightarrow> 'b raft_instance \<Rightarrow> bool" where
  "backend_only ri ri' \<longleftrightarrow> ri' = ri\<lparr>ri_backend_arg := ri_backend_arg ri'\<rparr>"

lemma backend_only_refl [simp]: "backend_only ri ri"
  by (simp add: backend_only_def)

lemma backend_only_update [simp]: "backend_only ri (ri\<lparr>ri_backend_arg := b\<rparr>)"
  by (simp add: backend_only_def)

lemma backend_onlyE:
  assumes "backend_only ri ri'"
  obtains b where "ri' = ri\<lparr>ri_backend_arg := b\<rparr>"
  using assms unfolding backend_only_def by metis

lemma backend_only_trans: "backend_only a b \<Longrightarrow> backend_only b c \<Longrightarrow> backend_only a c"
  by (elim backend_onlyE) (simp add: backend_only_def)

lemma backend_only_proto_view: "backend_only ri ri' \<Longrightarrow> proto_view ri' = proto_view ri"
  by (elim backend_onlyE) simp

lemma update_newest_view:
  "raft_instance_update_newest_entry_hdr reh type force ri = Some ri' \<Longrightarrow>
   proto_view ri' = proto_view ri"
  by (drule update_newest_frame) (metis proto_view_updates(2))

locale backend_frame =
  fixes rib :: "'b raft_instance_backend"
  assumes entry_write_frame: "rib_entry_write rib ri re ws = Some ri' \<Longrightarrow> backend_only ri ri'"
    and log_truncate_frame: "rib_log_truncate rib ri i = Some ri' \<Longrightarrow> backend_only ri ri'"
    and log_reap_frame: "rib_log_reap rib ri i = Some ri' \<Longrightarrow> backend_only ri ri'"
    and header_write_frame: "rib_header_write rib ri = Some (rc, ri') \<Longrightarrow> backend_only ri ri'"
    and backend_sync_frame: "rib_backend_sync rib ri = Some (rc, ri') \<Longrightarrow> backend_only ri ri'"
    and checkpoint_frame: "rib_backend_checkpoint rib = Some g \<Longrightarrow> g ri = Some (rc, ri') \<Longrightarrow>
      \<exists>c. backend_only (ri\<lparr>ri_checkpoint_last_idx := c\<rparr>) ri'"
    and sm_apply_frame: "rib_sm_apply_opt rib = Some f \<Longrightarrow> f ri ws = Some ri' \<Longrightarrow> backend_only ri ri'"
begin

lemma entry_write_by_store_frame:
  "env_rib env = rib \<Longrightarrow> raft_server_entry_write_by_store env re ws ri = Some ri' \<Longrightarrow>
   backend_only ri ri'"
  by (auto simp: raft_server_entry_write_by_store_def intro: entry_write_frame)

text \<open>
  A successful write advances the newest unsynced header by one entry of the given term; with
  synchronous writes the synced header follows.
\<close>

lemma entry_write_newest:
  assumes "env_rib env = rib"
    and "raft_server_entry_write env i t data sizes n opts ws ri = Some (0, ri')"
    and "0 \<le> i" and "\<not> raft_instance_is_client ri"
  obtains re where "raft_server_entry_init env ri i t data sizes n opts = Some re"
    and "i = reh_index (ri_newest_entry_hdr ri RI_NEHDR_UNSYNC) + 1"
    and "reh_term (ri_newest_entry_hdr ri RI_NEHDR_UNSYNC) \<le> t"
    and "ri_newest_entry_hdr ri' = (if ri_synchronous_writes ri then (\<lambda>_. re_header re)
           else (ri_newest_entry_hdr ri)(RI_NEHDR_UNSYNC := re_header re))"
    and "ri' = ri\<lparr>ri_backend_arg := ri_backend_arg ri',
                  ri_newest_entry_hdr := ri_newest_entry_hdr ri'\<rparr>"
proof -
  obtain re valid ri1 ri2 where
    init: "raft_server_entry_init env ri i t data sizes n opts = Some re"
    and valid: "raft_server_entry_next_entry_is_valid ri (re_header re) = Some True"
    and store: "raft_server_entry_write_by_store env re ws ri = Some ri1"
    and upd: "raft_instance_update_newest_entry_hdr (re_header re)
        (if raft_server_does_synchronous_writes ri1 then RI_NEHDR_ALL
         else NEHDR_ONE RI_NEHDR_UNSYNC) False ri1 = Some ri'"
    using assms(2)
    by (auto simp: raft_server_entry_write_def bind_Some split: if_splits)
  note idx = entry_init_fields(1,2) [OF init]
  from valid idx assms(3,4)
  have seq: "i = reh_index (ri_newest_entry_hdr ri RI_NEHDR_UNSYNC) + 1"
    "reh_term (ri_newest_entry_hdr ri RI_NEHDR_UNSYNC) \<le> t"
    by (auto simp: raft_server_entry_next_entry_is_valid_def Let_def bind_Some
        raft_instance_get_newest_header_def split: if_splits)
  obtain b where ri1: "ri1 = ri\<lparr>ri_backend_arg := b\<rparr>"
    using entry_write_by_store_frame [OF assms(1) store] by (rule backend_onlyE)
  have hdrs: "ri_newest_entry_hdr ri' = (if ri_synchronous_writes ri then (\<lambda>_. re_header re)
           else (ri_newest_entry_hdr ri)(RI_NEHDR_UNSYNC := re_header re))"
    using upd idx assms(3) seq
    by (auto simp: ri1 raft_instance_update_newest_entry_hdr_def update_newest_slot_def Let_def
        bind_Some raft_server_does_synchronous_writes_def both_slots split: if_splits)
  have "ri' = ri\<lparr>ri_backend_arg := ri_backend_arg ri', ri_newest_entry_hdr := ri_newest_entry_hdr ri'\<rparr>"
  proof -
    obtain h where "ri' = ri1\<lparr>ri_newest_entry_hdr := h\<rparr>"
      using update_newest_frame [OF upd] by blast
    then show ?thesis by (simp add: ri1)
  qed
  with init seq hdrs show thesis by (rule that)
qed

lemma entry_write_view:
  assumes "env_rib env = rib"
  shows "wp (raft_server_entry_write env i t data sizes n opts ws ri)
     (\<lambda>(rc, ri'). proto_view ri' = proto_view ri)"
  unfolding raft_server_entry_write_def
  by (auto simp: wp_simps intro!: wpI
      dest!: update_newest_view entry_write_by_store_frame [OF assms, THEN backend_only_proto_view])

end

section \<open>Content contract\<close>

text \<open>
  \<open>holds b re\<close>: the backend state \<open>b\<close> stores the entry \<open>re\<close> at its index. \<open>storable re\<close>: the
  entry is one the backend has room for. \<open>ws_ok ws\<close>: the write supplements that go with an entry
  leave the log alone. \<open>idx_ok i\<close>: an index the backend can cut the log at. A read that fails says so in its return code.
\<close>

locale log_backend = backend_frame rib for rib :: "'b raft_instance_backend" +
  fixes holds :: "'b \<Rightarrow> raft_entry \<Rightarrow> bool" and storable :: "raft_entry \<Rightarrow> bool"
    and ws_ok :: "raft_net_sm_write_supplements option \<Rightarrow> bool" and idx_ok :: "raft_entry_idx_t \<Rightarrow> bool"
  assumes holds_unique: "holds b re \<Longrightarrow> holds b re' \<Longrightarrow>
      reh_index (re_header re) = reh_index (re_header re') \<Longrightarrow> re = re'"
    and write_holds: "rib_entry_write rib ri re ws = Some ri' \<Longrightarrow> storable re \<Longrightarrow> ws_ok ws \<Longrightarrow>
      holds (ri_backend_arg ri') re"
    and write_keeps: "rib_entry_write rib ri re ws = Some ri' \<Longrightarrow> storable re \<Longrightarrow> ws_ok ws \<Longrightarrow>
      holds (ri_backend_arg ri) re' \<Longrightarrow> reh_index (re_header re') \<noteq> reh_index (re_header re) \<Longrightarrow>
      holds (ri_backend_arg ri') re'"
    and header_read_holds: "rib_entry_header_read rib ri h = Some (0, h') \<Longrightarrow>
      holds (ri_backend_arg ri) re \<Longrightarrow> reh_index h = reh_index (re_header re) \<Longrightarrow>
      h' = re_header re"
    and entry_read_holds: "rib_entry_read rib ri buf = Some (rc, re') \<Longrightarrow>
      0 \<le> rc \<Longrightarrow> holds (ri_backend_arg ri) re \<Longrightarrow>
      reh_index (re_header buf) = reh_index (re_header re) \<Longrightarrow>
      reh_data_size (re_header buf) = reh_data_size (re_header re) \<Longrightarrow>
      re_header re' = re_header re \<and>
      take (unat (reh_data_size (re_header re))) (re_data re') = re_data re"
    and truncate_keeps: "rib_log_truncate rib ri i = Some ri' \<Longrightarrow> idx_ok i \<Longrightarrow> holds (ri_backend_arg ri) re \<Longrightarrow>
      reh_index (re_header re) < i \<Longrightarrow> holds (ri_backend_arg ri') re"
    and truncate_drops: "rib_log_truncate rib ri i = Some ri' \<Longrightarrow> idx_ok i \<Longrightarrow> holds (ri_backend_arg ri') re \<Longrightarrow>
      reh_index (re_header re) < i"
    and header_write_keeps: "rib_header_write rib ri = Some (rc, ri') \<Longrightarrow>
      holds (ri_backend_arg ri) re \<Longrightarrow> holds (ri_backend_arg ri') re"
    and sync_keeps: "rib_backend_sync rib ri = Some (rc, ri') \<Longrightarrow>
      holds (ri_backend_arg ri) re \<Longrightarrow> holds (ri_backend_arg ri') re"
begin

text \<open>An append stores the entry and loses none of the others.\<close>

lemma entry_write_holds:
  assumes "env_rib env = rib"
    and "raft_server_entry_write env i t data sizes n opts ws ri = Some (0, ri')"
    and "raft_server_entry_init env ri i t data sizes n opts = Some re" and "storable re"
    and "ws_ok ws"
  shows "holds (ri_backend_arg ri') re"
    and "holds (ri_backend_arg ri) re' \<Longrightarrow> reh_index (re_header re') \<noteq> i \<Longrightarrow>
         holds (ri_backend_arg ri') re'"
proof -
  obtain ri1 type force where w: "rib_entry_write rib ri re ws = Some ri1"
    and u: "raft_instance_update_newest_entry_hdr (re_header re) type force ri1 = Some ri'"
    using assms(1-3)
    by (auto simp: raft_server_entry_write_def raft_server_entry_write_by_store_def bind_Some
        split: if_splits)
  have b: "ri_backend_arg ri' = ri_backend_arg ri1"
    using u by (auto simp: raft_instance_update_newest_entry_hdr_def Let_def bind_Some split: if_splits)
  show "holds (ri_backend_arg ri') re"
    unfolding b by (rule write_holds [OF w assms(4,5)])
  show "holds (ri_backend_arg ri) re' \<Longrightarrow> reh_index (re_header re') \<noteq> i \<Longrightarrow>
         holds (ri_backend_arg ri') re'"
    unfolding b using write_keeps [OF w assms(4,5)] entry_init_fields(1) [OF assms(3)] by blast
qed

end

end
