(* ===== verification/Raft_Log.thy ===== *)
theory Raft_Log
  imports Raft_Backend
begin

text \<open>
  The log as the server uses it (\<open>raft_server.c\<close>): the guard that keeps reads and compaction
  apart, reads of entries and headers through the backend, the log header that holds the term
  and the vote, syncing, and the scan and truncation of the log at startup.
\<close>

section \<open>Reads and compaction\<close>

definition raft_server_entry_has_been_compacted :: "'b raft_instance \<Rightarrow> raft_entry_idx_t \<Rightarrow> bool" where
  "raft_server_entry_has_been_compacted ri idx \<longleftrightarrow> idx < ri_lowest_idx ri"

definition raft_server_entry_range_check :: "'b raft_instance \<Rightarrow> raft_entry_idx_t \<Rightarrow> int option" where
  "raft_server_entry_range_check ri idx = do {
     current_unsync_idx \<leftarrow> raft_server_get_current_raft_entry_index ri RI_NEHDR_UNSYNC;
     Some (if current_unsync_idx < idx \<and> \<not> raft_instance_is_booting ri then - EDOM
           else if raft_server_entry_has_been_compacted ri idx then - ERANGE
           else 0) }"

text \<open>What the checkpoint thread does to the lowest index before the lock is taken.\<close>

definition lowest_race :: "'b raft_env \<Rightarrow> 'b raft_instance \<Rightarrow> 'b raft_instance" where
  "lowest_race env ri = (case env_lowest_race env of None \<Rightarrow> ri
     | Some l \<Rightarrow> ri\<lparr>ri_lowest_idx := max (ri_lowest_idx ri) l\<rparr>)"

text \<open>
  The second check, under the mutex, stores the \<open>bool\<close> of
  \<open>raft_server_entry_has_been_compacted\<close> in the return code: 1 for a compacted entry.
\<close>

definition raft_server_read_entry_register_idx ::
  "'b raft_env \<Rightarrow> raft_entry_idx_t \<Rightarrow> 'b raft_instance \<Rightarrow> (int \<times> 'b raft_instance) option" where
  "raft_server_read_entry_register_idx env entry_idx ri = do {
     NIOVA_ASSERT (0 \<le> entry_idx);
     rc \<leftarrow> raft_server_entry_range_check ri entry_idx;
     if rc \<noteq> 0 then Some (rc, ri)
     else do {
       let ri = lowest_race env ri;
       NIOVA_ASSERT (ri_pending_read_idx ri = RAFT_ENTRY_IDX_ANY);
       let rc = bool_to_int (raft_server_entry_has_been_compacted ri entry_idx);
       Some (rc, if rc = 0 then ri\<lparr>ri_pending_read_idx := entry_idx\<rparr> else ri) } }"

definition raft_server_read_entry_unregister_idx ::
  "raft_entry_idx_t \<Rightarrow> 'b raft_instance \<Rightarrow> 'b raft_instance option" where
  "raft_server_read_entry_unregister_idx entry_idx ri = do {
     NIOVA_ASSERT (ri_pending_read_idx ri = entry_idx);
     Some (ri\<lparr>ri_pending_read_idx := RAFT_ENTRY_IDX_ANY\<rparr>) }"

definition raft_server_compaction_try_increase_lowest_idx ::
  "raft_entry_idx_t \<Rightarrow> 'b raft_instance \<Rightarrow> (int \<times> 'b raft_instance) option" where
  "raft_server_compaction_try_increase_lowest_idx new_lowest_idx ri = do {
     NIOVA_ASSERT (0 \<le> new_lowest_idx);
     NIOVA_ASSERT (ri_lowest_idx ri < new_lowest_idx);
     if ri_pending_read_idx ri \<noteq> RAFT_ENTRY_IDX_ANY \<and> ri_pending_read_idx ri < new_lowest_idx
     then Some (- EAGAIN, ri)
     else Some (0, ri\<lparr>ri_lowest_idx := new_lowest_idx\<rparr>) }"

section \<open>Reading entries\<close>

definition raft_server_entry_read_by_store_common ::
  "'b raft_env \<Rightarrow> raft_entry \<Rightarrow> bool \<Rightarrow> 'b raft_instance \<Rightarrow> (int \<times> raft_entry \<times> 'b raft_instance) option" where
  "raft_server_entry_read_by_store_common env re header_only ri = do {
     NIOVA_ASSERT (0 \<le> reh_index (re_header re));
     let idx = reh_index (re_header re);
     (rc, ri) \<leftarrow> raft_server_read_entry_register_idx env idx ri;
     if rc \<noteq> 0 then do { NIOVA_ASSERT (rc = - ERANGE); Some (rc, re, ri) }
     else do {
       (rrc, re) \<leftarrow> (if header_only
          then do { (rrc, h) \<leftarrow> rib_entry_header_read (env_rib env) ri (re_header re);
                    Some (rrc, re\<lparr>re_header := h\<rparr>) }
          else rib_entry_read (env_rib env) ri re);
       ri \<leftarrow> raft_server_read_entry_unregister_idx idx ri;
       FATAL_IF (rrc \<noteq> 0 \<and> (header_only \<or> rrc \<noteq> int (raft_server_entry_to_total_size re)));
       Some (rrc, re, ri) } }"

definition raft_server_entry_read_by_store ::
  "'b raft_env \<Rightarrow> raft_entry \<Rightarrow> 'b raft_instance \<Rightarrow> (int \<times> raft_entry \<times> 'b raft_instance) option" where
  "raft_server_entry_read_by_store env re ri = do {
     NIOVA_ASSERT (0 \<le> reh_index (re_header re));
     raft_server_entry_read_by_store_common env re False ri }"

text \<open>
  The return code of the store is not looked at. The result is the code and the data copied
  to the caller's buffer, if it was copied.
\<close>

definition raft_server_entry_read ::
  "'b raft_env \<Rightarrow> raft_entry_idx_t \<Rightarrow> nat \<Rightarrow> 'b raft_instance
     \<Rightarrow> (int \<times> u8 list option \<times> 'b raft_instance) option" where
  "raft_server_entry_read env re_idx len ri =
     (if ri_max_entry_size ri < len then Some (- EINVAL, None, ri)
      else do {
        let re = (env_uninit env)\<lparr>re_header := (re_header (env_uninit env))
                   \<lparr>reh_data_size := of_nat len, reh_index := re_idx\<rparr>\<rparr>;
        (_, re, ri) \<leftarrow> raft_server_entry_read_by_store env re ri;
        let rc = read_server_entry_validate ri (re_header re) re_idx;
        if rc \<noteq> 0 then Some (rc, None, ri)
        else if unat (reh_data_size (re_header re)) < len then Some (- ENOSPC, None, ri)
        else do {
          rc \<leftarrow> raft_server_entry_check_crc env re;
          Some (rc, if rc = 0 then Some (take len (re_data re)) else None, ri) } })"

definition raft_server_entry_header_read_by_store ::
  "'b raft_env \<Rightarrow> raft_entry_header \<Rightarrow> raft_entry_idx_t \<Rightarrow> 'b raft_instance
     \<Rightarrow> (int \<times> raft_entry_header \<times> 'b raft_instance) option" where
  "raft_server_entry_header_read_by_store env reh re_idx ri =
     (if re_idx < 0 then Some (- EINVAL, reh, ri)
      else do {
        (rc, re, ri) \<leftarrow> raft_server_entry_read_by_store_common env
           \<lparr>re_header = reh\<lparr>reh_index := re_idx\<rparr>, re_data = []\<rparr> True ri;
        Some (if rc \<noteq> 0 then rc else read_server_entry_validate ri (re_header re) re_idx,
              re_header re, ri) })"

section \<open>The log header\<close>

definition raft_server_header_load :: "'b raft_env \<Rightarrow> 'b raft_instance \<Rightarrow> (int \<times> 'b raft_instance) option" where
  "raft_server_header_load env ri = rib_header_load (env_rib env) ri"

definition raft_server_log_header_write_prep ::
  "uuid \<Rightarrow> term_t \<Rightarrow> 'b raft_instance \<Rightarrow> 'b raft_instance option" where
  "raft_server_log_header_write_prep candidate candidate_term ri = do {
     FATAL_IF (\<not> uuid_is_null candidate \<and> candidate_term < rlh_term (ri_log_hdr ri));
     Some (ri\<lparr>ri_log_hdr := (ri_log_hdr ri)
        \<lparr>rlh_seqno := rlh_seqno (ri_log_hdr ri) + 1,
         rlh_magic := RAFT_HEADER_MAGIC,
         rlh_term := candidate_term,
         rlh_voted_for := candidate\<rparr>\<rparr>) }"

definition raft_server_backend_sync :: "'b raft_env \<Rightarrow> 'b raft_instance \<Rightarrow> (int \<times> 'b raft_instance) option" where
  "raft_server_backend_sync env ri =
     (if raft_server_does_synchronous_writes ri
      then do {
        unsynced \<leftarrow> raft_server_has_unsynced_entries ri;
        FATAL_IF unsynced;
        Some (0, ri) }
      else do {
        let my_last_applied_idx = rla_idx (ri_last_applied ri);
        let unsync_reh = newest_header ri RI_NEHDR_UNSYNC;
        sync_idx \<leftarrow> raft_server_get_current_raft_entry_index ri RI_NEHDR_SYNC;
        NIOVA_ASSERT (sync_idx \<le> reh_index unsync_reh);
        (rc, ri) \<leftarrow> rib_backend_sync (env_rib env) ri;
        ri \<leftarrow> (if rc = 0
               then raft_instance_update_newest_entry_hdr unsync_reh (NEHDR_ONE RI_NEHDR_SYNC) False ri
               else Some ri);
        NIOVA_ASSERT (rla_synced_idx (ri_last_applied ri) \<le> rla_idx (ri_last_applied ri));
        NIOVA_ASSERT (rla_synced_idx (ri_last_applied ri) \<le> my_last_applied_idx);
        Some (rc, ri\<lparr>ri_last_applied := (ri_last_applied ri)
                \<lparr>rla_synced_idx := max (rla_synced_idx (ri_last_applied ri)) my_last_applied_idx\<rparr>\<rparr>) })"

definition raft_server_backend_sync_pending :: "'b raft_env \<Rightarrow> 'b raft_instance \<Rightarrow> 'b raft_instance option" where
  "raft_server_backend_sync_pending env ri = do {
     unsynced_entries \<leftarrow> raft_server_has_unsynced_entries ri;
     (rc, ri) \<leftarrow> (if unsynced_entries then raft_server_backend_sync env ri else Some (0, ri));
     FATAL_IF (rc \<noteq> 0);
     Some (if unsynced_entries \<and> (raft_instance_is_follower ri \<or> raft_instance_is_leader ri)
           then emit (Eff_notify RAFT_EVP_REMOTE_SEND) ri else ri) }"

definition raft_server_log_header_write ::
  "'b raft_env \<Rightarrow> uuid \<Rightarrow> term_t \<Rightarrow> 'b raft_instance \<Rightarrow> (int \<times> 'b raft_instance) option" where
  "raft_server_log_header_write env candidate candidate_term ri = do {
     ri \<leftarrow> raft_server_log_header_write_prep candidate candidate_term ri;
     (rc, ri) \<leftarrow> rib_header_write (env_rib env) ri;
     if rc \<noteq> 0 then Some (rc, ri) else raft_server_backend_sync env ri }"

section \<open>Scanning the log at startup\<close>

function entries_scan_loop ::
  "'b raft_env \<Rightarrow> raft_entry_idx_t \<Rightarrow> raft_entry_idx_t \<Rightarrow> raft_entry_idx_t \<Rightarrow> raft_entry_header
     \<Rightarrow> 'b raft_instance \<Rightarrow> (int \<times> 'b raft_instance) option" where
  "entries_scan_loop env start mx i reh ri =
     (if i < mx
      then do {
        (rc, reh, ri) \<leftarrow> raft_server_entry_header_read_by_store env reh i ri;
        if rc \<noteq> 0 then Some (rc, ri)
        else do {
          valid \<leftarrow> (if start \<noteq> 0 \<and> start < i
                    then raft_server_entry_next_entry_is_valid ri reh else Some True);
          if \<not> valid then Some (- EINVAL, ri)
          else do {
            ri \<leftarrow> raft_instance_update_newest_entry_hdr reh RI_NEHDR_ALL False ri;
            entries_scan_loop env start mx (i + 1) reh ri } } }
      else Some (0, ri))"
  by pat_completeness auto
termination
  by (relation "measure (\<lambda>(_, _, mx, i, _, _). nat (mx - i))") auto

definition raft_server_entries_scan_internal ::
  "'b raft_env \<Rightarrow> raft_entry_idx_t \<Rightarrow> raft_entry_idx_t \<Rightarrow> 'b raft_instance \<Rightarrow> (int \<times> 'b raft_instance) option" where
  "raft_server_entries_scan_internal env start mx ri =
     entries_scan_loop env start mx start (re_header (env_uninit env)) ri"

definition LOG_INITIAL_SCAN_SZ :: int where "LOG_INITIAL_SCAN_SZ = 1000"

definition raft_server_entries_scan :: "'b raft_env \<Rightarrow> 'b raft_instance \<Rightarrow> (int \<times> 'b raft_instance) option" where
  "raft_server_entries_scan env ri = (
     let entry_max_idx = ri_entries_detected_at_startup ri; lowest_idx = ri_lowest_idx ri in
     if entry_max_idx = 0 then Some (0, ri)
     else if entry_max_idx < 0 then Some (entry_max_idx, ri)
     else do {
       let starting_entry =
         (if ri_store_type ri = RAFT_INSTANCE_STORE_ROCKSDB_PERSISTENT_APP \<and>
             0 < ri_max_scan_entries ri \<and> ri_max_scan_entries ri < entry_max_idx
          then max lowest_idx (entry_max_idx - ri_max_scan_entries ri)
          else max 0 lowest_idx);
       if 0 < starting_entry
       then do {
         (rc, ri) \<leftarrow> raft_server_entries_scan_internal env lowest_idx
            (min (lowest_idx + LOG_INITIAL_SCAN_SZ) entry_max_idx) ri;
         if rc \<noteq> 0 then Some (rc, ri)
         else raft_server_entries_scan_internal env starting_entry entry_max_idx
                (raft_instance_initialize_newest_entry_hdr ri) }
       else raft_server_entries_scan_internal env starting_entry entry_max_idx ri })"

definition raft_server_log_truncate :: "'b raft_env \<Rightarrow> 'b raft_instance \<Rightarrow> 'b raft_instance option" where
  "raft_server_log_truncate env ri = do {
     idx \<leftarrow> raft_server_get_current_raft_entry_index ri RI_NEHDR_SYNC;
     NIOVA_ASSERT (0 \<le> idx + 1);
     rib_log_truncate (env_rib env) ri (idx + 1) }"

definition raft_server_log_load :: "'b raft_env \<Rightarrow> 'b raft_instance \<Rightarrow> (int \<times> 'b raft_instance) option" where
  "raft_server_log_load env ri = do {
     (rc, ri) \<leftarrow> raft_server_header_load env ri;
     if rc \<noteq> 0 then Some (rc, ri)
     else do {
       (rc, ri) \<leftarrow> raft_server_entries_scan env ri;
       if rc \<noteq> 0 then Some (rc, ri)
       else do {
         ri \<leftarrow> raft_server_log_truncate env ri;
         Some (0, ri) } } }"

section \<open>What the log operations keep\<close>

text \<open>The part of the instance that a read may not change: everything but the read guard.\<close>

definition read_view where
  "read_view ri = (proto_view ri, ri_newest_entry_hdr ri, ri_last_applied ri, ri_backend_arg ri)"

lemma read_view_updates [simp]:
  "read_view (ri\<lparr>ri_pending_read_idx := p\<rparr>) = read_view ri"
  "read_view (ri\<lparr>ri_lowest_idx := l\<rparr>) = read_view ri"
  "read_view (lowest_race env ri) = read_view ri"
  by (simp_all add: read_view_def lowest_race_def split: option.split)

lemma register_idx_wp:
  "wp (raft_server_read_entry_register_idx env i ri) (\<lambda>(rc, ri').
     read_view ri' = read_view ri \<and> ri_lowest_idx ri \<le> ri_lowest_idx ri' \<and>
     (rc = 0 \<longrightarrow> ri_pending_read_idx ri' = i \<and> ri_lowest_idx ri' \<le> i))"
  unfolding raft_server_read_entry_register_idx_def
  by (auto simp: wp_simps Let_def bool_to_int_def raft_server_entry_has_been_compacted_def
      lowest_race_def split: option.split intro!: wpI)

lemma read_common_wp:
  "wp (raft_server_entry_read_by_store_common env re ho ri)
     (\<lambda>(rc, re', ri'). read_view ri' = read_view ri)"
  unfolding raft_server_entry_read_by_store_common_def raft_server_read_entry_unregister_idx_def
  by (auto simp: wp_simps Let_def intro!: wp_call2 [OF register_idx_wp] intro: wpI)

lemma header_read_wp:
  "wp (raft_server_entry_header_read_by_store env h i ri)
     (\<lambda>(rc, h', ri'). read_view ri' = read_view ri)"
  unfolding raft_server_entry_header_read_by_store_def
  by (auto simp: wp_simps intro!: wp_call3 [OF read_common_wp])

lemma entry_read_wp:
  "wp (raft_server_entry_read env i len ri) (\<lambda>(rc, d, ri'). read_view ri' = read_view ri)"
  unfolding raft_server_entry_read_def raft_server_entry_read_by_store_def
  by (auto simp: wp_simps Let_def intro!: wp_call3 [OF read_common_wp] intro: wpI)

lemma read_view_proto: "read_view ri' = read_view ri \<Longrightarrow> proto_view ri' = proto_view ri"
  by (simp add: read_view_def)

text \<open>A header that was read without error is one that \<open>read_server_entry_validate\<close> accepts.\<close>

lemma header_read_valid:
  assumes "raft_server_entry_header_read_by_store env h i ri = Some (0, h', ri')"
  shows "reh_magic h' = RAFT_ENTRY_MAGIC" and "reh_index h' = i" and "0 \<le> i"
  using assms
  by (auto simp: raft_server_entry_header_read_by_store_def read_server_entry_validate_def
      bind_Some split: if_splits)

lemma header_read_lowest:
  assumes "raft_server_entry_header_read_by_store env h i ri = Some (0, h', ri')"
  shows "ri_lowest_idx ri' \<le> i"
proof -
  obtain ri1 where reg: "raft_server_read_entry_register_idx env i ri = Some (0, ri1)"
    and un: "raft_server_read_entry_unregister_idx i ri1 = Some ri'"
    using assms
    by (auto simp: raft_server_entry_header_read_by_store_def bind_Some Let_def
        raft_server_entry_read_by_store_common_def split: if_splits)
  show ?thesis
    using wpD [OF register_idx_wp reg] un by (auto simp: raft_server_read_entry_unregister_idx_def)
qed

lemma header_read_nonpos:
  "wp (raft_server_entry_header_read_by_store env h i ri) (\<lambda>(rc, h', ri'). rc \<le> 0)"
  unfolding raft_server_entry_header_read_by_store_def raft_server_entry_read_by_store_common_def
  by (auto simp: wp_simps Let_def read_server_entry_validate_def intro!: wpI)

section \<open>Reads and compaction exclude each other\<close>

text \<open>A registered read is never below the lowest index.\<close>

definition read_guard_ok :: "'b raft_instance \<Rightarrow> bool" where
  "read_guard_ok ri \<longleftrightarrow> ri_pending_read_idx ri = RAFT_ENTRY_IDX_ANY \<or>
     ri_lowest_idx ri \<le> ri_pending_read_idx ri"

lemma register_guard_ok:
  "raft_server_read_entry_register_idx env i ri = Some (rc, ri') \<Longrightarrow> read_guard_ok ri \<Longrightarrow>
   read_guard_ok ri'"
  by (auto simp: raft_server_read_entry_register_idx_def Let_def bind_Some bool_to_int_def
      raft_server_entry_has_been_compacted_def lowest_race_def read_guard_ok_def
      split: if_splits option.splits)

lemma try_increase_guard_ok:
  "raft_server_compaction_try_increase_lowest_idx l ri = Some (rc, ri') \<Longrightarrow> read_guard_ok ri \<Longrightarrow>
   read_guard_ok ri' \<and> (rc = 0 \<longrightarrow> ri_lowest_idx ri' = l) \<and> ri_lowest_idx ri \<le> ri_lowest_idx ri'"
  by (auto simp: raft_server_compaction_try_increase_lowest_idx_def read_guard_ok_def split: if_splits)

section \<open>Sync and the log header\<close>

lemma newest_header_server: "\<not> raft_instance_is_client ri \<Longrightarrow> newest_header ri s = ri_newest_entry_hdr ri s"
  by (simp add: raft_instance_get_newest_header_def)

text \<open>
  What a sync does: the fields it may change, and the newest synced header it leaves, in
  terms of the header of the newest unsynced entry.
\<close>

lemma synced_hdrs_eq:
  assumes "newest_hdrs_ok ri" and "ri_synchronous_writes ri"
  shows "ri_newest_entry_hdr ri = (\<lambda>_. ri_newest_entry_hdr ri RI_NEHDR_UNSYNC)"
proof
  fix s show "ri_newest_entry_hdr ri s = ri_newest_entry_hdr ri RI_NEHDR_UNSYNC"
    using assms by (cases s) (auto simp: newest_hdrs_ok_def Let_def)
qed

lemma update_sync_slot_wp:
  assumes "newest_hdrs_ok ri" and "hdrs = ri_newest_entry_hdr ri"
    and "ri_newest_entry_hdr ri1 = hdrs"
  shows "wp (raft_instance_update_newest_entry_hdr (hdrs RI_NEHDR_UNSYNC)
            (NEHDR_ONE RI_NEHDR_SYNC) False ri1)
       (\<lambda>ri2. ri_newest_entry_hdr ri2 = (\<lambda>_. hdrs RI_NEHDR_UNSYNC))"
proof -
  let ?u = "hdrs RI_NEHDR_UNSYNC"
  have eq: "hdrs = (\<lambda>_. ?u)" if "\<not> reh_index (hdrs RI_NEHDR_SYNC) < reh_index ?u"
  proof
    fix s show "hdrs s = ?u"
      using that assms(1,2) by (cases s) (auto simp: newest_hdrs_ok_def Let_def)
  qed
  have upd: "hdrs(RI_NEHDR_SYNC := ?u) = (\<lambda>_. ?u)"
    by (rule ext) (metis fun_upd_other fun_upd_same newest_slot.exhaust)
  have neg: "hdrs = (\<lambda>_. ?u)" if "reh_index ?u < 0"
    using that assms(1,2) hdr_ok_index [of ?u] hdr_ok_index [of "hdrs RI_NEHDR_SYNC"]
    by (intro eq) (auto simp: newest_hdrs_ok_def Let_def)
  show ?thesis
    using eq neg upd assms(3)
    by (auto simp: raft_instance_update_newest_entry_hdr_def update_newest_slot_def wp_simps Let_def)
qed

context backend_frame
begin

lemma backend_sync_wp:
  assumes "env_rib env = rib"
  shows "wp (raft_server_backend_sync env ri) (\<lambda>(rc, ri'). proto_view ri' = proto_view ri)"
  unfolding raft_server_backend_sync_def assms
  by (auto simp: wp_simps Let_def intro!: wpI
      dest!: update_newest_view backend_sync_frame [THEN backend_only_proto_view])

text \<open>A successful sync makes the newest entry the newest synced entry.\<close>

lemma backend_sync_newest_wp:
  assumes "env_rib env = rib" and "newest_hdrs_ok ri" and "\<not> raft_instance_is_client ri"
  shows "wp (raft_server_backend_sync env ri) (\<lambda>(rc, ri'). rc = 0 \<longrightarrow>
     ri_newest_entry_hdr ri' = (\<lambda>_. ri_newest_entry_hdr ri RI_NEHDR_UNSYNC))"
proof -
  have sync: "wp (rib_backend_sync rib ri) (\<lambda>(rc, ri1). ri_newest_entry_hdr ri1 = ri_newest_entry_hdr ri)"
    by (auto intro!: wpI dest!: backend_sync_frame elim!: backend_onlyE)
  show ?thesis
    unfolding raft_server_backend_sync_def assms(1)
    using synced_hdrs_eq [OF assms(2)]
    by (auto simp: wp_simps Let_def raft_server_does_synchronous_writes_def
        newest_header_server [OF assms(3)]
        intro!: wp_call2 [OF sync] wp_call [OF update_sync_slot_wp [OF assms(2) refl]] intro: wpI)
qed

lemma sync_pending_view:
  assumes "env_rib env = rib" and "raft_server_backend_sync_pending env ri = Some ri'"
  shows "proto_view ri' = proto_view ri"
  using assms(2)
  by (auto simp: raft_server_backend_sync_pending_def bind_Some split: if_splits
      dest!: wpD [OF backend_sync_wp [OF assms(1)]])

text \<open>Writing the log header sets exactly the term and the vote asked for.\<close>

lemma log_header_write_hdr:
  assumes "env_rib env = rib" and "raft_server_log_header_write env cand t ri = Some (rc, ri')"
  shows "ri_log_hdr ri' = (ri_log_hdr ri)\<lparr>rlh_seqno := rlh_seqno (ri_log_hdr ri) + 1,
           rlh_magic := RAFT_HEADER_MAGIC, rlh_term := t, rlh_voted_for := cand\<rparr>"
    and "proto_view ri' = proto_view (ri\<lparr>ri_log_hdr := ri_log_hdr ri'\<rparr>)"
proof -
  let ?ri = "ri\<lparr>ri_log_hdr := (ri_log_hdr ri)\<lparr>rlh_seqno := rlh_seqno (ri_log_hdr ri) + 1,
           rlh_magic := RAFT_HEADER_MAGIC, rlh_term := t, rlh_voted_for := cand\<rparr>\<rparr>"
  obtain rc1 ri1 where w: "rib_header_write rib ?ri = Some (rc1, ri1)"
    and s: "ri' = ri1 \<or> raft_server_backend_sync env ri1 = Some (rc, ri')"
    using assms
    by (auto simp: raft_server_log_header_write_def raft_server_log_header_write_prep_def bind_Some
        split: if_splits)
  have "proto_view ri' = proto_view ri1"
    using s by (auto dest: wpD [OF backend_sync_wp [OF assms(1)]])
  also have "\<dots> = proto_view ?ri"
    using header_write_frame [OF w] by (rule backend_only_proto_view)
  finally have v: "proto_view ri' = proto_view ?ri" .
  show h: "ri_log_hdr ri' = (ri_log_hdr ri)\<lparr>rlh_seqno := rlh_seqno (ri_log_hdr ri) + 1,
           rlh_magic := RAFT_HEADER_MAGIC, rlh_term := t, rlh_voted_for := cand\<rparr>"
    using proto_view_fields(2) [OF v] by simp
  show "proto_view ri' = proto_view (ri\<lparr>ri_log_hdr := ri_log_hdr ri'\<rparr>)"
    unfolding h by (rule v)
qed

end

context log_backend
begin

text \<open>A header read through the store is the header of the entry the backend holds.\<close>

lemma header_read_stored:
  assumes "env_rib env = rib"
    and "raft_server_entry_header_read_by_store env h i ri = Some (0, h', ri')"
    and "holds (ri_backend_arg ri) re" and "reh_index (re_header re) = i"
  shows "h' = re_header re"
proof -
  obtain ri1 where reg: "raft_server_read_entry_register_idx env i ri = Some (0, ri1)"
    and rd: "rib_entry_header_read rib ri1 (h\<lparr>reh_index := i\<rparr>) = Some (0, h')"
    using assms(1,2)
    by (auto simp: raft_server_entry_header_read_by_store_def bind_Some Let_def
        raft_server_entry_read_by_store_common_def split: if_splits)
  have "ri_backend_arg ri1 = ri_backend_arg ri"
    using wpD [OF register_idx_wp reg] by (simp add: read_view_def)
  then show ?thesis
    using header_read_holds [OF rd] assms(3,4) by simp
qed

lemma header_read_stored_wp:
  assumes "env_rib env = rib"
  shows "wp (raft_server_entry_header_read_by_store env h i ri) (\<lambda>(rc, h', ri').
     read_view ri' = read_view ri \<and> (rc < 0 \<or>
       (holds (ri_backend_arg ri) re \<longrightarrow> reh_index (re_header re) = i \<longrightarrow> h' = re_header re)))"
  using header_read_stored [OF assms] header_read_nonpos [of env h i ri] header_read_wp [of env h i ri]
  by (fastforce simp: wp_def)

text \<open>Entry data read back is the data of the entry the backend holds.\<close>

lemma entry_read_stored:
  assumes "env_rib env = rib"
    and "raft_server_entry_read env i len ri = Some (0, Some d, ri')"
    and "ri_lowest_idx ri \<le> i" and "holds (ri_backend_arg ri) re"
    and "reh_index (re_header re) = i" and "reh_data_size (re_header re) = of_nat len"
    and "len < 2 ^ 32"
  shows "d = re_data re"
proof -
  let ?buf = "(env_uninit env)\<lparr>re_header := (re_header (env_uninit env))
     \<lparr>reh_data_size := of_nat len, reh_index := i\<rparr>\<rparr>"
  obtain rc re' ri2 where rd: "raft_server_entry_read_by_store_common env ?buf False ri = Some (rc, re', ri2)"
    and d: "d = take len (re_data re')"
    using assms(2)
    by (auto simp: raft_server_entry_read_def raft_server_entry_read_by_store_def bind_Some Let_def
        split: if_splits)
  obtain reg_rc ri1 where reg: "raft_server_read_entry_register_idx env i ri = Some (reg_rc, ri1)"
    and ok: "reg_rc \<noteq> 0 \<Longrightarrow> reg_rc = - ERANGE"
    and rd': "reg_rc = 0 \<Longrightarrow> rib_entry_read rib ri1 ?buf = Some (rc, re') \<and>
        (rc = 0 \<or> rc = int (raft_server_entry_to_total_size re'))"
    using rd assms(1)
    by (auto simp: raft_server_entry_read_by_store_common_def bind_Some Let_def split: if_splits)
  have "reg_rc = 0"
    using reg ok assms(3)
    by (auto simp: raft_server_read_entry_register_idx_def bind_Some Let_def bool_to_int_def
        raft_server_entry_range_check_def raft_server_entry_has_been_compacted_def split: if_splits)
  moreover have "ri_backend_arg ri1 = ri_backend_arg ri"
    using wpD [OF register_idx_wp reg] by (simp add: read_view_def)
  ultimately show ?thesis
    using rd' entry_read_holds [of ri1 ?buf rc re' re] assms(4-7) d
    by (auto simp: unat_of_nat take_bit_nat_eq_self)
qed

end

end
