(* ===== verification/Raft_Codec.thy ===== *)
theory Raft_Codec
  imports Raft_Entry
begin

text \<open>
  The bytes of \<open>struct raft_entry_header\<close>, \<open>struct raft_entry\<close> and \<open>struct raft_log_header\<close> as a
  little-endian 64-bit machine lays them out: what the backends hand to the file system, and
  what a read leaves in a buffer. Decoding an encoding gives the struct back.
\<close>

section \<open>Words\<close>

fun word_of_le :: "u8 list \<Rightarrow> 'a::len word" where
  "word_of_le [] = 0"
| "word_of_le (b # bs) = or (ucast b) (push_bit 8 (word_of_le bs))"

definition field :: "nat \<Rightarrow> nat \<Rightarrow> u8 list \<Rightarrow> u8 list" where
  "field off n bs = take n (drop off bs)"

lemma bit_word_of_le:
  "bit (word_of_le bs :: 'a::len word) k \<longleftrightarrow>
     k < LENGTH('a) \<and> k div 8 < length bs \<and> bit (bs ! (k div 8)) (k mod 8)"
proof (induction bs arbitrary: k)
  case Nil
  then show ?case by simp
next
  case (Cons b bs)
  show ?case
  proof (cases "k < 8")
    case True
    then show ?thesis
      by (auto simp: bit_or_iff bit_push_bit_iff bit_ucast_iff)
  next
    case False
    then have "k div 8 = Suc ((k - 8) div 8)" "k mod 8 = (k - 8) mod 8"
      by (simp_all add: le_div_geq le_mod_geq)
    moreover have "\<not> bit b k"
      using False by (auto dest: bit_imp_le_length)
    ultimately show ?thesis
      using False Cons.IH [of "k - 8"]
      by (auto simp: bit_or_iff bit_push_bit_iff bit_ucast_iff)
  qed
qed

lemma word_of_le_le_bytes:
  fixes w :: "'a::len word"
  assumes "LENGTH('a) \<le> 8 * n"
  shows "word_of_le (le_bytes n w) = w"
proof (rule bit_word_eqI)
  fix k assume k: "k < LENGTH('a)"
  then have "k div 8 < n"
    using assms by auto
  then show "bit (word_of_le (le_bytes n w) :: 'a word) k = bit w k"
    using k by (simp add: bit_word_of_le le_bytes_def bit_ucast_iff bit_drop_bit_eq)
qed

lemma sint_word_of_int_64:
  "- (2 ^ 63) \<le> i \<Longrightarrow> i < 2 ^ 63 \<Longrightarrow> sint (word_of_int i :: u64) = i"
  by (simp add: sint_sbintrunc' signed_take_bit_int_eq_self)

lemma field_le_concat:
  "k < length xs \<Longrightarrow> field (4 * k) 4 (concat (map (le_bytes 4) xs)) = le_bytes 4 (xs ! k)"
proof (induction xs arbitrary: k)
  case Nil
  then show ?case by simp
next
  case (Cons x xs)
  then show ?case by (cases k) (simp_all add: field_def)
qed

section \<open>Entry headers\<close>

definition encode_reh :: "raft_entry_header \<Rightarrow> u8 list" where
  "encode_reh h =
     le_bytes 8 (reh_magic h) @
     le_bytes 16 (reh_self_uuid h) @
     le_bytes 8 (of_nat (reh_store_time h div 1000000000) :: u64) @
     le_bytes 8 (of_nat (reh_store_time h mod 1000000000) :: u64) @
     le_bytes 4 (reh_crc h) @
     le_bytes 4 (reh_data_size h) @
     le_bytes 8 (word_of_int (reh_index h) :: u64) @
     le_bytes 8 (word_of_int (reh_term h) :: u64) @
     le_bytes 16 (reh_raft_uuid h) @
     concat (map (le_bytes 4) (reh_entry_sz h)) @
     le_bytes 8 (reh_apply_handler_version h) @
     [if reh_leader_change_marker h then 1 else 0, reh_num_entries h] @
     replicate 6 0"

definition decode_reh :: "u8 list \<Rightarrow> raft_entry_header" where
  "decode_reh bs =
     \<lparr>reh_magic = word_of_le (field 0 8 bs),
      reh_self_uuid = word_of_le (field 8 16 bs),
      reh_store_time = unat (word_of_le (field 24 8 bs) :: u64) * 1000000000 +
                       unat (word_of_le (field 32 8 bs) :: u64),
      reh_crc = word_of_le (field 40 4 bs),
      reh_data_size = word_of_le (field 44 4 bs),
      reh_index = sint (word_of_le (field 48 8 bs) :: u64),
      reh_term = sint (word_of_le (field 56 8 bs) :: u64),
      reh_raft_uuid = word_of_le (field 64 16 bs),
      reh_entry_sz = map (\<lambda>k. word_of_le (field (80 + 4 * k) 4 bs)) [0..<100],
      reh_apply_handler_version = word_of_le (field 480 8 bs),
      reh_leader_change_marker = (bs ! 488 \<noteq> 0),
      reh_num_entries = bs ! 489\<rparr>"

text \<open>A header every field of which fits the C type.\<close>

definition reh_fits :: "raft_entry_header \<Rightarrow> bool" where
  "reh_fits h \<longleftrightarrow> length (reh_entry_sz h) = RAFT_ENTRY_NUM_ENTRIES \<and>
     - (2 ^ 63) \<le> reh_index h \<and> reh_index h < 2 ^ 63 \<and>
     - (2 ^ 63) \<le> reh_term h \<and> reh_term h < 2 ^ 63 \<and>
     reh_store_time h div 1000000000 < 2 ^ 64"

lemma length_entry_sz_bytes [simp]: "length (concat (map (le_bytes 4) (xs :: u32 list))) = 4 * length xs"
  by (simp add: length_concat comp_def sum_list_triv)

lemma length_encode_reh [simp]: "length (reh_entry_sz h) = RAFT_ENTRY_NUM_ENTRIES \<Longrightarrow>
   length (encode_reh h) = RAFT_ENTRY_HEADER_RESERVE"
  by (simp add: encode_reh_def RAFT_ENTRY_NUM_ENTRIES_def RAFT_ENTRY_HEADER_RESERVE_def)

lemma decode_encode_reh:
  assumes "reh_fits h"
  shows "decode_reh (encode_reh h @ rest) = h"
proof -
  let ?bs = "encode_reh h @ rest"
  have len: "length (reh_entry_sz h) = 100"
    using assms by (simp add: reh_fits_def RAFT_ENTRY_NUM_ENTRIES_def)
  have "field (80 + 4 * k) 4 ?bs = le_bytes 4 (reh_entry_sz h ! k)" if "k < 100" for k
    using field_le_concat [of k "reh_entry_sz h"] that len
    by (simp add: field_def encode_reh_def)
  then have sz: "map (\<lambda>k. word_of_le (field (80 + 4 * k) 4 ?bs)) [0..<100] = reh_entry_sz h"
    using len by (intro nth_equalityI) (simp_all add: word_of_le_le_bytes)
  have t: "unat (of_nat (reh_store_time h div 1000000000) :: u64) = reh_store_time h div 1000000000"
    "unat (of_nat (reh_store_time h mod 1000000000) :: u64) = reh_store_time h mod 1000000000"
    using assms by (simp_all add: reh_fits_def unat_of_nat take_bit_nat_eq_self mod_less_divisor [THEN less_trans])
  show ?thesis
    unfolding decode_reh_def sz
    using assms
    by (simp add: encode_reh_def field_def word_of_le_le_bytes t nth_append reh_fits_def len
        RAFT_ENTRY_NUM_ENTRIES_def
        sint_word_of_int_64)
qed

section \<open>Entries\<close>

definition encode_re :: "raft_entry \<Rightarrow> u8 list" where
  "encode_re re = encode_reh (re_header re) @ re_data re"

definition decode_re :: "u8 list \<Rightarrow> raft_entry" where
  "decode_re bs = \<lparr>re_header = decode_reh bs, re_data = drop RAFT_ENTRY_HEADER_RESERVE bs\<rparr>"

text \<open>An entry whose data is what its header says.\<close>

definition re_fits :: "raft_entry \<Rightarrow> bool" where
  "re_fits re \<longleftrightarrow> reh_fits (re_header re) \<and>
     length (re_data re) = unat (reh_data_size (re_header re))"

lemma length_encode_re: "re_fits re \<Longrightarrow> length (encode_re re) = raft_server_entry_to_total_size re"
  by (simp add: encode_re_def re_fits_def reh_fits_def raft_server_entry_to_total_size_def)

lemma decode_encode_re: "reh_fits (re_header re) \<Longrightarrow> decode_re (encode_re re) = re"
  by (simp add: decode_re_def encode_re_def decode_encode_reh) (simp add: reh_fits_def)

text \<open>
  The crc of an entry covers exactly the bytes from \<open>reh_data_size\<close> to the end of the entry,
  as the pointer arithmetic of \<open>raft_server_entry_calc_crc\<close> has it.
\<close>

lemma entry_crc_region_bytes:
  "entry_crc_region re = take (452 + unat (reh_data_size (re_header re))) (drop 44 (encode_re re))"
  if "length (reh_entry_sz (re_header re)) = RAFT_ENTRY_NUM_ENTRIES"
  using that
  by (simp add: entry_crc_region_def encode_re_def encode_reh_def Let_def RAFT_ENTRY_NUM_ENTRIES_def take_Cons')

section \<open>The log header\<close>

definition sizeof_raft_log_header :: nat where "sizeof_raft_log_header = 48"

definition zero_rlh :: raft_log_header where
  "zero_rlh = \<lparr>rlh_version = 0, rlh_magic = 0, rlh_term = 0, rlh_seqno = 0, rlh_voted_for = 0\<rparr>"

definition encode_rlh :: "raft_log_header \<Rightarrow> u8 list" where
  "encode_rlh h =
     le_bytes 8 (rlh_version h) @
     le_bytes 8 (rlh_magic h) @
     le_bytes 8 (word_of_int (rlh_term h) :: u64) @
     le_bytes 8 (rlh_seqno h) @
     le_bytes 16 (rlh_voted_for h)"

definition decode_rlh :: "u8 list \<Rightarrow> raft_log_header" where
  "decode_rlh bs =
     \<lparr>rlh_version = word_of_le (field 0 8 bs),
      rlh_magic = word_of_le (field 8 8 bs),
      rlh_term = sint (word_of_le (field 16 8 bs) :: u64),
      rlh_seqno = word_of_le (field 24 8 bs),
      rlh_voted_for = word_of_le (field 32 16 bs)\<rparr>"

lemma length_encode_rlh [simp]: "length (encode_rlh h) = sizeof_raft_log_header"
  by (simp add: encode_rlh_def sizeof_raft_log_header_def)

lemma decode_encode_rlh:
  assumes "- (2 ^ 63) \<le> rlh_term h" and "rlh_term h < 2 ^ 63"
  shows "decode_rlh (encode_rlh h) = h"
  using assms
  by (simp add: decode_rlh_def encode_rlh_def field_def word_of_le_le_bytes sint_word_of_int_64)

end
