(* ===== verification/Raft_Posix.thy ===== *)
theory Raft_Posix
  imports Raft_Codec Raft_Log
begin

text \<open>
  The flat-file backend (\<open>raft_server_backend_posix.c\<close>). The log is one file of blocks of
  \<open>RAFT_ENTRY_SIZE_POSIX\<close> bytes: two header blocks that are written in turn, then one block per
  entry. The file system calls of niova-core are the record \<open>niova_io\<close>.
\<close>

section \<open>Files\<close>

text \<open>
  The calls on an open file of type \<open>'f\<close>: \<open>niova_io_pwrite\<close> (bytes, offset) and
  \<open>niova_io_pread\<close> (size, offset) return the number of bytes or a negative error, \<open>niova_io_fsync\<close>
  also what it leaves in \<open>errno\<close>, \<open>fstat\<close> an error or the size.
\<close>

record 'f niova_io =
  niova_io_pwrite :: "'f \<Rightarrow> u8 list \<Rightarrow> nat \<Rightarrow> int \<times> 'f"
  niova_io_pread :: "'f \<Rightarrow> nat \<Rightarrow> nat \<Rightarrow> int \<times> u8 list"
  niova_io_ftruncate :: "'f \<Rightarrow> nat \<Rightarrow> int \<times> 'f"
  niova_io_fsync :: "'f \<Rightarrow> int \<times> int \<times> 'f"
  posix_fstat :: "'f \<Rightarrow> int + nat"

record 'f raft_instance_posix =
  rip_stb_size :: nat
  rip_fd :: 'f

text \<open>The instance of this backend: \<open>ri_backend_arg\<close> is \<open>NULL\<close> until the backend is set up.\<close>

type_synonym 'f posix_instance = "'f raft_instance_posix option raft_instance"
type_synonym 'f posix_raft_env = "'f raft_instance_posix option raft_env"

definition RAFT_ENTRY_SIZE_POSIX :: nat where "RAFT_ENTRY_SIZE_POSIX = 65536"
definition NUM_RAFT_LOG_HEADERS :: int where "NUM_RAFT_LOG_HEADERS = 2"

section \<open>Blocks\<close>

definition rsbp_ri_to_rip :: "'f posix_instance \<Rightarrow> 'f raft_instance_posix option" where
  "rsbp_ri_to_rip ri = ri_backend_arg ri"

definition set_fd :: "'f \<Rightarrow> 'f posix_instance \<Rightarrow> 'f posix_instance" where
  "set_fd f ri = ri\<lparr>ri_backend_arg := map_option (rip_fd_update (\<lambda>_. f)) (ri_backend_arg ri)\<rparr>"

definition rsbp_ri_to_log_sz :: "'f posix_instance \<Rightarrow> nat option" where
  "rsbp_ri_to_log_sz ri = do { rip \<leftarrow> rsbp_ri_to_rip ri; Some (rip_stb_size rip) }"

definition rsbr_get_num_log_headers :: "'f posix_instance \<Rightarrow> raft_entry_idx_t option" where
  "rsbr_get_num_log_headers ri = do {
     NIOVA_ASSERT (rlh_version (ri_log_hdr ri) = 0 \<and>
       ri_store_type ri = RAFT_INSTANCE_STORE_POSIX_FLAT_FILE);
     Some NUM_RAFT_LOG_HEADERS }"

definition rsbr_phys_idx_is_log_header :: "'f posix_instance \<Rightarrow> nat \<Rightarrow> bool option" where
  "rsbr_phys_idx_is_log_header ri phys_idx = do {
     n \<leftarrow> rsbr_get_num_log_headers ri;
     Some (int phys_idx < n) }"

definition rsbr_entry_idx_to_phys_idx :: "'f posix_instance \<Rightarrow> raft_entry_idx_t \<Rightarrow> raft_entry_idx_t option" where
  "rsbr_entry_idx_to_phys_idx ri entry_idx = do {
     num_log_headers \<leftarrow> rsbr_get_num_log_headers ri;
     let entry_idx = entry_idx + num_log_headers;
     NIOVA_ASSERT (0 \<le> entry_idx);
     Some entry_idx }"

definition rsbr_raft_entry_header_to_phys_idx ::
  "'f posix_instance \<Rightarrow> raft_entry_header \<Rightarrow> raft_entry_idx_t option" where
  "rsbr_raft_entry_header_to_phys_idx ri reh = rsbr_entry_idx_to_phys_idx ri (reh_index reh)"

definition rsbr_raft_index_to_phys_offset :: "'f posix_instance \<Rightarrow> raft_entry_idx_t \<Rightarrow> nat option" where
  "rsbr_raft_index_to_phys_offset ri entry_idx = do {
     NIOVA_ASSERT (ri_max_entry_size ri = RAFT_ENTRY_SIZE_POSIX);
     p \<leftarrow> rsbr_entry_idx_to_phys_idx ri entry_idx;
     Some (nat p * RAFT_ENTRY_SIZE_POSIX) }"

definition rsbr_raft_entry_to_phys_offset :: "'f posix_instance \<Rightarrow> raft_entry \<Rightarrow> nat option" where
  "rsbr_raft_entry_to_phys_offset ri re = do {
     NIOVA_ASSERT (ri_max_entry_size ri = RAFT_ENTRY_SIZE_POSIX);
     p \<leftarrow> rsbr_raft_entry_header_to_phys_idx ri (re_header re);
     Some (nat p * RAFT_ENTRY_SIZE_POSIX) }"

definition rsbr_raft_entry_header_to_phys_offset :: "'f posix_instance \<Rightarrow> raft_entry_header \<Rightarrow> nat option" where
  "rsbr_raft_entry_header_to_phys_offset ri reh = do {
     NIOVA_ASSERT (ri_max_entry_size ri = RAFT_ENTRY_SIZE_POSIX);
     p \<leftarrow> rsbr_raft_entry_header_to_phys_idx ri reh;
     Some (nat p * RAFT_ENTRY_SIZE_POSIX) }"

section \<open>Entries\<close>

definition rsbp_entry_write ::
  "'f niova_io \<Rightarrow> 'f posix_instance \<Rightarrow> raft_entry \<Rightarrow> raft_net_sm_write_supplements option
     \<Rightarrow> 'f posix_instance option" where
  "rsbp_entry_write io ri re unused = do {
     rip \<leftarrow> rsbp_ri_to_rip ri;
     let expected_size = raft_server_entry_to_total_size re;
     offset \<leftarrow> rsbr_raft_entry_to_phys_offset ri re;
     let (rrc, f) = niova_io_pwrite io (rip_fd rip) (take expected_size (encode_re re)) offset;
     NIOVA_ASSERT (rrc = int expected_size);
     Some (set_fd f ri) }"

text \<open>
  The bytes read replace the start of the buffer, which holds the caller's header (and room
  for the data). After a short read the error message recomputes the offset from the buffer,
  and its assertion can abort.
\<close>

definition rsbp_read_common ::
  "'f niova_io \<Rightarrow> 'f posix_instance \<Rightarrow> raft_entry \<Rightarrow> bool \<Rightarrow> (int \<times> raft_entry) option" where
  "rsbp_read_common io ri re header_only_read = do {
     rip \<leftarrow> rsbp_ri_to_rip ri;
     let expected_sz = (if header_only_read then RAFT_ENTRY_HEADER_RESERVE
                        else raft_server_entry_to_total_size re);
     offset \<leftarrow> rsbr_raft_entry_header_to_phys_offset ri (re_header re);
     let (read_sz, bs) = niova_io_pread io (rip_fd rip) expected_sz offset;
     let re' = decode_re (bs @ drop (length bs) (encode_re re));
     _ \<leftarrow> (if read_sz \<noteq> int expected_sz
           then rsbr_raft_entry_header_to_phys_offset ri (re_header re') else Some 0);
     Some (read_sz, re') }"

definition rsbp_entry_read :: "'f niova_io \<Rightarrow> 'f posix_instance \<Rightarrow> raft_entry \<Rightarrow> (int \<times> raft_entry) option" where
  "rsbp_entry_read io ri re = rsbp_read_common io ri re False"

definition rsbp_entry_header_read ::
  "'f niova_io \<Rightarrow> 'f posix_instance \<Rightarrow> raft_entry_header \<Rightarrow> (int \<times> raft_entry_header) option" where
  "rsbp_entry_header_read io ri reh =
     (if reh_index reh < 0 then Some (- EINVAL, reh)
      else do {
        (rrc, re) \<leftarrow> rsbp_read_common io ri \<lparr>re_header = reh, re_data = []\<rparr> True;
        Some (if rrc < 0 then rrc
              else if rrc \<noteq> int RAFT_ENTRY_HEADER_RESERVE then - EIO else 0, re_header re) })"

section \<open>Sync and truncation\<close>

definition rsbp_sync :: "'f niova_io \<Rightarrow> 'f posix_instance \<Rightarrow> (int \<times> 'f posix_instance) option" where
  "rsbp_sync io ri = do {
     rip \<leftarrow> rsbp_ri_to_rip ri;
     let (rc, errno, f) = niova_io_fsync io (rip_fd rip);
     Some (if rc < 0 then - errno else rc, set_fd f ri) }"

definition rsbp_log_truncate ::
  "'f niova_io \<Rightarrow> 'f posix_instance \<Rightarrow> raft_entry_idx_t \<Rightarrow> 'f posix_instance option" where
  "rsbp_log_truncate io ri entry_idx = do {
     rip \<leftarrow> rsbp_ri_to_rip ri;
     trunc_off \<leftarrow> rsbr_raft_index_to_phys_offset ri entry_idx;
     let (rc, f) = niova_io_ftruncate io (rip_fd rip) trunc_off;
     FATAL_IF (rc \<noteq> 0);
     (rc, ri) \<leftarrow> rsbp_sync io (set_fd f ri);
     FATAL_IF (rc \<noteq> 0);
     Some ri }"

section \<open>The log header\<close>

text \<open>
  The loop over the header blocks. \<open>most_recent\<close> starts all zero. A block whose own
  \<open>reh_data_size\<close> exceeds the buffer makes the crc read past it: undefined, modelled as abort.
\<close>

fun header_load_loop ::
  "'f niova_io \<Rightarrow> 'f posix_raft_env \<Rightarrow> 'f posix_instance \<Rightarrow> raft_entry_idx_t list \<Rightarrow> raft_log_header
     \<Rightarrow> raft_log_header option" where
  "header_load_loop io env ri [] most_recent_rlh = Some most_recent_rlh"
| "header_load_loop io env ri (i # is) most_recent_rlh = do {
     num_headers \<leftarrow> rsbr_get_num_log_headers ri;
     (rrc, re) \<leftarrow> rsbp_entry_read io ri
        \<lparr>re_header = zero_reh\<lparr>reh_index := i - num_headers,
           reh_data_size := of_nat sizeof_raft_log_header\<rparr>,
         re_data = replicate sizeof_raft_log_header 0\<rparr>;
     if rrc \<noteq> int (RAFT_ENTRY_HEADER_RESERVE + sizeof_raft_log_header)
     then header_load_loop io env ri is most_recent_rlh
     else do {
       NIOVA_ASSERT (unat (reh_data_size (re_header re)) \<le> sizeof_raft_log_header);
       rc \<leftarrow> raft_server_entry_check_crc env re;
       if rc \<noteq> 0 then header_load_loop io env ri is most_recent_rlh
       else do {
         let rlh = decode_rlh (re_data re);
         header_load_loop io env ri is
           (if rlh_magic most_recent_rlh \<noteq> RAFT_HEADER_MAGIC \<or>
               rlh_seqno most_recent_rlh < rlh_seqno rlh
            then rlh else most_recent_rlh) } } }"

definition rsbp_header_load ::
  "'f niova_io \<Rightarrow> 'f posix_raft_env \<Rightarrow> 'f posix_instance \<Rightarrow> (int \<times> 'f posix_instance) option" where
  "rsbp_header_load io env ri = do {
     num_headers \<leftarrow> rsbr_get_num_log_headers ri;
     NIOVA_ASSERT (0 < num_headers);
     most_recent_rlh \<leftarrow> header_load_loop io env ri [0..num_headers - 1] zero_rlh;
     Some (if rlh_magic most_recent_rlh \<noteq> RAFT_HEADER_MAGIC then (- EBADMSG, ri)
           else (0, ri\<lparr>ri_log_hdr := most_recent_rlh\<rparr>)) }"

definition rsbp_header_write ::
  "'f niova_io \<Rightarrow> 'f posix_raft_env \<Rightarrow> 'f posix_instance \<Rightarrow> (int \<times> 'f posix_instance) option" where
  "rsbp_header_write io env ri = do {
     rip \<leftarrow> rsbp_ri_to_rip ri;
     num_headers \<leftarrow> rsbr_get_num_log_headers ri;
     let phys_block_num = uint (rlh_seqno (ri_log_hdr ri)) mod max 1 num_headers;
     let re_idx = phys_block_num - num_headers;
     re \<leftarrow> raft_server_entry_init_for_log_header env ri re_idx (rlh_term (ri_log_hdr ri))
            (encode_rlh (ri_log_hdr ri)) (of_nat sizeof_raft_log_header);
     offset \<leftarrow> rsbr_raft_entry_to_phys_offset ri re;
     let (write_sz, f) = niova_io_pwrite io (rip_fd rip)
            (take (raft_server_entry_to_total_size re) (encode_re re)) offset;
     let rc = (if write_sz = int (raft_server_entry_to_total_size re) then 0 else - EIO);
     (sync_rc, ri) \<leftarrow> rsbp_sync io (set_fd f ri);
     Some (rc, ri) }"

section \<open>Setup\<close>

definition rsbp_stat_log_fd :: "'f niova_io \<Rightarrow> 'f posix_instance \<Rightarrow> (int \<times> 'f posix_instance) option" where
  "rsbp_stat_log_fd io ri = do {
     rip \<leftarrow> rsbp_ri_to_rip ri;
     Some (case posix_fstat io (rip_fd rip) of
         Inl errno \<Rightarrow> (- errno, ri)
       | Inr st_size \<Rightarrow> (0, ri\<lparr>ri_backend_arg := Some (rip\<lparr>rip_stb_size := st_size\<rparr>)\<rparr>)) }"

definition rsbp_num_entries_calc :: "'f niova_io \<Rightarrow> 'f posix_instance \<Rightarrow> (int \<times> 'f posix_instance) option" where
  "rsbp_num_entries_calc io ri = do {
     NIOVA_ASSERT (ri_max_entry_size ri = RAFT_ENTRY_SIZE_POSIX);
     (rc, ri) \<leftarrow> rsbp_stat_log_fd io ri;
     if rc \<noteq> 0 then Some (rc, ri)
     else do {
       log_sz \<leftarrow> rsbp_ri_to_log_sz ri;
       num_headers \<leftarrow> rsbr_get_num_log_headers ri;
       Some (max 0 (int (log_sz div RAFT_ENTRY_SIZE_POSIX) +
                    (if log_sz mod RAFT_ENTRY_SIZE_POSIX \<noteq> 0 then 1 else 0) - num_headers), ri) } }"

fun initialize_headers_loop ::
  "nat \<Rightarrow> 'f niova_io \<Rightarrow> 'f posix_raft_env \<Rightarrow> 'f posix_instance \<Rightarrow> (int \<times> 'f posix_instance) option" where
  "initialize_headers_loop 0 io env ri = Some (0, ri)"
| "initialize_headers_loop (Suc n) io env ri = do {
     (rc, ri) \<leftarrow> rsbp_header_write io env ri;
     if rc \<noteq> 0 then Some (rc, ri)
     else initialize_headers_loop n io env
            (ri\<lparr>ri_log_hdr := (ri_log_hdr ri)\<lparr>rlh_seqno := rlh_seqno (ri_log_hdr ri) + 1\<rparr>\<rparr>) }"

definition rsbp_setup_initialize_headers ::
  "'f niova_io \<Rightarrow> 'f posix_raft_env \<Rightarrow> 'f posix_instance \<Rightarrow> (int \<times> 'f posix_instance) option" where
  "rsbp_setup_initialize_headers io env ri = do {
     let ri = ri\<lparr>ri_log_hdr := zero_rlh\<lparr>rlh_magic := RAFT_HEADER_MAGIC\<rparr>\<rparr>;
     num_headers \<leftarrow> rsbr_get_num_log_headers ri;
     initialize_headers_loop (nat num_headers) io env ri }"

text \<open>\<open>opened\<close> is what \<open>open\<close> gives: an errno, or the file.\<close>

definition rsbp_log_file_setup ::
  "'f niova_io \<Rightarrow> 'f posix_raft_env \<Rightarrow> int + 'f \<Rightarrow> 'f posix_instance \<Rightarrow> (int \<times> 'f posix_instance) option" where
  "rsbp_log_file_setup io env opened ri = (case opened of
       Inl errno \<Rightarrow> Some (- errno, ri)
     | Inr f \<Rightarrow> do {
         (rc, ri) \<leftarrow> rsbp_stat_log_fd io (set_fd f ri);
         if rc \<noteq> 0 then Some (rc, ri)
         else do {
           log_sz \<leftarrow> rsbp_ri_to_log_sz ri;
           (rc, ri) \<leftarrow> (if log_sz = 0 then rsbp_setup_initialize_headers io env ri else Some (0, ri));
           if rc \<noteq> 0 then Some (rc, ri)
           else do {
             (n, ri) \<leftarrow> rsbp_num_entries_calc io ri;
             Some (if n < 0 then n else 0, ri\<lparr>ri_entries_detected_at_startup := n\<rparr>) } } })"

definition rsbp_destroy :: "'f posix_instance \<Rightarrow> 'f posix_instance" where
  "rsbp_destroy ri = ri\<lparr>ri_backend_arg := None\<rparr>"

definition rsbp_set_db_uuid :: "'f posix_instance \<Rightarrow> 'f posix_instance" where
  "rsbp_set_db_uuid ri = ri\<lparr>ri_db_uuid := ri_csn_this_peer ri\<rparr>"

text \<open>\<open>fresh\<close> is the file handle of the zeroed \<open>struct raft_instance_posix\<close>, not yet an open file.\<close>

definition rsbp_setup ::
  "'f niova_io \<Rightarrow> 'f posix_raft_env \<Rightarrow> 'f \<Rightarrow> int + 'f \<Rightarrow> 'f posix_instance \<Rightarrow> (int \<times> 'f posix_instance) option" where
  "rsbp_setup io env fresh opened ri =
     (if ri_backend_arg ri \<noteq> None then Some (- EALREADY, ri)
      else do {
        let ri = ri\<lparr>ri_max_entry_size := RAFT_ENTRY_SIZE_POSIX,
                    ri_backend_arg := Some \<lparr>rip_stb_size = 0, rip_fd = fresh\<rparr>\<rparr>;
        (rc, ri) \<leftarrow> rsbp_log_file_setup io env opened ri;
        Some (if rc \<noteq> 0 then (rc, rsbp_destroy ri) else (0, rsbp_set_db_uuid ri)) })"

text \<open>The function table. The functions the backend does not have are \<open>NULL\<close>: calling one crashes.\<close>

definition ribPosix :: "'f niova_io \<Rightarrow> 'f posix_raft_env \<Rightarrow> 'f raft_instance_posix option raft_instance_backend" where
  "ribPosix io env =
     \<lparr>rib_entry_write = rsbp_entry_write io,
      rib_entry_header_read = rsbp_entry_header_read io,
      rib_entry_read = rsbp_entry_read io,
      rib_log_truncate = rsbp_log_truncate io,
      rib_log_reap = (\<lambda>_ _. None),
      rib_header_load = rsbp_header_load io env,
      rib_header_write = rsbp_header_write io env,
      rib_backend_sync = rsbp_sync io,
      rib_backend_checkpoint = None,
      rib_sm_apply_opt = None\<rparr>"

definition raft_server_backend_use_posix :: "'f niova_io \<Rightarrow> 'f posix_raft_env \<Rightarrow> 'f posix_raft_env" where
  "raft_server_backend_use_posix io env = env\<lparr>env_rib := ribPosix io env\<rparr>"

section \<open>Frame\<close>

lemma set_fd_backend_only [simp]: "backend_only ri (set_fd f ri)"
  by (simp add: set_fd_def)

lemma rsbp_sync_frame: "rsbp_sync io ri = Some (rc, ri') \<Longrightarrow> backend_only ri ri'"
  by (auto simp: rsbp_sync_def bind_Some case_prod_beta)

interpretation posix: backend_frame "ribPosix io env" for io :: "'f niova_io" and env
proof
  fix ri ri' :: "'f posix_instance" and re ws rc i g f
  show "rib_entry_write (ribPosix io env) ri re ws = Some ri' \<Longrightarrow> backend_only ri ri'"
    by (auto simp: ribPosix_def rsbp_entry_write_def bind_Some Let_def case_prod_beta split: if_splits)
  show "rib_log_truncate (ribPosix io env) ri i = Some ri' \<Longrightarrow> backend_only ri ri'"
    by (auto simp: ribPosix_def rsbp_log_truncate_def bind_Some Let_def case_prod_beta split: if_splits
        dest!: rsbp_sync_frame intro: backend_only_trans [OF set_fd_backend_only])
  show "rib_log_reap (ribPosix io env) ri i = Some ri' \<Longrightarrow> backend_only ri ri'"
    by (simp add: ribPosix_def)
  show "rib_header_write (ribPosix io env) ri = Some (rc, ri') \<Longrightarrow> backend_only ri ri'"
    by (auto simp: ribPosix_def rsbp_header_write_def bind_Some Let_def case_prod_beta
        dest!: rsbp_sync_frame intro: backend_only_trans [OF set_fd_backend_only])
  show "rib_backend_sync (ribPosix io env) ri = Some (rc, ri') \<Longrightarrow> backend_only ri ri'"
    by (simp add: ribPosix_def rsbp_sync_frame)
  show "rib_backend_checkpoint (ribPosix io env) = Some g \<Longrightarrow> g ri = Some (rc, ri') \<Longrightarrow>
      \<exists>c. backend_only (ri\<lparr>ri_checkpoint_last_idx := c\<rparr>) ri'"
    by (simp add: ribPosix_def)
  show "rib_sm_apply_opt (ribPosix io env) = Some f \<Longrightarrow> f ri ws = Some ri' \<Longrightarrow> backend_only ri ri'"
    by (simp add: ribPosix_def)
qed

lemma env_rib_use_posix [simp]:
  "env_rib (raft_server_backend_use_posix io env) = ribPosix io env"
  by (simp add: raft_server_backend_use_posix_def)

section \<open>The file\<close>

definition file_write :: "u8 list \<Rightarrow> u8 list \<Rightarrow> nat \<Rightarrow> u8 list" where
  "file_write c bs off = take off c @ replicate (off - length c) 0 @ bs @ drop (off + length bs) c"

definition file_truncate :: "u8 list \<Rightarrow> nat \<Rightarrow> u8 list" where
  "file_truncate c n = take n c @ replicate (n - length c) 0"

definition bytes_at :: "nat \<Rightarrow> nat \<Rightarrow> u8 list \<Rightarrow> u8 list" where
  "bytes_at off n c = take n (drop off c)"

lemma bytes_at_full: "bytes_at off n c = bs \<Longrightarrow> length bs = n \<Longrightarrow> bs \<noteq> [] \<Longrightarrow> off + n \<le> length c"
  by (auto simp: bytes_at_def split: if_splits)

lemma bytes_at_0 [simp]: "bytes_at off 0 c = []"
  by (simp add: bytes_at_def)

lemma bytes_at_nth: "k < n \<Longrightarrow> off + n \<le> length c \<Longrightarrow> bytes_at off n c ! k = c ! (off + k)"
  by (simp add: bytes_at_def)

lemma length_bytes_at: "off + n \<le> length c \<Longrightarrow> length (bytes_at off n c) = n"
  by (simp add: bytes_at_def)

lemma length_file_write:
  "length (file_write c bs off) = max (length c) (off + length bs)"
  by (simp add: file_write_def)

lemma bytes_at_file_write_same: "bytes_at off (length bs) (file_write c bs off) = bs"
  by (simp add: bytes_at_def file_write_def min_def)

lemma bytes_at_file_write_other:
  assumes "off' + n \<le> off \<or> off + length bs \<le> off'" and "off' + n \<le> length c"
  shows "bytes_at off' n (file_write c bs off) = bytes_at off' n c"
proof (rule nth_equalityI)
  show "length (bytes_at off' n (file_write c bs off)) = length (bytes_at off' n c)"
    using assms by (simp add: length_bytes_at length_file_write)
next
  fix k assume "k < length (bytes_at off' n (file_write c bs off))"
  then have k: "k < n" by (simp add: bytes_at_def)
  have "file_write c bs off ! (off' + k) = c ! (off' + k)"
    using assms k by (auto simp: file_write_def nth_append)
  then show "bytes_at off' n (file_write c bs off) ! k = bytes_at off' n c ! k"
    using assms k by (simp add: bytes_at_nth length_file_write)
qed

lemma bytes_at_file_truncate:
  assumes "off' + n \<le> m" and "off' + n \<le> length c"
  shows "bytes_at off' n (file_truncate c m) = bytes_at off' n c"
  using assms by (simp add: bytes_at_def file_truncate_def drop_take min_def)

section \<open>The log in the file\<close>

text \<open>The offset of the block of an index, and what it means that the file holds an entry.\<close>

definition block_off :: "raft_entry_idx_t \<Rightarrow> nat" where
  "block_off i = nat (i + NUM_RAFT_LOG_HEADERS) * RAFT_ENTRY_SIZE_POSIX"

definition posix_storable :: "raft_entry \<Rightarrow> bool" where
  "posix_storable re \<longleftrightarrow> re_fits re \<and> 0 \<le> reh_index (re_header re) \<and>
     raft_server_entry_to_total_size re \<le> RAFT_ENTRY_SIZE_POSIX"

definition posix_holds :: "('f \<Rightarrow> u8 list) \<Rightarrow> 'f raft_instance_posix option \<Rightarrow> raft_entry \<Rightarrow> bool" where
  "posix_holds contents b re \<longleftrightarrow> posix_storable re \<and> (\<exists>rip. b = Some rip \<and>
     bytes_at (block_off (reh_index (re_header re))) (raft_server_entry_to_total_size re)
       (contents (rip_fd rip)) = encode_re re)"

lemma total_size_pos [simp]: "0 < raft_server_entry_to_total_size re" "raft_server_entry_to_total_size re \<noteq> 0"
  by (simp_all add: raft_server_entry_to_total_size_def RAFT_ENTRY_HEADER_RESERVE_def)

lemma block_off_mono: "-2 \<le> i \<Longrightarrow> i < j \<Longrightarrow> block_off i + RAFT_ENTRY_SIZE_POSIX \<le> block_off j"
proof -
  assume "-2 \<le> i" "i < j"
  then have "Suc (nat (i + NUM_RAFT_LOG_HEADERS)) \<le> nat (j + NUM_RAFT_LOG_HEADERS)"
    by (simp add: NUM_RAFT_LOG_HEADERS_def)
  then have "Suc (nat (i + NUM_RAFT_LOG_HEADERS)) * RAFT_ENTRY_SIZE_POSIX \<le> block_off j"
    unfolding block_off_def by (rule mult_le_mono1)
  then show ?thesis by (simp add: block_off_def)
qed

lemma block_disjoint:
  assumes "-2 \<le> i" and "-2 \<le> j" and "i \<noteq> j"
    and "m \<le> RAFT_ENTRY_SIZE_POSIX" and "n \<le> RAFT_ENTRY_SIZE_POSIX"
  shows "block_off j + n \<le> block_off i \<or> block_off i + m \<le> block_off j"
  using assms block_off_mono [of i j] block_off_mono [of j i] by (cases "i < j") auto

lemma posix_holds_bound:
  assumes "posix_storable re"
    and "bytes_at (block_off (reh_index (re_header re))) (raft_server_entry_to_total_size re) c = encode_re re"
  shows "block_off (reh_index (re_header re)) + raft_server_entry_to_total_size re \<le> length c"
  using assms length_encode_re [of re]
  by (intro bytes_at_full [OF assms(2)]) (auto simp: posix_storable_def)

text \<open>Two entries in the same place are the same entry.\<close>

lemma encode_prefix_eq:
  assumes "re_fits re" and "re_fits re'" and "take n c = encode_re re" and "take m c = encode_re re'"
  shows "re = re'"
proof -
  have "\<exists>r r'. encode_reh (re_header re) @ r = encode_reh (re_header re') @ r'"
  proof -
    have "encode_re re @ drop n c = encode_re re' @ drop m c"
      by (metis append_take_drop_id assms(3,4))
    then show ?thesis by (auto simp: encode_re_def)
  qed
  then have h: "re_header re = re_header re'"
    using decode_encode_reh [of "re_header re"] decode_encode_reh [of "re_header re'"] assms(1,2)
    by (metis re_fits_def)
  have "length (encode_re re) = length (encode_re re')"
    using assms(1,2) by (simp add: length_encode_re raft_server_entry_to_total_size_def h)
  then have "encode_re re = encode_re re'"
    using assms(3,4) by (metis length_take min.cobounded2 min_def take_all_iff take_take)
  then show ?thesis
    using assms(1,2) by (metis decode_encode_re re_fits_def)
qed

section \<open>Header blocks\<close>

lemma header_entry_size:
  assumes "raft_server_entry_init_for_log_header env ri i t (encode_rlh h) (of_nat sizeof_raft_log_header) = Some re"
  shows "raft_server_entry_to_total_size re = RAFT_ENTRY_HEADER_RESERVE + sizeof_raft_log_header"
    and "re_data re = encode_rlh h" and "raft_server_entry_check_crc env re = Some 0"
    and "reh_index (re_header re) = i" and "reh_term (re_header re) = t"
    and "length (reh_entry_sz (re_header re)) = RAFT_ENTRY_NUM_ENTRIES"
    and "reh_data_size (re_header re) = of_nat sizeof_raft_log_header"
    and "reh_store_time (re_header re) = env_realtime env"
proof -
  have init: "raft_server_entry_init env ri i t (Some (encode_rlh h)) [of_nat sizeof_raft_log_header] 1
       RAFT_WR_ENTRY_OPT_LOG_HEADER = Some re"
    using assms by (auto simp: raft_server_entry_init_for_log_header_def split: if_splits)
  note f = entry_init_fields [OF init]
  show ds: "reh_data_size (re_header re) = of_nat sizeof_raft_log_header"
    using f(5) by (simp add: raft_server_wr_entries_get_total_size_def)
  have u: "unat (of_nat sizeof_raft_log_header :: u32) = sizeof_raft_log_header"
    by (simp add: sizeof_raft_log_header_def)
  show "raft_server_entry_to_total_size re = RAFT_ENTRY_HEADER_RESERVE + sizeof_raft_log_header"
    by (simp add: raft_server_entry_to_total_size_def ds u)
  show "re_data re = encode_rlh h" "reh_store_time (re_header re) = env_realtime env"
    using init
    by (auto simp: raft_server_entry_init_def Let_def bind_Some raft_server_wr_entries_get_total_size_def
        u split: if_splits)
  show "raft_server_entry_check_crc env re = Some 0" "reh_index (re_header re) = i"
    "reh_term (re_header re) = t" "length (reh_entry_sz (re_header re)) = RAFT_ENTRY_NUM_ENTRIES"
    using init by (simp_all add: entry_init_check_crc entry_init_entry_sz_length f)
qed

section \<open>The backend implements the log contract\<close>

text \<open>
  What the backend relies on: a full write puts the bytes at the offset, no write changes
  bytes outside its range, a read that does not fail returns the bytes of the range that the
  file has, a truncation cuts the file, a sync does not change the contents.
\<close>

locale posix_file =
  fixes io :: "'f niova_io" and contents :: "'f \<Rightarrow> u8 list"
  assumes pwrite_full: "niova_io_pwrite io f bs off = (int (length bs), f') \<Longrightarrow>
      bytes_at off (length bs) (contents f') = bs"
    and pwrite_frame: "niova_io_pwrite io f bs off = (rc, f') \<Longrightarrow> off' + n \<le> length (contents f) \<Longrightarrow>
      off' + n \<le> off \<or> off + length bs \<le> off' \<Longrightarrow>
      bytes_at off' n (contents f') = bytes_at off' n (contents f)"
    and pread_ok: "niova_io_pread io f n off = (rc, bs) \<Longrightarrow> 0 \<le> rc \<Longrightarrow>
      bs = bytes_at off n (contents f) \<and> rc = int (length bs)"
    and ftruncate_ok: "niova_io_ftruncate io f n = (0, f') \<Longrightarrow> contents f' = file_truncate (contents f) n"
    and fsync_contents: "niova_io_fsync io f = (rc, errno, f') \<Longrightarrow> contents f' = contents f"
    and fstat_ok: "posix_fstat io f = Inr sz \<Longrightarrow> sz = length (contents f)"
begin

lemma sync_contents:
  assumes "rsbp_sync io ri = Some (rc, ri')"
  obtains rip rip' where "ri_backend_arg ri = Some rip" "ri_backend_arg ri' = Some rip'"
    "contents (rip_fd rip') = contents (rip_fd rip)"
  using assms
  by (cases "ri_backend_arg ri")
    (auto simp: rsbp_sync_def rsbp_ri_to_rip_def set_fd_def split: prod.splits
      dest: fsync_contents)

text \<open>A write at the block of index \<open>i\<close> keeps what is stored at the other indices.\<close>

lemma pwrite_keeps:
  assumes "niova_io_pwrite io (rip_fd rip) bs (block_off i) = (rc, f)"
    and "-2 \<le> i" and "length bs \<le> RAFT_ENTRY_SIZE_POSIX"
    and "posix_holds contents (Some rip) re" and "reh_index (re_header re) \<noteq> i"
    and "contents (rip_fd rip') = contents f"
  shows "posix_holds contents (Some rip') re"
proof -
  have st: "posix_storable re"
    and b: "bytes_at (block_off (reh_index (re_header re))) (raft_server_entry_to_total_size re)
       (contents (rip_fd rip)) = encode_re re"
    using assms(4) by (simp_all add: posix_holds_def)
  have "block_off (reh_index (re_header re)) + raft_server_entry_to_total_size re \<le> block_off i \<or>
     block_off i + length bs \<le> block_off (reh_index (re_header re))"
    using st assms(2,3,5) by (intro block_disjoint) (auto simp: posix_storable_def)
  then show ?thesis
    using pwrite_frame [OF assms(1) posix_holds_bound [OF st b]] st b assms(6)
    by (simp add: posix_holds_def)
qed

lemma entry_write_call:
  assumes "rsbp_entry_write io ri re ws = Some ri'" and "posix_storable re"
  obtains rip f where "ri_backend_arg ri = Some rip" "ri_backend_arg ri' = Some (rip\<lparr>rip_fd := f\<rparr>)"
    "niova_io_pwrite io (rip_fd rip) (encode_re re) (block_off (reh_index (re_header re)))
       = (int (length (encode_re re)), f)"
    "length (encode_re re) = raft_server_entry_to_total_size re"
proof -
  have len: "length (encode_re re) = raft_server_entry_to_total_size re"
    using assms(2) by (simp add: posix_storable_def length_encode_re)
  show thesis
    using assms(1) len
    by (auto simp: rsbp_entry_write_def rsbp_ri_to_rip_def bind_Some Let_def case_prod_beta
        rsbr_raft_entry_to_phys_offset_def rsbr_raft_entry_header_to_phys_idx_def set_fd_def
        rsbr_entry_idx_to_phys_idx_def rsbr_get_num_log_headers_def block_off_def
        split: if_splits intro!: that) (metis prod.collapse)
qed

lemma posix_write_holds:
  assumes "rsbp_entry_write io ri re ws = Some ri'" and "posix_storable re"
  shows "posix_holds contents (ri_backend_arg ri') re"
  using assms
proof (rule entry_write_call)
  fix rip f
  assume "ri_backend_arg ri' = Some (rip\<lparr>rip_fd := f\<rparr>)"
    and w: "niova_io_pwrite io (rip_fd rip) (encode_re re) (block_off (reh_index (re_header re)))
       = (int (length (encode_re re)), f)"
    and "length (encode_re re) = raft_server_entry_to_total_size re"
  then show ?thesis
    using pwrite_full [OF w] assms(2) by (simp add: posix_holds_def)
qed

lemma posix_write_keeps:
  assumes "rsbp_entry_write io ri re ws = Some ri'" and "posix_storable re"
    and "posix_holds contents (ri_backend_arg ri) re'"
    and "reh_index (re_header re') \<noteq> reh_index (re_header re)"
  shows "posix_holds contents (ri_backend_arg ri') re'"
proof -
  obtain rip f where rip: "ri_backend_arg ri = Some rip" "ri_backend_arg ri' = Some (rip\<lparr>rip_fd := f\<rparr>)"
    and w: "niova_io_pwrite io (rip_fd rip) (encode_re re) (block_off (reh_index (re_header re)))
       = (int (length (encode_re re)), f)"
    and len: "length (encode_re re) = raft_server_entry_to_total_size re"
    using assms(1,2) by (rule entry_write_call)
  have "-2 \<le> reh_index (re_header re)" "length (encode_re re) \<le> RAFT_ENTRY_SIZE_POSIX"
    using assms(2) len by (auto simp: posix_storable_def)
  then show ?thesis
    using assms(3,4) unfolding rip by (rule pwrite_keeps [OF w]) simp
qed

lemma truncate_contents:
  assumes "rsbp_log_truncate io ri i = Some ri'"
  obtains rip rip' where "ri_backend_arg ri = Some rip" "ri_backend_arg ri' = Some rip'"
    "contents (rip_fd rip') = file_truncate (contents (rip_fd rip)) (block_off i)"
    "0 \<le> i + NUM_RAFT_LOG_HEADERS"
proof -
  obtain rip f rc where rip: "ri_backend_arg ri = Some rip"
    and t: "niova_io_ftruncate io (rip_fd rip) (block_off i) = (0, f)"
    and s: "rsbp_sync io (set_fd f ri) = Some (rc, ri')" and i: "0 \<le> i + NUM_RAFT_LOG_HEADERS"
    using assms
    by (auto simp: rsbp_log_truncate_def rsbp_ri_to_rip_def bind_Some Let_def case_prod_beta
        rsbr_raft_index_to_phys_offset_def rsbr_entry_idx_to_phys_idx_def rsbr_get_num_log_headers_def
        block_off_def split: if_splits) (metis prod.collapse)
  from s obtain rip' where "ri_backend_arg ri' = Some rip'" "contents (rip_fd rip') = contents f"
    by (rule sync_contents) (auto simp: set_fd_def rip)
  then show thesis
    using that rip ftruncate_ok [OF t] i by simp
qed

lemma posix_truncate_keeps:
  assumes "rsbp_log_truncate io ri i = Some ri'" and "posix_holds contents (ri_backend_arg ri) re"
    and "reh_index (re_header re) < i"
  shows "posix_holds contents (ri_backend_arg ri') re"
  using assms(1)
proof (rule truncate_contents)
  fix rip rip'
  assume rip: "ri_backend_arg ri = Some rip" "ri_backend_arg ri' = Some rip'"
    and c: "contents (rip_fd rip') = file_truncate (contents (rip_fd rip)) (block_off i)"
  have st: "posix_storable re"
    and b: "bytes_at (block_off (reh_index (re_header re))) (raft_server_entry_to_total_size re)
       (contents (rip_fd rip)) = encode_re re"
    using assms(2) by (simp_all add: posix_holds_def rip)
  have "block_off (reh_index (re_header re)) + raft_server_entry_to_total_size re \<le> block_off i"
    using block_off_mono [of "reh_index (re_header re)" i] st assms(3) by (simp add: posix_storable_def)
  then show ?thesis
    using st b posix_holds_bound [OF st b] by (simp add: posix_holds_def rip c bytes_at_file_truncate)
qed

lemma posix_truncate_drops:
  assumes "rsbp_log_truncate io ri i = Some ri'" and "posix_holds contents (ri_backend_arg ri') re"
  shows "reh_index (re_header re) < i"
  using assms(1)
proof (rule truncate_contents)
  fix rip rip'
  assume rip: "ri_backend_arg ri' = Some rip'"
    and c: "contents (rip_fd rip') = file_truncate (contents (rip_fd rip)) (block_off i)"
  have st: "posix_storable re"
    and b: "bytes_at (block_off (reh_index (re_header re))) (raft_server_entry_to_total_size re)
       (contents (rip_fd rip')) = encode_re re"
    using assms(2) by (simp_all add: posix_holds_def rip)
  have "length (contents (rip_fd rip')) = block_off i"
    by (simp add: c file_truncate_def)
  then have "block_off (reh_index (re_header re)) < block_off i"
    using posix_holds_bound [OF st b] total_size_pos(1) [of re] by linarith
  then have "\<not> nat (i + NUM_RAFT_LOG_HEADERS) \<le> nat (reh_index (re_header re) + NUM_RAFT_LOG_HEADERS)"
    by (auto simp: block_off_def)
  then show ?thesis by simp
qed

lemma posix_sync_keeps:
  assumes "rsbp_sync io ri = Some (rc, ri')" and "posix_holds contents (ri_backend_arg ri) re"
  shows "posix_holds contents (ri_backend_arg ri') re"
  using assms(1) by (rule sync_contents) (use assms(2) in \<open>simp add: posix_holds_def\<close>)

text \<open>The block a header goes to, and the entry that is written there.\<close>

lemma header_write_call:
  assumes "rsbp_header_write io env ri = Some (rc, ri')"
  obtains rip f wsz re rip' where "ri_backend_arg ri = Some rip" "ri_backend_arg ri' = Some rip'"
    "contents (rip_fd rip') = contents f"
    "niova_io_pwrite io (rip_fd rip) (take (raft_server_entry_to_total_size re) (encode_re re))
       (block_off (reh_index (re_header re))) = (wsz, f)"
    "rc = 0 \<longleftrightarrow> wsz = int (raft_server_entry_to_total_size re)"
    "raft_server_entry_init_for_log_header env ri
       (uint (rlh_seqno (ri_log_hdr ri)) mod 2 - 2) (rlh_term (ri_log_hdr ri))
       (encode_rlh (ri_log_hdr ri)) (of_nat sizeof_raft_log_header) = Some re"
    "reh_index (re_header re) = uint (rlh_seqno (ri_log_hdr ri)) mod 2 - 2"
proof -
  obtain rip re f wsz sync_rc where rip: "ri_backend_arg ri = Some rip"
    and init: "raft_server_entry_init_for_log_header env ri
       (uint (rlh_seqno (ri_log_hdr ri)) mod 2 - 2) (rlh_term (ri_log_hdr ri))
       (encode_rlh (ri_log_hdr ri)) (of_nat sizeof_raft_log_header) = Some re"
    and w: "niova_io_pwrite io (rip_fd rip) (take (raft_server_entry_to_total_size re) (encode_re re))
       (block_off (reh_index (re_header re))) = (wsz, f)"
    and s: "rsbp_sync io (set_fd f ri) = Some (sync_rc, ri')"
    and rc: "rc = (if wsz = int (raft_server_entry_to_total_size re) then 0 else - EIO)"
    using assms
    by (auto simp: rsbp_header_write_def rsbp_ri_to_rip_def bind_Some Let_def case_prod_beta
        rsbr_raft_entry_to_phys_offset_def rsbr_raft_entry_header_to_phys_idx_def
        rsbr_entry_idx_to_phys_idx_def rsbr_get_num_log_headers_def block_off_def
        NUM_RAFT_LOG_HEADERS_def split: if_splits) (metis prod.collapse)+
  have idx: "reh_index (re_header re) = uint (rlh_seqno (ri_log_hdr ri)) mod 2 - 2"
    using init
    by (auto simp: raft_server_entry_init_for_log_header_def dest: entry_init_fields(1) split: if_splits)
  from s obtain rip' where "ri_backend_arg ri' = Some rip'" "contents (rip_fd rip') = contents f"
    by (rule sync_contents) (auto simp: set_fd_def rip)
  then show thesis
    using that rip w rc init idx by simp
qed

lemma posix_header_write_keeps:
  assumes "rsbp_header_write io env ri = Some (rc, ri')" and "posix_holds contents (ri_backend_arg ri) re"
  shows "posix_holds contents (ri_backend_arg ri') re"
  using assms(1)
proof (rule header_write_call)
  fix rip f wsz re' rip'
  assume rip: "ri_backend_arg ri = Some rip" "ri_backend_arg ri' = Some rip'"
    and f: "contents (rip_fd rip') = contents f"
    and w: "niova_io_pwrite io (rip_fd rip) (take (raft_server_entry_to_total_size re') (encode_re re'))
       (block_off (reh_index (re_header re'))) = (wsz, f)"
    and init: "raft_server_entry_init_for_log_header env ri
       (uint (rlh_seqno (ri_log_hdr ri)) mod 2 - 2) (rlh_term (ri_log_hdr ri))
       (encode_rlh (ri_log_hdr ri)) (of_nat sizeof_raft_log_header) = Some re'"
    and idx: "reh_index (re_header re') = uint (rlh_seqno (ri_log_hdr ri)) mod 2 - 2"
  have "0 \<le> uint (rlh_seqno (ri_log_hdr ri)) mod 2" "uint (rlh_seqno (ri_log_hdr ri)) mod 2 < 2"
    by simp_all
  then have lo: "-2 \<le> reh_index (re_header re')" and ne: "reh_index (re_header re) \<noteq> reh_index (re_header re')"
    using idx assms(2) by (auto simp: posix_holds_def posix_storable_def)
  have len: "length (take (raft_server_entry_to_total_size re') (encode_re re')) \<le> RAFT_ENTRY_SIZE_POSIX"
    using header_entry_size(1) [OF init]
    by (simp add: RAFT_ENTRY_HEADER_RESERVE_def sizeof_raft_log_header_def RAFT_ENTRY_SIZE_POSIX_def)
  show ?thesis
    unfolding rip by (rule pwrite_keeps [OF w lo len assms(2) [unfolded rip] ne f])
qed

text \<open>
  A read of a stored entry that does not fail leaves its header in the buffer, and its data if
  the caller asked for as many bytes as the entry has.
\<close>

lemma posix_read_holds:
  assumes "rsbp_read_common io ri buf ho = Some (rc, re')" and "0 \<le> rc"
    and "posix_holds contents (ri_backend_arg ri) re"
    and "reh_index (re_header buf) = reh_index (re_header re)"
  shows "re_header re' = re_header re"
    and "\<not> ho \<Longrightarrow> reh_data_size (re_header buf) = reh_data_size (re_header re) \<Longrightarrow>
       take (unat (reh_data_size (re_header re))) (re_data re') = re_data re"
proof -
  let ?n = "if ho then RAFT_ENTRY_HEADER_RESERVE else raft_server_entry_to_total_size buf"
  let ?off = "block_off (reh_index (re_header re))"
  obtain rip bs where rip: "ri_backend_arg ri = Some rip"
    and rd: "niova_io_pread io (rip_fd rip) ?n ?off = (rc, bs)"
    and re': "re' = decode_re (bs @ drop (length bs) (encode_re buf))"
    using assms(1,4)
    by (auto simp: rsbp_read_common_def rsbp_ri_to_rip_def bind_Some Let_def case_prod_beta
        rsbr_raft_entry_header_to_phys_offset_def rsbr_raft_entry_header_to_phys_idx_def
        rsbr_entry_idx_to_phys_idx_def rsbr_get_num_log_headers_def block_off_def
        split: if_splits) (metis prod.collapse)+
  have st: "posix_storable re"
    and b: "bytes_at ?off (raft_server_entry_to_total_size re) (contents (rip_fd rip)) = encode_re re"
    using assms(3) by (simp_all add: posix_holds_def rip)
  have fits: "re_fits re" "reh_fits (re_header re)"
    using st by (simp_all add: posix_storable_def re_fits_def)
  have bs: "bs = take ?n (drop ?off (contents (rip_fd rip)))"
    using pread_ok [OF rd assms(2)] by (simp add: bytes_at_def)
  obtain rest where c: "drop ?off (contents (rip_fd rip)) = encode_re re @ rest"
    using b by (metis append_take_drop_id bytes_at_def)
  have hlen: "length (encode_reh (re_header re)) = RAFT_ENTRY_HEADER_RESERVE"
    using fits by (simp add: reh_fits_def)
  have "RAFT_ENTRY_HEADER_RESERVE \<le> ?n"
    by (simp add: raft_server_entry_to_total_size_def)
  then obtain d where d: "bs = encode_reh (re_header re) @ d"
    by (simp add: bs c encode_re_def hlen)
  then show "re_header re' = re_header re"
    using decode_encode_reh [OF fits(2)] by (simp add: re' decode_re_def)
  assume "\<not> ho" "reh_data_size (re_header buf) = reh_data_size (re_header re)"
  then have "?n = raft_server_entry_to_total_size re"
    by (simp add: raft_server_entry_to_total_size_def)
  then have "bs = encode_re re"
    using b by (simp add: bs bytes_at_def)
  then show "take (unat (reh_data_size (re_header re))) (re_data re') = re_data re"
    using fits hlen by (simp add: re' decode_re_def encode_re_def re_fits_def)
qed

end

sublocale posix_file \<subseteq> log: log_backend "ribPosix io env" "posix_holds contents" posix_storable "\<lambda>_. True" "\<lambda>_. True" for env
proof
  fix ri ri' :: "'f posix_instance" and b re re' buf ws rc i h h'
  show "posix_holds contents b re \<Longrightarrow> posix_holds contents b re' \<Longrightarrow>
      reh_index (re_header re) = reh_index (re_header re') \<Longrightarrow> re = re'"
    by (auto simp: posix_holds_def posix_storable_def bytes_at_def intro: encode_prefix_eq)
  show "rib_entry_write (ribPosix io env) ri re ws = Some ri' \<Longrightarrow> posix_storable re \<Longrightarrow> True \<Longrightarrow>
      posix_holds contents (ri_backend_arg ri') re"
    by (simp add: ribPosix_def posix_write_holds)
  show "rib_entry_write (ribPosix io env) ri re ws = Some ri' \<Longrightarrow> posix_storable re \<Longrightarrow> True \<Longrightarrow>
      posix_holds contents (ri_backend_arg ri) re' \<Longrightarrow>
      reh_index (re_header re') \<noteq> reh_index (re_header re) \<Longrightarrow>
      posix_holds contents (ri_backend_arg ri') re'"
    by (simp add: ribPosix_def posix_write_keeps)
  show "rib_entry_header_read (ribPosix io env) ri h = Some (0, h') \<Longrightarrow>
      posix_holds contents (ri_backend_arg ri) re \<Longrightarrow> reh_index h = reh_index (re_header re) \<Longrightarrow>
      h' = re_header re"
    by (auto simp: ribPosix_def rsbp_entry_header_read_def bind_Some split: if_splits
        dest!: posix_read_holds(1))
  show "rib_entry_read (ribPosix io env) ri buf = Some (rc, re') \<Longrightarrow> 0 \<le> rc \<Longrightarrow>
      posix_holds contents (ri_backend_arg ri) re \<Longrightarrow>
      reh_index (re_header buf) = reh_index (re_header re) \<Longrightarrow>
      reh_data_size (re_header buf) = reh_data_size (re_header re) \<Longrightarrow>
      re_header re' = re_header re \<and>
      take (unat (reh_data_size (re_header re))) (re_data re') = re_data re"
    by (simp add: ribPosix_def rsbp_entry_read_def posix_read_holds)
  show "rib_log_truncate (ribPosix io env) ri i = Some ri' \<Longrightarrow> True \<Longrightarrow> posix_holds contents (ri_backend_arg ri) re \<Longrightarrow>
      reh_index (re_header re) < i \<Longrightarrow> posix_holds contents (ri_backend_arg ri') re"
    by (simp add: ribPosix_def posix_truncate_keeps)
  show "rib_log_truncate (ribPosix io env) ri i = Some ri' \<Longrightarrow> True \<Longrightarrow> posix_holds contents (ri_backend_arg ri') re \<Longrightarrow>
      reh_index (re_header re) < i"
    by (simp add: ribPosix_def posix_truncate_drops)
  show "rib_header_write (ribPosix io env) ri = Some (rc, ri') \<Longrightarrow>
      posix_holds contents (ri_backend_arg ri) re \<Longrightarrow> posix_holds contents (ri_backend_arg ri') re"
    by (simp add: ribPosix_def posix_header_write_keeps)
  show "rib_backend_sync (ribPosix io env) ri = Some (rc, ri') \<Longrightarrow>
      posix_holds contents (ri_backend_arg ri) re \<Longrightarrow> posix_holds contents (ri_backend_arg ri') re"
    by (simp add: ribPosix_def posix_sync_keeps)
qed

section \<open>The log header survives\<close>

text \<open>Header block \<open>k\<close> (-2 or -1) of a file holds the log header \<open>h\<close> in an entry with a good crc.\<close>

definition hdr_slot :: "'f posix_raft_env \<Rightarrow> u8 list \<Rightarrow> raft_entry_idx_t \<Rightarrow> raft_log_header \<Rightarrow> bool" where
  "hdr_slot env c k h \<longleftrightarrow> - (2 ^ 63) \<le> rlh_term h \<and> rlh_term h < 2 ^ 63 \<and>
     (\<exists>re. bytes_at (block_off k) (RAFT_ENTRY_HEADER_RESERVE + sizeof_raft_log_header) c = encode_re re \<and>
        reh_fits (re_header re) \<and> reh_data_size (re_header re) = of_nat sizeof_raft_log_header \<and>
        re_data re = encode_rlh h \<and> raft_server_entry_check_crc env re = Some 0)"

definition hdr_block :: "raft_log_header \<Rightarrow> raft_entry_idx_t" where
  "hdr_block h = uint (rlh_seqno h) mod 2 - 2"

text \<open>
  The state of the header blocks while the server runs: the current header is in the block its
  sequence number selects, the other block has an older one.
\<close>

definition disk_hdr_ok :: "'f posix_raft_env \<Rightarrow> ('f \<Rightarrow> u8 list) \<Rightarrow> 'f posix_instance \<Rightarrow> bool" where
  "disk_hdr_ok env contents ri \<longleftrightarrow> (\<exists>rip h'. ri_backend_arg ri = Some rip \<and>
     rlh_magic (ri_log_hdr ri) = RAFT_HEADER_MAGIC \<and> rlh_magic h' = RAFT_HEADER_MAGIC \<and>
     hdr_slot env (contents (rip_fd rip)) (hdr_block (ri_log_hdr ri)) (ri_log_hdr ri) \<and>
     hdr_slot env (contents (rip_fd rip)) (-3 - hdr_block (ri_log_hdr ri)) h' \<and>
     rlh_seqno h' < rlh_seqno (ri_log_hdr ri))"

lemma hdr_block_cases: "hdr_block h = -2 \<or> hdr_block h = -1"
  unfolding hdr_block_def by presburger

context posix_file
begin

text \<open>Reading a good header block.\<close>

lemma header_block_read:
  assumes "hdr_slot env (contents (rip_fd rip)) (i - 2) h" and "ri_backend_arg ri = Some rip"
    and "\<And>n off. 0 \<le> fst (niova_io_pread io (rip_fd rip) n off)"
    and "rlh_version (ri_log_hdr ri) = 0" and "ri_store_type ri = RAFT_INSTANCE_STORE_POSIX_FLAT_FILE"
    and "ri_max_entry_size ri = RAFT_ENTRY_SIZE_POSIX" and "0 \<le> i"
  shows "header_load_loop io env ri (i # is) best = header_load_loop io env ri is
     (if rlh_magic best \<noteq> RAFT_HEADER_MAGIC \<or> rlh_seqno best < rlh_seqno h then h else best)"
proof -
  let ?n = "RAFT_ENTRY_HEADER_RESERVE + sizeof_raft_log_header"
  let ?buf = "\<lparr>re_header = zero_reh\<lparr>reh_index := i - NUM_RAFT_LOG_HEADERS,
       reh_data_size := of_nat sizeof_raft_log_header\<rparr>, re_data = replicate sizeof_raft_log_header 0\<rparr>"
  obtain re where b: "bytes_at (block_off (i - 2)) ?n (contents (rip_fd rip)) = encode_re re"
    and fits: "reh_fits (re_header re)" and ds: "reh_data_size (re_header re) = of_nat sizeof_raft_log_header"
    and d: "re_data re = encode_rlh h" and crc: "raft_server_entry_check_crc env re = Some 0"
    and t: "- (2 ^ 63) \<le> rlh_term h" "rlh_term h < 2 ^ 63"
    using assms(1) by (auto simp: hdr_slot_def)
  have u: "unat (of_nat sizeof_raft_log_header :: u32) = sizeof_raft_log_header"
    by (simp add: sizeof_raft_log_header_def)
  have len: "length (encode_re re) = ?n" "length (encode_re ?buf) = ?n"
    using fits by (simp_all add: encode_re_def d reh_fits_def zero_reh_def null_reh_def)
  have off: "block_off (i - 2) = nat i * RAFT_ENTRY_SIZE_POSIX"
    by (simp add: block_off_def NUM_RAFT_LOG_HEADERS_def)
  obtain rc bs where rd: "niova_io_pread io (rip_fd rip) ?n (nat i * RAFT_ENTRY_SIZE_POSIX) = (rc, bs)"
    by (metis prod.exhaust)
  have "bs = encode_re re" "rc = int ?n"
    using pread_ok [OF rd] assms(3) [of ?n "nat i * RAFT_ENTRY_SIZE_POSIX"] b len rd
    by (simp_all add: off)
  then have "rsbp_entry_read io ri ?buf = Some (int ?n, re)"
    using rd assms(2,4-7) len decode_encode_re [OF fits]
    by (simp add: rsbp_entry_read_def rsbp_read_common_def rsbp_ri_to_rip_def Let_def
        rsbr_raft_entry_header_to_phys_offset_def rsbr_raft_entry_header_to_phys_idx_def
        rsbr_entry_idx_to_phys_idx_def rsbr_get_num_log_headers_def
        raft_server_entry_to_total_size_def u)
  then show ?thesis
    using assms(4,5) crc d u ds decode_encode_rlh [OF t]
    by (simp add: rsbr_get_num_log_headers_def Let_def)
qed

text \<open>The header that is loaded after a crash is the one written last.\<close>

lemma disk_hdr_load:
  assumes "disk_hdr_ok env contents ri" and "ri_backend_arg ri2 = ri_backend_arg ri"
    and "\<And>f n off. 0 \<le> fst (niova_io_pread io f n off)"
    and "rlh_version (ri_log_hdr ri2) = 0" and "ri_store_type ri2 = RAFT_INSTANCE_STORE_POSIX_FLAT_FILE"
    and "ri_max_entry_size ri2 = RAFT_ENTRY_SIZE_POSIX"
  shows "rsbp_header_load io env ri2 = Some (0, ri2\<lparr>ri_log_hdr := ri_log_hdr ri\<rparr>)"
proof -
  obtain rip h' where rip: "ri_backend_arg ri2 = Some rip"
    and m: "rlh_magic (ri_log_hdr ri) = RAFT_HEADER_MAGIC" "rlh_magic h' = RAFT_HEADER_MAGIC"
    and s1: "hdr_slot env (contents (rip_fd rip)) (hdr_block (ri_log_hdr ri)) (ri_log_hdr ri)"
    and s2: "hdr_slot env (contents (rip_fd rip)) (-3 - hdr_block (ri_log_hdr ri)) h'"
    and lt: "rlh_seqno h' < rlh_seqno (ri_log_hdr ri)"
    using assms(1,2) by (auto simp: disk_hdr_ok_def)
  note rd = header_block_read [OF _ rip assms(3-6)]
  have "header_load_loop io env ri2 [0, 1] zero_rlh = Some (ri_log_hdr ri)"
    using hdr_block_cases [of "ri_log_hdr ri"]
  proof
    assume "hdr_block (ri_log_hdr ri) = -2"
    then show ?thesis
      using rd [of env 0 "ri_log_hdr ri" "[1]" zero_rlh] rd [of env 1 h' "[]" "ri_log_hdr ri"] s1 s2 m lt
      by (simp add: zero_rlh_def RAFT_HEADER_MAGIC_def)
  next
    assume "hdr_block (ri_log_hdr ri) = -1"
    then show ?thesis
      using rd [of env 0 h' "[1]" zero_rlh] rd [of env 1 "ri_log_hdr ri" "[]" h'] s1 s2 m lt
      by (simp add: zero_rlh_def RAFT_HEADER_MAGIC_def)
  qed
  moreover have "[0..NUM_RAFT_LOG_HEADERS - 1] = [0, 1]"
    by (simp add: NUM_RAFT_LOG_HEADERS_def upto.simps)
  ultimately show ?thesis
    using assms(4,5) m by (simp add: rsbp_header_load_def rsbr_get_num_log_headers_def NUM_RAFT_LOG_HEADERS_def)
qed

text \<open>A write to one header block keeps the other.\<close>

lemma pwrite_keeps_slot:
  assumes "niova_io_pwrite io f bs (block_off i) = (rc, f')" and "-2 \<le> i" and "-2 \<le> k" and "k \<noteq> i"
    and "length bs \<le> RAFT_ENTRY_SIZE_POSIX" and "hdr_slot env (contents f) k h"
  shows "hdr_slot env (contents f') k h"
proof -
  let ?n = "RAFT_ENTRY_HEADER_RESERVE + sizeof_raft_log_header"
  obtain re where b: "bytes_at (block_off k) ?n (contents f) = encode_re re"
    and fits: "reh_fits (re_header re)" and d: "re_data re = encode_rlh h"
    using assms(6) by (auto simp: hdr_slot_def)
  have len: "length (encode_re re) = ?n"
    using fits by (simp add: encode_re_def d reh_fits_def)
  then have "block_off k + ?n \<le> length (contents f)"
    by (intro bytes_at_full [OF b]) (auto simp: RAFT_ENTRY_HEADER_RESERVE_def)
  moreover have "block_off k + ?n \<le> block_off i \<or> block_off i + length bs \<le> block_off k"
    using assms(2-5)
    by (intro block_disjoint)
      (auto simp: RAFT_ENTRY_HEADER_RESERVE_def sizeof_raft_log_header_def RAFT_ENTRY_SIZE_POSIX_def)
  ultimately have "bytes_at (block_off k) ?n (contents f') = bytes_at (block_off k) ?n (contents f)"
    by (rule pwrite_frame [OF assms(1)])
  then show ?thesis
    using assms(6) by (simp add: hdr_slot_def)
qed

lemma header_write_slot:
  assumes "rsbp_header_write io env ri = Some (0, ri')"
    and "- (2 ^ 63) \<le> rlh_term (ri_log_hdr ri)" and "rlh_term (ri_log_hdr ri) < 2 ^ 63"
    and "env_realtime env div 1000000000 < 2 ^ 64"
  obtains rip rip' where "ri_backend_arg ri = Some rip" "ri_backend_arg ri' = Some rip'"
    "hdr_slot env (contents (rip_fd rip')) (hdr_block (ri_log_hdr ri)) (ri_log_hdr ri)"
    "\<And>h'. hdr_slot env (contents (rip_fd rip)) (-3 - hdr_block (ri_log_hdr ri)) h' \<Longrightarrow>
       hdr_slot env (contents (rip_fd rip')) (-3 - hdr_block (ri_log_hdr ri)) h'"
  using assms(1)
proof (rule header_write_call)
  fix rip f wsz re rip'
  assume rip: "ri_backend_arg ri = Some rip" "ri_backend_arg ri' = Some rip'"
    and f: "contents (rip_fd rip') = contents f"
    and w: "niova_io_pwrite io (rip_fd rip) (take (raft_server_entry_to_total_size re) (encode_re re))
       (block_off (reh_index (re_header re))) = (wsz, f)"
    and wsz: "(0::int) = 0 \<longleftrightarrow> wsz = int (raft_server_entry_to_total_size re)"
    and init: "raft_server_entry_init_for_log_header env ri
       (uint (rlh_seqno (ri_log_hdr ri)) mod 2 - 2) (rlh_term (ri_log_hdr ri))
       (encode_rlh (ri_log_hdr ri)) (of_nat sizeof_raft_log_header) = Some re"
    and "reh_index (re_header re) = uint (rlh_seqno (ri_log_hdr ri)) mod 2 - 2"
  then have idx: "reh_index (re_header re) = hdr_block (ri_log_hdr ri)"
    by (simp add: hdr_block_def)
  note e = header_entry_size [OF init]
  have fits: "reh_fits (re_header re)"
    using e(5,6,8) idx hdr_block_cases [of "ri_log_hdr ri"] assms(2-4) by (auto simp: reh_fits_def)
  then have len: "length (encode_re re) = raft_server_entry_to_total_size re"
    by (simp add: encode_re_def e(1,2) reh_fits_def)
  then have w': "niova_io_pwrite io (rip_fd rip) (encode_re re) (block_off (hdr_block (ri_log_hdr ri)))
       = (int (length (encode_re re)), f)"
    using w wsz idx by simp
  have new: "hdr_slot env (contents f) (hdr_block (ri_log_hdr ri)) (ri_log_hdr ri)"
    using pwrite_full [OF w'] fits e(1,2,3,7) len assms(2,3) by (auto simp: hdr_slot_def)
  have old: "hdr_slot env (contents f) (-3 - hdr_block (ri_log_hdr ri)) h'"
    if "hdr_slot env (contents (rip_fd rip)) (-3 - hdr_block (ri_log_hdr ri)) h'" for h'
    using w' _ _ _ _ that
  proof (rule pwrite_keeps_slot)
    show "length (encode_re re) \<le> RAFT_ENTRY_SIZE_POSIX"
      by (simp add: len e(1) RAFT_ENTRY_HEADER_RESERVE_def sizeof_raft_log_header_def
          RAFT_ENTRY_SIZE_POSIX_def)
  qed (use hdr_block_cases [of "ri_log_hdr ri"] in auto)
  show thesis
    using that [OF rip] new old by (simp add: f)
qed

text \<open>So the state of the header blocks is kept by every successful write of a next header.\<close>

lemma disk_hdr_write:
  assumes "disk_hdr_ok env contents ri" and "rlh_seqno (ri_log_hdr ri) \<noteq> -1"
    and "rlh_seqno h = rlh_seqno (ri_log_hdr ri) + 1" and "rlh_magic h = RAFT_HEADER_MAGIC"
    and "- (2 ^ 63) \<le> rlh_term h" and "rlh_term h < 2 ^ 63"
    and "env_realtime env div 1000000000 < 2 ^ 64"
    and "rsbp_header_write io env (ri\<lparr>ri_log_hdr := h\<rparr>) = Some (0, ri')"
  shows "disk_hdr_ok env contents ri'"
proof -
  have h: "ri_log_hdr ri' = h"
    using posix.header_write_frame [of io env "ri\<lparr>ri_log_hdr := h\<rparr>" 0 ri'] assms(8)
    by (auto simp: ribPosix_def elim!: backend_onlyE)
  have u: "uint (rlh_seqno h) = uint (rlh_seqno (ri_log_hdr ri)) + 1"
    using assms(2,3) uint_lt2p [of "rlh_seqno (ri_log_hdr ri)"]
    by (simp add: word_uint_eq_iff uint_plus_if' unsigned_minus_1_eq_mask mask_eq_exp_minus_1)
  then have blk: "hdr_block (ri_log_hdr ri) = -3 - hdr_block h"
    unfolding hdr_block_def by presburger
  obtain rip h0 where rip: "ri_backend_arg ri = Some rip"
    and old: "hdr_slot env (contents (rip_fd rip)) (-3 - hdr_block h) (ri_log_hdr ri)"
    and m: "rlh_magic (ri_log_hdr ri) = RAFT_HEADER_MAGIC"
    using assms(1) by (auto simp: disk_hdr_ok_def blk)
  from assms(8) obtain rip' where rip': "ri_backend_arg ri' = Some rip'"
    and new: "hdr_slot env (contents (rip_fd rip')) (hdr_block h) h"
    and keep: "hdr_slot env (contents (rip_fd rip')) (-3 - hdr_block h) (ri_log_hdr ri)"
    by (rule header_write_slot) (use assms(5-7) old rip in auto)
  have "rlh_seqno (ri_log_hdr ri) < rlh_seqno h"
    by (simp add: word_less_def u)
  with rip' new keep m assms(4) show ?thesis
    unfolding disk_hdr_ok_def h by blast
qed

end

section \<open>A file in memory\<close>

text \<open>A file whose calls never fail: its contents are a list of bytes.\<close>

definition mem_io :: "u8 list niova_io" where
  "mem_io = \<lparr>niova_io_pwrite = (\<lambda>f bs off. (int (length bs), if bs = [] then f else file_write f bs off)),
     niova_io_pread = (\<lambda>f n off. (int (length (bytes_at off n f)), bytes_at off n f)),
     niova_io_ftruncate = (\<lambda>f n. (0, file_truncate f n)),
     niova_io_fsync = (\<lambda>f. (0, 0, f)),
     posix_fstat = (\<lambda>f. Inr (length f))\<rparr>"

interpretation mem: posix_file mem_io "\<lambda>f. f"
  by unfold_locales
    (auto simp: mem_io_def bytes_at_file_write_same bytes_at_file_write_other split: if_splits)

end
