(* ===== verification/Raft_Example.thy ===== *)
theory Raft_Example
  imports Raft_Posix
begin

text \<open>
  A cluster of three members on the flat-file backend, for evaluating the definitions on
  concrete inputs; the file and its calls are parameters.
\<close>

text \<open>An instance before its backend is selected: every call through the table crashes.\<close>

definition no_backend :: "'b raft_instance_backend" where
  "no_backend = \<lparr>rib_entry_write = (\<lambda>_ _ _. None), rib_entry_header_read = (\<lambda>_ _. None),
     rib_entry_read = (\<lambda>_ _. None), rib_log_truncate = (\<lambda>_ _. None), rib_log_reap = (\<lambda>_ _. None),
     rib_header_load = (\<lambda>_. None), rib_header_write = (\<lambda>_. None), rib_backend_sync = (\<lambda>_. None),
     rib_backend_checkpoint = None, rib_sm_apply_opt = None\<rparr>"

definition demo_base :: "'b raft_env" where
  "demo_base =
     \<lparr>env_rib = no_backend, env_crc = (\<lambda>bs c. foldl (\<lambda>c b. c * 31 + ucast b) c bs),
      env_fault = (\<lambda>_. False), env_realtime = 10000000000, env_unstable = 10000000000, env_random = 0,
      env_uninit = \<lparr>re_header = null_reh, re_data = []\<rparr>, env_lowest_race = None,
      env_max_raft_peers = 11, env_min_raft_peers = 1,
      env_net_can_send = (\<lambda>_. True), env_net_can_recv = (\<lambda>_. True), env_addr_matches = (\<lambda>_. True),
      env_has_init_cb = False, env_udp_max_size = 65000, env_tcp_max_size = 4194304,
      env_tcp_disabled = False, env_udp_send = (\<lambda>_ n. int n), env_tcp_send = (\<lambda>_ n. int n)\<rparr>"

definition demo_env :: "'f niova_io \<Rightarrow> 'f posix_raft_env" where
  "demo_env io = raft_server_backend_use_posix io demo_base"

text \<open>Member 1 of \<open>{1, 2, 3}\<close>, an empty log, term 0.\<close>

definition demo_inst :: "'b \<Rightarrow> 'b raft_instance" where
  "demo_inst b =
     \<lparr>ri_csn_raft = 100, ri_csn_raft_peers = [1, 2, 3], ri_csn_this_peer = 1, ri_csn_leader = None,
      ri_last_send = replicate 11 0, ri_last_recv = replicate 11 0, ri_raft_uuid_str = ''raft'', ri_this_peer_uuid_str = ''peer1'', ri_db_uuid = 1,
      ri_db_recovery_uuid = 0, ri_candidate = \<lparr>rcs_term = 0, rcs_prevote = False, rcs_results = []\<rparr>,
      ri_leader = \<lparr>rls_initial_term_idx = 0, rls_leader_term = 0, rls_quorum_ok_cnt = 0,
        rls_leader_start = 0, rls_leader_accumulated = 0, rls_rfi = []\<rparr>,
      ri_state = RAFT_STATE_FOLLOWER, ri_proc_state = RAFT_PROC_STATE_RUNNING,
      ri_store_type = RAFT_INSTANCE_STORE_POSIX_FLAT_FILE, ri_ignore_timerfd = False, ri_synchronous_writes = True,
      ri_coalesced_writes = False, ri_user_requested_checkpoint = False, ri_user_requested_reap = False,
      ri_auto_checkpoints_enabled = False, ri_needs_bulk_recovery = False,
      ri_lreg_registered = False, ri_incomplete_recovery = False, ri_successful_recovery = False, ri_follower_reason = RAFT_BFRSN_NONE,
      ri_startup_error = 0, ri_log = ''/store'', ri_log_hdr = zero_rlh\<lparr>rlh_magic := RAFT_HEADER_MAGIC\<rparr>, ri_commit_idx = -1,
      ri_last_applied = \<lparr>rla_idx = -1, rla_sub_idx = 0, rla_sub_idx_max = 0, rla_synced_idx = -1,
        rla_cumulative_crc = 0, rla_kv_cumulative_crc = 0\<rparr>,
      ri_checkpoint_last_idx = -1, ri_lowest_idx = -1, ri_pending_read_idx = -1, ri_last_chkpt_err = 0,
      ri_sync_cnt = 0, ri_max_scan_entries = 100000, ri_log_reap_factor = 5,
      ri_num_checkpoints = 5, ri_max_entry_size = RAFT_ENTRY_SIZE_POSIX, ri_newest_entry_hdr = (\<lambda>_. null_reh),
      ri_election_timeout_max_ms = 300, ri_heartbeat_freq_per_election_min = 10,
      ri_check_quorum_timeout_factor = 10, ri_timer_fd_cb = True, ri_backend_arg = b,
      ri_entries_detected_at_startup = 0,
      ri_recovery_handle = \<lparr>rrh_peer_uuid = 0, rrh_peer_db_uuid = 0, rrh_peer_chkpt_idx = -1,
        rrh_chkpt_size = -1, rrh_remaining = -1, rrh_completed = 0, rrh_start = 0,
        rrh_from_recovery_marker = False\<rparr>,
      ri_apply_handler_version = 0,
      ri_coalesced_wr = \<lparr>rcwi_nentries = 0, rcwi_entry_sizes = replicate RAFT_ENTRY_NUM_ENTRIES 0,
        rcwi_total_size = 0, rcwi_ws = \<lparr>rnsws_ws = [], rnsws_kv_crc = 0, rnsws_kv_crc_enabled = False\<rparr>, rcwi_buffer = []\<rparr>,
      ri_timer_cnt = 0, ri_effects = []\<rparr>"

definition demo_ri :: "'f \<Rightarrow> 'f posix_instance" where
  "demo_ri f = demo_inst (Some \<lparr>rip_stb_size = 0, rip_fd = f\<rparr>)"

section \<open>Its fields\<close>

lemma demo_env_simps [simp]:
  "env_rib (demo_env io) = ribPosix io demo_base"
  "env_crc (demo_env io) = (\<lambda>bs c. foldl (\<lambda>c b. c * 31 + ucast b) c bs)"
  "env_fault (demo_env io) = (\<lambda>_. False)"
  "env_realtime (demo_env io) = 10000000000"
  "env_unstable (demo_env io) = 10000000000"
  "env_random (demo_env io) = 0"
  "env_uninit (demo_env io) = \<lparr>re_header = null_reh, re_data = []\<rparr>"
  "env_lowest_race (demo_env io) = None"
  "env_max_raft_peers (demo_env io) = 11"
  "env_min_raft_peers (demo_env io) = 1"
  "env_net_can_send (demo_env io) = (\<lambda>_. True)"
  "env_net_can_recv (demo_env io) = (\<lambda>_. True)"
  "env_addr_matches (demo_env io) = (\<lambda>_. True)"
  "env_has_init_cb (demo_env io) = False"
  "env_udp_max_size (demo_env io) = 65000"
  "env_tcp_max_size (demo_env io) = 4194304"
  "env_tcp_disabled (demo_env io) = False"
  "env_udp_send (demo_env io) = (\<lambda>_ n. int n)"
  "env_tcp_send (demo_env io) = (\<lambda>_ n. int n)"
  by (simp_all add: demo_env_def demo_base_def raft_server_backend_use_posix_def)

lemma demo_base_simps [simp]:
  "env_realtime demo_base = 10000000000"
  by (simp add: demo_base_def)

lemma demo_inst_simps [simp]:
  "ri_csn_raft (demo_inst b) = 100"
  "ri_csn_raft_peers (demo_inst b) = [1, 2, 3]"
  "ri_csn_this_peer (demo_inst b) = 1"
  "ri_csn_leader (demo_inst b) = None"
  "ri_last_send (demo_inst b) = replicate 11 0"
  "ri_last_recv (demo_inst b) = replicate 11 0"
  "ri_raft_uuid_str (demo_inst b) = ''raft''"
  "ri_this_peer_uuid_str (demo_inst b) = ''peer1''"
  "ri_db_uuid (demo_inst b) = 1"
  "ri_db_recovery_uuid (demo_inst b) = 0"
  "ri_candidate (demo_inst b) = \<lparr>rcs_term = 0, rcs_prevote = False, rcs_results = []\<rparr>"
  "ri_leader (demo_inst b) = \<lparr>rls_initial_term_idx = 0, rls_leader_term = 0, rls_quorum_ok_cnt = 0, rls_leader_start = 0, rls_leader_accumulated = 0, rls_rfi = []\<rparr>"
  "ri_state (demo_inst b) = RAFT_STATE_FOLLOWER"
  "ri_proc_state (demo_inst b) = RAFT_PROC_STATE_RUNNING"
  "ri_store_type (demo_inst b) = RAFT_INSTANCE_STORE_POSIX_FLAT_FILE"
  "ri_ignore_timerfd (demo_inst b) = False"
  "ri_synchronous_writes (demo_inst b) = True"
  "ri_coalesced_writes (demo_inst b) = False"
  "ri_user_requested_checkpoint (demo_inst b) = False"
  "ri_user_requested_reap (demo_inst b) = False"
  "ri_auto_checkpoints_enabled (demo_inst b) = False"
  "ri_needs_bulk_recovery (demo_inst b) = False"
  "ri_lreg_registered (demo_inst b) = False"
  "ri_incomplete_recovery (demo_inst b) = False"
  "ri_successful_recovery (demo_inst b) = False"
  "ri_follower_reason (demo_inst b) = RAFT_BFRSN_NONE"
  "ri_startup_error (demo_inst b) = 0"
  "ri_log (demo_inst b) = ''/store''"
  "ri_log_hdr (demo_inst b) = zero_rlh\<lparr>rlh_magic := RAFT_HEADER_MAGIC\<rparr>"
  "ri_commit_idx (demo_inst b) = -1"
  "ri_last_applied (demo_inst b) = \<lparr>rla_idx = -1, rla_sub_idx = 0, rla_sub_idx_max = 0, rla_synced_idx = -1, rla_cumulative_crc = 0, rla_kv_cumulative_crc = 0\<rparr>"
  "ri_checkpoint_last_idx (demo_inst b) = -1"
  "ri_lowest_idx (demo_inst b) = -1"
  "ri_pending_read_idx (demo_inst b) = -1"
  "ri_last_chkpt_err (demo_inst b) = 0"
  "ri_sync_cnt (demo_inst b) = 0"
  "ri_max_scan_entries (demo_inst b) = 100000"
  "ri_log_reap_factor (demo_inst b) = 5"
  "ri_num_checkpoints (demo_inst b) = 5"
  "ri_max_entry_size (demo_inst b) = RAFT_ENTRY_SIZE_POSIX"
  "ri_newest_entry_hdr (demo_inst b) = (\<lambda>_. null_reh)"
  "ri_election_timeout_max_ms (demo_inst b) = 300"
  "ri_heartbeat_freq_per_election_min (demo_inst b) = 10"
  "ri_check_quorum_timeout_factor (demo_inst b) = 10"
  "ri_timer_fd_cb (demo_inst b) = True"
  "ri_backend_arg (demo_inst b) = b"
  "ri_entries_detected_at_startup (demo_inst b) = 0"
  "ri_recovery_handle (demo_inst b) = \<lparr>rrh_peer_uuid = 0, rrh_peer_db_uuid = 0, rrh_peer_chkpt_idx = -1,
     rrh_chkpt_size = -1, rrh_remaining = -1, rrh_completed = 0, rrh_start = 0, rrh_from_recovery_marker = False\<rparr>"
  "ri_apply_handler_version (demo_inst b) = 0"
  "ri_coalesced_wr (demo_inst b) = \<lparr>rcwi_nentries = 0, rcwi_entry_sizes = replicate RAFT_ENTRY_NUM_ENTRIES 0, rcwi_total_size = 0, rcwi_ws = \<lparr>rnsws_ws = [], rnsws_kv_crc = 0, rnsws_kv_crc_enabled = False\<rparr>, rcwi_buffer = []\<rparr>"
  "ri_timer_cnt (demo_inst b) = 0"
  "ri_effects (demo_inst b) = []"
  by (simp_all add: demo_inst_def)

lemma demo_ri_simps [simp]:
  "ri_csn_raft (demo_ri f) = 100"
  "ri_csn_raft_peers (demo_ri f) = [1, 2, 3]"
  "ri_csn_this_peer (demo_ri f) = 1"
  "ri_csn_leader (demo_ri f) = None"
  "ri_last_send (demo_ri f) = replicate 11 0"
  "ri_last_recv (demo_ri f) = replicate 11 0"
  "ri_raft_uuid_str (demo_ri f) = ''raft''"
  "ri_this_peer_uuid_str (demo_ri f) = ''peer1''"
  "ri_db_uuid (demo_ri f) = 1"
  "ri_db_recovery_uuid (demo_ri f) = 0"
  "ri_candidate (demo_ri f) = \<lparr>rcs_term = 0, rcs_prevote = False, rcs_results = []\<rparr>"
  "ri_leader (demo_ri f) = \<lparr>rls_initial_term_idx = 0, rls_leader_term = 0, rls_quorum_ok_cnt = 0, rls_leader_start = 0, rls_leader_accumulated = 0, rls_rfi = []\<rparr>"
  "ri_state (demo_ri f) = RAFT_STATE_FOLLOWER"
  "ri_proc_state (demo_ri f) = RAFT_PROC_STATE_RUNNING"
  "ri_store_type (demo_ri f) = RAFT_INSTANCE_STORE_POSIX_FLAT_FILE"
  "ri_ignore_timerfd (demo_ri f) = False"
  "ri_synchronous_writes (demo_ri f) = True"
  "ri_coalesced_writes (demo_ri f) = False"
  "ri_user_requested_checkpoint (demo_ri f) = False"
  "ri_user_requested_reap (demo_ri f) = False"
  "ri_auto_checkpoints_enabled (demo_ri f) = False"
  "ri_needs_bulk_recovery (demo_ri f) = False"
  "ri_lreg_registered (demo_ri f) = False"
  "ri_incomplete_recovery (demo_ri f) = False"
  "ri_successful_recovery (demo_ri f) = False"
  "ri_follower_reason (demo_ri f) = RAFT_BFRSN_NONE"
  "ri_startup_error (demo_ri f) = 0"
  "ri_log (demo_ri f) = ''/store''"
  "ri_log_hdr (demo_ri f) = zero_rlh\<lparr>rlh_magic := RAFT_HEADER_MAGIC\<rparr>"
  "ri_commit_idx (demo_ri f) = -1"
  "ri_last_applied (demo_ri f) = \<lparr>rla_idx = -1, rla_sub_idx = 0, rla_sub_idx_max = 0, rla_synced_idx = -1, rla_cumulative_crc = 0, rla_kv_cumulative_crc = 0\<rparr>"
  "ri_checkpoint_last_idx (demo_ri f) = -1"
  "ri_lowest_idx (demo_ri f) = -1"
  "ri_pending_read_idx (demo_ri f) = -1"
  "ri_last_chkpt_err (demo_ri f) = 0"
  "ri_sync_cnt (demo_ri f) = 0"
  "ri_max_scan_entries (demo_ri f) = 100000"
  "ri_log_reap_factor (demo_ri f) = 5"
  "ri_num_checkpoints (demo_ri f) = 5"
  "ri_max_entry_size (demo_ri f) = RAFT_ENTRY_SIZE_POSIX"
  "ri_newest_entry_hdr (demo_ri f) = (\<lambda>_. null_reh)"
  "ri_election_timeout_max_ms (demo_ri f) = 300"
  "ri_heartbeat_freq_per_election_min (demo_ri f) = 10"
  "ri_check_quorum_timeout_factor (demo_ri f) = 10"
  "ri_timer_fd_cb (demo_ri f) = True"
  "ri_backend_arg (demo_ri f) = Some \<lparr>rip_stb_size = 0, rip_fd = f\<rparr>"
  "ri_entries_detected_at_startup (demo_ri f) = 0"
  "ri_recovery_handle (demo_ri f) = \<lparr>rrh_peer_uuid = 0, rrh_peer_db_uuid = 0, rrh_peer_chkpt_idx = -1,
     rrh_chkpt_size = -1, rrh_remaining = -1, rrh_completed = 0, rrh_start = 0, rrh_from_recovery_marker = False\<rparr>"
  "ri_apply_handler_version (demo_ri f) = 0"
  "ri_coalesced_wr (demo_ri f) = \<lparr>rcwi_nentries = 0, rcwi_entry_sizes = replicate RAFT_ENTRY_NUM_ENTRIES 0, rcwi_total_size = 0, rcwi_ws = \<lparr>rnsws_ws = [], rnsws_kv_crc = 0, rnsws_kv_crc_enabled = False\<rparr>, rcwi_buffer = []\<rparr>"
  "ri_timer_cnt (demo_ri f) = 0"
  "ri_effects (demo_ri f) = []"
  by (simp_all add: demo_ri_def)

end
