(* ===== verification/Raft_Disk.thy ===== *)
theory Raft_Disk
  imports Raft_Example
begin

text \<open>
  The flat-file backend on a disk that works: its operations neither fail nor abort, and what
  is written is what is read, also after a restart.
\<close>

section \<open>A disk that works\<close>

text \<open>With full writes and syncs, writing the log header neither fails nor aborts.\<close>

definition healthy_io :: "'f niova_io \<Rightarrow> bool" where
  "healthy_io io \<longleftrightarrow> (\<forall>f bs off. fst (niova_io_pwrite io f bs off) = int (length bs)) \<and>
     (\<forall>f. fst (niova_io_fsync io f) = 0) \<and> (\<forall>f n. fst (niova_io_ftruncate io f n) = 0)"

definition posix_ready :: "'f posix_instance \<Rightarrow> bool" where
  "posix_ready ri \<longleftrightarrow> ri_backend_arg ri \<noteq> None \<and> rlh_version (ri_log_hdr ri) = 0 \<and>
     ri_store_type ri = RAFT_INSTANCE_STORE_POSIX_FLAT_FILE \<and> ri_max_entry_size ri = RAFT_ENTRY_SIZE_POSIX"

lemma log_header_entry_init:
  assumes "posix_ready ri" and "i < 0"
  shows "\<exists>re. raft_server_entry_init_for_log_header env ri i t (encode_rlh h) (of_nat sizeof_raft_log_header) = Some re"
  using assms
  by (auto simp: posix_ready_def raft_server_entry_init_for_log_header_def raft_server_entry_init_def
      raft_server_wr_entries_get_total_size_def Let_def raft_server_entry_calc_crc_def
      RAFT_ENTRY_MAX_DATA_SIZE_def RAFT_ENTRY_SIZE_POSIX_def RAFT_ENTRY_HEADER_RESERVE_def
      sizeof_raft_log_header_def RAFT_ENTRY_NUM_ENTRIES_def)

lemma header_write_succeeds:
  assumes "posix_ready ri" and "healthy_io io"
  shows "\<exists>rip. rsbp_header_write io env ri = Some (0, ri\<lparr>ri_backend_arg := Some rip\<rparr>)"
proof -
  let ?i = "uint (rlh_seqno (ri_log_hdr ri)) mod 2 - 2"
  have neg: "?i < 0" by simp
  obtain re where init: "raft_server_entry_init_for_log_header env ri ?i (rlh_term (ri_log_hdr ri))
      (encode_rlh (ri_log_hdr ri)) (of_nat sizeof_raft_log_header) = Some re"
    using log_header_entry_init [OF assms(1) neg] by blast
  note e = header_entry_size [OF init]
  obtain rip where rip: "ri_backend_arg ri = Some rip"
    using assms(1) by (auto simp: posix_ready_def)
  have "length (encode_re re) = raft_server_entry_to_total_size re"
    by (simp add: encode_re_def e(1,2,6))
  then show ?thesis
    using assms rip e(4) init
    by (auto simp: rsbp_header_write_def rsbp_ri_to_rip_def posix_ready_def healthy_io_def
        rsbr_get_num_log_headers_def NUM_RAFT_LOG_HEADERS_def Let_def case_prod_beta rsbp_sync_def
        rsbr_raft_entry_to_phys_offset_def rsbr_raft_entry_header_to_phys_idx_def
        rsbr_entry_idx_to_phys_idx_def set_fd_def)
qed

lemma header_write_only: "rsbp_header_write io env ri = Some (rc, ri') \<Longrightarrow> backend_only ri ri'"
  using posix.header_write_frame [of io env ri rc ri'] by (simp add: ribPosix_def)

lemma initialize_headers_loop_SucE:
  assumes "initialize_headers_loop (Suc n) io env ri = Some (0, ri')"
  obtains r where "rsbp_header_write io env ri = Some (0, r)"
    and "initialize_headers_loop n io env
      (r\<lparr>ri_log_hdr := (ri_log_hdr r)\<lparr>rlh_seqno := rlh_seqno (ri_log_hdr r) + 1\<rparr>\<rparr>) = Some (0, ri')"
  using assms by (simp add: bind_Some) (metis Pair_inject option.inject)

text \<open>A new log file has two header blocks; the loaded header is the second one.\<close>

context posix_file
begin

lemma initialize_headers_ok:
  assumes "rsbp_setup_initialize_headers io env ri = Some (0, ri')"
    and "env_realtime env div 1000000000 < 2 ^ 64"
  shows "disk_hdr_ok env contents (ri'\<lparr>ri_log_hdr := zero_rlh\<lparr>rlh_magic := RAFT_HEADER_MAGIC, rlh_seqno := 1\<rparr>\<rparr>)"
proof -
  let ?h0 = "zero_rlh\<lparr>rlh_magic := RAFT_HEADER_MAGIC\<rparr>"
  let ?h1 = "?h0\<lparr>rlh_seqno := 1\<rparr>"
  have two: "nat NUM_RAFT_LOG_HEADERS = Suc (Suc 0)"
    by (simp add: NUM_RAFT_LOG_HEADERS_def)
  have "initialize_headers_loop (Suc (Suc 0)) io env (ri\<lparr>ri_log_hdr := ?h0\<rparr>) = Some (0, ri')"
    using assms(1)
    by (simp add: rsbp_setup_initialize_headers_def Let_def two rsbr_get_num_log_headers_def zero_rlh_def
        split: if_splits del: initialize_headers_loop.simps)
  then obtain r1 r2 where w0: "rsbp_header_write io env (ri\<lparr>ri_log_hdr := ?h0\<rparr>) = Some (0, r1)"
    and w1: "rsbp_header_write io env (r1\<lparr>ri_log_hdr := (ri_log_hdr r1)\<lparr>rlh_seqno := rlh_seqno (ri_log_hdr r1) + 1\<rparr>\<rparr>) = Some (0, r2)"
    and r2: "ri_backend_arg ri' = ri_backend_arg r2"
    by (elim initialize_headers_loop_SucE) auto
  have h1: "ri_log_hdr r1 = ?h0"
    using header_write_only [OF w0] by (auto elim!: backend_onlyE)
  have blk: "hdr_block ?h0 = -2" "hdr_block ?h1 = -1"
    by (simp_all add: hdr_block_def zero_rlh_def)
  obtain rip1 where rip1: "ri_backend_arg r1 = Some rip1"
    and s0: "hdr_slot env (contents (rip_fd rip1)) (-2) ?h0"
    using w0 by (rule header_write_slot) (use assms(2) blk in \<open>auto simp: zero_rlh_def\<close>)
  have w1': "rsbp_header_write io env (r1\<lparr>ri_log_hdr := ?h1\<rparr>) = Some (0, r2)"
    using w1 by (simp add: h1 zero_rlh_def)
  obtain rip2 where rip2: "ri_backend_arg r2 = Some rip2"
    and s1: "hdr_slot env (contents (rip_fd rip2)) (-1) ?h1"
    and s0': "hdr_slot env (contents (rip_fd rip2)) (-2) ?h0"
    using w1' by (rule header_write_slot) (use assms(2) blk s0 rip1 in \<open>auto simp: zero_rlh_def\<close>)
  show ?thesis
    unfolding disk_hdr_ok_def
    by (rule exI [of _ rip2], rule exI [of _ ?h0])
      (use rip2 s1 s0' blk r2 in \<open>simp add: zero_rlh_def\<close>)
qed

end

section \<open>Properties\<close>

text \<open>
  C13. The term and the vote survive a crash. While the header blocks are in the state the server
  keeps them in, a write of the next log header that succeeds leaves a file from which a restarted
  server (any instance \<open>ri2\<close> on the same file) loads exactly that header, and the header
  blocks are again in that state.
\<close>

theorem log_header_survives_restart:
  assumes "posix_file io contents" and "disk_hdr_ok env contents ri"
    and "rlh_seqno (ri_log_hdr ri) \<noteq> -1" and "rlh_seqno h = rlh_seqno (ri_log_hdr ri) + 1"
    and "rlh_magic h = RAFT_HEADER_MAGIC" and "- (2 ^ 63) \<le> rlh_term h" and "rlh_term h < 2 ^ 63"
    and "env_realtime env div 1000000000 < 2 ^ 64"
    and "rsbp_header_write io env (ri\<lparr>ri_log_hdr := h\<rparr>) = Some (0, ri')"
    and "ri_backend_arg ri2 = ri_backend_arg ri'" and "posix_ready ri2"
    and "\<And>f n off. 0 \<le> fst (niova_io_pread io f n off)"
  shows "rsbp_header_load io env ri2 = Some (0, ri2\<lparr>ri_log_hdr := h\<rparr>) \<and> disk_hdr_ok env contents ri'"
proof -
  have ok: "disk_hdr_ok env contents ri'"
    using assms(1-9) by (rule posix_file.disk_hdr_write)
  have h: "ri_log_hdr ri' = h"
    using header_write_only [OF assms(9)] by (auto elim!: backend_onlyE)
  show ?thesis
    using posix_file.disk_hdr_load [OF assms(1) ok assms(10,12)] assms(11) ok by (simp add: h posix_ready_def)
qed

text \<open>The state a new log file is left in, on the file in memory.\<close>

lemma healthy_mem_io: "healthy_io mem_io"
  by (simp add: healthy_io_def mem_io_def)

lemma mem_io_read_ok: "0 \<le> fst (niova_io_pread mem_io f n off)"
  by (simp add: mem_io_def)

lemma posix_ready_demo: "posix_ready (demo_ri f)"
  by (simp add: posix_ready_def zero_rlh_def)

lemma new_log_file:
  assumes "posix_ready ri" and "healthy_io io"
  shows "\<exists>rip h. rsbp_setup_initialize_headers io env ri = Some (0, ri\<lparr>ri_backend_arg := Some rip, ri_log_hdr := h\<rparr>)"
proof -
  have two: "nat NUM_RAFT_LOG_HEADERS = Suc (Suc 0)"
    by (simp add: NUM_RAFT_LOG_HEADERS_def)
  let ?r0 = "ri\<lparr>ri_log_hdr := zero_rlh\<lparr>rlh_magic := RAFT_HEADER_MAGIC\<rparr>\<rparr>"
  have r0: "posix_ready ?r0"
    using assms(1) by (simp add: posix_ready_def zero_rlh_def)
  obtain rip where w0: "rsbp_header_write io env ?r0 = Some (0, ?r0\<lparr>ri_backend_arg := Some rip\<rparr>)"
    using header_write_succeeds [OF r0 assms(2)] by blast
  let ?r1 = "ri\<lparr>ri_backend_arg := Some rip, ri_log_hdr := zero_rlh\<lparr>rlh_magic := RAFT_HEADER_MAGIC, rlh_seqno := 1\<rparr>\<rparr>"
  have r1: "posix_ready ?r1"
    using assms(1) by (simp add: posix_ready_def zero_rlh_def)
  obtain rip' where w1: "rsbp_header_write io env ?r1 = Some (0, ?r1\<lparr>ri_backend_arg := Some rip'\<rparr>)"
    using header_write_succeeds [OF r1 assms(2)] by blast
  show ?thesis
    using assms(1) w0 w1
    by (auto simp: rsbp_setup_initialize_headers_def Let_def two rsbr_get_num_log_headers_def posix_ready_def zero_rlh_def)
qed

theorem log_header_survives_restart_witness:
  "\<exists>ri ri'. disk_hdr_ok demo_base (\<lambda>f. f) ri \<and>
     rsbp_header_write mem_io demo_base (ri\<lparr>ri_log_hdr := zero_rlh\<lparr>rlh_magic := RAFT_HEADER_MAGIC,
       rlh_seqno := 2, rlh_term := 1, rlh_voted_for := 2\<rparr>\<rparr>) = Some (0, ri') \<and>
     rsbp_header_load mem_io demo_base (demo_ri []\<lparr>ri_backend_arg := ri_backend_arg ri'\<rparr>) =
       Some (0, demo_ri []\<lparr>ri_backend_arg := ri_backend_arg ri', ri_log_hdr := zero_rlh\<lparr>rlh_magic := RAFT_HEADER_MAGIC,
       rlh_seqno := 2, rlh_term := 1, rlh_voted_for := 2\<rparr>\<rparr>)"
proof -
  obtain rip h where i: "rsbp_setup_initialize_headers mem_io demo_base (demo_ri [])
      = Some (0, demo_ri []\<lparr>ri_backend_arg := Some rip, ri_log_hdr := h\<rparr>)"
    using new_log_file [OF posix_ready_demo healthy_mem_io] by blast
  let ?ri = "demo_ri []\<lparr>ri_backend_arg := Some rip, ri_log_hdr := zero_rlh\<lparr>rlh_magic := RAFT_HEADER_MAGIC, rlh_seqno := 1\<rparr>\<rparr>"
  let ?h = "zero_rlh\<lparr>rlh_magic := RAFT_HEADER_MAGIC, rlh_seqno := 2, rlh_term := 1, rlh_voted_for := 2\<rparr>"
  have ok: "disk_hdr_ok demo_base (\<lambda>f. f) ?ri"
    using mem.initialize_headers_ok [OF i] by simp
  have "posix_ready (?ri\<lparr>ri_log_hdr := ?h\<rparr>)"
    by (simp add: posix_ready_def zero_rlh_def)
  then obtain rip' where w: "rsbp_header_write mem_io demo_base (?ri\<lparr>ri_log_hdr := ?h\<rparr>)
      = Some (0, ?ri\<lparr>ri_log_hdr := ?h\<rparr>\<lparr>ri_backend_arg := Some rip'\<rparr>)"
    using header_write_succeeds [OF _ healthy_mem_io] by blast
  let ?r2 = "demo_ri []\<lparr>ri_backend_arg := Some rip'\<rparr>"
  have "rsbp_header_load mem_io demo_base ?r2 = Some (0, ?r2\<lparr>ri_log_hdr := ?h\<rparr>)"
    using log_header_survives_restart [OF mem.posix_file_axioms ok _ _ _ _ _ _ w, of ?r2] mem_io_read_ok
    by (simp add: zero_rlh_def posix_ready_def)
  then show ?thesis
    using ok w by (intro exI [of _ ?ri] exI) auto
qed

text \<open>The abstract log: the set of entries the file holds.\<close>

definition stored_log :: "('f \<Rightarrow> u8 list) \<Rightarrow> 'f posix_instance \<Rightarrow> raft_entry set" where
  "stored_log contents ri = {re. posix_holds contents (ri_backend_arg ri) re}"

abbreviation entry_idx :: "raft_entry \<Rightarrow> raft_entry_idx_t" where
  "entry_idx re \<equiv> reh_index (re_header re)"


text \<open>An entry with no data fits any log.\<close>

definition demo_entry :: "raft_entry_idx_t \<Rightarrow> raft_entry" where
  "demo_entry i = \<lparr>re_header = null_reh\<lparr>reh_magic := RAFT_ENTRY_MAGIC, reh_index := i, reh_term := 1,
     reh_self_uuid := 1, reh_raft_uuid := 100\<rparr>, re_data = []\<rparr>"

lemma demo_entry_storable: "0 \<le> i \<Longrightarrow> i < 2 ^ 63 \<Longrightarrow> posix_storable (demo_entry i)"
  by (simp add: posix_storable_def demo_entry_def re_fits_def reh_fits_def null_reh_def
      raft_server_entry_to_total_size_def RAFT_ENTRY_HEADER_RESERVE_def RAFT_ENTRY_SIZE_POSIX_def)

lemma entry_write_succeeds:
  assumes "posix_ready ri" and "healthy_io io" and "posix_storable re"
  shows "\<exists>rip. rsbp_entry_write io ri re ws = Some (ri\<lparr>ri_backend_arg := Some rip\<rparr>)"
proof -
  obtain rip where rip: "ri_backend_arg ri = Some rip"
    using assms(1) by (auto simp: posix_ready_def)
  have "length (encode_re re) = raft_server_entry_to_total_size re" "0 \<le> entry_idx re"
    using assms(3) by (simp_all add: posix_storable_def length_encode_re)
  then show ?thesis
    using assms(1,2) rip
    by (auto simp: rsbp_entry_write_def rsbp_ri_to_rip_def posix_ready_def healthy_io_def
        rsbr_get_num_log_headers_def NUM_RAFT_LOG_HEADERS_def Let_def case_prod_beta
        rsbr_raft_entry_to_phys_offset_def rsbr_raft_entry_header_to_phys_idx_def
        rsbr_entry_idx_to_phys_idx_def set_fd_def)
qed


text \<open>Reading a stored entry and its header back, on a disk whose reads do not fail.\<close>

lemma posix_phys_offset:
  assumes "posix_ready ri" and "0 \<le> reh_index h"
  shows "rsbr_raft_entry_header_to_phys_offset ri h = Some (block_off (reh_index h))"
  using assms
  by (simp add: rsbr_raft_entry_header_to_phys_offset_def rsbr_raft_entry_header_to_phys_idx_def
      rsbr_entry_idx_to_phys_idx_def rsbr_get_num_log_headers_def posix_ready_def block_off_def
      NUM_RAFT_LOG_HEADERS_def)

lemma pread_stored:
  assumes "posix_file io contents" and "\<And>f n off. 0 \<le> fst (niova_io_pread io f n off)"
  shows "niova_io_pread io f n off = (int (length (bytes_at off n (contents f))), bytes_at off n (contents f))"
  using posix_file.pread_ok [OF assms(1), of f n off] assms(2) [of f n off] by (metis prod.collapse)

lemma stored_bytes:
  assumes "posix_holds contents (Some rip) re"
  shows "bytes_at (block_off (entry_idx re)) (raft_server_entry_to_total_size re) (contents (rip_fd rip)) = encode_re re"
    and "bytes_at (block_off (entry_idx re)) RAFT_ENTRY_HEADER_RESERVE (contents (rip_fd rip)) = encode_reh (re_header re)"
    and "length (encode_re re) = raft_server_entry_to_total_size re"
    and "length (encode_reh (re_header re)) = RAFT_ENTRY_HEADER_RESERVE"
    and "reh_fits (re_header re)" and "0 \<le> entry_idx re"
proof -
  show enc: "bytes_at (block_off (entry_idx re)) (raft_server_entry_to_total_size re) (contents (rip_fd rip)) = encode_re re"
    and fits: "reh_fits (re_header re)" and "0 \<le> entry_idx re"
    and "length (encode_re re) = raft_server_entry_to_total_size re"
    using assms by (simp_all add: posix_holds_def posix_storable_def re_fits_def length_encode_re)
  show len: "length (encode_reh (re_header re)) = RAFT_ENTRY_HEADER_RESERVE"
    using fits by (simp add: reh_fits_def)
  have "bytes_at (block_off (entry_idx re)) RAFT_ENTRY_HEADER_RESERVE (contents (rip_fd rip)) =
      take RAFT_ENTRY_HEADER_RESERVE (encode_re re)"
    unfolding enc [symmetric] by (simp add: bytes_at_def raft_server_entry_to_total_size_def min_def)
  then show "bytes_at (block_off (entry_idx re)) RAFT_ENTRY_HEADER_RESERVE (contents (rip_fd rip)) = encode_reh (re_header re)"
    by (simp add: encode_re_def len)
qed

lemma header_read_succeeds:
  assumes "posix_file io contents" and "\<And>f n off. 0 \<le> fst (niova_io_pread io f n off)"
    and "posix_ready ri" and "posix_holds contents (ri_backend_arg ri) re" and "reh_index h = entry_idx re"
    and "length (reh_entry_sz h) = RAFT_ENTRY_NUM_ENTRIES"
  shows "rsbp_entry_header_read io ri h = Some (0, re_header re)"
proof -
  obtain rip where rip: "ri_backend_arg ri = Some rip"
    using assms(3) by (auto simp: posix_ready_def)
  note st = stored_bytes [OF assms(4) [unfolded rip]]
  show ?thesis
    using posix_phys_offset [OF assms(3), of h] pread_stored [OF assms(1,2)] assms(5) st decode_encode_reh [OF st(5)]
    by (simp add: rsbp_entry_header_read_def rsbp_read_common_def rsbp_ri_to_rip_def Let_def decode_re_def rip)
qed

lemma entry_read_succeeds:
  assumes "posix_file io contents" and "\<And>f n off. 0 \<le> fst (niova_io_pread io f n off)"
    and "posix_ready ri" and "posix_holds contents (ri_backend_arg ri) re" and "entry_idx buf = entry_idx re"
    and "length (reh_entry_sz (re_header buf)) = RAFT_ENTRY_NUM_ENTRIES"
    and "reh_data_size (re_header buf) = reh_data_size (re_header re)"
    and "length (re_data buf) = unat (reh_data_size (re_header re))"
  shows "rsbp_entry_read io ri buf = Some (int (raft_server_entry_to_total_size re), re)"
proof -
  obtain rip where rip: "ri_backend_arg ri = Some rip"
    using assms(3) by (auto simp: posix_ready_def)
  note st = stored_bytes [OF assms(4) [unfolded rip]]
  have "raft_server_entry_to_total_size buf = raft_server_entry_to_total_size re"
    "length (encode_re buf) = raft_server_entry_to_total_size re"
    using assms(6-8) by (simp_all add: raft_server_entry_to_total_size_def encode_re_def)
  then show ?thesis
    using posix_phys_offset [OF assms(3), of "re_header buf"] pread_stored [OF assms(1,2)] assms(5) st
      decode_encode_re [OF st(5)]
    by (simp add: rsbp_entry_read_def rsbp_read_common_def rsbp_ri_to_rip_def Let_def rip)
qed

text \<open>
  C12. Write and read. On a disk that works, an entry that fits a block is written without abort,
  and then its header and, given its size, the entry itself are read back, the data included.
\<close>

theorem entry_write_read_roundtrip:
  assumes "posix_file io contents" and "healthy_io io" and "posix_ready ri" and "posix_storable re"
    and "\<And>f n off. 0 \<le> fst (niova_io_pread io f n off)"
    and "reh_index h = entry_idx re" and "entry_idx buf = entry_idx re"
    and "length (reh_entry_sz h) = RAFT_ENTRY_NUM_ENTRIES" and "length (reh_entry_sz (re_header buf)) = RAFT_ENTRY_NUM_ENTRIES"
    and "reh_data_size (re_header buf) = reh_data_size (re_header re)"
    and "length (re_data buf) = unat (reh_data_size (re_header re))"
  shows "\<exists>ri'. rsbp_entry_write io ri re ws = Some ri' \<and>
    rsbp_entry_header_read io ri' h = Some (0, re_header re) \<and>
    rsbp_entry_read io ri' buf = Some (int (raft_server_entry_to_total_size re), re)"
proof -
  obtain rip where w: "rsbp_entry_write io ri re ws = Some (ri\<lparr>ri_backend_arg := Some rip\<rparr>)" (is "_ = Some ?r")
    using entry_write_succeeds [OF assms(3,2,4)] by blast
  have "posix_holds contents (ri_backend_arg ?r) re" "posix_ready ?r"
    using posix_file.posix_write_holds [OF assms(1) w assms(4)] assms(3) by (simp_all add: posix_ready_def)
  then show ?thesis
    using w header_read_succeeds [OF assms(1,5), of ?r re h] entry_read_succeeds [OF assms(1,5), of ?r re buf]
      assms(6-11) by blast
qed

theorem entry_write_read_roundtrip_witness:
  "\<exists>ri'. rsbp_entry_write mem_io (demo_ri []) (demo_entry 5) None = Some ri' \<and>
     rsbp_entry_header_read mem_io ri' (zero_reh\<lparr>reh_index := 5\<rparr>) = Some (0, re_header (demo_entry 5)) \<and>
     rsbp_entry_read mem_io ri' \<lparr>re_header = zero_reh\<lparr>reh_index := 5\<rparr>, re_data = []\<rparr>
       = Some (int (raft_server_entry_to_total_size (demo_entry 5)), demo_entry 5)"
  by (rule entry_write_read_roundtrip [OF mem.posix_file_axioms healthy_mem_io posix_ready_demo])
    (simp_all add: demo_entry_storable mem_io_read_ok, simp_all add: demo_entry_def zero_reh_def null_reh_def)

context posix_file
begin

lemmas append_stored = log.entry_write_holds [OF _ _ _ _ TrueI]

end

section \<open>Appending on a disk that works\<close>

lemma entry_init_storable:
  assumes "raft_server_entry_init env ri i t data sizes n opts = Some re"
    and "ri_max_entry_size ri = RAFT_ENTRY_SIZE_POSIX" and "0 \<le> i" and "i < 2 ^ 63" and "- (2 ^ 63) \<le> t" and "t < 2 ^ 63"
    and "env_realtime env div 1000000000 < 2 ^ 64"
  shows "posix_storable re"
proof -
  have time: "reh_store_time (re_header re) = env_realtime env"
    using assms(1) by (auto simp: raft_server_entry_init_def Let_def bind_Some split: if_splits)
  show ?thesis
    using entry_init_fields [OF assms(1)] entry_init_data_length [OF assms(1)]
      entry_init_entry_sz_length [OF assms(1)] assms(2-7)
    by (auto simp: posix_storable_def re_fits_def reh_fits_def time posix_ready_def
        raft_server_entry_to_total_size_def RAFT_ENTRY_MAX_DATA_SIZE_def RAFT_ENTRY_SIZE_POSIX_def
        RAFT_ENTRY_HEADER_RESERVE_def)
qed

text \<open>
  On a disk that works, the next entry of a term not older than the newest entry is appended
  without failure or abort.
\<close>

lemma entry_append_ok:
  assumes "posix_ready ri" and "healthy_io io" and "newest_hdrs_ok ri" and "\<not> raft_instance_is_client ri"
    and "raft_server_entry_init (raft_server_backend_use_posix io env) ri i t data sizes n opts = Some re"
    and "posix_storable re" and "opts = RAFT_WR_ENTRY_OPT_LEADER_CHANGE_MARKER \<or> data \<noteq> None"
    and "i = reh_index (ri_newest_entry_hdr ri RI_NEHDR_UNSYNC) + 1"
    and "reh_term (ri_newest_entry_hdr ri RI_NEHDR_UNSYNC) \<le> t"
  shows "\<exists>rip. raft_server_entry_write (raft_server_backend_use_posix io env) i t data sizes n opts ws ri
     = Some (0, ri\<lparr>ri_backend_arg := Some rip,
         ri_newest_entry_hdr := (if ri_synchronous_writes ri then (\<lambda>_. re_header re)
           else (ri_newest_entry_hdr ri)(RI_NEHDR_UNSYNC := re_header re))\<rparr>)"
proof -
  note f = entry_init_fields [OF assms(5)]
  obtain rip where w: "rsbp_entry_write io ri re ws = Some (ri\<lparr>ri_backend_arg := Some rip\<rparr>)"
    using entry_write_succeeds [OF assms(1,2,6)] by blast
  have idx: "0 \<le> i" and s: "reh_index (ri_newest_entry_hdr ri RI_NEHDR_SYNC) < i"
    and ok: "hdr_ok (ri_newest_entry_hdr ri RI_NEHDR_SYNC)"
    using assms(3,8) f(1) assms(6) by (auto simp: newest_hdrs_ok_def Let_def posix_storable_def)
  have eq: "h(RI_NEHDR_SYNC := x, RI_NEHDR_UNSYNC := x) = (\<lambda>_. x)" for h and x :: raft_entry_header
    by (rule ext) (metis fun_upd_other fun_upd_same newest_slot.exhaust)
  show ?thesis
    using assms(3,4,5,7-9) f w idx s current_idx_ok [OF ok assms(4)]
    by (auto simp: raft_server_entry_write_def raft_server_entry_next_entry_is_valid_def Let_def
        raft_server_entry_write_by_store_def ribPosix_def raft_instance_get_newest_header_def
        raft_instance_update_newest_entry_hdr_def update_newest_slot_def raft_server_does_synchronous_writes_def
        raft_server_has_unsynced_entries_def newest_hdrs_ok_def eq raft_instance_is_client_def)
qed


definition demo_marker :: raft_entry where
  "demo_marker = the (raft_server_entry_init (demo_env mem_io) (demo_ri []) 0 1 None [0] 1
     RAFT_WR_ENTRY_OPT_LEADER_CHANGE_MARKER)"

lemma demo_marker_init:
  "raft_server_entry_init (demo_env mem_io) (demo_ri []) 0 1 None [0] 1
     RAFT_WR_ENTRY_OPT_LEADER_CHANGE_MARKER = Some demo_marker"
  by (simp add: demo_marker_def raft_server_entry_init_def raft_server_wr_entries_get_total_size_def Let_def
      raft_server_entry_calc_crc_def)

lemma demo_marker_storable: "posix_storable demo_marker"
  using demo_marker_init by (rule entry_init_storable) simp_all


end
