(* ===== verification/Raft_Election.thy ===== *)
theory Raft_Election
  imports Raft_Log Raft_Net Raft_Disk
begin

text \<open>
  Elections (\<open>raft_server.c\<close>): candidate state and vote counting, the self vote, becoming
  candidate, follower and leader, and the handlers of vote requests and vote replies.
\<close>

section \<open>Candidate state\<close>

definition raft_server_candidate_count_votes ::
  "'b raft_env \<Rightarrow> 'b raft_instance \<Rightarrow> raft_vote_result \<Rightarrow> nat option" where
  "raft_server_candidate_count_votes env ri result = do {
     npeers \<leftarrow> raft_num_members_validate_and_get env ri;
     Some (length (filter (\<lambda>r. r = result) (take npeers (rcs_results (ri_candidate ri))))) }"

definition raft_server_init_candidate_state ::
  "'b raft_env \<Rightarrow> bool \<Rightarrow> 'b raft_instance \<Rightarrow> 'b raft_instance" where
  "raft_server_init_candidate_state env prevote ri = ri
     \<lparr>ri_state := (if prevote then RAFT_STATE_CANDIDATE_PREVOTE else RAFT_STATE_CANDIDATE),
      ri_candidate :=
        \<lparr>rcs_term = rlh_term (ri_log_hdr ri) + 1,
         rcs_prevote = prevote,
         rcs_results = replicate (env_max_raft_peers env) RAFT_VOTE_RESULT_UNKNOWN\<rparr>\<rparr>"

definition raft_server_candidate_is_viable :: "'b raft_instance \<Rightarrow> bool" where
  "raft_server_candidate_is_viable ri \<longleftrightarrow>
     (raft_instance_is_candidate ri \<and> rcs_term (ri_candidate ri) = rlh_term (ri_log_hdr ri)) \<or>
     (raft_instance_is_candidate_prevote ri \<and>
      rcs_term (ri_candidate ri) = rlh_term (ri_log_hdr ri) + 1)"

definition raft_server_candidate_can_become_leader ::
  "'b raft_env \<Rightarrow> 'b raft_instance \<Rightarrow> bool option" where
  "raft_server_candidate_can_become_leader env ri =
     (if \<not> raft_server_candidate_is_viable ri then Some False
      else do {
        num_yes_votes \<leftarrow> raft_server_candidate_count_votes env ri RAFT_VOTE_RESULT_YES;
        let npeers_majority = num_members ri div 2 + 1;
        Some (npeers_majority \<le> num_yes_votes) })"

definition raft_server_prevote_candidate_can_become_candidate ::
  "'b raft_env \<Rightarrow> 'b raft_instance \<Rightarrow> bool option" where
  "raft_server_prevote_candidate_can_become_candidate env ri =
     (if \<not> raft_server_candidate_is_viable ri then Some False
      else do {
        num_yes_votes \<leftarrow> raft_server_candidate_count_votes env ri RAFT_PRE_VOTE_RESULT_YES;
        let npeers_majority = num_members ri div 2 + 1;
        Some (npeers_majority \<le> num_yes_votes) })"

definition raft_server_candidate_reg_vote_result ::
  "uuid \<Rightarrow> raft_vote_result \<Rightarrow> 'b raft_instance \<Rightarrow> (int \<times> 'b raft_instance) option" where
  "raft_server_candidate_reg_vote_result voter result ri =
     (if result = RAFT_VOTE_RESULT_UNKNOWN then Some (- EINVAL, ri)
      else if \<not> (raft_instance_is_candidate_prevote ri \<or> raft_instance_is_candidate ri)
      then Some (- EPERM, ri)
      else let prevote = raft_instance_is_candidate_prevote ri in
        if (prevote \<and> result \<noteq> RAFT_PRE_VOTE_RESULT_YES \<and> result \<noteq> RAFT_PRE_VOTE_RESULT_NO) \<or>
           (\<not> prevote \<and> result \<noteq> RAFT_VOTE_RESULT_YES \<and> result \<noteq> RAFT_VOTE_RESULT_NO)
        then Some (- EINVAL, ri)
        else case raft_peer_2_idx ri voter of
            None \<Rightarrow> Some (- ERANGE, ri)
          | Some peer_idx \<Rightarrow> do {
              let rcs = ri_candidate ri;
              let expected_term = rlh_term (ri_log_hdr ri) + (if prevote then 1 else 0);
              FATAL_IF (rcs_term rcs \<noteq> expected_term);
              Some (0, ri\<lparr>ri_candidate := rcs\<lparr>rcs_results := (rcs_results rcs)[peer_idx := result]\<rparr>\<rparr>) })"

section \<open>Becoming a candidate\<close>

text \<open>
  \<open>raft_server_vote_for_self\<close> calls \<open>raft_server_become_candidate\<close> back when the fault
  \<open>raft_pvc_becomes_candidate\<close> is injected; \<open>promote\<close> is that call.
\<close>

definition raft_server_vote_for_self ::
  "'b raft_env \<Rightarrow> ('b raft_instance \<Rightarrow> 'b raft_instance option) \<Rightarrow> 'b raft_instance
     \<Rightarrow> (int \<times> 'b raft_instance) option" where
  "raft_server_vote_for_self env promote ri =
     (if \<not> (raft_instance_is_candidate_prevote ri \<or> raft_instance_is_candidate ri)
      then Some (- EPERM, ri)
      else do {
        (wrc, ri) \<leftarrow> (if raft_instance_is_candidate ri
           then raft_server_log_header_write env (ri_csn_this_peer ri)
                  (rlh_term (ri_log_hdr ri) + 1) ri
           else Some (0, ri));
        if wrc \<noteq> 0 then Some (wrc, ri)
        else do {
          let yes_vote = (if raft_instance_is_candidate ri then RAFT_VOTE_RESULT_YES
                          else RAFT_PRE_VOTE_RESULT_YES);
          (rc, ri) \<leftarrow> raft_server_candidate_reg_vote_result (ri_csn_this_peer ri) yes_vote ri;
          if env_fault env raft_pvc_becomes_candidate
          then do { ri \<leftarrow> promote ri; Some (0, ri) }
          else Some (rc, ri) } })"

text \<open>
  The recursion through the injected fault ends by itself: a second promotion starts in state
  \<open>CANDIDATE\<close> and the assertion that it comes from the pre-vote state aborts. The depth
  counts the calls that are still allowed; the top call allows two nested ones.
\<close>

primrec become_candidate_depth ::
  "nat \<Rightarrow> 'b raft_env \<Rightarrow> bool \<Rightarrow> 'b raft_instance \<Rightarrow> 'b raft_instance option" where
  "become_candidate_depth 0 env prevote ri = None"
| "become_candidate_depth (Suc n) env prevote ri = do {
     let ri = ri\<lparr>ri_csn_leader := None\<rparr>;
     NIOVA_ASSERT (prevote \<or> raft_instance_is_candidate_prevote ri);
     if env_fault env raft_candidate_state_disabled then Some ri
     else do {
       let ri = raft_server_init_candidate_state env prevote ri;
       let proposed_term = rlh_term (ri_log_hdr ri) + 1;
       (rc, ri) \<leftarrow> raft_server_vote_for_self env (become_candidate_depth n env False) ri;
       FATAL_IF (rc \<noteq> 0);
       let sync_hdr = newest_header ri RI_NEHDR_SYNC;
       let vreq = \<lparr>rvrqm_proposed_term = proposed_term,
                   rvrqm_last_log_term = reh_term sync_hdr,
                   rvrqm_last_log_index = reh_index sync_hdr\<rparr>;
       let rrm = raft_server_set_uuids_in_rpc_msg ri
                   (if prevote then PRE_VOTE_REQUEST vreq else VOTE_REQUEST vreq);
       ri \<leftarrow> (if prevote then Some ri else raft_server_timerfd_settime env ri);
       ri \<leftarrow> raft_server_broadcast_msg env rrm ri;
       Some (if prevote \<and> env_has_init_cb env
             then emit (Eff_init_cb RAFT_INIT_BECOMING_CANDIDATE_STATE) ri else ri) } }"

definition raft_server_become_candidate ::
  "'b raft_env \<Rightarrow> bool \<Rightarrow> 'b raft_instance \<Rightarrow> 'b raft_instance option" where
  "raft_server_become_candidate env prevote ri = become_candidate_depth 3 env prevote ri"

section \<open>Becoming a follower\<close>

definition raft_server_update_log_header ::
  "'b raft_env \<Rightarrow> term_t \<Rightarrow> uuid \<Rightarrow> 'b raft_instance \<Rightarrow> 'b raft_instance option" where
  "raft_server_update_log_header env new_term peer_with_newer_term ri = do {
     NIOVA_ASSERT (rlh_term (ri_log_hdr ri) < new_term);
     (rc, ri) \<leftarrow> raft_server_log_header_write env peer_with_newer_term new_term ri;
     FATAL_IF (rc \<noteq> 0);
     Some ri }"

definition raft_server_try_update_log_header_null_voted_for_peer ::
  "'b raft_env \<Rightarrow> term_t \<Rightarrow> 'b raft_instance \<Rightarrow> 'b raft_instance option" where
  "raft_server_try_update_log_header_null_voted_for_peer env new_term ri =
     (if rlh_term (ri_log_hdr ri) < new_term
      then raft_server_update_log_header env new_term null_uuid ri
      else Some ri)"

definition raft_server_set_leader_csn :: "uuid \<Rightarrow> 'b raft_instance \<Rightarrow> 'b raft_instance" where
  "raft_server_set_leader_csn leader ri =
     (if ri_csn_leader ri \<noteq> Some leader then ri\<lparr>ri_csn_leader := Some leader\<rparr> else ri)"

definition raft_net_sm_write_supplement_destroy ::
  "raft_net_sm_write_supplements \<Rightarrow> raft_net_sm_write_supplements" where
  "raft_net_sm_write_supplement_destroy ws =
     (if rnsws_ws ws = [] then ws
      else \<lparr>rnsws_ws = [], rnsws_kv_crc = 0, rnsws_kv_crc_enabled = False\<rparr>)"

definition raft_server_becomes_follower ::
  "'b raft_env \<Rightarrow> term_t \<Rightarrow> uuid \<Rightarrow> raft_follower_reasons \<Rightarrow> 'b raft_instance
     \<Rightarrow> 'b raft_instance option" where
  "raft_server_becomes_follower env new_term peer_with_newer_term reason ri = do {
     suggested_leader \<leftarrow> raft_peer_uuid_to_csn env ri peer_with_newer_term;
     case suggested_leader of
       None \<Rightarrow> Some ri
     | Some leader \<Rightarrow>
         if leader = ri_csn_this_peer ri then Some ri
         else do {
           let ri = ri\<lparr>ri_state := RAFT_STATE_FOLLOWER, ri_follower_reason := reason\<rparr>;
           let ri = ri\<lparr>ri_coalesced_wr := (ri_coalesced_wr ri)
                \<lparr>rcwi_ws := raft_net_sm_write_supplement_destroy (rcwi_ws (ri_coalesced_wr ri))\<rparr>\<rparr>;
           NIOVA_ASSERT (if reason = RAFT_BFRSN_STALE_TERM_WHILE_CANDIDATE
                         then rlh_term (ri_log_hdr ri) \<le> new_term
                         else rlh_term (ri_log_hdr ri) < new_term);
           let ri = raft_server_set_leader_csn leader ri;
           if new_term = rlh_term (ri_log_hdr ri) then Some ri
           else raft_server_update_log_header env new_term
                  (if reason = RAFT_BFRSN_VOTED_FOR_PEER then peer_with_newer_term else null_uuid) ri } }"

section \<open>Becoming the leader\<close>

definition raft_leader_has_applied_txn_in_my_term :: "'b raft_instance \<Rightarrow> bool option" where
  "raft_leader_has_applied_txn_in_my_term ri =
     (if raft_instance_is_leader ri
      then do {
        FATAL_IF (rls_leader_term (ri_leader ri) \<noteq> rlh_term (ri_log_hdr ri));
        Some (rls_initial_term_idx (ri_leader ri) < rla_idx (ri_last_applied ri)) }
      else Some False)"

definition raft_server_update_follower_last_ack ::
  "'b raft_env \<Rightarrow> raft_follower_info \<Rightarrow> raft_follower_info" where
  "raft_server_update_follower_last_ack env rfi = rfi\<lparr>rfi_last_ack := env_realtime env\<rparr>"

definition zero_rfi :: raft_follower_info where
  "zero_rfi = \<lparr>rfi_next_idx = 0, rfi_ackd_idx = 0, rfi_synced_idx = 0, rfi_current_idx_term = 0,
     rfi_current_idx_crc = 0, rfi_prev_idx_term = 0, rfi_prev_idx_crc = 0, rfi_last_ack = 0,
     rfi_ae_sends_wait_until = 0\<rparr>"

text \<open>The follower slot of member \<open>i\<close> after both loops.\<close>

definition leader_init_rfi ::
  "'b raft_env \<Rightarrow> 'b raft_instance \<Rightarrow> raft_entry_header \<Rightarrow> nat \<Rightarrow> raft_follower_info" where
  "leader_init_rfi env ri sync_hdr i =
     (if i < num_members ri
      then let rfi = (if rcs_results (ri_candidate ri) ! i = RAFT_VOTE_RESULT_YES \<or>
                         rcs_results (ri_candidate ri) ! i = RAFT_VOTE_RESULT_NO
                      then raft_server_update_follower_last_ack env zero_rfi else zero_rfi)
        in rfi\<lparr>rfi_next_idx := reh_index sync_hdr + 1,
               rfi_prev_idx_term := reh_term sync_hdr,
               rfi_prev_idx_crc := reh_crc sync_hdr,
               rfi_current_idx_term := -1,
               rfi_current_idx_crc := 0,
               rfi_synced_idx := RAFT_MIN_APPEND_ENTRY_IDX,
               rfi_ackd_idx := RAFT_MIN_APPEND_ENTRY_IDX\<rparr>
      else zero_rfi)"

definition raft_server_leader_init_state :: "'b raft_env \<Rightarrow> 'b raft_instance \<Rightarrow> 'b raft_instance option" where
  "raft_server_leader_init_state env ri = do {
     let sync_hdr = newest_header ri RI_NEHDR_SYNC;
     unsynced \<leftarrow> raft_server_has_unsynced_entries ri;
     FATAL_IF unsynced;
     num_raft_peers \<leftarrow> raft_num_members_validate_and_get env ri;
     Some (ri
       \<lparr>ri_state := RAFT_STATE_LEADER,
        ri_leader :=
          \<lparr>rls_initial_term_idx = reh_index sync_hdr,
           rls_leader_term = rlh_term (ri_log_hdr ri),
           rls_quorum_ok_cnt = 0,
           rls_leader_start = env_unstable env,
           rls_leader_accumulated = 0,
           rls_rfi = map (leader_init_rfi env ri sync_hdr) [0..<env_max_raft_peers env]\<rparr>\<rparr>) }"

definition raft_server_write_next_entry ::
  "'b raft_env \<Rightarrow> term_t \<Rightarrow> u8 list option \<Rightarrow> u32 list \<Rightarrow> u32 \<Rightarrow> raft_write_entry_opts
     \<Rightarrow> raft_net_sm_write_supplements option \<Rightarrow> 'b raft_instance \<Rightarrow> 'b raft_instance option" where
  "raft_server_write_next_entry env term data wr_entry_sizes nentries opts ws ri = do {
     let unsync_hdr = newest_header ri RI_NEHDR_UNSYNC;
     NIOVA_ASSERT (reh_term unsync_hdr \<le> term);
     let next_entry_idx = reh_index unsync_hdr + 1;
     FATAL_IF (next_entry_idx < 0);
     (rc, ri) \<leftarrow> raft_server_entry_write env next_entry_idx term data wr_entry_sizes nentries opts ws ri;
     FATAL_IF (rc \<noteq> 0);
     Some ri }"

text \<open>\<open>opts & RAFT_WR_ENTRY_OPT_LEADER_CHANGE_MARKER\<close> on the numeric values 0 to 3.\<close>

definition opts_has_leader_change_marker :: "raft_write_entry_opts \<Rightarrow> bool" where
  "opts_has_leader_change_marker opts \<longleftrightarrow>
     opts = RAFT_WR_ENTRY_OPT_LEADER_CHANGE_MARKER \<or> opts = RAFT_WR_ENTRY_OPT_FOLLOWER_WRITE"

definition raft_server_leader_write_new_entry ::
  "'b raft_env \<Rightarrow> u8 list option \<Rightarrow> u32 list \<Rightarrow> u32 \<Rightarrow> raft_write_entry_opts
     \<Rightarrow> raft_net_sm_write_supplements option \<Rightarrow> 'b raft_instance \<Rightarrow> 'b raft_instance option" where
  "raft_server_leader_write_new_entry env data wr_entry_sizes nentries opts ws ri = do {
     NIOVA_ASSERT (raft_instance_is_leader ri);
     NIOVA_ASSERT (\<not> opts_has_leader_change_marker opts \<or> nentries = 1);
     ri \<leftarrow> raft_server_write_next_entry env (rlh_term (ri_log_hdr ri)) data wr_entry_sizes
            nentries opts ws ri;
     Some (emit (Eff_notify RAFT_EVP_REMOTE_SEND) ri) }"

definition raft_server_write_leader_change_marker ::
  "'b raft_env \<Rightarrow> 'b raft_instance \<Rightarrow> 'b raft_instance option" where
  "raft_server_write_leader_change_marker env ri = do {
     NIOVA_ASSERT (raft_instance_is_leader ri);
     raft_server_leader_write_new_entry env None [0] 1 RAFT_WR_ENTRY_OPT_LEADER_CHANGE_MARKER None ri }"

definition raft_server_candidate_becomes_leader ::
  "'b raft_env \<Rightarrow> 'b raft_instance \<Rightarrow> 'b raft_instance option" where
  "raft_server_candidate_becomes_leader env ri = do {
     FATAL_IF (\<not> raft_server_candidate_is_viable ri);
     ri \<leftarrow> raft_server_leader_init_state env ri;
     ri \<leftarrow> raft_server_timerfd_settime env ri;
     ri \<leftarrow> raft_server_write_leader_change_marker env ri;
     let ri = raft_server_set_leader_csn (ri_csn_this_peer ri) ri;
     Some (if env_has_init_cb env then emit (Eff_init_cb RAFT_INIT_BECOMING_LEADER_STATE) ri else ri) }"

section \<open>Vote replies\<close>

definition raft_server_process_vote_reply_common ::
  "'b raft_env \<Rightarrow> uuid \<Rightarrow> bool \<Rightarrow> raft_vote_reply_msg \<Rightarrow> 'b raft_instance
     \<Rightarrow> 'b raft_instance option" where
  "raft_server_process_vote_reply_common env sender prevote vreply ri =
     (if prevote \<noteq> raft_instance_is_candidate_prevote ri \<and>
         (\<not> prevote) \<noteq> raft_instance_is_candidate ri
      then Some ri
      else do {
        let result = (if rvrpm_voted_granted vreply
               then (if prevote then RAFT_PRE_VOTE_RESULT_YES else RAFT_VOTE_RESULT_YES)
               else (if prevote then RAFT_PRE_VOTE_RESULT_NO else RAFT_VOTE_RESULT_NO));
        (rc, ri) \<leftarrow> raft_server_candidate_reg_vote_result sender result ri;
        if rc \<noteq> 0 then Some ri
        else case result of
            RAFT_PRE_VOTE_RESULT_YES \<Rightarrow> do {
              ok \<leftarrow> raft_server_prevote_candidate_can_become_candidate env ri;
              if ok then raft_server_become_candidate env False ri else Some ri }
          | RAFT_PRE_VOTE_RESULT_NO \<Rightarrow> Some ri
          | RAFT_VOTE_RESULT_YES \<Rightarrow> do {
              ok \<leftarrow> raft_server_candidate_can_become_leader env ri;
              if ok then raft_server_candidate_becomes_leader env ri else Some ri }
          | RAFT_VOTE_RESULT_NO \<Rightarrow>
              (if rlh_term (ri_log_hdr ri) < rvrpm_term vreply
               then raft_server_becomes_follower env (rvrpm_term vreply)
                      (rvrpm_current_leader vreply) RAFT_BFRSN_STALE_TERM_WHILE_CANDIDATE ri
               else Some ri)
          | RAFT_VOTE_RESULT_UNKNOWN \<Rightarrow> None })"

section \<open>Vote requests\<close>

definition raft_server_process_vote_request_decide ::
  "'b raft_instance \<Rightarrow> raft_vote_request_msg \<Rightarrow> raft_entry_header \<Rightarrow> bool" where
  "raft_server_process_vote_request_decide ri vreq cmp_hdr \<longleftrightarrow>
     \<not> (rvrqm_proposed_term vreq \<le> rlh_term (ri_log_hdr ri) \<or>
        rvrqm_last_log_term vreq < reh_term cmp_hdr \<or>
        rvrqm_last_log_index vreq < reh_index cmp_hdr)"

definition raft_server_process_pre_vote_request_decide ::
  "'b raft_instance \<Rightarrow> raft_vote_request_msg \<Rightarrow> raft_entry_header \<Rightarrow> bool" where
  "raft_server_process_pre_vote_request_decide ri vreq cmp_hdr \<longleftrightarrow>
     raft_server_process_vote_request_decide ri vreq cmp_hdr \<and>
     (rlh_term (ri_log_hdr ri) + 1 < rvrqm_proposed_term vreq \<or>
      ri_csn_leader ri = None \<or> raft_instance_is_candidate ri \<or>
      raft_instance_is_candidate_prevote ri)"

definition raft_server_process_vote_request_common ::
  "'b raft_env \<Rightarrow> uuid \<Rightarrow> bool \<Rightarrow> raft_vote_request_msg \<Rightarrow> 'b raft_instance
     \<Rightarrow> 'b raft_instance option" where
  "raft_server_process_vote_request_common env sender prevote vreq ri = do {
     ri \<leftarrow> raft_server_backend_sync_pending env ri;
     let sync_hdr = newest_header ri RI_NEHDR_SYNC;
     let result = (if prevote then raft_server_process_pre_vote_request_decide ri vreq sync_hdr
                   else raft_server_process_vote_request_decide ri vreq sync_hdr);
     let vreply = \<lparr>rvrpm_voted_granted = result,
                   rvrpm_term = rlh_term (ri_log_hdr ri),
                   rvrpm_current_leader =
                     (if \<not> result then (case ri_csn_leader ri of None \<Rightarrow> null_uuid | Some l \<Rightarrow> l)
                      else null_uuid)\<rparr>;
     let rreply_msg = raft_server_set_uuids_in_rpc_msg ri
           (if prevote then PRE_VOTE_REPLY vreply else VOTE_REPLY vreply);
     ri \<leftarrow> (if \<not> prevote \<and> result
            then raft_server_becomes_follower env (rvrqm_proposed_term vreq) sender
                   RAFT_BFRSN_VOTED_FOR_PEER ri
            else Some ri);
     Some (snd (raft_server_send_msg env sender rreply_msg ri)) }"

section \<open>Votes and terms\<close>

text \<open>
  What a server remembers of its votes may only move forward: to a higher term, or nowhere.
  In one term it never replaces the peer it voted for.
\<close>

definition vote_le :: "raft_log_header \<Rightarrow> raft_log_header \<Rightarrow> bool" where
  "vote_le h h' \<longleftrightarrow> rlh_term h < rlh_term h' \<or>
     (rlh_term h = rlh_term h' \<and> rlh_voted_for h = rlh_voted_for h')"

lemma vote_le_refl [simp]: "vote_le h h"
  by (simp add: vote_le_def)

lemma vote_le_trans: "vote_le a b \<Longrightarrow> vote_le b c \<Longrightarrow> vote_le a c"
  by (auto simp: vote_le_def)

lemma reg_vote_result_wp:
  "wp (raft_server_candidate_reg_vote_result voter result ri) (\<lambda>(rc, ri').
     \<exists>cs. ri' = ri\<lparr>ri_candidate := cs\<rparr> \<and> rcs_term cs = rcs_term (ri_candidate ri) \<and>
     (rc = 0 \<longrightarrow> (\<exists>i. raft_peer_2_idx ri voter = Some i \<and>
        rcs_results cs = (rcs_results (ri_candidate ri))[i := result])))"
proof -
  have same: "\<exists>cs. ri = ri\<lparr>ri_candidate := cs\<rparr> \<and> rcs_term cs = rcs_term (ri_candidate ri)"
    by (rule exI [of _ "ri_candidate ri"]) simp
  show ?thesis
    by (auto simp: raft_server_candidate_reg_vote_result_def wp_simps Let_def same split: option.split)
qed

lemma send_msg_effects:
  "ri_effects (snd (raft_server_send_msg env peer rrm ri)) \<in>
     {ri_effects ri, ri_effects ri @ [Eff_send peer rrm]}"
proof -
  have t: "ri_effects (raft_net_update_last_comm_time env p sr r) = ri_effects r"
    for p sr r and env :: "'b raft_env"
    by (auto simp: raft_net_update_last_comm_time_def split: option.split)
  have "ri_effects (snd (raft_net_send_msg env peer sz False ri)) = ri_effects ri" for sz
    by (auto simp: raft_net_send_msg_def raft_net_send_tcp_def Let_def t split: prod.splits)
  then show ?thesis
    by (auto simp: raft_server_send_msg_def split: prod.split)
      (metis snd_conv)+
qed

lemma send_msg_hdr [simp]:
  "ri_log_hdr (snd (raft_server_send_msg env peer rrm ri)) = ri_log_hdr ri"
  "ri_state (snd (raft_server_send_msg env peer rrm ri)) = ri_state ri"
  by (rule net_core_fields, simp)+

text \<open>
  A reply makes a server the leader only if it is a \<open>YES\<close> from a member, and the votes
  registered with it are a majority; the term does not change.
\<close>

definition won_election :: "'b raft_instance \<Rightarrow> uuid \<Rightarrow> bool" where
  "won_election ri sender \<longleftrightarrow> (\<exists>i. raft_peer_2_idx ri sender = Some i \<and>
     num_members ri < 2 * length (filter (\<lambda>r. r = RAFT_VOTE_RESULT_YES)
        (take (num_members ri) ((rcs_results (ri_candidate ri))[i := RAFT_VOTE_RESULT_YES]))))"

text \<open>
  A granted vote: the request proposes a newer term and its log is, in both the term and the
  index of its last entry, at least as new as what this server has synced; the term and the
  vote are in the log header.
\<close>

definition vote_granted_ok :: "'b raft_instance \<Rightarrow> uuid \<Rightarrow> raft_vote_request_msg \<Rightarrow> 'b raft_instance \<Rightarrow> bool" where
  "vote_granted_ok ri sender vreq ri' \<longleftrightarrow>
     rlh_term (ri_log_hdr ri) < rvrqm_proposed_term vreq \<and>
     reh_term (ri_newest_entry_hdr ri RI_NEHDR_UNSYNC) \<le> rvrqm_last_log_term vreq \<and>
     reh_index (ri_newest_entry_hdr ri RI_NEHDR_UNSYNC) \<le> rvrqm_last_log_index vreq \<and>
     rlh_term (ri_log_hdr ri') = rvrqm_proposed_term vreq \<and>
     rlh_voted_for (ri_log_hdr ri') = sender \<and> ri_state ri' = RAFT_STATE_FOLLOWER"

text \<open>
  What a vote request sends back: at most one reply, to the sender, after the changes of the
  instance. A reply that grants the vote leaves an instance with the vote in its log header.
\<close>

definition vote_reply_ok :: "'b raft_instance \<Rightarrow> uuid \<Rightarrow> raft_vote_request_msg \<Rightarrow> 'b raft_instance \<Rightarrow> bool" where
  "vote_reply_ok ri sender vreq ri' \<longleftrightarrow>
     (\<forall>peer rrm. Eff_send peer rrm \<in> set (drop (length (ri_effects ri)) (ri_effects ri')) \<longrightarrow>
       peer = sender \<and> (\<forall>v. rrm_payload rrm = VOTE_REPLY v \<and> rvrpm_voted_granted v \<longrightarrow>
         vote_granted_ok ri sender vreq ri'))"

context backend_frame
begin

lemma log_header_write_wp:
  assumes "env_rib env = rib"
  shows "wp (raft_server_log_header_write env cand t ri) (\<lambda>(rc, ri').
     rlh_term (ri_log_hdr ri') = t \<and> rlh_voted_for (ri_log_hdr ri') = cand \<and>
     proto_view ri' = proto_view (ri\<lparr>ri_log_hdr := ri_log_hdr ri'\<rparr>))"
  by (auto intro!: wpI dest: log_header_write_hdr [OF assms])

lemma update_log_header_wp:
  assumes "env_rib env = rib"
  shows "wp (raft_server_update_log_header env t cand ri) (\<lambda>ri'.
     rlh_term (ri_log_hdr ri) < t \<and> rlh_term (ri_log_hdr ri') = t \<and>
     rlh_voted_for (ri_log_hdr ri') = cand \<and>
     proto_view ri' = proto_view (ri\<lparr>ri_log_hdr := ri_log_hdr ri'\<rparr>))"
  unfolding raft_server_update_log_header_def
  by (auto simp: wp_simps intro!: wp_call2 [OF log_header_write_wp [OF assms]])

lemma write_next_entry_view:
  assumes "env_rib env = rib"
  shows "wp (raft_server_write_next_entry env t data sizes n opts ws ri)
     (\<lambda>ri'. proto_view ri' = proto_view ri)"
  unfolding raft_server_write_next_entry_def
  by (auto simp: wp_simps Let_def intro!: wp_call2 [OF entry_write_view [OF assms]])

lemma leader_write_view:
  assumes "env_rib env = rib"
  shows "wp (raft_server_leader_write_new_entry env data sizes n opts ws ri)
     (\<lambda>ri'. proto_view ri' = proto_view ri)"
  unfolding raft_server_leader_write_new_entry_def
  by (auto simp: wp_simps intro!: wp_call [OF write_next_entry_view [OF assms]])

text \<open>The leader starts in the term of its log header with the state it was elected in.\<close>

lemma becomes_leader_wp:
  assumes "env_rib env = rib"
  shows "wp (raft_server_candidate_becomes_leader env ri) (\<lambda>ri'.
     ri_state ri' = RAFT_STATE_LEADER \<and> ri_log_hdr ri' = ri_log_hdr ri \<and>
     rls_leader_term (ri_leader ri') = rlh_term (ri_log_hdr ri) \<and>
     rls_initial_term_idx (ri_leader ri') = reh_index (newest_header ri RI_NEHDR_SYNC) \<and>
     ri_candidate ri' = ri_candidate ri \<and> ri_commit_idx ri' = ri_commit_idx ri \<and>
     ri_csn_raft_peers ri' = ri_csn_raft_peers ri \<and> ri_csn_leader ri' = Some (ri_csn_this_peer ri) \<and>
     raft_server_candidate_is_viable ri)"
proof -
  have timer: "wp (raft_server_timerfd_settime env r) (\<lambda>r'. proto_view r' = proto_view r)" for r
    by (rule wpI) (rule proto_view_net_core [OF net_core_timer])
  show ?thesis
    unfolding raft_server_candidate_becomes_leader_def raft_server_leader_init_state_def
      raft_server_write_leader_change_marker_def
    by (auto simp: wp_simps Let_def raft_server_set_leader_csn_def proto_view_def
        intro!: wp_call [OF timer] wp_call [OF leader_write_view [OF assms]]
          wpI [of "raft_server_has_unsynced_entries _"] wpI [of "raft_num_members_validate_and_get _ _"])
qed

text \<open>Only winning an election makes a leader.\<close>

lemma vote_for_self_not_leader:
  assumes "env_rib env = rib"
    and promote: "\<And>ri. wp (promote ri)
      (\<lambda>ri'. ri_state ri' = RAFT_STATE_LEADER \<longrightarrow> ri_state ri = RAFT_STATE_LEADER)"
  shows "wp (raft_server_vote_for_self env promote ri)
     (\<lambda>(rc, ri'). ri_state ri' = RAFT_STATE_LEADER \<longrightarrow> ri_state ri = RAFT_STATE_LEADER)"
proof -
  have reg: "wp (raft_server_candidate_reg_vote_result voter result r)
      (\<lambda>(rc, r'). ri_state r' = ri_state r)" for voter result and r :: "'b raft_instance"
    by (auto simp: raft_server_candidate_reg_vote_result_def wp_simps Let_def split: option.split)
  have hw: "wp (raft_server_log_header_write env c t r) (\<lambda>(rc, r'). ri_state r' = ri_state r)" for c t r
    by (rule wp_call2 [OF log_header_write_wp [OF assms(1)]]) (auto simp: proto_view_def)
  show ?thesis
    unfolding raft_server_vote_for_self_def
    by (auto simp: wp_simps Let_def raft_instance_is_defs
        intro!: wp_call2 [OF hw] wp_call2 [OF reg] wp_call [OF promote])
qed

lemma become_candidate_depth_not_leader:
  assumes "env_rib env = rib"
  shows "wp (become_candidate_depth n env prevote ri)
     (\<lambda>ri'. ri_state ri' = RAFT_STATE_LEADER \<longrightarrow> ri_state ri = RAFT_STATE_LEADER)"
proof (induction n arbitrary: prevote ri)
  case 0
  then show ?case by (simp add: wp_simps)
next
  case (Suc n)
  have timer: "wp (raft_server_timerfd_settime env r) (\<lambda>r'. ri_state r' = ri_state r)" for r
    by (rule wpI) (rule net_core_fields(1) [OF net_core_timer])
  have bcast: "wp (raft_server_broadcast_msg env m r) (\<lambda>r'. ri_state r' = ri_state r)" for m r
    by (rule wpI) (rule net_core_fields(1) [OF net_core_broadcast])
  show ?case
    by (auto simp: wp_simps Let_def raft_server_init_candidate_state_def
        intro!: wp_call2 [OF vote_for_self_not_leader [OF assms Suc.IH]] wp_call [OF timer]
          wp_call [OF bcast])
qed

lemma becomes_follower_not_leader:
  assumes "env_rib env = rib"
  shows "wp (raft_server_becomes_follower env t peer reason ri)
     (\<lambda>ri'. ri_state ri' = RAFT_STATE_LEADER \<longrightarrow> ri_state ri = RAFT_STATE_LEADER)"
  unfolding raft_server_becomes_follower_def
  by (auto simp: wp_simps Let_def raft_server_set_leader_csn_def proto_view_def split: option.split
      intro!: wpI [of "raft_peer_uuid_to_csn env ri peer"]
        wp_call [OF update_log_header_wp [OF assms]])

lemma vote_reply_leader_wp:
  assumes "env_rib env = rib"
  shows "wp (raft_server_process_vote_reply_common env sender prevote vreply ri) (\<lambda>ri'.
     ri_state ri \<noteq> RAFT_STATE_LEADER \<longrightarrow> ri_state ri' = RAFT_STATE_LEADER \<longrightarrow>
     \<not> prevote \<and> rvrpm_voted_granted vreply \<and> ri_state ri = RAFT_STATE_CANDIDATE \<and>
     rcs_term (ri_candidate ri) = rlh_term (ri_log_hdr ri) \<and> won_election ri sender \<and>
     ri_log_hdr ri' = ri_log_hdr ri \<and> rls_leader_term (ri_leader ri') = rlh_term (ri_log_hdr ri))"
proof -
  have lead: "wp (raft_server_candidate_can_become_leader env r) (\<lambda>ok. ok \<longrightarrow>
      raft_server_candidate_is_viable r \<and> num_members r < 2 * length (filter
        (\<lambda>x. x = RAFT_VOTE_RESULT_YES) (take (num_members r) (rcs_results (ri_candidate r)))))" for r
    by (auto simp: raft_server_candidate_can_become_leader_def raft_server_candidate_count_votes_def
        raft_num_members_validate_and_get_def wp_simps Let_def)
  show ?thesis
    unfolding raft_server_process_vote_reply_common_def raft_server_become_candidate_def
    by (auto simp: wp_simps Let_def won_election_def raft_server_candidate_is_viable_def
        raft_instance_is_defs num_members_def raft_peer_2_idx_def
        intro!: wp_call2 [OF reg_vote_result_wp] wp_call [OF becomes_leader_wp [OF assms]]
          wp_call [OF lead] wpI [of "raft_server_prevote_candidate_can_become_candidate _ _"]
          wp_call [OF become_candidate_depth_not_leader [OF assms]]
          wp_call [OF becomes_follower_not_leader [OF assms]])
qed

lemma backend_sync_effects:
  assumes "env_rib env = rib"
  shows "wp (raft_server_backend_sync env ri) (\<lambda>(rc, ri'). ri_effects ri' = ri_effects ri)"
proof -
  have sync: "wp (rib_backend_sync rib r) (\<lambda>(rc, r'). ri_effects r' = ri_effects r)" for r
    by (auto intro!: wpI dest!: backend_sync_frame elim!: backend_onlyE)
  have upd: "wp (raft_instance_update_newest_entry_hdr h t f r) (\<lambda>r'. ri_effects r' = ri_effects r)"
    for h t f and r :: "'b raft_instance"
    by (auto simp: raft_instance_update_newest_entry_hdr_def Let_def wp_simps intro: wpI)
  show ?thesis
    unfolding raft_server_backend_sync_def assms(1)
    by (auto simp: wp_simps Let_def intro!: wp_call2 [OF sync] wp_call [OF upd] intro: wpI)
qed

lemma becomes_follower_voted_wp:
  assumes "env_rib env = rib" and "sender \<in> set (ri_csn_raft_peers ri)"
    and "sender \<noteq> ri_csn_this_peer ri" and "sender \<noteq> null_uuid"
  shows "wp (raft_server_becomes_follower env t sender RAFT_BFRSN_VOTED_FOR_PEER ri) (\<lambda>ri'.
     rlh_term (ri_log_hdr ri') = t \<and> rlh_voted_for (ri_log_hdr ri') = sender \<and>
     ri_state ri' = RAFT_STATE_FOLLOWER)"
  unfolding raft_server_becomes_follower_def raft_peer_uuid_to_csn_def
    raft_num_members_validate_and_get_def
  using assms(2-4)
  by (auto simp: wp_simps Let_def raft_server_set_leader_csn_def proto_view_def uuid_is_null_def
      intro!: wp_call [OF update_log_header_wp [OF assms(1)]])

lemma becomes_follower_effects:
  assumes "env_rib env = rib"
  shows "wp (raft_server_becomes_follower env t peer reason ri) (\<lambda>ri'. ri_effects ri' = ri_effects ri)"
proof -
  have hw: "wp (rib_header_write rib r) (\<lambda>(rc, r'). ri_effects r' = ri_effects r)" for r
    by (auto intro!: wpI dest!: header_write_frame elim!: backend_onlyE)
  show ?thesis
    unfolding raft_server_becomes_follower_def raft_server_update_log_header_def
      raft_server_log_header_write_def raft_server_log_header_write_prep_def
    by (auto simp: wp_simps Let_def raft_server_set_leader_csn_def assms split: option.split
        intro!: wpI [of "raft_peer_uuid_to_csn env ri peer"] wp_call2 [OF hw]
          wp_call2 [OF backend_sync_effects [OF assms]])
qed

lemma sync_pending_wp:
  assumes "env_rib env = rib" and "newest_hdrs_ok ri" and "\<not> raft_instance_is_client ri"
  shows "wp (raft_server_backend_sync_pending env ri) (\<lambda>ri'.
     proto_view ri' = proto_view ri \<and>
     ri_newest_entry_hdr ri' = (\<lambda>_. ri_newest_entry_hdr ri RI_NEHDR_UNSYNC) \<and>
     set (drop (length (ri_effects ri)) (ri_effects ri')) \<subseteq> {Eff_notify RAFT_EVP_REMOTE_SEND} \<and>
     take (length (ri_effects ri)) (ri_effects ri') = ri_effects ri)"
proof -
  have eq: "ri_newest_entry_hdr ri = (\<lambda>_. ri_newest_entry_hdr ri RI_NEHDR_UNSYNC)"
    if "ri_newest_entry_hdr ri RI_NEHDR_SYNC = ri_newest_entry_hdr ri RI_NEHDR_UNSYNC"
    by (rule ext) (metis newest_slot.exhaust that)
  note sync = wp_conj [OF wp_conj [OF backend_sync_wp [OF assms(1)]
        backend_sync_newest_wp [OF assms]] backend_sync_effects [OF assms(1)]]
  show ?thesis
    unfolding raft_server_backend_sync_pending_def has_unsynced_entries_ok [OF assms(2)]
    by (auto simp: wp_simps intro!: wp_call [OF sync] eq)
qed

lemma vote_request_reply_wp:
  assumes "env_rib env = rib" and "newest_hdrs_ok ri" and "\<not> raft_instance_is_client ri"
    and "sender \<in> set (ri_csn_raft_peers ri)"
    and "sender \<noteq> ri_csn_this_peer ri" and "sender \<noteq> null_uuid"
  shows "wp (raft_server_process_vote_request_common env sender prevote vreq ri)
     (vote_reply_ok ri sender vreq)"
proof -
  let ?n = "length (ri_effects ri)"
  have ok: "vote_granted_ok ri sender vreq (snd (raft_server_send_msg env sender m y))"
    if "proto_view x = proto_view ri" "ri_newest_entry_hdr x = (\<lambda>_. ri_newest_entry_hdr ri RI_NEHDR_UNSYNC)"
      "raft_server_process_vote_request_decide x vreq (newest_header x RI_NEHDR_SYNC)"
      "rlh_term (ri_log_hdr y) = rvrqm_proposed_term vreq" "rlh_voted_for (ri_log_hdr y) = sender"
      "ri_state y = RAFT_STATE_FOLLOWER" for x y m
    using that assms(3) proto_view_fields(1,2) [OF that(1)]
    by (auto simp: vote_granted_ok_def raft_server_process_vote_request_decide_def
        raft_instance_get_newest_header_def raft_instance_is_defs)
  have snd: "peer = sender \<and> rrm = m"
    if "set (drop ?n (ri_effects x)) \<subseteq> {Eff_notify RAFT_EVP_REMOTE_SEND}"
      "ri_effects y = ri_effects x"
      "Eff_send peer rrm \<in> set (drop ?n (ri_effects (snd (raft_server_send_msg env sender m y))))"
    for x y m peer rrm
  proof -
    have "set (drop ?n (ri_effects x @ [z])) \<subseteq> insert z (set (drop ?n (ri_effects x)))" for z
      by (auto dest: in_set_dropD)
    with that send_msg_effects [of env sender m y] show ?thesis
      by (fastforce dest: subsetD)
  qed
  have bf: "wp (raft_server_becomes_follower env t sender RAFT_BFRSN_VOTED_FOR_PEER x)
      (\<lambda>y. rlh_term (ri_log_hdr y) = t \<and> rlh_voted_for (ri_log_hdr y) = sender \<and>
        ri_state y = RAFT_STATE_FOLLOWER \<and> ri_effects y = ri_effects x)"
    if "proto_view x = proto_view ri" for x t
    using proto_view_fields(7,8) [OF that] assms(4-6)
    by (auto intro: wp_call [OF wp_conj [OF becomes_follower_voted_wp [OF assms(1)]
        becomes_follower_effects [OF assms(1)]]])
  have fin: "vote_reply_ok ri sender vreq (snd (raft_server_send_msg env sender m y))"
    if "set (drop ?n (ri_effects x)) \<subseteq> {Eff_notify RAFT_EVP_REMOTE_SEND}" "ri_effects y = ri_effects x"
      "\<And>v. rrm_payload m = VOTE_REPLY v \<Longrightarrow> rvrpm_voted_granted v \<Longrightarrow>
         vote_granted_ok ri sender vreq (snd (raft_server_send_msg env sender m y))" for x y m
    unfolding vote_reply_ok_def using snd [OF that(1,2)] that(3) by blast
  have grant: "wp (raft_server_becomes_follower env (rvrqm_proposed_term vreq) sender RAFT_BFRSN_VOTED_FOR_PEER x)
      (\<lambda>y. vote_reply_ok ri sender vreq (snd (raft_server_send_msg env sender m y)))"
    if "proto_view x = proto_view ri" "ri_newest_entry_hdr x = (\<lambda>_. ri_newest_entry_hdr ri RI_NEHDR_UNSYNC)"
      "set (drop ?n (ri_effects x)) \<subseteq> {Eff_notify RAFT_EVP_REMOTE_SEND}"
      "raft_server_process_vote_request_decide x vreq (newest_header x RI_NEHDR_SYNC)" for x m
    by (rule wp_call [OF bf [OF that(1)]]) (use fin [OF that(3)] ok [OF that(1,2,4)] in blast)
  show ?thesis
    unfolding raft_server_process_vote_request_common_def
    by (auto simp only: wp_simps Let_def split: if_split
        intro!: wp_call [OF sync_pending_wp [OF assms(1-3)]] grant)
      (auto simp: raft_server_set_uuids_in_rpc_msg_def intro!: fin)
qed

end

section \<open>Elections on a disk that works\<close>

lemma use_posix_demo: "raft_server_backend_use_posix io demo_base = demo_env io"
  by (simp add: demo_env_def)

lemma log_header_write_succeeds:
  assumes "posix_ready ri" and "healthy_io io" and "ri_synchronous_writes ri" and "newest_hdrs_ok ri"
    and "rlh_term (ri_log_hdr ri) \<le> t"
  shows "\<exists>rip. raft_server_log_header_write (raft_server_backend_use_posix io env) c t ri
     = Some (0, ri\<lparr>ri_log_hdr := (ri_log_hdr ri)\<lparr>rlh_seqno := rlh_seqno (ri_log_hdr ri) + 1,
         rlh_magic := RAFT_HEADER_MAGIC, rlh_term := t, rlh_voted_for := c\<rparr>, ri_backend_arg := Some rip\<rparr>)"
proof -
  let ?r = "ri\<lparr>ri_log_hdr := (ri_log_hdr ri)\<lparr>rlh_seqno := rlh_seqno (ri_log_hdr ri) + 1,
         rlh_magic := RAFT_HEADER_MAGIC, rlh_term := t, rlh_voted_for := c\<rparr>\<rparr>"
  have "posix_ready ?r"
    using assms(1) by (simp add: posix_ready_def)
  then obtain rip where w: "rsbp_header_write io env ?r = Some (0, ?r\<lparr>ri_backend_arg := Some rip\<rparr>)"
    using header_write_succeeds [OF _ assms(2)] by blast
  then show ?thesis
    using assms(3,4,5)
    by (auto simp: raft_server_log_header_write_def raft_server_log_header_write_prep_def ribPosix_def
        raft_server_backend_sync_def raft_server_does_synchronous_writes_def raft_server_has_unsynced_entries_def
        newest_hdrs_ok_def Let_def)
qed


text \<open>The vote request of member 2 to member 1 of the example cluster.\<close>

definition demo_vreq :: raft_vote_request_msg where
  "demo_vreq = \<lparr>rvrqm_proposed_term = 1, rvrqm_last_log_term = 0, rvrqm_last_log_index = -1\<rparr>"

definition demo_vreply :: "raft_vote_reply_msg" where
  "demo_vreply = \<lparr>rvrpm_voted_granted = True, rvrpm_term = 0, rvrpm_current_leader = 0\<rparr>"

abbreviation demo0 :: "u8 list posix_instance" where
  "demo0 \<equiv> demo_ri []"

lemma demo_hdrs_ok: "newest_hdrs_ok (demo_ri f)"
  by (simp add: newest_hdrs_ok_def hdr_ok_def)

lemma demo_send:
  assumes "ri_store_type ri = RAFT_INSTANCE_STORE_POSIX_FLAT_FILE" and "\<not> raft_instance_is_client ri"
    and "raft_rpc_msg_size rrm \<le> 60000"
  shows "ri_effects (snd (raft_server_send_msg (demo_env io) p rrm ri)) = ri_effects ri @ [Eff_send p rrm]"
  using assms
  by (auto simp: raft_server_send_msg_def raft_net_send_msg_def raft_net_max_rpc_size_def Let_def
      raft_net_update_last_comm_time_def emit_def split: option.split)

lemma demo_vote:
  obtains ri' rrm where
    "raft_server_process_vote_request_common (demo_env mem_io) 2 False demo_vreq demo0 = Some ri'"
    "ri_effects ri' = [Eff_send 2 rrm]" "rrm_payload rrm = VOTE_REPLY demo_vreply"
proof -
  let ?r = "demo0\<lparr>ri_state := RAFT_STATE_FOLLOWER, ri_follower_reason := RAFT_BFRSN_VOTED_FOR_PEER,
     ri_coalesced_wr := ri_coalesced_wr demo0, ri_csn_leader := Some 2\<rparr>"
  have r: "posix_ready ?r" "newest_hdrs_ok ?r" "ri_synchronous_writes ?r"
    by (simp_all add: posix_ready_def zero_rlh_def newest_hdrs_ok_def hdr_ok_def)
  obtain rip where w: "raft_server_log_header_write (demo_env mem_io) 2 1 ?r
     = Some (0, ?r\<lparr>ri_log_hdr := (ri_log_hdr ?r)\<lparr>rlh_seqno := rlh_seqno (ri_log_hdr ?r) + 1,
         rlh_magic := RAFT_HEADER_MAGIC, rlh_term := 1, rlh_voted_for := 2\<rparr>, ri_backend_arg := Some rip\<rparr>)"
    using log_header_write_succeeds [OF r(1) healthy_mem_io r(3,2), of 1 demo_base 2]
    by (auto simp: zero_rlh_def use_posix_demo)
  let ?rrm = "raft_server_set_uuids_in_rpc_msg demo0 (VOTE_REPLY demo_vreply)"
  let ?r' = "?r\<lparr>ri_log_hdr := (ri_log_hdr ?r)\<lparr>rlh_seqno := rlh_seqno (ri_log_hdr ?r) + 1,
         rlh_magic := RAFT_HEADER_MAGIC, rlh_term := 1, rlh_voted_for := 2\<rparr>, ri_backend_arg := Some rip\<rparr>"
  have "raft_server_process_vote_request_common (demo_env mem_io) 2 False demo_vreq demo0
      = Some (snd (raft_server_send_msg (demo_env mem_io) 2 ?rrm ?r'))"
    using w
    by (simp add: raft_server_process_vote_request_common_def raft_server_backend_sync_pending_def
        raft_server_has_unsynced_entries_def Let_def raft_server_process_vote_request_decide_def demo_vreq_def
        raft_instance_get_newest_header_def raft_instance_is_defs zero_rlh_def raft_server_becomes_follower_def
        raft_peer_uuid_to_csn_def uuid_is_null_def raft_num_members_validate_and_get_def raft_num_members_is_valid_def
        num_members_def raft_server_set_leader_csn_def raft_server_update_log_header_def
        raft_net_sm_write_supplement_destroy_def demo_vreply_def)
  then show thesis
    by (rule that [of _ ?rrm])
      (simp_all add: demo_send raft_instance_is_client_def raft_rpc_msg_size_def raft_server_set_uuids_in_rpc_msg_def
        sizeof_raft_rpc_msg_def)
qed


text \<open>
  C8. Only a majority makes a leader: a server that was not the leader is one after a vote reply
  only if it was a candidate of its current term, the reply grants the vote, and with it more than
  half of the members have answered yes; it leads in that term.
\<close>

theorem leader_has_majority:
  assumes "raft_server_process_vote_reply_common (raft_server_backend_use_posix io env) sender prevote vreply ri = Some ri'"
    and "\<not> raft_instance_is_leader ri" and "raft_instance_is_leader ri'"
  shows "\<not> prevote \<and> rvrpm_voted_granted vreply \<and> raft_instance_is_candidate ri \<and>
     rcs_term (ri_candidate ri) = rlh_term (ri_log_hdr ri) \<and> won_election ri sender \<and>
     ri_log_hdr ri' = ri_log_hdr ri \<and> rls_leader_term (ri_leader ri') = rlh_term (ri_log_hdr ri)"
  using wpD [OF posix.vote_reply_leader_wp [OF env_rib_use_posix] assms(1)] assms(2,3)
  by (simp add: raft_instance_is_defs)

text \<open>Member 1 as a candidate of term 1 with its own vote, and the reply of member 2.\<close>

definition demo_cand :: "u8 list posix_instance" where
  "demo_cand = demo0\<lparr>ri_state := RAFT_STATE_CANDIDATE,
     ri_log_hdr := (ri_log_hdr demo0)\<lparr>rlh_term := 1, rlh_voted_for := 1\<rparr>,
     ri_candidate := \<lparr>rcs_term = 1, rcs_prevote = False,
       rcs_results = [RAFT_VOTE_RESULT_YES, RAFT_VOTE_RESULT_UNKNOWN, RAFT_VOTE_RESULT_UNKNOWN]\<rparr>\<rparr>"

lemma demo_wins:
  "\<exists>ri'. raft_server_process_vote_reply_common (demo_env mem_io) 2 False demo_vreply demo_cand = Some ri' \<and>
     raft_instance_is_leader ri'"
proof -
  let ?c = "demo_cand\<lparr>ri_candidate := \<lparr>rcs_term = 1, rcs_prevote = False, rcs_results =
       [RAFT_VOTE_RESULT_YES, RAFT_VOTE_RESULT_YES, RAFT_VOTE_RESULT_UNKNOWN]\<rparr>\<rparr>"
  have win: "raft_server_process_vote_reply_common (demo_env mem_io) 2 False demo_vreply demo_cand
     = raft_server_candidate_becomes_leader (demo_env mem_io) ?c"
    by (simp add: raft_server_process_vote_reply_common_def demo_cand_def raft_instance_is_defs Let_def demo_vreply_def
        raft_server_candidate_reg_vote_result_def raft_peer_2_idx_def raft_server_candidate_can_become_leader_def
        raft_server_candidate_is_viable_def raft_server_candidate_count_votes_def raft_num_members_validate_and_get_def
        raft_num_members_is_valid_def num_members_def)
  obtain ls where l: "raft_server_leader_init_state (demo_env mem_io) ?c
      = Some (?c\<lparr>ri_state := RAFT_STATE_LEADER, ri_leader := ls\<rparr>)"
    by (simp add: raft_server_leader_init_state_def Let_def raft_server_has_unsynced_entries_def demo_cand_def
        raft_num_members_validate_and_get_def raft_num_members_is_valid_def num_members_def)
  let ?l = "emit (Eff_timer RAFT_LEADER_WAKEUP_MS RAFT_LEADER_WAKEUP_MS)
      (?c\<lparr>ri_state := RAFT_STATE_LEADER, ri_leader := ls\<rparr>)"
  have ok: "posix_ready ?l" "newest_hdrs_ok ?l" "\<not> raft_instance_is_client ?l"
    by (simp_all add: posix_ready_def zero_rlh_def newest_hdrs_ok_def hdr_ok_def demo_cand_def emit_def
        raft_instance_is_client_def)
  have init: "raft_server_entry_init (demo_env mem_io) ?l 0 1 None [0] 1 RAFT_WR_ENTRY_OPT_LEADER_CHANGE_MARKER
      = Some demo_marker"
    by (subst demo_marker_init [symmetric])
      (simp add: raft_server_entry_init_def demo_cand_def emit_def RAFT_ENTRY_MAX_DATA_SIZE_def)
  have st: "posix_storable demo_marker"
    by (rule demo_marker_storable)
  obtain rip where w: "raft_server_entry_write (demo_env mem_io) 0 1 None [0] 1
      RAFT_WR_ENTRY_OPT_LEADER_CHANGE_MARKER None ?l
     = Some (0, ?l\<lparr>ri_backend_arg := Some rip,
         ri_newest_entry_hdr := (if ri_synchronous_writes ?l then (\<lambda>_. re_header demo_marker)
           else (ri_newest_entry_hdr ?l)(RI_NEHDR_UNSYNC := re_header demo_marker))\<rparr>)"
    using entry_append_ok [OF ok(1) healthy_mem_io ok(2,3) init [unfolded demo_env_def] st, where ws = None]
    by (auto simp: demo_env_def demo_cand_def emit_def)
  show ?thesis
    unfolding win using l w
    by (auto simp: raft_server_candidate_becomes_leader_def raft_server_candidate_is_viable_def demo_cand_def
        raft_instance_is_defs raft_server_timerfd_settime_def raft_server_write_leader_change_marker_def
        raft_server_leader_write_new_entry_def opts_has_leader_change_marker_def raft_server_write_next_entry_def
        Let_def raft_instance_get_newest_header_def emit_def raft_server_set_leader_csn_def)
qed
theorem leader_has_majority_witness:
  "\<exists>ri'. raft_server_process_vote_reply_common (demo_env mem_io) 2 False demo_vreply demo_cand = Some ri' \<and>
     won_election demo_cand 2 \<and> rls_leader_term (ri_leader ri') = 1"
proof -
  obtain ri' where h: "raft_server_process_vote_reply_common (demo_env mem_io) 2 False demo_vreply demo_cand = Some ri'"
    and l: "raft_instance_is_leader ri'"
    using demo_wins by blast
  have "\<not> raft_instance_is_leader demo_cand"
    by (simp add: demo_cand_def raft_instance_is_leader_def)
  from leader_has_majority [OF h [folded use_posix_demo] this l] h show ?thesis
    by (simp add: demo_cand_def)
qed




text \<open>
  C21. Pre-votes disturb nobody: answering a pre-vote request, and asking for pre-votes when the
  election timer expires, leave the term and the vote as they are, and the commit index; answering
  also leaves the state and the leader.
\<close>

theorem prevote_disturbs_nobody:
  assumes "\<not> env_fault env raft_pvc_becomes_candidate"
  shows "(raft_server_process_vote_request_common (raft_server_backend_use_posix io env) sender True vreq ri = Some ri' \<longrightarrow>
       ri_log_hdr ri' = ri_log_hdr ri \<and> ri_state ri' = ri_state ri \<and> ri_csn_leader ri' = ri_csn_leader ri \<and>
       ri_commit_idx ri' = ri_commit_idx ri) \<and>
     (raft_server_become_candidate (raft_server_backend_use_posix io env) True ri = Some ri' \<longrightarrow>
       ri_log_hdr ri' = ri_log_hdr ri \<and> ri_commit_idx ri' = ri_commit_idx ri)"
proof -
  let ?env = "raft_server_backend_use_posix io env"
  have snd: "proto_view (snd (raft_server_send_msg ?env p m r)) = proto_view r" for p m r
    by (rule proto_view_net_core) simp
  have reply: "wp (raft_server_process_vote_request_common ?env sender True vreq ri)
      (\<lambda>ri'. proto_view ri' = proto_view ri)"
    unfolding raft_server_process_vote_request_common_def
    by (auto simp: wp_simps Let_def snd
        intro!: wpI [of "raft_server_backend_sync_pending _ _"] dest!: posix.sync_pending_view [OF env_rib_use_posix])
  have "wp (become_candidate_depth (Suc n) ?env True ri)
      (\<lambda>ri'. ri_log_hdr ri' = ri_log_hdr ri \<and> ri_commit_idx ri' = ri_commit_idx ri)" for n
  proof -
    have bcast: "wp (raft_server_broadcast_msg ?env m r) (\<lambda>r'. proto_view r' = proto_view r)" for m r
      by (rule wpI) (rule proto_view_net_core [OF net_core_broadcast])
    have fault: "\<not> env_fault ?env raft_pvc_becomes_candidate"
      using assms by (simp add: raft_server_backend_use_posix_def)
    show ?thesis
      by (auto simp: wp_simps Let_def raft_server_init_candidate_state_def raft_server_vote_for_self_def
          raft_instance_is_defs fault proto_view_def
          intro!: wp_call2 [OF reg_vote_result_wp] wp_call [OF bcast])
  qed
  then have cand: "wp (raft_server_become_candidate ?env True ri)
      (\<lambda>ri'. ri_log_hdr ri' = ri_log_hdr ri \<and> ri_commit_idx ri' = ri_commit_idx ri)"
    by (simp add: raft_server_become_candidate_def numeral_3_eq_3 del: become_candidate_depth.simps)
  show ?thesis
    using wpD [OF cand, of ri'] proto_view_fields(1,2,5,6) [OF wpD [OF reply, of ri']] by blast
qed

theorem prevote_disturbs_nobody_witness:
  "\<exists>ri'. raft_server_process_vote_request_common (demo_env mem_io) 2 True demo_vreq demo0 = Some ri' \<and>
     rlh_term (ri_log_hdr ri') = 0 \<and> ri_state ri' = RAFT_STATE_FOLLOWER"
proof -
  obtain ri' where h: "raft_server_process_vote_request_common (demo_env mem_io) 2 True demo_vreq demo0 = Some ri'"
    by (simp add: raft_server_process_vote_request_common_def raft_server_backend_sync_pending_def
        raft_server_has_unsynced_entries_def Let_def)
  have "\<not> env_fault (demo_base :: u8 list posix_raft_env) raft_pvc_becomes_candidate"
    by (simp add: demo_base_def)
  from prevote_disturbs_nobody [OF this, of mem_io 2 demo_vreq demo0 ri'] h show ?thesis
    by (simp add: use_posix_demo zero_rlh_def)
qed

end
