(* ===== verification/Raft_Append.thy ===== *)
theory Raft_Append
  imports Raft_Election
begin

text \<open>
  The follower's side of log replication (\<open>raft_server.c\<close>): the checks of an append-entries
  request, pruning a log that diverges from the leader's, storing the leader's entry, advancing
  the commit index, asking for bulk recovery, and the reply.
\<close>

section \<open>Retries and pruning\<close>

definition raft_server_append_entry_check_already_stored ::
  "'b raft_env \<Rightarrow> raft_append_entries_request_msg \<Rightarrow> 'b raft_instance
     \<Rightarrow> (bool \<times> 'b raft_instance) option" where
  "raft_server_append_entry_check_already_stored env raerq ri = do {
     raft_current_idx \<leftarrow> raft_server_get_current_raft_entry_index ri RI_NEHDR_UNSYNC;
     let leaders_next_idx_for_me = raerqm_prev_log_index raerq + 1;
     NIOVA_ASSERT (leaders_next_idx_for_me \<le> raft_current_idx);
     (same_term, reh, ri) \<leftarrow> (if 0 < raerqm_log_term raerq
        then do {
          (rc, reh, ri) \<leftarrow> raft_server_entry_header_read_by_store env zero_reh leaders_next_idx_for_me ri;
          FATAL_IF (rc \<noteq> 0);
          if reh_term reh \<noteq> raerqm_log_term raerq then Some (False, reh, ri)
          else do {
            FATAL_IF (\<not> raerqm_entry_out_of_range raerq \<and> raerqm_this_idx_crc raerq \<noteq> reh_crc reh \<and>
                      \<not> raerqm_heartbeat_msg raerq);
            Some (True, reh, ri) } }
        else Some (True, zero_reh, ri));
     if \<not> same_term then Some (False, ri)
     else if 0 \<le> raerqm_prev_log_index raerq
     then do {
       (rc, reh, ri) \<leftarrow> raft_server_entry_header_read_by_store env reh (raerqm_prev_log_index raerq) ri;
       FATAL_IF (rc \<noteq> 0);
       FATAL_IF (reh_term reh \<noteq> raerqm_prev_log_term raerq);
       FATAL_IF (raerqm_prev_idx_crc raerq \<noteq> reh_crc reh);
       Some (True, ri) }
     else Some (True, ri) }"

definition raft_server_append_entry_log_prune_if_needed ::
  "'b raft_env \<Rightarrow> raft_append_entries_request_msg \<Rightarrow> 'b raft_instance \<Rightarrow> 'b raft_instance option" where
  "raft_server_append_entry_log_prune_if_needed env raerq ri = do {
     NIOVA_ASSERT (raft_instance_is_follower ri);
     NIOVA_ASSERT (RAFT_MIN_APPEND_ENTRY_IDX \<le> raerqm_prev_log_index raerq);
     let raft_entry_idx_prune = raerqm_prev_log_index raerq + 1;
     (rc, ri) \<leftarrow> raft_server_backend_sync env ri;
     FATAL_IF (rc \<noteq> 0);
     FATAL_IF (raft_entry_idx_prune \<le> ri_commit_idx ri \<or>
               raft_entry_idx_prune \<le> rla_idx (ri_last_applied ri));
     ri \<leftarrow> (if 0 \<le> raerqm_prev_log_index raerq
        then do {
          (rc, reh, ri) \<leftarrow> raft_server_entry_header_read_by_store env (re_header (env_uninit env))
             (raerqm_prev_log_index raerq) ri;
          FATAL_IF (rc \<noteq> 0);
          raft_instance_update_newest_entry_hdr reh RI_NEHDR_ALL True ri }
        else Some ri);
     raft_server_log_truncate env ri }"

definition raft_server_follower_index_ahead_of_leader ::
  "'b raft_env \<Rightarrow> raft_append_entries_request_msg \<Rightarrow> 'b raft_instance
     \<Rightarrow> (int \<times> raft_entry_header \<times> 'b raft_instance) option" where
  "raft_server_follower_index_ahead_of_leader env raerq ri = do {
     (stored, ri) \<leftarrow> raft_server_append_entry_check_already_stored env raerq ri;
     (rc, ri) \<leftarrow> (if stored then Some (- EALREADY, ri)
        else do {
          ri \<leftarrow> raft_server_append_entry_log_prune_if_needed env raerq ri;
          unsynced \<leftarrow> raft_server_has_unsynced_entries ri;
          NIOVA_ASSERT (\<not> unsynced);
          Some (0, ri) });
     Some (rc, newest_header ri RI_NEHDR_SYNC, ri) }"

section \<open>Checking a request against the log\<close>

definition raft_server_append_entry_request_bounds_check ::
  "'b raft_instance \<Rightarrow> raft_append_entries_request_msg \<Rightarrow> int" where
  "raft_server_append_entry_request_bounds_check ri raerq =
     (if raerqm_prev_log_index raerq \<noteq> RAFT_ENTRY_IDX_ANY \<and>
         raerqm_prev_log_index raerq < raerqm_lowest_index raerq then - EBADR
      else if raerqm_prev_log_index raerq < ri_lowest_idx ri then - EBADR
      else if raerqm_entry_out_of_range raerq then - EBADR
      else 0)"

definition raft_server_append_entry_log_prepare_and_check ::
  "'b raft_env \<Rightarrow> raft_append_entries_request_msg \<Rightarrow> 'b raft_instance
     \<Rightarrow> (int \<times> 'b raft_instance) option" where
  "raft_server_append_entry_log_prepare_and_check env raerq ri = (
     let rc = raft_server_append_entry_request_bounds_check ri raerq in
     if rc \<noteq> 0 then Some (rc, ri)
     else do {
       let reh = newest_header ri RI_NEHDR_UNSYNC;
       (rc, reh, ri) \<leftarrow> (if raerqm_prev_log_index raerq < reh_index reh
          then raft_server_follower_index_ahead_of_leader env raerq ri
          else Some (0, reh, ri));
       if rc \<noteq> 0 then Some (rc, ri)
       else do {
         NIOVA_ASSERT (reh_index reh \<le> raerqm_prev_log_index raerq);
         Some (if reh_index reh < raerqm_prev_log_index raerq then - ERANGE
               else if reh_term reh \<noteq> raerqm_prev_log_term raerq then - EEXIST
               else 0, ri) } })"

definition raft_server_process_append_entries_term_check_ops ::
  "'b raft_env \<Rightarrow> uuid \<Rightarrow> raft_append_entries_request_msg \<Rightarrow> 'b raft_instance
     \<Rightarrow> (int \<times> 'b raft_instance) option" where
  "raft_server_process_append_entries_term_check_ops env sender raerq ri = (
     let leader_term = raerqm_leader_term raerq; my_term = rlh_term (ri_log_hdr ri) in
     if leader_term < my_term then Some (- ESTALE, ri)
     else do {
       ri \<leftarrow> (if my_term \<le> leader_term \<and>
                (raft_instance_is_candidate ri \<or> raft_instance_is_candidate_prevote ri)
              then raft_server_becomes_follower env leader_term sender
                     RAFT_BFRSN_STALE_TERM_WHILE_CANDIDATE ri
              else if my_term < leader_term \<and> raft_instance_is_leader ri
              then raft_server_becomes_follower env leader_term sender
                     RAFT_BFRSN_STALE_TERM_WHILE_LEADER ri
              else if my_term < leader_term \<and> raft_instance_is_follower ri
              then raft_server_try_update_log_header_null_voted_for_peer env leader_term ri
              else Some ri);
       Some (0, raft_server_set_leader_csn sender ri) })"

section \<open>Storing the entry\<close>

text \<open>\<open>num_entries\<close> is a \<open>uint8_t\<close>: the 32-bit count of the message is truncated.\<close>

definition raft_server_write_new_entry_from_leader ::
  "'b raft_env \<Rightarrow> raft_append_entries_request_msg \<Rightarrow> 'b raft_instance \<Rightarrow> 'b raft_instance option" where
  "raft_server_write_new_entry_from_leader env raerq ri = do {
     NIOVA_ASSERT (raft_instance_is_follower ri);
     if raerqm_heartbeat_msg raerq then Some ri
     else do {
       let unsync_hdr = newest_header ri RI_NEHDR_UNSYNC;
       NIOVA_ASSERT (0 < raerqm_log_term raerq);
       NIOVA_ASSERT (raerqm_prev_log_term raerq \<le> raerqm_log_term raerq);
       NIOVA_ASSERT (reh_term unsync_hdr \<le> raerqm_log_term raerq);
       let num_entries = (ucast (raerqm_num_entries raerq) :: u8);
       NIOVA_ASSERT (unat (raerqm_entries_sz raerq) \<le> RAFT_ENTRY_MAX_DATA_SIZE ri);
       NIOVA_ASSERT (reh_index unsync_hdr = raerqm_prev_log_index raerq);
       let opts = (if raerqm_leader_change_marker raerq
                   then RAFT_WR_ENTRY_OPT_LEADER_CHANGE_MARKER else RAFT_WR_ENTRY_OPT_NONE);
       NIOVA_ASSERT (\<not> opts_has_leader_change_marker opts \<or> num_entries = 1);
       raft_server_write_next_entry env (raerqm_log_term raerq) (Some (raerqm_entries raerq))
         (raerqm_size_arr raerq) (ucast num_entries) opts None ri } }"

section \<open>The reply\<close>

definition raft_server_process_append_entries_request_prep_reply ::
  "'b raft_instance \<Rightarrow> raft_append_entries_request_msg \<Rightarrow> bool \<Rightarrow> bool \<Rightarrow> bool \<Rightarrow> int
     \<Rightarrow> raft_rpc_msg option" where
  "raft_server_process_append_entries_request_prep_reply ri raerq stale_term
     non_matching_prev_term update_sli rc = do {
     current_idx \<leftarrow> raft_server_get_current_raft_entry_index ri RI_NEHDR_SYNC;
     Some (raft_server_set_uuids_in_rpc_msg ri (APPEND_ENTRIES_REPLY
       \<lparr>raerpm_leader_term = rlh_term (ri_log_hdr ri),
        raerpm_prev_log_index = raerqm_prev_log_index raerq,
        raerpm_synced_log_index =
          (if rc = 0 \<or> non_matching_prev_term then current_idx else RAFT_ENTRY_IDX_ANY),
        raerpm_heartbeat_msg = raerqm_heartbeat_msg raerq,
        raerpm_err_stale_term = stale_term,
        raerpm_err_non_matching_prev_term = non_matching_prev_term,
        raerpm_newly_initialized_peer = (current_idx = RAFT_ENTRY_IDX_ANY),
        raerpm_update_sli = update_sli\<rparr>)) }"

definition raft_server_process_append_entries_request_validity_check ::
  "'b raft_instance \<Rightarrow> raft_append_entries_request_msg \<Rightarrow> int" where
  "raft_server_process_append_entries_request_validity_check ri raerq =
     (if raerqm_prev_log_index raerq < RAFT_MIN_APPEND_ENTRY_IDX \<or>
         RAFT_ENTRY_MAX_DATA_SIZE ri < unat (raerqm_entries_sz raerq) then - EINVAL else 0)"

definition raft_server_advance_commit_idx ::
  "raft_entry_idx_t \<Rightarrow> 'b raft_instance \<Rightarrow> 'b raft_instance option" where
  "raft_server_advance_commit_idx new_commit_idx ri =
     (if ri_commit_idx ri < new_commit_idx
      then do {
        current_idx \<leftarrow> raft_server_get_current_raft_entry_index ri RI_NEHDR_SYNC;
        Some (if new_commit_idx \<le> current_idx
              then emit (Eff_notify RAFT_EVP_SM_APPLY) (ri\<lparr>ri_commit_idx := new_commit_idx\<rparr>) else ri) }
      else Some ri)"

definition raft_server_append_entry_reply_send ::
  "'b raft_env \<Rightarrow> raft_append_entries_request_msg \<Rightarrow> uuid \<Rightarrow> bool \<Rightarrow> bool \<Rightarrow> bool \<Rightarrow> int
     \<Rightarrow> 'b raft_instance \<Rightarrow> 'b raft_instance option" where
  "raft_server_append_entry_reply_send env raerq sender stale_term non_matching_prev_term update_sli
     ae_rc ri = do {
     rreply_msg \<leftarrow> raft_server_process_append_entries_request_prep_reply ri raerq stale_term
        non_matching_prev_term update_sli ae_rc;
     let (rc, ri) = raft_server_send_msg env sender rreply_msg ri;
     FATAL_IF (rc \<noteq> 0);
     Some ri }"

section \<open>Bulk recovery\<close>

text \<open>The uuids are given parsed: \<^term>\<open>None\<close> is a string that \<open>uuid_parse\<close> rejects.\<close>

definition raft_server_init_recovery_handle_from_marker ::
  "'b raft_env \<Rightarrow> uuid option \<Rightarrow> uuid option \<Rightarrow> 'b raft_instance \<Rightarrow> int \<times> 'b raft_instance" where
  "raft_server_init_recovery_handle_from_marker env db_uuid peer_uuid ri = (case (peer_uuid, db_uuid) of
       (Some peer, Some db) \<Rightarrow>
         if uuid_is_null peer \<or> uuid_is_null db then (- EINVAL, ri)
         else (0, ri\<lparr>ri_recovery_handle := (ri_recovery_handle ri)
           \<lparr>rrh_peer_uuid := peer, rrh_peer_db_uuid := db, rrh_peer_chkpt_idx := -1,
            rrh_chkpt_size := -1, rrh_remaining := -1,
            rrh_from_recovery_marker := True, rrh_start := env_realtime env\<rparr>\<rparr>)
     | _ \<Rightarrow> (- EINVAL, ri))"

definition raft_server_init_recovery_handle ::
  "'b raft_env \<Rightarrow> raft_rpc_msg \<Rightarrow> raft_append_entries_request_msg \<Rightarrow> 'b raft_instance \<Rightarrow> 'b raft_instance" where
  "raft_server_init_recovery_handle env rrm raerq ri = ri\<lparr>ri_recovery_handle := (ri_recovery_handle ri)
     \<lparr>rrh_peer_uuid := rrm_sender_id rrm, rrh_peer_db_uuid := rrm_db_id rrm,
      rrh_peer_chkpt_idx := raerqm_chkpt_index raerq, rrh_chkpt_size := -1, rrh_remaining := -1,
      rrh_from_recovery_marker := False, rrh_start := env_realtime env\<rparr>\<rparr>"

definition raft_server_process_bulk_recovery_check ::
  "'b raft_env \<Rightarrow> raft_rpc_msg \<Rightarrow> raft_append_entries_request_msg \<Rightarrow> 'b raft_instance
     \<Rightarrow> (int \<times> 'b raft_instance) option" where
  "raft_server_process_bulk_recovery_check env rrm raerq ri = do {
     my_current_idx \<leftarrow> raft_server_get_current_raft_entry_index ri RI_NEHDR_UNSYNC;
     Some (if raerqm_entry_out_of_range raerq \<or> env_fault env raft_force_bulk_recovery
           then if raerqm_lowest_index raerq \<le> my_current_idx then (- EAGAIN, ri)
                else (- ERANGE, raft_server_init_recovery_handle env rrm raerq
                        (ri\<lparr>ri_needs_bulk_recovery := True\<rparr>))
           else (0, ri)) }"

section \<open>The handler\<close>

text \<open>
  The log part of the handler: the switch on what the check of the log returned. The result
  has the return code, whether the previous terms do not match, and whether the fault to ignore
  the request was injected.
\<close>

definition append_entries_log_ops ::
  "'b raft_env \<Rightarrow> raft_append_entries_request_msg \<Rightarrow> 'b raft_instance
     \<Rightarrow> (int \<times> bool \<times> bool \<times> 'b raft_instance) option" where
  "append_entries_log_ops env raerq ri = do {
     (rc, ri) \<leftarrow> raft_server_append_entry_log_prepare_and_check env raerq ri;
     if rc = 0
     then do {
       let ignore_ae = (\<not> raerqm_heartbeat_msg raerq \<and> env_fault env raft_follower_ignores_AE);
       ri \<leftarrow> (if \<not> raerqm_heartbeat_msg raerq \<and> \<not> ignore_ae
              then raft_server_write_new_entry_from_leader env raerq ri else Some ri);
       ri \<leftarrow> raft_server_advance_commit_idx (raerqm_commit_index raerq) ri;
       Some (rc, False, ignore_ae, ri) }
     else if rc = - EBADR then Some (rc, False, False, ri)
     else if rc = - EALREADY
     then do {
       current_idx \<leftarrow> raft_server_get_current_raft_entry_index ri RI_NEHDR_SYNC;
       ri \<leftarrow> raft_server_advance_commit_idx (min (raerqm_commit_index raerq) current_idx) ri;
       Some (rc, False, False, ri) }
     else Some (rc, True, False, ri) }"

definition raft_server_process_append_entries_request ::
  "'b raft_env \<Rightarrow> uuid \<Rightarrow> raft_rpc_msg \<Rightarrow> raft_append_entries_request_msg \<Rightarrow> 'b raft_instance
     \<Rightarrow> 'b raft_instance option" where
  "raft_server_process_append_entries_request env sender rrm raerq ri = do {
     NIOVA_ASSERT (sender = rrm_sender_id rrm);
     if raft_server_process_append_entries_request_validity_check ri raerq \<noteq> 0 then Some ri
     else do {
       (rc, ri) \<leftarrow> raft_server_process_bulk_recovery_check env rrm raerq ri;
       if rc \<noteq> 0 \<and> rc \<noteq> - EAGAIN then Some ri
       else do {
         let update_sli = (rc = - EAGAIN);
         (rc, ri) \<leftarrow> raft_server_process_append_entries_term_check_ops env sender raerq ri;
         let stale_term = (rc \<noteq> 0);
         NIOVA_ASSERT (\<not> stale_term \<or> rc = - ESTALE);
         (rc, non_matching_prev_term, ignore_ae, ri) \<leftarrow>
           (if \<not> stale_term \<and> \<not> update_sli then append_entries_log_ops env raerq ri
            else Some (rc, False, False, ri));
         ri \<leftarrow> (if \<not> ignore_ae
                then raft_server_append_entry_reply_send env raerq sender stale_term
                       non_matching_prev_term update_sli rc ri
                else Some ri);
         if \<not> stale_term \<and> \<not> raft_instance_is_leader ri
         then raft_server_timerfd_settime env ri else Some ri } } }"

section \<open>What the check of the log establishes\<close>

lemma newest_header_eqI:
  assumes "raft_server_has_unsynced_entries ri = Some False"
  shows "newest_header ri RI_NEHDR_SYNC = newest_header ri RI_NEHDR_UNSYNC"
  using assms by (auto simp: raft_server_has_unsynced_entries_def Let_def raft_instance_get_newest_header_def
      split: if_splits)

lemma prepare_and_check_matches:
  "wp (raft_server_append_entry_log_prepare_and_check env raerq ri) (\<lambda>(rc, ri').
     rc = 0 \<longrightarrow> reh_index (newest_header ri' RI_NEHDR_UNSYNC) = raerqm_prev_log_index raerq \<and>
       reh_term (newest_header ri' RI_NEHDR_UNSYNC) = raerqm_prev_log_term raerq)"
proof -
  have ahead: "wp (raft_server_follower_index_ahead_of_leader env raerq ri) (\<lambda>(rc, reh, ri').
      rc = 0 \<longrightarrow> reh = newest_header ri' RI_NEHDR_UNSYNC)"
    unfolding raft_server_follower_index_ahead_of_leader_def
    by (auto simp: wp_simps intro!: wpI dest!: newest_header_eqI)
  show ?thesis
    unfolding raft_server_append_entry_log_prepare_and_check_def
    by (auto simp: wp_simps Let_def intro!: wp_call3 [OF ahead])
qed

lemma write_from_leader_write:
  assumes "raft_server_write_new_entry_from_leader env raerq ri = Some ri'" and "\<not> raerqm_heartbeat_msg raerq"
  shows "raft_instance_is_follower ri" and "0 \<le> raerqm_prev_log_index raerq + 1"
    and "raft_server_entry_write env (raerqm_prev_log_index raerq + 1) (raerqm_log_term raerq)
         (Some (raerqm_entries raerq)) (raerqm_size_arr raerq) (ucast (ucast (raerqm_num_entries raerq) :: u8))
         (if raerqm_leader_change_marker raerq then RAFT_WR_ENTRY_OPT_LEADER_CHANGE_MARKER
          else RAFT_WR_ENTRY_OPT_NONE) None ri = Some (0, ri')"
proof -
  show "raft_instance_is_follower ri"
    using assms by (auto simp: raft_server_write_new_entry_from_leader_def split: if_splits)
  have idx: "reh_index (newest_header ri RI_NEHDR_UNSYNC) = raerqm_prev_log_index raerq"
    and n: "raft_server_write_next_entry env (raerqm_log_term raerq) (Some (raerqm_entries raerq))
         (raerqm_size_arr raerq) (ucast (ucast (raerqm_num_entries raerq) :: u8))
         (if raerqm_leader_change_marker raerq then RAFT_WR_ENTRY_OPT_LEADER_CHANGE_MARKER
          else RAFT_WR_ENTRY_OPT_NONE) None ri = Some ri'"
    using assms by (auto simp: raft_server_write_new_entry_from_leader_def Let_def split: if_splits)
  then show "0 \<le> raerqm_prev_log_index raerq + 1"
    and "raft_server_entry_write env (raerqm_prev_log_index raerq + 1) (raerqm_log_term raerq)
         (Some (raerqm_entries raerq)) (raerqm_size_arr raerq) (ucast (ucast (raerqm_num_entries raerq) :: u8))
         (if raerqm_leader_change_marker raerq then RAFT_WR_ENTRY_OPT_LEADER_CHANGE_MARKER
          else RAFT_WR_ENTRY_OPT_NONE) None ri = Some (0, ri')"
    by (auto simp: raft_server_write_next_entry_def Let_def bind_Some split: if_splits)
qed

lemma check_already_stored_wp:
  "wp (raft_server_append_entry_check_already_stored env raerq ri) (\<lambda>(stored, ri'). read_view ri' = read_view ri)"
  unfolding raft_server_append_entry_check_already_stored_def
  by (auto simp: wp_simps Let_def intro!: wp_call3 [OF header_read_wp] wpI [of "raft_server_get_current_raft_entry_index _ _"])

context backend_frame
begin

lemma prepare_and_check_view:
  assumes "env_rib env = rib"
  shows "wp (raft_server_append_entry_log_prepare_and_check env raerq ri) (\<lambda>(rc, ri'). proto_view ri' = proto_view ri)"
proof -
  have tr: "wp (rib_log_truncate rib r i) (\<lambda>r'. proto_view r' = proto_view r)" for r i
    by (auto intro!: wpI dest!: log_truncate_frame backend_only_proto_view)
  have up: "wp (raft_instance_update_newest_entry_hdr h ty fo r) (\<lambda>r'. proto_view r' = proto_view r)" for h ty fo r
    by (auto intro!: wpI dest!: update_newest_view)
  have pr: "wp (raft_server_append_entry_log_prune_if_needed env raerq r) (\<lambda>r'. proto_view r' = proto_view r)" for r
    unfolding raft_server_append_entry_log_prune_if_needed_def raft_server_log_truncate_def assms
    by (auto simp: wp_simps Let_def intro!: wp_call2 [OF backend_sync_wp [OF assms]] wp_call [OF tr] wp_call [OF up]
        wp_call3 [OF header_read_wp] wpI [of "raft_server_get_current_raft_entry_index _ _"] dest!: read_view_proto)
  have st: "wp (raft_server_append_entry_check_already_stored env raerq r) (\<lambda>(b, r'). proto_view r' = proto_view r)" for r
    by (rule wp_call2 [OF check_already_stored_wp]) (auto dest: read_view_proto)
  show ?thesis
    unfolding raft_server_append_entry_log_prepare_and_check_def raft_server_follower_index_ahead_of_leader_def
    by (auto simp: wp_simps Let_def intro!: wp_call2 [OF st] wp_call [OF pr] wpI [of "raft_server_has_unsynced_entries _"])
qed

lemma write_from_leader_newest:
  assumes "env_rib env = rib" and "\<not> raerqm_heartbeat_msg raerq"
  shows "wp (raft_server_write_new_entry_from_leader env raerq ri) (\<lambda>ri'.
     reh_index (ri_newest_entry_hdr ri' RI_NEHDR_UNSYNC) = raerqm_prev_log_index raerq + 1 \<and>
     reh_term (ri_newest_entry_hdr ri' RI_NEHDR_UNSYNC) = raerqm_log_term raerq \<and>
     raft_instance_is_follower ri \<and> proto_view ri' = proto_view ri)"
proof (rule wpI)
  fix ri'
  assume w: "raft_server_write_new_entry_from_leader env raerq ri = Some ri'"
  note e = write_from_leader_write [OF w assms(2)]
  have nc: "\<not> raft_instance_is_client ri"
    using e(1) by (simp add: raft_instance_is_defs)
  have "proto_view ri' = proto_view ri"
    using wpD [OF entry_write_view [OF assms(1)] e(3)] by simp
  then show "reh_index (ri_newest_entry_hdr ri' RI_NEHDR_UNSYNC) = raerqm_prev_log_index raerq + 1 \<and>
     reh_term (ri_newest_entry_hdr ri' RI_NEHDR_UNSYNC) = raerqm_log_term raerq \<and>
     raft_instance_is_follower ri \<and> proto_view ri' = proto_view ri"
    using entry_write_newest [OF assms(1) e(3) e(2) nc] e(1) entry_init_fields(1,2) by (metis fun_upd_same)
qed

end

lemma advance_commit_newest:
  "wp (raft_server_advance_commit_idx c ri) (\<lambda>ri'. ri_newest_entry_hdr ri' = ri_newest_entry_hdr ri \<and>
     ri_state ri' = ri_state ri)"
  unfolding raft_server_advance_commit_idx_def by (auto simp: wp_simps emit_def intro!: wpI)

section \<open>Properties\<close>

text \<open>
  C5. Log matching: a request is accepted only when, after what the follower pruned, its newest entry
  has the index and the term of the leader's previous entry; unless the message is a heartbeat (or the
  fault that ignores it is injected) the entry that follows has the next index and the leader's term.
\<close>

theorem accepted_entry_extends_matching_log:
  assumes "append_entries_log_ops (raft_server_backend_use_posix io env) raerq ri = Some (0, nm, ignored, ri')"
  shows "\<exists>r. raft_server_append_entry_log_prepare_and_check (raft_server_backend_use_posix io env) raerq ri = Some (0, r) \<and>
     reh_index (newest_header r RI_NEHDR_UNSYNC) = raerqm_prev_log_index raerq \<and>
     reh_term (newest_header r RI_NEHDR_UNSYNC) = raerqm_prev_log_term raerq \<and>
     (if raerqm_heartbeat_msg raerq \<or> ignored then ri_newest_entry_hdr ri' = ri_newest_entry_hdr r
      else reh_index (ri_newest_entry_hdr ri' RI_NEHDR_UNSYNC) = raerqm_prev_log_index raerq + 1 \<and>
        reh_term (ri_newest_entry_hdr ri' RI_NEHDR_UNSYNC) = raerqm_log_term raerq)"
proof -
  let ?env = "raft_server_backend_use_posix io env"
  obtain r where p: "raft_server_append_entry_log_prepare_and_check ?env raerq ri = Some (0, r)"
    and rest: "(if raerqm_heartbeat_msg raerq \<or> ignored then Some r
         else raft_server_write_new_entry_from_leader ?env raerq r) \<bind>
         raft_server_advance_commit_idx (raerqm_commit_index raerq) = Some ri'"
    using assms(1) by (auto simp: append_entries_log_ops_def Let_def bind_Some split: if_splits)
  have "wp ((if raerqm_heartbeat_msg raerq \<or> ignored then Some r
         else raft_server_write_new_entry_from_leader ?env raerq r) \<bind>
         raft_server_advance_commit_idx (raerqm_commit_index raerq))
     (\<lambda>x. if raerqm_heartbeat_msg raerq \<or> ignored then ri_newest_entry_hdr x = ri_newest_entry_hdr r
      else reh_index (ri_newest_entry_hdr x RI_NEHDR_UNSYNC) = raerqm_prev_log_index raerq + 1 \<and>
        reh_term (ri_newest_entry_hdr x RI_NEHDR_UNSYNC) = raerqm_log_term raerq)"
    by (auto simp: wp_simps intro!: wp_call [OF posix.write_from_leader_newest [OF env_rib_use_posix]]
        wp_call [OF advance_commit_newest])
  from wpD [OF this rest] p wpD [OF prepare_and_check_matches p] show ?thesis by auto
qed

text \<open>The first entry of member 1, leader of term 1, for member 2 of the example cluster.\<close>

definition demo_follower :: "u8 list posix_instance" where
  "demo_follower = demo0\<lparr>ri_csn_this_peer := 2\<rparr>"

definition demo_raerq :: raft_append_entries_request_msg where
  "demo_raerq = \<lparr>raerqm_leader_term = 1, raerqm_log_term = 1, raerqm_commit_index = -1, raerqm_lowest_index = -1,
     raerqm_chkpt_index = -1, raerqm_prev_log_term = 0, raerqm_prev_log_index = -1, raerqm_prev_idx_crc = 0,
     raerqm_this_idx_crc = reh_crc (re_header demo_marker), raerqm_size_arr = replicate RAFT_ENTRY_NUM_ENTRIES 0,
     raerqm_entries_sz = 0, raerqm_num_entries = 1, raerqm_heartbeat_msg = False, raerqm_leader_change_marker = True,
     raerqm_entry_out_of_range = False, raerqm_entries = []\<rparr>"

lemma demo_follower_simps [simp]:
  "posix_ready demo_follower" "newest_hdrs_ok demo_follower" "\<not> raft_instance_is_client demo_follower"
  "ri_newest_entry_hdr demo_follower = (\<lambda>_. null_reh)" "ri_synchronous_writes demo_follower"
  using posix_ready_demo [of "[]"]
  by (simp_all add: demo_follower_def newest_hdrs_ok_def hdr_ok_def raft_instance_is_client_def posix_ready_def)

lemma demo_accepts:
  "\<exists>fo'. append_entries_log_ops (demo_env mem_io) demo_raerq demo_follower = Some (0, False, False, fo')"
proof -
  have sz: "raft_server_wr_entries_get_total_size (replicate RAFT_ENTRY_NUM_ENTRIES 0) 1 = Some 0"
    by (simp add: raft_server_wr_entries_get_total_size_def RAFT_ENTRY_NUM_ENTRIES_def)
  obtain re where init: "raft_server_entry_init (demo_env mem_io) demo_follower 0 1 (Some [])
      (replicate RAFT_ENTRY_NUM_ENTRIES 0) 1 RAFT_WR_ENTRY_OPT_LEADER_CHANGE_MARKER = Some re"
    by (simp add: raft_server_entry_init_def sz Let_def raft_server_entry_calc_crc_def)
  have st: "posix_storable re"
    using init by (rule entry_init_storable) (simp_all add: demo_follower_def)
  obtain rip where w: "raft_server_entry_write (demo_env mem_io) 0 1 (Some []) (replicate RAFT_ENTRY_NUM_ENTRIES 0) 1
      RAFT_WR_ENTRY_OPT_LEADER_CHANGE_MARKER None demo_follower
     = Some (0, demo_follower\<lparr>ri_backend_arg := Some rip, ri_newest_entry_hdr := (\<lambda>_. re_header re)\<rparr>)"
    using entry_append_ok [OF _ healthy_mem_io _ _ init [unfolded demo_env_def] st, where ws = None]
    by (auto simp: demo_env_def)
  show ?thesis
    using w
    by (simp add: append_entries_log_ops_def raft_server_append_entry_log_prepare_and_check_def demo_raerq_def
        raft_server_append_entry_request_bounds_check_def Let_def raft_instance_get_newest_header_def demo_follower_def
        raft_server_write_new_entry_from_leader_def raft_instance_is_defs RAFT_ENTRY_MAX_DATA_SIZE_def
        opts_has_leader_change_marker_def raft_server_write_next_entry_def raft_server_advance_commit_idx_def)
qed

theorem accepted_entry_extends_matching_log_witness:
  "\<exists>fo'. append_entries_log_ops (demo_env mem_io) demo_raerq demo_follower = Some (0, False, False, fo') \<and>
     reh_index (ri_newest_entry_hdr fo' RI_NEHDR_UNSYNC) = 0 \<and> reh_term (ri_newest_entry_hdr fo' RI_NEHDR_UNSYNC) = 1"
proof -
  obtain fo' where h: "append_entries_log_ops (demo_env mem_io) demo_raerq demo_follower = Some (0, False, False, fo')"
    using demo_accepts by blast
  from accepted_entry_extends_matching_log [OF h [folded use_posix_demo]] h show ?thesis
    by (auto simp: demo_raerq_def)
qed


definition demo_term1 :: "u8 list posix_instance" where
  "demo_term1 = demo0\<lparr>ri_log_hdr := (ri_log_hdr demo0)\<lparr>rlh_term := 1\<rparr>\<rparr>"



context backend_frame
begin

lemma prune_first_keeps_newest:
  assumes "env_rib env = rib" and "raerqm_prev_log_index raerq = -1"
    and "newest_hdrs_ok ri" and "\<not> raft_instance_is_client ri"
  shows "wp (raft_server_append_entry_log_prune_if_needed env raerq ri) (\<lambda>ri'.
     ri_newest_entry_hdr ri' = (\<lambda>_. ri_newest_entry_hdr ri RI_NEHDR_UNSYNC))"
proof -
  have tr: "wp (rib_log_truncate rib r i) (\<lambda>r'. ri_newest_entry_hdr r' = ri_newest_entry_hdr r)" for r i
    by (auto intro!: wpI dest!: log_truncate_frame elim!: backend_onlyE)
  show ?thesis
    unfolding raft_server_append_entry_log_prune_if_needed_def raft_server_log_truncate_def assms(1)
    using assms(2)
    by (auto simp: wp_simps Let_def intro!: wp_call2 [OF backend_sync_newest_wp [OF assms(1,3,4)]] wp_call [OF tr]
        wpI [of "raft_server_get_current_raft_entry_index _ _"])
qed

end

text \<open>
  C23. A first entry that diverges stops the follower: when the leader has no previous entry and the
  entry the follower has at index 0 is of another term, the newest header is not reset before the log
  is checked again, and the process aborts instead of replacing the entry.
\<close>

theorem divergent_first_entry_aborts:
  assumes "env' = raft_server_backend_use_posix io env" and "newest_hdrs_ok ri" and "\<not> raft_instance_is_client ri"
    and "raerqm_prev_log_index raerq = -1" and "0 \<le> reh_index (ri_newest_entry_hdr ri RI_NEHDR_UNSYNC)"
    and "raft_server_append_entry_request_bounds_check ri raerq = 0"
    and "raft_server_append_entry_check_already_stored env' raerq ri = Some (False, ri1)"
  shows "raft_server_append_entry_log_prepare_and_check env' raerq ri = None"
proof -
  have v: "read_view ri1 = read_view ri"
    using wpD [OF check_already_stored_wp assms(7)] by simp
  then have n: "ri_newest_entry_hdr ri1 = ri_newest_entry_hdr ri" and nc: "\<not> raft_instance_is_client ri1"
    using assms(3) by (simp_all add: read_view_def proto_view_def net_core_def raft_instance_is_client_def)
  have ok: "newest_hdrs_ok ri1"
    using assms(2) v by (simp add: newest_hdrs_ok_def n read_view_def proto_view_def net_core_def)
  have env': "env_rib env' = ribPosix io env"
    by (simp add: assms(1))
  have ahead: "wp (raft_server_follower_index_ahead_of_leader env' raerq ri) (\<lambda>(rc, reh, ri').
      rc = 0 \<and> 0 \<le> reh_index reh)"
    unfolding raft_server_follower_index_ahead_of_leader_def assms(7)
    using assms(5)
    by (auto simp: wp_simps n raft_instance_get_newest_header_def zero_reh_def
        intro!: wp_call [OF posix.prune_first_keeps_newest [OF env' assms(4) ok nc]] wpI [of "raft_server_has_unsynced_entries _"])
  have "wp (raft_server_append_entry_log_prepare_and_check env' raerq ri) (\<lambda>_. False)"
    unfolding raft_server_append_entry_log_prepare_and_check_def
    using assms(3-6)
    by (auto simp: wp_simps Let_def raft_instance_get_newest_header_def intro!: wp_call3 [OF ahead])
  then show ?thesis
    by (simp add: wp_def del: split_paired_All)
qed

text \<open>Member 1 with the marker of term 1 at index 0.\<close>

lemma demo_first_entry:
  "\<exists>rip. posix_holds (\<lambda>f. f) (Some rip) demo_marker"
  using entry_write_succeeds [OF posix_ready_demo healthy_mem_io demo_marker_storable, of "[]" None]
    posix_file.posix_write_holds [OF mem.posix_file_axioms _ demo_marker_storable]
  by fastforce

lemma demo_header_read:
  assumes "posix_ready ri" and "posix_holds (\<lambda>f. f) (ri_backend_arg ri) demo_marker"
    and "ri_newest_entry_hdr ri = (\<lambda>_. re_header demo_marker)" and "\<not> raft_instance_is_client ri"
    and "ri_csn_this_peer ri = 1" and "ri_csn_raft ri = 100" and "ri_pending_read_idx ri = -1" and "ri_lowest_idx ri = -1"
  shows "raft_server_entry_header_read_by_store (demo_env mem_io) zero_reh 0 ri
    = Some (0, re_header demo_marker, ri\<lparr>ri_pending_read_idx := -1\<rparr>)"
proof -
  note f = entry_init_fields [OF demo_marker_init]
  have rd: "rsbp_entry_header_read mem_io (ri\<lparr>ri_pending_read_idx := 0\<rparr>) (zero_reh\<lparr>reh_index := 0\<rparr>)
     = Some (0, re_header demo_marker)"
    using f assms(1,2)
    by (intro header_read_succeeds [OF mem.posix_file_axioms mem_io_read_ok])
      (simp_all add: posix_ready_def zero_reh_def null_reh_def)
  have "hdr_ok (ri_newest_entry_hdr ri slot)" for slot
    using f assms(3) by (simp add: hdr_ok_def)
  from current_idx_ok [OF this assms(4)] show ?thesis
    using rd f assms
    by (simp add: raft_server_entry_header_read_by_store_def
      raft_server_entry_read_by_store_common_def raft_server_read_entry_register_idx_def Let_def
      raft_server_entry_range_check_def raft_server_entry_has_been_compacted_def lowest_race_def ribPosix_def
      raft_server_read_entry_unregister_idx_def read_server_entry_validate_def bool_to_int_def RAFT_ENTRY_MAX_DATA_SIZE_def
      posix_ready_def)
qed

theorem divergent_first_entry_aborts_witness:
  "\<exists>ri. newest_hdrs_ok ri \<and> entry_idx demo_marker = 0 \<and> demo_marker \<in> stored_log (\<lambda>f. f) ri \<and>
     raft_server_append_entry_log_prepare_and_check (demo_env mem_io)
       (demo_raerq\<lparr>raerqm_leader_term := 2, raerqm_log_term := 2\<rparr>) ri = None"
proof -
  obtain rip where holds: "posix_holds (\<lambda>f. f) (Some rip) demo_marker"
    using demo_first_entry by blast
  let ?ri = "demo0\<lparr>ri_backend_arg := Some rip, ri_newest_entry_hdr := (\<lambda>_. re_header demo_marker)\<rparr>"
  let ?rq = "demo_raerq\<lparr>raerqm_leader_term := 2, raerqm_log_term := 2\<rparr>"
  note f = entry_init_fields [OF demo_marker_init]
  have ok: "newest_hdrs_ok ?ri" and nc: "\<not> raft_instance_is_client ?ri" and rdy: "posix_ready ?ri"
    using f posix_ready_demo [of "[]"]
    by (simp_all add: newest_hdrs_ok_def hdr_ok_def raft_instance_is_client_def posix_ready_def)
  have st: "raft_server_append_entry_check_already_stored (demo_env mem_io) ?rq ?ri
    = Some (False, ?ri\<lparr>ri_pending_read_idx := -1\<rparr>)"
    using demo_header_read [OF rdy _ _ nc] f current_idx_ok [of ?ri, OF _ nc] ok holds
    by (simp add: raft_server_append_entry_check_already_stored_def demo_raerq_def newest_hdrs_ok_def Let_def)
  show ?thesis
    using divergent_first_entry_aborts [OF _ ok nc _ _ _ st, of mem_io demo_base] ok f holds
    by (intro exI [of _ ?ri]) (simp add: demo_env_def demo_raerq_def stored_log_def raft_server_append_entry_request_bounds_check_def)
qed

end
