(* ===== verification/Raft_Majority.thy ===== *)
theory Raft_Majority
  imports Raft_Types
begin

text \<open>
  The majority computations of \<open>raft.h\<close>: the position of the majority value in the sorted
  array of follower indices, and the index a majority of the members has reached.
\<close>

section \<open>Operations\<close>

text \<open>\<open>RAFT_PEER_ANY\<close>, the error value, is \<^term>\<open>None\<close>.\<close>

definition raft_majority_index_value :: "'b raft_env \<Rightarrow> nat \<Rightarrow> nat option" where
  "raft_majority_index_value env n =
     (if \<not> raft_num_members_is_valid env n then None else Some (n - n div 2 - 1))"

text \<open>
  \<open>qsort\<close> sorts the array in place; the value at the majority position is stored through
  \<open>ret_val\<close>. Reading at \<open>RAFT_PEER_ANY\<close> is out of bounds, which is undefined.
\<close>

definition raft_server_get_majority_entry_idx ::
  "'b raft_env \<Rightarrow> raft_entry_idx_t list \<Rightarrow> (int \<times> raft_entry_idx_t) option" where
  "raft_server_get_majority_entry_idx env values =
     (if env_max_raft_peers env < length values then Some (- E2BIG, -1)
      else do {
        k \<leftarrow> raft_majority_index_value env (length values);
        if k < length values then Some (0, sort values ! k) else None })"

text \<open>The number of members whose index is at least \<open>v\<close>.\<close>

definition count_ge :: "raft_entry_idx_t \<Rightarrow> raft_entry_idx_t list \<Rightarrow> nat" where
  "count_ge v xs = length (filter (\<lambda>x. v \<le> x) xs)"

definition is_majority :: "nat \<Rightarrow> nat \<Rightarrow> bool" where
  "is_majority n k \<longleftrightarrow> n < 2 * k"

section \<open>The value is the greatest index a majority has reached\<close>

lemma majority_idx_less: "0 < n \<Longrightarrow> n - n div 2 - 1 < (n::nat)"
  by linarith

lemma majority_rest:
  fixes n :: nat
  assumes "0 < n"
  shows "n < 2 * (n - (n - n div 2 - 1))" and "2 * (n - Suc (n - n div 2 - 1)) \<le> n"
  using assms by linarith+

lemma raft_majority_index_value_Some:
  "raft_num_members_is_valid env n \<Longrightarrow> raft_majority_index_value env n = Some (n - n div 2 - 1)"
  by (simp add: raft_majority_index_value_def)

lemma sort_majority_reached:
  assumes "0 < length xs"
  shows "is_majority (length xs) (count_ge (sort xs ! (length xs - length xs div 2 - 1)) xs)"
proof -
  let ?k = "length xs - length xs div 2 - 1"
  have "length (sort xs) - ?k \<le> length (filter (\<lambda>x. sort xs ! ?k \<le> x) (sort xs))"
    using majority_idx_less [OF assms] by (intro sorted_nth_count_ge) simp_all
  then have "length xs - ?k \<le> count_ge (sort xs ! ?k) xs"
    by (simp add: count_ge_def)
  moreover have "length xs < 2 * (length xs - ?k)"
    using assms by (rule majority_rest)
  ultimately show ?thesis unfolding is_majority_def by linarith
qed

lemma sort_majority_greatest:
  assumes "0 < length xs" and "is_majority (length xs) (count_ge w xs)"
  shows "w \<le> sort xs ! (length xs - length xs div 2 - 1)"
proof (rule ccontr)
  let ?k = "length xs - length xs div 2 - 1"
  assume "\<not> w \<le> sort xs ! ?k"
  then have "length (filter (\<lambda>x. w \<le> x) (sort xs)) \<le> length (sort xs) - Suc ?k"
    using majority_idx_less [OF assms(1)] by (intro sorted_nth_count_gt) simp_all
  then have "count_ge w xs \<le> length xs - Suc ?k"
    by (simp add: count_ge_def)
  with majority_rest(2) [OF assms(1)] assms(2) show False
    unfolding is_majority_def by linarith
qed

lemma get_majority_entry_idx_Some:
  assumes "raft_num_members_is_valid env (length xs)" and "0 < length xs"
  shows "raft_server_get_majority_entry_idx env xs
     = Some (0, sort xs ! (length xs - length xs div 2 - 1))"
  using assms majority_idx_less [OF assms(2)]
  by (auto simp: raft_server_get_majority_entry_idx_def raft_majority_index_value_Some
      raft_num_members_is_valid_def)

lemma get_majority_entry_idx_inv:
  assumes "raft_server_get_majority_entry_idx env xs = Some (0, v)"
  shows "is_majority (length xs) (count_ge v xs)"
    and "is_majority (length xs) (count_ge w xs) \<Longrightarrow> w \<le> v"
proof -
  have v: "v = sort xs ! (length xs - length xs div 2 - 1)" and pos: "0 < length xs"
    using assms by (auto simp: raft_server_get_majority_entry_idx_def
        raft_majority_index_value_def bind_Some split: if_splits)
  show "is_majority (length xs) (count_ge v xs)"
    unfolding v using pos by (rule sort_majority_reached)
  show "w \<le> v" if "is_majority (length xs) (count_ge w xs)"
    unfolding v using pos that by (rule sort_majority_greatest)
qed

section \<open>Property\<close>

text \<open>
  C19. The index the leader takes as committed candidate is the greatest index that a strict
  majority of the members has reached: a majority has it, and every index that a majority has
  is at most as large.
\<close>

theorem majority_entry_idx_is_greatest:
  assumes "raft_num_members_is_valid env (length vals)" and "0 < length vals"
  shows "\<exists>v. raft_server_get_majority_entry_idx env vals = Some (0, v) \<and>
     is_majority (length vals) (count_ge v vals) \<and>
     (\<forall>w. is_majority (length vals) (count_ge w vals) \<longrightarrow> w \<le> v)"
  using get_majority_entry_idx_Some [OF assms] get_majority_entry_idx_inv by blast

theorem majority_entry_idx_is_greatest_witness:
  "\<exists>v. raft_server_get_majority_entry_idx (undefined\<lparr>env_max_raft_peers := 11, env_min_raft_peers := 3\<rparr>)
         [7, 3, 5, 9, 4] = Some (0, v) \<and>
     is_majority 5 (count_ge v [7, 3, 5, 9, 4]) \<and>
     (\<forall>w. is_majority 5 (count_ge w [7, 3, 5, 9, 4]) \<longrightarrow> w \<le> v)"
  using majority_entry_idx_is_greatest
      [of "undefined\<lparr>env_max_raft_peers := 11, env_min_raft_peers := 3\<rparr>" "[7, 3, 5, 9, 4]"]
  by (simp add: raft_num_members_is_valid_def numeral_eq_Suc)

end
