(* ===== verification/Raft_Leader.thy ===== *)
theory Raft_Leader
  imports Raft_Append Raft_Majority
begin

text \<open>
  The leader (\<open>raft_server.c\<close>): the commit index, the replies of the followers, the requests it
  sends, the quorum check and the heartbeats; and the follower's report of its synced index.
\<close>

section \<open>The commit index\<close>

definition raft_server_instance_self_idx :: "'b raft_instance \<Rightarrow> nat option" where
  "raft_server_instance_self_idx ri = raft_peer_2_idx ri (ri_csn_this_peer ri)"

text \<open>An instance that is not a member of its own peer list fails the assertion.\<close>

definition raft_server_leader_setup_self_follower_info ::
  "'b raft_env \<Rightarrow> 'b raft_instance \<Rightarrow> 'b raft_instance option" where
  "raft_server_leader_setup_self_follower_info env ri = do {
     NIOVA_ASSERT (raft_instance_is_leader ri);
     this_peer_num \<leftarrow> raft_server_instance_self_idx ri;
     self \<leftarrow> raft_server_get_follower_info env ri this_peer_num;
     let sync_hdr = newest_header ri RI_NEHDR_SYNC;
     Some (set_follower_info this_peer_num
       (self\<lparr>rfi_next_idx := reh_index sync_hdr + 1,
             rfi_synced_idx := reh_index sync_hdr,
             rfi_ackd_idx := reh_index sync_hdr,
             rfi_prev_idx_term := reh_term sync_hdr\<rparr>) ri) }"

definition raft_server_leader_calculate_committed_idx ::
  "'b raft_env \<Rightarrow> 'b raft_instance \<Rightarrow> (raft_entry_idx_t \<times> 'b raft_instance) option" where
  "raft_server_leader_calculate_committed_idx env ri = do {
     NIOVA_ASSERT (raft_instance_is_leader ri);
     ri \<leftarrow> raft_server_leader_setup_self_follower_info env ri;
     let num_raft_members = num_members ri;
     NIOVA_ASSERT (num_raft_members \<le> env_max_raft_peers env);
     let sync_indexes = map (\<lambda>rfi. min (rfi_ackd_idx rfi) (rfi_synced_idx rfi))
           (take num_raft_members (rls_rfi (ri_leader ri)));
     (rc, committed_raft_idx) \<leftarrow> raft_server_get_majority_entry_idx env sync_indexes;
     FATAL_IF (rc \<noteq> 0);
     Some (committed_raft_idx, ri) }"

definition raft_server_leader_can_advance_commit_idx ::
  "'b raft_env \<Rightarrow> bool \<Rightarrow> 'b raft_instance \<Rightarrow> (raft_entry_idx_t \<times> 'b raft_instance) option" where
  "raft_server_leader_can_advance_commit_idx env sync_thread ri =
     (if \<not> raft_instance_is_leader ri then Some (RAFT_ENTRY_IDX_ANY, ri)
      else do {
        (committed_raft_idx, ri) \<leftarrow> raft_server_leader_calculate_committed_idx env ri;
        let initial = rls_initial_term_idx (ri_leader ri);
        FATAL_IF (\<not> sync_thread \<and> committed_raft_idx < ri_commit_idx ri \<and>
                  initial \<le> committed_raft_idx);
        Some (if initial \<le> committed_raft_idx \<and> ri_commit_idx ri < committed_raft_idx
              then committed_raft_idx else RAFT_ENTRY_IDX_ANY, ri) })"

definition raft_server_leader_try_advance_commit_idx ::
  "'b raft_env \<Rightarrow> 'b raft_instance \<Rightarrow> 'b raft_instance option" where
  "raft_server_leader_try_advance_commit_idx env ri = do {
     NIOVA_ASSERT (raft_instance_is_leader ri);
     (committed_raft_idx, ri) \<leftarrow> raft_server_leader_can_advance_commit_idx env False ri;
     if committed_raft_idx \<noteq> RAFT_ENTRY_IDX_ANY
     then raft_server_advance_commit_idx committed_raft_idx ri else Some ri }"

definition raft_server_leader_try_advance_commit_idx_from_sync_thread ::
  "'b raft_env \<Rightarrow> 'b raft_instance \<Rightarrow> 'b raft_instance option" where
  "raft_server_leader_try_advance_commit_idx_from_sync_thread env ri = do {
     (idx, ri) \<leftarrow> raft_server_leader_can_advance_commit_idx env True ri;
     Some (if idx \<noteq> RAFT_ENTRY_IDX_ANY
           then emit (Eff_notify RAFT_EVP_ASYNC_COMMIT_IDX_ADV) ri else ri) }"

section \<open>Replies of a follower\<close>

text \<open>
  \<open>term\<close> and \<open>sli\<close> are the term and the synced log index of the message, from the field its type
  selects.
\<close>

definition raft_server_try_update_follower_sync_idx ::
  "'b raft_env \<Rightarrow> nat \<Rightarrow> term_t \<Rightarrow> raft_entry_idx_t \<Rightarrow> 'b raft_instance \<Rightarrow> 'b raft_instance option" where
  "raft_server_try_update_follower_sync_idx env follower_idx term sli ri = do {
     let reh = newest_header ri RI_NEHDR_SYNC;
     let rfi = rls_rfi (ri_leader ri) ! follower_idx;
     if term \<noteq> reh_term reh then Some ri
     else if rfi_next_idx rfi < rfi_synced_idx rfi then Some ri
     else do {
       let ackd_advanced = (rfi_ackd_idx rfi < rfi_next_idx rfi - 1);
       let rfi = (if ackd_advanced then rfi\<lparr>rfi_ackd_idx := rfi_next_idx rfi - 1\<rparr> else rfi);
       let syncd_advanced = (rfi_synced_idx rfi < sli);
       let rfi = (if syncd_advanced then rfi\<lparr>rfi_synced_idx := sli\<rparr> else rfi);
       let ri = set_follower_info follower_idx rfi ri;
       if ackd_advanced \<or> syncd_advanced
       then raft_server_leader_try_advance_commit_idx env ri else Some ri } }"

definition raft_server_apply_append_entries_reply_result ::
  "'b raft_env \<Rightarrow> uuid \<Rightarrow> raft_append_entries_reply_msg \<Rightarrow> 'b raft_instance \<Rightarrow> 'b raft_instance option" where
  "raft_server_apply_append_entries_reply_result env follower_uuid raerp ri = do {
     NIOVA_ASSERT (raft_instance_is_leader ri);
     NIOVA_ASSERT (\<not> raerpm_err_stale_term raerp);
     follower_idx \<leftarrow> raft_peer_2_idx ri follower_uuid;
     rfi \<leftarrow> raft_server_get_follower_info env ri follower_idx;
     let rfi = raft_server_update_follower_last_ack env rfi;
     let ri = set_follower_info follower_idx rfi ri;
     if raerpm_prev_log_index raerp + 1 \<noteq> rfi_next_idx rfi then Some ri
     else do {
       ri \<leftarrow> (if raerpm_update_sli raerp
         then Some (if rfi_next_idx rfi < raerpm_synced_log_index raerp
           then set_follower_info follower_idx
             (rfi\<lparr>rfi_next_idx := raerpm_synced_log_index raerp + 1,
                  rfi_ackd_idx := raerpm_synced_log_index raerp,
                  rfi_synced_idx := raerpm_synced_log_index raerp,
                  rfi_prev_idx_term := -1\<rparr>) ri
           else ri)
         else if raerpm_err_non_matching_prev_term raerp
         then Some (if 0 < rfi_next_idx rfi
           then set_follower_info follower_idx
             (rfi\<lparr>rfi_next_idx :=
                    (if raerpm_newly_initialized_peer raerp then 0
                     else if 0 \<le> raerpm_synced_log_index raerp \<and>
                             raerpm_synced_log_index raerp < rfi_next_idx rfi
                     then raerpm_synced_log_index raerp
                     else rfi_next_idx rfi - 1),
                  rfi_prev_idx_term := -1\<rparr>) ri
           else ri)
         else do {
           let ri = (if \<not> raerpm_heartbeat_msg raerp
             then set_follower_info follower_idx
               (rfi\<lparr>rfi_prev_idx_term := -1, rfi_next_idx := rfi_next_idx rfi + 1\<rparr>) ri
             else ri);
           raft_server_try_update_follower_sync_idx env follower_idx (raerpm_leader_term raerp)
             (raerpm_synced_log_index raerp) ri });
       current_idx \<leftarrow> raft_server_get_current_raft_entry_index ri RI_NEHDR_UNSYNC;
       Some (if rfi_next_idx (rls_rfi (ri_leader ri) ! follower_idx) - 1 < current_idx
             then emit (Eff_notify RAFT_EVP_REMOTE_SEND) ri else ri) } }"

definition raft_server_process_append_entries_reply ::
  "'b raft_env \<Rightarrow> uuid \<Rightarrow> raft_rpc_msg \<Rightarrow> raft_append_entries_reply_msg \<Rightarrow> 'b raft_instance
     \<Rightarrow> 'b raft_instance option" where
  "raft_server_process_append_entries_reply env sender rrm raerp ri = do {
     NIOVA_ASSERT (sender = rrm_sender_id rrm);
     if \<not> raft_instance_is_leader ri then Some ri
     else if raerpm_err_stale_term raerp
     then (if rlh_term (ri_log_hdr ri) < raerpm_leader_term raerp
           then raft_server_becomes_follower env (raerpm_leader_term raerp) sender
                  RAFT_BFRSN_STALE_TERM_WHILE_LEADER ri
           else Some ri)
     else raft_server_apply_append_entries_reply_result env sender raerp ri }"

definition raft_server_process_sync_idx_update ::
  "'b raft_env \<Rightarrow> uuid \<Rightarrow> raft_rpc_msg \<Rightarrow> raft_sync_idx_update_msg \<Rightarrow> 'b raft_instance
     \<Rightarrow> 'b raft_instance option" where
  "raft_server_process_sync_idx_update env sender rrm msg ri = do {
     NIOVA_ASSERT (sender = rrm_sender_id rrm);
     if \<not> raft_instance_is_leader ri then Some ri
     else if rsium_term msg \<noteq> rlh_term (ri_log_hdr ri) then Some ri
     else case raft_peer_2_idx ri sender of
         None \<Rightarrow> Some ri
       | Some follower_idx \<Rightarrow> do {
           rfi \<leftarrow> raft_server_get_follower_info env ri follower_idx;
           raft_server_try_update_follower_sync_idx env follower_idx (rsium_term msg)
             (rsium_synced_log_index msg) ri } }"

section \<open>Requests to the followers\<close>

text \<open>
  The header buffer is read into twice; the second read starts from what the first one left.
\<close>

definition raft_server_refresh_follower_prev_log_term ::
  "'b raft_env \<Rightarrow> nat \<Rightarrow> 'b raft_instance \<Rightarrow> (int \<times> 'b raft_instance) option" where
  "raft_server_refresh_follower_prev_log_term env follower ri = do {
     NIOVA_ASSERT (raft_instance_is_leader ri);
     rfi \<leftarrow> raft_server_get_follower_info env ri follower;
     NIOVA_ASSERT (0 \<le> rfi_next_idx rfi);
     my_raft_idx \<leftarrow> raft_server_get_current_raft_entry_index ri RI_NEHDR_UNSYNC;
     let rfi = (if rfi_next_idx rfi = 0
                then rfi\<lparr>rfi_prev_idx_term := 0, rfi_current_idx_term := -1\<rparr> else rfi);
     let refresh_prev = (rfi_prev_idx_term rfi < 0);
     let refresh_current = (rfi_next_idx rfi \<le> my_raft_idx);
     (rc, reh, rfi, ri) \<leftarrow> (if refresh_prev
        then do {
          let prev_idx = rfi_next_idx rfi - 1;
          NIOVA_ASSERT (-1 \<le> prev_idx);
          NIOVA_ASSERT (prev_idx \<le> my_raft_idx);
          (rc, reh, ri) \<leftarrow> raft_server_entry_header_read_by_store env zero_reh prev_idx ri;
          if rc < 0 then Some (rc, reh, rfi\<lparr>rfi_prev_idx_term := 0, rfi_prev_idx_crc := 0\<rparr>, ri)
          else do {
            FATAL_IF (reh_term reh < 0);
            Some (0, reh, rfi\<lparr>rfi_prev_idx_term := reh_term reh, rfi_prev_idx_crc := reh_crc reh\<rparr>, ri) } }
        else Some (0, zero_reh, rfi, ri));
     if rc < 0 then Some (rc, set_follower_info follower rfi ri)
     else if refresh_current
     then do {
       (rc, reh, ri) \<leftarrow> raft_server_entry_header_read_by_store env reh (rfi_next_idx rfi) ri;
       if rc < 0
       then Some (rc, set_follower_info follower
              (rfi\<lparr>rfi_current_idx_term := -1, rfi_current_idx_crc := 0\<rparr>) ri)
       else Some (0, set_follower_info follower
              (rfi\<lparr>rfi_current_idx_term := reh_term reh, rfi_current_idx_crc := reh_crc reh\<rparr>) ri) }
     else Some (0, set_follower_info follower rfi ri) }"

definition raft_server_leader_get_current_term :: "'b raft_instance \<Rightarrow> term_t option" where
  "raft_server_leader_get_current_term ri = do {
     NIOVA_ASSERT (raft_instance_is_leader ri);
     NIOVA_ASSERT (rls_leader_term (ri_leader ri) = rlh_term (ri_log_hdr ri));
     Some (rlh_term (ri_log_hdr ri)) }"

definition raft_server_leader_init_append_entry_msg ::
  "'b raft_env \<Rightarrow> nat \<Rightarrow> bool \<Rightarrow> 'b raft_instance
     \<Rightarrow> (int \<times> raft_append_entries_request_msg \<times> 'b raft_instance) option" where
  "raft_server_leader_init_append_entry_msg env follower heartbeat ri = do {
     (rc, ri) \<leftarrow> raft_server_refresh_follower_prev_log_term env follower ri;
     FATAL_IF (rc \<noteq> 0 \<and> rc \<noteq> - ERANGE);
     let erange = (rc = - ERANGE);
     let rfi = rls_rfi (ri_leader ri) ! follower;
     leader_term \<leftarrow> raft_server_leader_get_current_term ri;
     Some (if rc \<noteq> 0 then - ESTALE else 0,
       \<lparr>raerqm_leader_term = leader_term,
        raerqm_log_term = (if rc = 0 then rfi_current_idx_term rfi else 0),
        raerqm_commit_index = ri_commit_idx ri,
        raerqm_lowest_index = ri_lowest_idx ri,
        raerqm_chkpt_index = ri_checkpoint_last_idx ri,
        raerqm_prev_log_term = (if rc = 0 then rfi_prev_idx_term rfi else -1),
        raerqm_prev_log_index = rfi_next_idx rfi - 1,
        raerqm_prev_idx_crc = (if rc = 0 then rfi_prev_idx_crc rfi else 0),
        raerqm_this_idx_crc = (if rc = 0 then rfi_current_idx_crc rfi else 0),
        raerqm_size_arr = replicate RAFT_ENTRY_NUM_ENTRIES 0,
        raerqm_entries_sz = 0,
        raerqm_num_entries = 0,
        raerqm_heartbeat_msg = (heartbeat \<or> erange),
        raerqm_leader_change_marker = False,
        raerqm_entry_out_of_range = erange,
        raerqm_entries = []\<rparr>,
       ri) }"

definition RAFT_NET_MAX_RETRY_MS :: nat where "RAFT_NET_MAX_RETRY_MS = 30000"

definition raft_server_append_entry_should_send_to_follower ::
  "'b raft_env \<Rightarrow> nat \<Rightarrow> 'b raft_instance \<Rightarrow> (bool \<times> 'b raft_instance) option" where
  "raft_server_append_entry_should_send_to_follower env raft_peer_idx ri = do {
     rfi \<leftarrow> raft_server_get_follower_info env ri raft_peer_idx;
     let now_msec = timespec_2_msec (env_unstable env);
     let (rc, since_last_unacked) = raft_net_comm_recency env ri raft_peer_idx RAFT_COMM_RECENCY_UNACKED_SEND;
     if rc = - EALREADY then Some (False, ri)
     else do {
       NIOVA_ASSERT (rc = 0);
       let (send_msg, rfi) =
         (if 0 < since_last_unacked
          then if rfi_ae_sends_wait_until rfi < now_msec
               then (True, rfi\<lparr>rfi_ae_sends_wait_until := now_msec +
                       min RAFT_NET_MAX_RETRY_MS (rfi_ae_sends_wait_until rfi * 2 + 1)\<rparr>)
               else (False, rfi)
          else (True, rfi\<lparr>rfi_ae_sends_wait_until := 0\<rparr>));
       let ri = set_follower_info raft_peer_idx rfi ri;
       unsync_idx \<leftarrow> raft_server_get_current_raft_entry_index ri RI_NEHDR_UNSYNC;
       if unsync_idx < rfi_next_idx rfi
       then do { NIOVA_ASSERT (rfi_next_idx rfi = unsync_idx + 1); Some (False, ri) }
       else Some (send_msg, ri) } }"

text \<open>
  Filling in the entry of a request: \<^term>\<open>None\<close> in the result is the \<open>continue\<close> after a read of a
  compacted entry.
\<close>

definition append_entry_fill ::
  "'b raft_env \<Rightarrow> raft_append_entries_request_msg \<Rightarrow> 'b raft_instance
     \<Rightarrow> (raft_append_entries_request_msg option \<times> 'b raft_instance) option" where
  "append_entry_fill env raerq ri = do {
     let idx = raerqm_prev_log_index raerq + 1;
     (rc, reh, ri) \<leftarrow> raft_server_entry_header_read_by_store env zero_reh idx ri;
     if rc = - ERANGE then Some (None, ri)
     else do {
       FATAL_IF (rc \<noteq> 0);
       let raerq = raerq\<lparr>raerqm_entries_sz := reh_data_size reh,
             raerqm_leader_change_marker := reh_leader_change_marker reh,
             raerqm_num_entries := ucast (reh_num_entries reh),
             raerqm_size_arr := reh_entry_sz reh\<rparr>;
       NIOVA_ASSERT (reh_index reh = idx);
       if reh_data_size reh \<noteq> 0
       then do {
         (rc, data, ri) \<leftarrow> raft_server_entry_read env idx (unat (reh_data_size reh)) ri;
         if rc = - ERANGE then Some (None, ri)
         else do {
           FATAL_IF (rc \<noteq> 0);
           Some (map_option (\<lambda>d. raerq\<lparr>raerqm_entries := d\<rparr>) data, ri) } }
       else Some (Some raerq, ri) } }"

text \<open>The loop over the members; \<open>heartbeat\<close> is a variable that stays set once it is set.\<close>

fun append_entry_sender_loop ::
  "'b raft_env \<Rightarrow> raft_entry_idx_t \<Rightarrow> nat list \<Rightarrow> bool \<Rightarrow> 'b raft_instance \<Rightarrow> 'b raft_instance option" where
  "append_entry_sender_loop env my_raft_idx [] heartbeat ri = Some ri"
| "append_entry_sender_loop env my_raft_idx (i # is) heartbeat ri = (
     let rp = ri_csn_raft_peers ri ! i in
     if rp = ri_csn_this_peer ri then append_entry_sender_loop env my_raft_idx is heartbeat ri
     else do {
       (should_send, ri) \<leftarrow> raft_server_append_entry_should_send_to_follower env i ri;
       if \<not> should_send \<and> \<not> heartbeat then append_entry_sender_loop env my_raft_idx is heartbeat ri
       else do {
         (rc, raerq, ri) \<leftarrow> raft_server_leader_init_append_entry_msg env i heartbeat ri;
         NIOVA_ASSERT (rc = 0 \<or> rc = - ESTALE);
         let heartbeat = (heartbeat \<or> rc = - ESTALE);
         NIOVA_ASSERT (rc = 0 \<or> raerqm_heartbeat_msg raerq);
         FATAL_IF (my_raft_idx < raerqm_prev_log_index raerq);
         (filled, ri) \<leftarrow> (if \<not> heartbeat \<and> raerqm_prev_log_index raerq + 1 \<le> my_raft_idx
            then append_entry_fill env raerq ri
            else Some (Some (raerq\<lparr>raerqm_heartbeat_msg := True\<rparr>), ri));
         case filled of
           None \<Rightarrow> append_entry_sender_loop env my_raft_idx is heartbeat ri
         | Some raerq \<Rightarrow>
             append_entry_sender_loop env my_raft_idx is heartbeat
               (snd (raft_server_send_msg env rp
                  (raft_server_set_uuids_in_rpc_msg ri (APPEND_ENTRIES_REQUEST raerq)) ri)) } })"

definition raft_server_append_entry_sender ::
  "'b raft_env \<Rightarrow> bool \<Rightarrow> 'b raft_instance \<Rightarrow> 'b raft_instance option" where
  "raft_server_append_entry_sender env heartbeat ri = do {
     my_raft_idx \<leftarrow> raft_server_get_current_raft_entry_index ri RI_NEHDR_UNSYNC;
     if \<not> raft_instance_is_leader ri \<or> my_raft_idx < 0 then Some ri
     else do {
       num_raft_members \<leftarrow> raft_num_members_validate_and_get env ri;
       append_entry_sender_loop env my_raft_idx [0..<num_raft_members] heartbeat ri } }"

definition raft_server_issue_heartbeat :: "'b raft_env \<Rightarrow> 'b raft_instance \<Rightarrow> 'b raft_instance option" where
  "raft_server_issue_heartbeat env ri = do {
     NIOVA_ASSERT (raft_instance_is_leader ri);
     raft_server_append_entry_sender env True ri }"

text \<open>A follower without a known leader would send through a null pointer.\<close>

definition raft_server_follower_send_sync_idx :: "'b raft_env \<Rightarrow> 'b raft_instance \<Rightarrow> 'b raft_instance option" where
  "raft_server_follower_send_sync_idx env ri =
     (if \<not> raft_instance_is_follower ri \<or> raft_server_does_synchronous_writes ri then Some ri
      else case ri_csn_leader ri of
          None \<Rightarrow> None
        | Some leader \<Rightarrow>
            if leader = ri_csn_this_peer ri then Some ri
            else let reh = newest_header ri RI_NEHDR_SYNC in
              Some (snd (raft_server_send_msg env leader (raft_server_set_uuids_in_rpc_msg ri
                (SYNC_IDX_UPDATE \<lparr>rsium_synced_log_index = reh_index reh, rsium_term = reh_term reh\<rparr>)) ri)))"

section \<open>Quorum\<close>

definition raft_leader_majority_followers_comm_window ::
  "'b raft_env \<Rightarrow> nat \<Rightarrow> 'b raft_instance \<Rightarrow> bool option" where
  "raft_leader_majority_followers_comm_window env comm_window_ms ri =
     (if \<not> raft_instance_is_leader ri \<or> env_fault env raft_leader_may_be_deposed then Some False
      else do {
        let now = env_realtime env;
        num_raft_peers \<leftarrow> raft_num_members_validate_and_get env ri;
        let acked = (\<lambda>i. let la = rfi_last_ack (rls_rfi (ri_leader ri) ! i) in
              Some i \<noteq> raft_server_instance_self_idx ri \<and> \<not> now < la \<and>
              timespec_2_msec (now - la) \<le> comm_window_ms);
        Some (num_raft_peers div 2 + 1 \<le> 1 + length (filter acked [0..<num_raft_peers])) })"

definition raft_leader_instance_is_fresh :: "'b raft_env \<Rightarrow> 'b raft_instance \<Rightarrow> bool option" where
  "raft_leader_instance_is_fresh env ri =
     raft_leader_majority_followers_comm_window env (raft_election_timeout_lower_bound ri) ri"

definition raft_leader_check_quorum :: "'b raft_env \<Rightarrow> 'b raft_instance \<Rightarrow> (bool \<times> 'b raft_instance) option" where
  "raft_leader_check_quorum env ri = do {
     NIOVA_ASSERT (ri_state ri = RAFT_STATE_LEADER);
     quorum_intact \<leftarrow> raft_leader_majority_followers_comm_window env
        (raft_election_timeout_lower_bound ri * ri_check_quorum_timeout_factor ri) ri;
     Some (quorum_intact, if quorum_intact
       then ri\<lparr>ri_leader := (ri_leader ri)\<lparr>rls_quorum_ok_cnt := rls_quorum_ok_cnt (ri_leader ri) + 1\<rparr>\<rparr>
       else ri) }"

definition raft_server_increment_leader_time :: "'b raft_env \<Rightarrow> 'b raft_instance \<Rightarrow> 'b raft_instance option" where
  "raft_server_increment_leader_time env ri =
     (if \<not> raft_instance_is_leader ri then Some ri
      else do {
        let start = rls_leader_start (ri_leader ri);
        NIOVA_ASSERT (start \<le> env_unstable env);
        Some (ri\<lparr>ri_leader := (ri_leader ri)\<lparr>rls_leader_accumulated := env_unstable env - start\<rparr>\<rparr>) })"

section \<open>What the leader commits\<close>

text \<open>The index a member has both acknowledged and synced.\<close>

abbreviation reached_idx :: "raft_follower_info \<Rightarrow> raft_entry_idx_t" where
  "reached_idx rfi \<equiv> min (rfi_ackd_idx rfi) (rfi_synced_idx rfi)"

definition reached_by :: "'b raft_instance \<Rightarrow> raft_entry_idx_t list" where
  "reached_by ri = map reached_idx (take (num_members ri) (rls_rfi (ri_leader ri)))"

lemma setup_self_wp:
  "wp (raft_server_leader_setup_self_follower_info env ri) (\<lambda>ri1. \<exists>i self.
     raft_server_instance_self_idx ri = Some i \<and> ri1 = set_follower_info i self ri \<and>
     reached_idx self = reh_index (newest_header ri RI_NEHDR_SYNC))"
  unfolding raft_server_leader_setup_self_follower_info_def raft_server_get_follower_info_def
  by (auto simp: wp_simps Let_def intro!: wpI [of "raft_server_instance_self_idx _"]
      wpI [of "raft_member_idx_is_valid _ _ _"]) (rule exI, rule conjI, rule refl, simp)

lemma set_follower_info_simps [simp]:
  "num_members (set_follower_info i rfi ri) = num_members ri"
  "ri_commit_idx (set_follower_info i rfi ri) = ri_commit_idx ri"
  "ri_state (set_follower_info i rfi ri) = ri_state ri"
  "ri_newest_entry_hdr (set_follower_info i rfi ri) = ri_newest_entry_hdr ri"
  "rls_initial_term_idx (ri_leader (set_follower_info i rfi ri)) = rls_initial_term_idx (ri_leader ri)"
  by (simp_all add: set_follower_info_def num_members_def)

lemma calculate_committed_wp:
  "wp (raft_server_leader_calculate_committed_idx env ri) (\<lambda>(c, ri1).
     is_majority (length (reached_by ri1)) (count_ge c (reached_by ri1)) \<and>
     (\<forall>w. is_majority (length (reached_by ri1)) (count_ge w (reached_by ri1)) \<longrightarrow> w \<le> c) \<and>
     (\<exists>i self. raft_server_instance_self_idx ri = Some i \<and> ri1 = set_follower_info i self ri \<and>
        reached_idx self = reh_index (newest_header ri RI_NEHDR_SYNC)))"
  unfolding raft_server_leader_calculate_committed_idx_def
  by (auto simp: wp_simps Let_def intro!: wp_call [OF setup_self_wp] wpI [of "raft_server_get_majority_entry_idx _ _"])
    (auto simp: reached_by_def dest: get_majority_entry_idx_inv)

lemma can_advance_wp:
  "wp (raft_server_leader_can_advance_commit_idx env st ri) (\<lambda>(c, ri1).
     c \<noteq> RAFT_ENTRY_IDX_ANY \<longrightarrow>
       is_majority (length (reached_by ri1)) (count_ge c (reached_by ri1)) \<and>
       (\<forall>w. is_majority (length (reached_by ri1)) (count_ge w (reached_by ri1)) \<longrightarrow> w \<le> c) \<and>
       rls_initial_term_idx (ri_leader ri) \<le> c \<and> ri_commit_idx ri < c \<and>
       (\<exists>i self. raft_server_instance_self_idx ri = Some i \<and> ri1 = set_follower_info i self ri \<and>
          reached_idx self = reh_index (newest_header ri RI_NEHDR_SYNC)))"
  unfolding raft_server_leader_can_advance_commit_idx_def
  by (auto simp: wp_simps Let_def intro!: wp_call2 [OF calculate_committed_wp])


lemma advance_commit_exact:
  "wp (raft_server_advance_commit_idx c ri) (\<lambda>ri'. ri_commit_idx ri' \<noteq> ri_commit_idx ri \<longrightarrow>
     ri_commit_idx ri' = c \<and> ri_leader ri' = ri_leader ri \<and> num_members ri' = num_members ri)"
  unfolding raft_server_advance_commit_idx_def
  by (auto simp: wp_simps emit_def num_members_def intro!: wpI)

text \<open>
  C4. The leader commits what a majority has: when it advances the commit index, the new index is the
  greatest one that a strict majority of the members (itself with what it has synced) has both
  acknowledged and synced, it is above the old one, not below the last index of the earlier terms, and
  within the leader's own synced log.
\<close>

theorem leader_commit_is_majority:
  assumes "raft_server_leader_try_advance_commit_idx env ri = Some ri'" and "ri_commit_idx ri' \<noteq> ri_commit_idx ri"
    and "num_members ri \<le> length (rls_rfi (ri_leader ri))"
  shows "is_majority (num_members ri) (count_ge (ri_commit_idx ri') (reached_by ri')) \<and>
     (\<forall>w. is_majority (num_members ri) (count_ge w (reached_by ri')) \<longrightarrow> w \<le> ri_commit_idx ri') \<and>
     rls_initial_term_idx (ri_leader ri) \<le> ri_commit_idx ri' \<and> ri_commit_idx ri < ri_commit_idx ri' \<and>
     (\<exists>i self. raft_server_instance_self_idx ri = Some i \<and>
        rls_rfi (ri_leader ri') = (rls_rfi (ri_leader ri))[i := self] \<and>
        reached_idx self = reh_index (newest_header ri RI_NEHDR_SYNC))"
proof -
  obtain c ri1 where can: "raft_server_leader_can_advance_commit_idx env False ri = Some (c, ri1)"
    and adv: "(if c \<noteq> RAFT_ENTRY_IDX_ANY then raft_server_advance_commit_idx c ri1 else Some ri1) = Some ri'"
    using assms(1) by (auto simp: raft_server_leader_try_advance_commit_idx_def bind_Some split: if_splits)
  have same: "ri_commit_idx ri1 = ri_commit_idx ri"
    using can by (auto simp: raft_server_leader_can_advance_commit_idx_def bind_Some Let_def split: if_splits
        dest!: wpD [OF calculate_committed_wp])
  with adv assms(2) have c: "c \<noteq> RAFT_ENTRY_IDX_ANY" and a: "raft_server_advance_commit_idx c ri1 = Some ri'"
    by (auto split: if_splits)
  obtain i self where self: "raft_server_instance_self_idx ri = Some i" "ri1 = set_follower_info i self ri"
      "reached_idx self = reh_index (newest_header ri RI_NEHDR_SYNC)"
    and maj: "is_majority (length (reached_by ri1)) (count_ge c (reached_by ri1))"
      "\<forall>w. is_majority (length (reached_by ri1)) (count_ge w (reached_by ri1)) \<longrightarrow> w \<le> c"
    and bnd: "rls_initial_term_idx (ri_leader ri) \<le> c" "ri_commit_idx ri < c"
    using wpD [OF can_advance_wp can] c by auto
  have eq: "ri_commit_idx ri' = c" "ri_leader ri' = ri_leader ri1" "num_members ri' = num_members ri1"
    using wpD [OF advance_commit_exact a] assms(2) same by auto
  have "length (reached_by ri1) = num_members ri" "reached_by ri' = reached_by ri1"
    using assms(3) eq self(2) by (simp_all add: reached_by_def set_follower_info_def num_members_def)
  then show ?thesis
    using maj bnd self eq by (auto simp: set_follower_info_def)
qed

text \<open>
  The leader of term 2 with the entry of term 1 at index 0 and its own marker at index 1, when
  member 2 has acknowledged index 0 only.
\<close>

definition demo_leader :: "u8 list posix_instance" where
  "demo_leader = demo0\<lparr>ri_state := RAFT_STATE_LEADER,
     ri_log_hdr := (ri_log_hdr demo0)\<lparr>rlh_term := 2, rlh_voted_for := 1\<rparr>,
     ri_newest_entry_hdr := (\<lambda>_. null_reh\<lparr>reh_magic := RAFT_ENTRY_MAGIC, reh_index := 1, reh_term := 2\<rparr>),
     ri_leader := \<lparr>rls_initial_term_idx = 0, rls_leader_term = 2, rls_quorum_ok_cnt = 0, rls_leader_start = 0,
       rls_leader_accumulated = 0,
       rls_rfi = [zero_rfi, zero_rfi\<lparr>rfi_next_idx := 1, rfi_ackd_idx := 0, rfi_synced_idx := 0\<rparr>,
         zero_rfi\<lparr>rfi_ackd_idx := -1, rfi_synced_idx := -1\<rparr>]\<rparr>\<rparr>"

lemma demo_leader_commits:
  "\<exists>ri'. raft_server_leader_try_advance_commit_idx (demo_env mem_io) demo_leader = Some ri' \<and> ri_commit_idx ri' = 0"
proof -
  have cur: "raft_server_get_current_raft_entry_index ri slot = Some 1"
    if "ri_newest_entry_hdr ri = ri_newest_entry_hdr demo_leader" "\<not> raft_instance_is_client ri"
    for slot and ri :: "u8 list posix_instance"
    by (subst current_idx_ok) (simp_all add: that, simp_all add: demo_leader_def hdr_ok_def)
  show ?thesis
    by (simp add: raft_server_leader_try_advance_commit_idx_def raft_server_leader_can_advance_commit_idx_def
       raft_server_leader_calculate_committed_idx_def raft_server_leader_setup_self_follower_info_def
       raft_server_instance_self_idx_def raft_peer_2_idx_def raft_server_get_follower_info_def
       raft_member_idx_is_valid_def raft_num_members_validate_and_get_def raft_num_members_is_valid_def num_members_def
       demo_leader_def raft_instance_is_defs raft_instance_get_newest_header_def Let_def set_follower_info_def
       raft_server_get_majority_entry_idx_def raft_majority_index_value_def
       raft_server_advance_commit_idx_def cur emit_def)
qed

theorem leader_commit_is_majority_witness:
  "\<exists>ri'. raft_server_leader_try_advance_commit_idx (demo_env mem_io) demo_leader = Some ri' \<and>
     ri_commit_idx ri' = 0 \<and> is_majority 3 (count_ge 0 (reached_by ri'))"
proof -
  obtain ri' where h: "raft_server_leader_try_advance_commit_idx (demo_env mem_io) demo_leader = Some ri'"
    and c: "ri_commit_idx ri' = 0"
    using demo_leader_commits by blast
  have "num_members demo_leader = 3" "ri_commit_idx demo_leader = -1" "length (rls_rfi (ri_leader demo_leader)) = 3"
    by (simp_all add: demo_leader_def num_members_def)
  then show ?thesis
    using leader_commit_is_majority [OF h] h c by auto
qed


section \<open>What the leader sends\<close>

context log_backend
begin

text \<open>The entry of a request is the stored entry: its sizes, its flag and its data.\<close>

lemma fill_stored:
  assumes "env_rib env = rib" and "append_entry_fill env raerq ri = Some (Some raerq', ri')"
    and "holds (ri_backend_arg ri) re" and "reh_index (re_header re) = raerqm_prev_log_index raerq + 1"
    and "length (re_data re) = unat (reh_data_size (re_header re))" and "raerqm_entries raerq = []"
  shows "raerq' = raerq\<lparr>raerqm_entries_sz := reh_data_size (re_header re),
     raerqm_leader_change_marker := reh_leader_change_marker (re_header re),
     raerqm_num_entries := ucast (reh_num_entries (re_header re)),
     raerqm_size_arr := reh_entry_sz (re_header re), raerqm_entries := re_data re\<rparr>"
proof -
  let ?i = "raerqm_prev_log_index raerq + 1" and ?rq = "raerq\<lparr>raerqm_entries_sz := reh_data_size (re_header re),
     raerqm_leader_change_marker := reh_leader_change_marker (re_header re),
     raerqm_num_entries := ucast (reh_num_entries (re_header re)), raerqm_size_arr := reh_entry_sz (re_header re)\<rparr>"
  obtain h ri1 where rd: "raft_server_entry_header_read_by_store env zero_reh ?i ri = Some (0, h, ri1)"
    and rest: "(if reh_data_size h \<noteq> 0 then raft_server_entry_read env ?i (unat (reh_data_size h)) ri1 \<bind>
         (\<lambda>(rc, d, ri2). if rc = - ERANGE then Some (None, ri2)
            else if rc \<noteq> 0 then None else Some (map_option (\<lambda>d. raerq\<lparr>raerqm_entries_sz := reh_data_size h,
             raerqm_leader_change_marker := reh_leader_change_marker h,
             raerqm_num_entries := ucast (reh_num_entries h), raerqm_size_arr := reh_entry_sz h, raerqm_entries := d\<rparr>) d, ri2))
        else Some (Some (raerq\<lparr>raerqm_entries_sz := reh_data_size h,
             raerqm_leader_change_marker := reh_leader_change_marker h,
             raerqm_num_entries := ucast (reh_num_entries h), raerqm_size_arr := reh_entry_sz h\<rparr>), ri1)) = Some (Some raerq', ri')"
    using assms(2) by (auto simp: append_entry_fill_def Let_def bind_Some split: if_splits)
  have h: "h = re_header re"
    using header_read_stored [OF assms(1) rd assms(3,4)] .
  have b: "holds (ri_backend_arg ri1) re"
    using wpD [OF header_read_wp rd] assms(3) by (simp add: read_view_def)
  show ?thesis
  proof (cases "reh_data_size h = 0")
    case True
    then show ?thesis
      using rest assms(5,6) h by (auto intro!: raft_append_entries_request_msg.equality)
  next
    case False
    then obtain d ri2 where e: "raft_server_entry_read env ?i (unat (reh_data_size h)) ri1 = Some (0, Some d, ri2)"
      and r: "raerq' = ?rq\<lparr>raerqm_entries := d\<rparr>"
      using rest h by (auto simp: bind_Some split: if_splits)
    have "d = re_data re"
      using assms(4) h
      by (intro entry_read_stored [OF assms(1) e header_read_lowest [OF rd] b]) (simp_all add: unsigned_less [of "_ :: u32", simplified])
    with r show ?thesis by simp
  qed
qed


lemma refresh_stored:
  assumes "env_rib env = rib" and "f < length (rls_rfi (ri_leader ri))" and "holds (ri_backend_arg ri) re"
    and "reh_index (re_header re) = rfi_next_idx (rls_rfi (ri_leader ri) ! f)"
    and "raft_server_get_current_raft_entry_index ri RI_NEHDR_UNSYNC = Some m" and "reh_index (re_header re) \<le> m"
  shows "wp (raft_server_refresh_follower_prev_log_term env f ri) (\<lambda>(rc, ri'). rc = 0 \<longrightarrow>
    rfi_next_idx (rls_rfi (ri_leader ri') ! f) = reh_index (re_header re) \<and>
    rfi_current_idx_term (rls_rfi (ri_leader ri') ! f) = reh_term (re_header re) \<and>
    ri_backend_arg ri' = ri_backend_arg ri)"
proof -
  have l: "ri_leader r = ri_leader r' \<and> ri_backend_arg r = ri_backend_arg r'" if "read_view r = read_view r'" for r r'
    using that by (simp add: read_view_def proto_view_def)
  show ?thesis
    unfolding raft_server_refresh_follower_prev_log_term_def raft_server_get_follower_info_def
    using assms(2-6)
    by (auto simp: wp_simps Let_def set_follower_info_def
        intro!: wpI [of "raft_member_idx_is_valid _ _ _"] wp_call3 [OF header_read_stored_wp [OF assms(1), where re = re]]
        dest!: l)
qed


lemma init_msg_stored:
  assumes "env_rib env = rib" and "raft_server_leader_init_append_entry_msg env f False ri = Some (0, raerq, ri')"
    and "f < length (rls_rfi (ri_leader ri))" and "holds (ri_backend_arg ri) re"
    and "reh_index (re_header re) = rfi_next_idx (rls_rfi (ri_leader ri) ! f)"
    and "raft_server_get_current_raft_entry_index ri RI_NEHDR_UNSYNC = Some m" and "reh_index (re_header re) \<le> m"
  shows "raerqm_prev_log_index raerq + 1 = reh_index (re_header re)" and "raerqm_log_term raerq = reh_term (re_header re)"
    and "\<not> raerqm_heartbeat_msg raerq" and "raerqm_entries raerq = []" and "ri_backend_arg ri' = ri_backend_arg ri"
proof -
  have rf: "raft_server_refresh_follower_prev_log_term env f ri = Some (0, ri')"
    and "raerqm_prev_log_index raerq = rfi_next_idx (rls_rfi (ri_leader ri') ! f) - 1"
    and "raerqm_log_term raerq = rfi_current_idx_term (rls_rfi (ri_leader ri') ! f)"
    and "\<not> raerqm_heartbeat_msg raerq" and "raerqm_entries raerq = []"
    using assms(2) by (auto simp: raft_server_leader_init_append_entry_msg_def bind_Some Let_def split: if_splits)
  then show "raerqm_prev_log_index raerq + 1 = reh_index (re_header re)" and "raerqm_log_term raerq = reh_term (re_header re)"
    and "\<not> raerqm_heartbeat_msg raerq" and "raerqm_entries raerq = []" and "ri_backend_arg ri' = ri_backend_arg ri"
    using wpD [OF refresh_stored [OF assms(1,3-7)] rf] by auto
qed

end

text \<open>What the log code reads of an entry is the same at two members.\<close>

definition same_entry :: "raft_entry \<Rightarrow> raft_entry \<Rightarrow> bool" where
  "same_entry re re' \<longleftrightarrow> reh_index (re_header re') = reh_index (re_header re) \<and>
     reh_term (re_header re') = reh_term (re_header re) \<and>
     reh_leader_change_marker (re_header re') = reh_leader_change_marker (re_header re) \<and>
     reh_num_entries (re_header re') = reh_num_entries (re_header re) \<and>
     reh_data_size (re_header re') = reh_data_size (re_header re) \<and> re_data re' = re_data re \<and>
     (reh_data_size (re_header re) \<noteq> 0 \<longrightarrow>
        take (unat (reh_num_entries (re_header re))) (reh_entry_sz (re_header re'))
          = take (unat (reh_num_entries (re_header re))) (reh_entry_sz (re_header re)))"

text \<open>The data of an entry is the concatenation of its sub-entries, whose sizes the header has.\<close>

definition entry_sizes_ok :: "raft_entry \<Rightarrow> bool" where
  "entry_sizes_ok re \<longleftrightarrow> raft_server_wr_entries_get_total_size (reh_entry_sz (re_header re))
     (ucast (reh_num_entries (re_header re))) = Some (reh_data_size (re_header re)) \<and>
     length (re_data re) = unat (reh_data_size (re_header re))"

lemma entry_init_same:
  assumes "raft_server_entry_init env ri (reh_index (re_header re)) (reh_term (re_header re)) (Some (re_data re))
      (reh_entry_sz (re_header re)) (ucast (reh_num_entries (re_header re)))
      (if reh_leader_change_marker (re_header re) then RAFT_WR_ENTRY_OPT_LEADER_CHANGE_MARKER else RAFT_WR_ENTRY_OPT_NONE)
      = Some re'" and "entry_sizes_ok re"
  shows "same_entry re re'"
  using assms
  by (auto simp: raft_server_entry_init_def Let_def bind_Some same_entry_def entry_sizes_ok_def
      raft_server_wr_entries_get_total_size_def split: if_splits)

context posix_file
begin

lemmas sent_msg = log.init_msg_stored and sent_entry = log.fill_stored

end

text \<open>
  C3. Replication copies the entry. When a leader fills a request for a follower from the entry
  its log file holds at the follower's next index, and the follower accepts the request, then the
  follower's log file holds an entry with the same index, term, flag, sizes and data.
\<close>

theorem replication_copies_entry:
  assumes "posix_file io contents"
    and "re \<in> stored_log contents ri" and "entry_sizes_ok re"
    and "f < length (rls_rfi (ri_leader ri))" and "entry_idx re = rfi_next_idx (rls_rfi (ri_leader ri) ! f)"
    and "raft_server_get_current_raft_entry_index ri RI_NEHDR_UNSYNC = Some m" and "entry_idx re \<le> m"
    and "raft_server_leader_init_append_entry_msg (raft_server_backend_use_posix io env) f False ri = Some (0, raerq, ri1)"
    and "append_entry_fill (raft_server_backend_use_posix io env) raerq ri1 = Some (Some raerq', ri2)"
    and "posix_ready fo" and "env_realtime env' div 1000000000 < 2 ^ 64"
    and "append_entries_log_ops (raft_server_backend_use_posix io env') raerq' fo = Some (0, nm, False, fo')"
  shows "\<exists>re' \<in> stored_log contents fo'. same_entry re re'"
proof -
  note pf = assms(1)
  let ?env = "raft_server_backend_use_posix io env'"
  have holds: "posix_holds contents (ri_backend_arg ri) re" and st: "posix_storable re"
    using assms(2) by (simp_all add: stored_log_def posix_holds_def split: option.splits)
  note msg = posix_file.sent_msg [OF pf env_rib_use_posix assms(8,4) holds assms(5-7)]
  have rq: "raerq' = raerq\<lparr>raerqm_entries_sz := reh_data_size (re_header re),
     raerqm_leader_change_marker := reh_leader_change_marker (re_header re),
     raerqm_num_entries := ucast (reh_num_entries (re_header re)),
     raerqm_size_arr := reh_entry_sz (re_header re), raerqm_entries := re_data re\<rparr>"
    using posix_file.sent_entry [OF pf env_rib_use_posix assms(9)] msg holds st
    by (simp add: posix_storable_def re_fits_def)
  have hb: "\<not> raerqm_heartbeat_msg raerq'"
    using msg by (simp add: rq)
  obtain r r' where p: "raft_server_append_entry_log_prepare_and_check ?env raerq' fo = Some (0, r)"
    and w: "raft_server_write_new_entry_from_leader ?env raerq' r = Some r'"
    and a: "raft_server_advance_commit_idx (raerqm_commit_index raerq') r' = Some fo'"
    using assms(12) hb by (auto simp: append_entries_log_ops_def Let_def bind_Some split: if_splits)
  note e = write_from_leader_write [OF w hb]
  obtain re' where init: "raft_server_entry_init ?env r (raerqm_prev_log_index raerq' + 1) (raerqm_log_term raerq')
         (Some (raerqm_entries raerq')) (raerqm_size_arr raerq') (ucast (ucast (raerqm_num_entries raerq') :: u8))
         (if raerqm_leader_change_marker raerq' then RAFT_WR_ENTRY_OPT_LEADER_CHANGE_MARKER
          else RAFT_WR_ENTRY_OPT_NONE) = Some re'"
    using posix.entry_write_newest [OF env_rib_use_posix e(3,2)] e(1) by (metis raft_instance_is_defs raft_state.distinct)
  have same: "same_entry re re'"
    using entry_init_same [OF _ assms(3)] init msg(1,2) by (simp add: rq)
  have "ri_max_entry_size r = RAFT_ENTRY_SIZE_POSIX"
    using wpD [OF posix.prepare_and_check_view [OF env_rib_use_posix] p] assms(10) by (simp add: proto_view_def posix_ready_def)
  then have st': "posix_storable re'"
    using entry_init_storable [OF init] e(2) st msg(1,2) assms(11)
    by (simp add: rq posix_storable_def re_fits_def reh_fits_def raft_server_backend_use_posix_def)
  have "posix_holds contents (ri_backend_arg r') re'"
    using posix_file.append_stored [OF pf env_rib_use_posix e(3) init st'] by simp
  moreover have "ri_backend_arg fo' = ri_backend_arg r'"
    using a by (auto simp: raft_server_advance_commit_idx_def bind_Some emit_def split: if_splits)
  ultimately show ?thesis
    using same by (auto simp: stored_log_def)
qed

text \<open>Member 1, leader of term 1, with the marker at index 0 to send to member 2.\<close>

definition demo_sender where
  "demo_sender rip = demo0\<lparr>ri_backend_arg := Some rip, ri_newest_entry_hdr := (\<lambda>_. re_header demo_marker),
     ri_state := RAFT_STATE_LEADER, ri_log_hdr := (ri_log_hdr demo0)\<lparr>rlh_term := 1, rlh_voted_for := 1\<rparr>,
     ri_leader := \<lparr>rls_initial_term_idx = -1, rls_leader_term = 1, rls_quorum_ok_cnt = 0, rls_leader_start = 0,
       rls_leader_accumulated = 0, rls_rfi = [zero_rfi, zero_rfi, zero_rfi]\<rparr>\<rparr>"

lemma entry_init_marker:
  assumes "raft_server_entry_init env ri i t None [0] 1 RAFT_WR_ENTRY_OPT_LEADER_CHANGE_MARKER = Some re"
  shows "reh_entry_sz (re_header re) = replicate RAFT_ENTRY_NUM_ENTRIES 0"
    and "reh_data_size (re_header re) = 0" and "re_data re = []"
  using assms
  by (auto simp: raft_server_entry_init_def Let_def bind_Some raft_server_wr_entries_get_total_size_def split: if_splits)

lemmas demo_marker_sizes = entry_init_marker [OF demo_marker_init]

lemma demo_sends:
  assumes "posix_holds (\<lambda>f. f) (Some rip) demo_marker"
  shows "\<exists>raerq ri1 ri2. raft_server_leader_init_append_entry_msg (demo_env mem_io) 1 False (demo_sender rip) = Some (0, raerq, ri1) \<and>
     append_entry_fill (demo_env mem_io) raerq ri1 = Some (Some demo_raerq, ri2)"
proof -
  note f = entry_init_fields [OF demo_marker_init]
  let ?s = "demo_sender rip"
  let ?fi = "zero_rfi\<lparr>rfi_prev_idx_term := 0, rfi_current_idx_term := 1, rfi_current_idx_crc := reh_crc (re_header demo_marker)\<rparr>"
  let ?r1 = "set_follower_info 1 ?fi (?s\<lparr>ri_pending_read_idx := -1\<rparr>)"
  have nc: "\<not> raft_instance_is_client r" if "ri_state r = RAFT_STATE_LEADER" for r :: "u8 list posix_instance"
    using that by (simp add: raft_instance_is_client_def)
  have rdy: "posix_ready ?s" "posix_ready ?r1"
    using posix_ready_demo [of "[]"] by (simp_all add: demo_sender_def posix_ready_def set_follower_info_def)
  have rd: "raft_server_entry_header_read_by_store (demo_env mem_io) zero_reh 0 ?s
      = Some (0, re_header demo_marker, ?s\<lparr>ri_pending_read_idx := -1\<rparr>)"
    "raft_server_entry_header_read_by_store (demo_env mem_io) zero_reh 0 ?r1
      = Some (0, re_header demo_marker, ?r1\<lparr>ri_pending_read_idx := -1\<rparr>)"
    using assms by (intro demo_header_read rdy nc; simp add: demo_sender_def set_follower_info_def)+
  have cur: "raft_server_get_current_raft_entry_index ?s RI_NEHDR_UNSYNC = Some 0"
    using f by (subst current_idx_ok) (simp_all add: demo_sender_def hdr_ok_def nc)
  have "raft_server_refresh_follower_prev_log_term (demo_env mem_io) 1 ?s = Some (0, ?r1)"
    using rd(1) cur f
    by (simp add: raft_server_refresh_follower_prev_log_term_def raft_server_get_follower_info_def
        raft_member_idx_is_valid_def raft_num_members_validate_and_get_def raft_num_members_is_valid_def num_members_def
        raft_instance_is_defs Let_def) (simp add: demo_sender_def zero_rfi_def)
  then show ?thesis
    using rd(2) f demo_marker_sizes
    by (simp add: raft_server_leader_init_append_entry_msg_def raft_server_leader_get_current_term_def append_entry_fill_def
       raft_instance_is_defs Let_def) (simp add: demo_sender_def demo_raerq_def zero_rfi_def set_follower_info_def)
qed

theorem replication_copies_entry_witness:
  "\<exists>rip raerq ri1 ri2 fo'. demo_marker \<in> stored_log (\<lambda>f. f) (demo_sender rip) \<and>
     raft_server_leader_init_append_entry_msg (demo_env mem_io) 1 False (demo_sender rip) = Some (0, raerq, ri1) \<and>
     append_entry_fill (demo_env mem_io) raerq ri1 = Some (Some demo_raerq, ri2) \<and>
     append_entries_log_ops (demo_env mem_io) demo_raerq demo_follower = Some (0, False, False, fo') \<and>
     (\<exists>re' \<in> stored_log (\<lambda>f. f) fo'. same_entry demo_marker re')"
proof -
  note f = entry_init_fields [OF demo_marker_init]
  obtain rip where holds: "posix_holds (\<lambda>f. f) (Some rip) demo_marker"
    using demo_first_entry by blast
  obtain raerq ri1 ri2 where
    m: "raft_server_leader_init_append_entry_msg (demo_env mem_io) 1 False (demo_sender rip) = Some (0, raerq, ri1)"
    and fl: "append_entry_fill (demo_env mem_io) raerq ri1 = Some (Some demo_raerq, ri2)"
    using demo_sends [OF holds] by blast
  obtain fo' where a: "append_entries_log_ops (demo_env mem_io) demo_raerq demo_follower = Some (0, False, False, fo')"
    using demo_accepts by blast
  have st: "demo_marker \<in> stored_log (\<lambda>f. f) (demo_sender rip)"
    using holds by (simp add: stored_log_def demo_sender_def)
  have sz: "entry_sizes_ok demo_marker"
    using f(4) demo_marker_sizes by (simp add: entry_sizes_ok_def raft_server_wr_entries_get_total_size_def RAFT_ENTRY_NUM_ENTRIES_def)
  have cur: "raft_server_get_current_raft_entry_index (demo_sender rip) RI_NEHDR_UNSYNC = Some 0"
    using f by (subst current_idx_ok) (simp_all add: demo_sender_def hdr_ok_def raft_instance_is_client_def)
  have "\<exists>re' \<in> stored_log (\<lambda>f. f) fo'. same_entry demo_marker re'"
    using f(1) by (intro replication_copies_entry [OF mem.posix_file_axioms st sz _ _ cur _
          m [folded use_posix_demo] fl [folded use_posix_demo] _ _ a [folded use_posix_demo]])
      (simp_all add: demo_sender_def zero_rfi_def)
  with st m fl a show ?thesis by blast
qed

end
