(* ===== verification/Raft_Client.thy ===== *)
theory Raft_Client
  imports Raft_Leader
begin

text \<open>
  The server's side of client requests (\<open>raft_server.c\<close>): who may be served, the request
  handle passed to the application, the coalescing of writes into one log entry, and the
  handlers of reads, writes and pings; and the write supplements of \<open>raft_net.c\<close>.

  The application (the state machine callback) and the table of known nodes are parameters.
\<close>

section \<open>Write supplements\<close>

definition RAFT_NET_WR_SUPP_MAX :: nat where "RAFT_NET_WR_SUPP_MAX = 1024 * 1024 + 1024"

text \<open>
  \<open>strncmp\<close> over the length of the column family's own name: any prefix of the name passes.
\<close>

definition cf_is_user :: "string \<Rightarrow> bool" where
  "cf_is_user name \<longleftrightarrow> name \<noteq> [] \<and> take (length name) ''PMDBTS_CF'' = name"

definition raft_net_sm_write_supplement_crc_update ::
  "'b raft_env \<Rightarrow> raft_net_wr_supp \<Rightarrow> raft_net_sm_write_supplements \<Rightarrow> raft_net_sm_write_supplements" where
  "raft_net_sm_write_supplement_crc_update env ws rnsws =
     (if \<not> rnsws_kv_crc_enabled rnsws \<or> rnws_op ws \<noteq> RAFT_NET_WR_SUPP_OP_WRITE then rnsws
      else if (case rnws_cf_name ws of None \<Rightarrow> False | Some name \<Rightarrow> \<not> cf_is_user name) then rnsws
      else let crc1 = (if rnws_key ws \<noteq> [] then env_crc env (rnws_key ws) (rnsws_kv_crc rnsws)
                       else rnsws_kv_crc rnsws);
               crc2 = (if rnws_value ws \<noteq> [] then env_crc env (rnws_value ws) crc1 else crc1)
           in rnsws\<lparr>rnsws_kv_crc := crc2\<rparr>)"

text \<open>Memory is taken to be available.\<close>

definition raft_net_sm_write_supplement_add ::
  "'b raft_env \<Rightarrow> raft_net_wr_supp \<Rightarrow> raft_net_sm_write_supplements \<Rightarrow> int \<times> raft_net_sm_write_supplements" where
  "raft_net_sm_write_supplement_add env ws rnsws =
     (if rnws_key ws = [] then (- EINVAL, rnsws)
      else if RAFT_NET_WR_SUPP_MAX \<le> length (rnsws_ws rnsws) then (- ENOSPC, rnsws)
      else (0, raft_net_sm_write_supplement_crc_update env ws (rnsws\<lparr>rnsws_ws := rnsws_ws rnsws @ [ws]\<rparr>)))"

text \<open>The result is the code, the destination and the emptied source.\<close>

definition raft_net_sm_write_supplements_merge ::
  "raft_net_sm_write_supplements \<Rightarrow> raft_net_sm_write_supplements
     \<Rightarrow> int \<times> raft_net_sm_write_supplements \<times> raft_net_sm_write_supplements" where
  "raft_net_sm_write_supplements_merge dest src =
     (if rnsws_ws src = [] then (0, dest, src)
      else if RAFT_NET_WR_SUPP_MAX < length (rnsws_ws dest) + length (rnsws_ws src)
      then (- E2BIG, dest, src)
      else (0, \<lparr>rnsws_ws = rnsws_ws dest @ rnsws_ws src, rnsws_kv_crc = 0, rnsws_kv_crc_enabled = False\<rparr>,
            raft_net_sm_write_supplement_destroy src))"

definition raft_net_sm_write_supplement_enable_kv_crc ::
  "crc32_t \<Rightarrow> raft_net_sm_write_supplements \<Rightarrow> raft_net_sm_write_supplements" where
  "raft_net_sm_write_supplement_enable_kv_crc seed rnsws =
     rnsws\<lparr>rnsws_kv_crc := seed, rnsws_kv_crc_enabled := True\<rparr>"

definition raft_net_sm_write_supplement_get_kv_crc :: "raft_net_sm_write_supplements \<Rightarrow> crc32_t" where
  "raft_net_sm_write_supplement_get_kv_crc rnsws =
     (if rnsws_kv_crc_enabled rnsws then rnsws_kv_crc rnsws else 0)"

definition empty_ws :: raft_net_sm_write_supplements where
  "empty_ws = \<lparr>rnsws_ws = [], rnsws_kv_crc = 0, rnsws_kv_crc_enabled = False\<rparr>"

section \<open>Request handles\<close>

text \<open>
  The reply and the data the application adds to a write share their storage: \<open>rncr_reply_ptr\<close> is
  the message in the buffer, \<open>rncr_app_data\<close> the bytes there when the application uses it for its
  own data, and \<open>rncr_data_size\<close> is the size field of both.
\<close>

datatype raft_net_client_request_type =
    RAFT_NET_CLIENT_REQ_TYPE_NONE
  | RAFT_NET_CLIENT_REQ_TYPE_READ
  | RAFT_NET_CLIENT_REQ_TYPE_WRITE
  | RAFT_NET_CLIENT_REQ_TYPE_COMMIT
  | RAFT_NET_CLIENT_REQ_TYPE_ANY

record raft_net_client_request_handle =
  rncr_type :: raft_net_client_request_type
  rncr_write_raft_entry :: bool
  rncr_is_leader :: bool
  rncr_is_direct_req :: bool
  rncr_op_error :: int
  rncr_entry_term :: term_t
  rncr_current_term :: term_t
  rncr_apply_handler_version :: u64
  rncr_request :: "raft_client_rpc_msg option"
  rncr_request_or_commit_data :: "u8 list"
  rncr_reply_ptr :: "raft_client_rpc_msg option"
  rncr_data_max_size :: nat
  rncr_data_size :: nat
  rncr_app_data :: "u8 list"
  rncr_msg_id :: u64
  rncr_sm_write_supp :: raft_net_sm_write_supplements
  rncr_client_uuid :: uuid

definition raft_net_client_request_handle_set_reply_info ::
  "uuid \<Rightarrow> u64 \<Rightarrow> raft_net_client_request_handle \<Rightarrow> raft_net_client_request_handle" where
  "raft_net_client_request_handle_set_reply_info client_uuid msg_id rncr =
     rncr\<lparr>rncr_client_uuid := client_uuid, rncr_msg_id := msg_id\<rparr>"

definition raft_net_client_request_handle_has_reply_info :: "raft_net_client_request_handle \<Rightarrow> bool" where
  "raft_net_client_request_handle_has_reply_info rncr \<longleftrightarrow>
     \<not> (uuid_is_null (rncr_client_uuid rncr) \<or> rncr_msg_id rncr = -1 \<or> rncr_msg_id rncr = 0 \<or>
        rncr_data_max_size rncr = 0 \<or> rncr_reply_ptr rncr = None)"

text \<open>
  The application: called with the instance and the handle, it returns a code and the handle
  with what it filled in. The node table: whether a uuid is known, is a client, and may be
  received from.
\<close>

type_synonym 'b sm_request_handler =
  "'b raft_instance \<Rightarrow> raft_net_client_request_handle \<Rightarrow> int \<times> raft_net_client_request_handle"

record ctl_svc_table =
  csn_can_lookup :: "uuid \<Rightarrow> bool"
  csn_can_add :: "uuid \<Rightarrow> bool"
  csn_is_client :: "uuid \<Rightarrow> bool"

section \<open>Who may be served\<close>

definition raft_server_may_accept_client_request :: "'b raft_env \<Rightarrow> 'b raft_instance \<Rightarrow> int option" where
  "raft_server_may_accept_client_request env ri =
     (if raft_instance_is_booting ri then Some (- EINPROGRESS)
      else if raft_instance_is_candidate ri \<or> raft_instance_is_candidate_prevote ri then Some (- ENOENT)
      else if \<not> raft_instance_is_leader ri then Some (- ENOSYS)
      else do {
        fresh \<leftarrow> raft_leader_instance_is_fresh env ri;
        if \<not> fresh then Some (- EAGAIN)
        else do {
          applied \<leftarrow> raft_leader_has_applied_txn_in_my_term ri;
          Some (if \<not> applied then - EBUSY else 0) } })"

section \<open>Coalesced writes\<close>

definition raft_server_write_coalesced_entries ::
  "'b raft_env \<Rightarrow> 'b raft_instance \<Rightarrow> 'b raft_instance option" where
  "raft_server_write_coalesced_entries env ri = (
     let co = ri_coalesced_wr ri in
     if rcwi_nentries co = 0 then Some ri
     else do {
       ri \<leftarrow> raft_server_leader_write_new_entry env (Some (rcwi_buffer co)) (rcwi_entry_sizes co)
              (rcwi_nentries co) RAFT_WR_ENTRY_OPT_NONE (Some (rcwi_ws co)) ri;
       Some (ri\<lparr>ri_coalesced_wr :=
         \<lparr>rcwi_nentries = 0, rcwi_entry_sizes = replicate RAFT_ENTRY_NUM_ENTRIES 0,
          rcwi_total_size = 0, rcwi_ws = empty_ws, rcwi_buffer = rcwi_buffer (ri_coalesced_wr ri)\<rparr>\<rparr>) })"

definition raft_server_leader_co_wr_timer_expired :: "'b raft_env \<Rightarrow> 'b raft_instance \<Rightarrow> 'b raft_instance option" where
  "raft_server_leader_co_wr_timer_expired env ri = do {
     rc \<leftarrow> raft_server_may_accept_client_request env ri;
     if rc \<noteq> 0 then Some ri
     else if rcwi_nentries (ri_coalesced_wr ri) \<noteq> 0 \<and> \<not> env_fault env coalesced_writes_fault
     then raft_server_write_coalesced_entries env ri
     else Some ri }"

text \<open>\<open>memcpy\<close> of \<open>d\<close> to the end of the coalesced data.\<close>

definition co_wr_append :: "u8 list \<Rightarrow> raft_instance_co_wr \<Rightarrow> raft_instance_co_wr" where
  "co_wr_append d co = co\<lparr>rcwi_buffer := take (rcwi_total_size co) (rcwi_buffer co) @ d @
        drop (rcwi_total_size co + length d) (rcwi_buffer co),
      rcwi_total_size := rcwi_total_size co + length d\<rparr>"

definition raft_server_write_coalesce_entry ::
  "'b raft_env \<Rightarrow> u8 list \<Rightarrow> u8 list \<Rightarrow> 'b raft_instance \<Rightarrow> 'b raft_instance option" where
  "raft_server_write_coalesce_entry env data app_data ri = do {
     let co = ri_coalesced_wr ri;
     NIOVA_ASSERT (unat (rcwi_nentries co) < RAFT_ENTRY_NUM_ENTRIES \<and>
                   rcwi_total_size co < RAFT_ENTRY_MAX_DATA_SIZE ri);
     FATAL_IF (RAFT_ENTRY_MAX_DATA_SIZE ri < length data + length app_data + rcwi_total_size co);
     let co = co_wr_append app_data (co_wr_append data co);
     let nentries = rcwi_nentries co;
     let co = co\<lparr>rcwi_entry_sizes := (rcwi_entry_sizes co)
                  [unat nentries := of_nat (length data) + of_nat (length app_data)],
                rcwi_nentries := nentries + 1\<rparr>;
     let ri = ri\<lparr>ri_coalesced_wr := co\<rparr>;
     if \<not> ri_coalesced_writes ri \<or> unat (rcwi_nentries co) = RAFT_ENTRY_NUM_ENTRIES \<or>
        rcwi_total_size co = RAFT_ENTRY_MAX_DATA_SIZE ri
     then raft_server_write_coalesced_entries env ri else Some ri }"

section \<open>Replies\<close>

definition raft_server_send_msg_to_client ::
  "'b raft_env \<Rightarrow> ctl_svc_table \<Rightarrow> raft_net_client_request_handle \<Rightarrow> uuid option \<Rightarrow> 'b raft_instance
     \<Rightarrow> int \<times> 'b raft_instance" where
  "raft_server_send_msg_to_client env svc rncr csn ri = (case rncr_reply_ptr rncr of
       None \<Rightarrow> (- EINVAL, ri)
     | Some reply \<Rightarrow>
         let msg_size = sizeof_raft_client_rpc_msg + unat (rcrm_data_size reply);
             peer = (case csn of Some c \<Rightarrow> c | None \<Rightarrow> rncr_client_uuid rncr) in
         if csn = None \<and> \<not> csn_can_lookup svc peer then (- ENOENT, ri)
         else let (rc, ri) = raft_net_send_msg env peer msg_size True ri
           in (rc, if rc = 0 \<and> env_net_can_send env peer then emit (Eff_client_send peer reply) ri else ri))"

definition raft_server_reply_to_client ::
  "'b raft_env \<Rightarrow> ctl_svc_table \<Rightarrow> raft_net_client_request_handle \<Rightarrow> uuid option \<Rightarrow> 'b raft_instance
     \<Rightarrow> 'b raft_instance" where
  "raft_server_reply_to_client env svc rncr csn ri =
     (if \<not> raft_net_client_request_handle_has_reply_info rncr \<or> rncr_is_direct_req rncr then ri
      else snd (raft_server_send_msg_to_client env svc rncr csn ri))"

definition raft_server_deny_client_request ::
  "'b raft_env \<Rightarrow> ctl_svc_table \<Rightarrow> raft_net_client_request_handle \<Rightarrow> uuid option \<Rightarrow> int \<Rightarrow> 'b raft_instance
     \<Rightarrow> 'b raft_instance option" where
  "raft_server_deny_client_request env svc rncr csn rc ri = do {
     NIOVA_ASSERT (rncr_request rncr \<noteq> None);
     reply \<leftarrow> rncr_reply_ptr rncr;
     let reply = reply\<lparr>rcrm_sys_error := rc\<rparr>;
     let reply = (case ri_csn_leader ri of
          Some l \<Rightarrow> if rc = - ENOSYS
            then reply\<lparr>rcrm_type := RAFT_CLIENT_RPC_MSG_TYPE_REDIRECT, rcrm_dest_id := l\<rparr> else reply
        | None \<Rightarrow> reply);
     Some (raft_server_reply_to_client env svc (rncr\<lparr>rncr_reply_ptr := Some reply\<rparr>) csn ri) }"

definition raft_server_client_reply_init ::
  "'b raft_instance \<Rightarrow> raft_client_rpc_msg_type \<Rightarrow> raft_net_client_request_handle
     \<Rightarrow> raft_net_client_request_handle option" where
  "raft_server_client_reply_init ri msg_type rncr = do {
     NIOVA_ASSERT (rncr_is_direct_req rncr \<or>
       (rncr_reply_ptr rncr \<noteq> None \<and>
        (msg_type = RAFT_CLIENT_RPC_MSG_TYPE_PING_REPLY \<or> msg_type = RAFT_CLIENT_RPC_MSG_TYPE_REPLY) \<and>
        raft_net_client_request_handle_has_reply_info rncr \<and>
        rncr_data_size rncr < rncr_data_max_size rncr));
     reply \<leftarrow> rncr_reply_ptr rncr;
     Some (rncr\<lparr>rncr_reply_ptr := Some
       \<lparr>rcrm_type = msg_type, rcrm_data_size = of_nat (rncr_data_size rncr),
        rcrm_msg_id = rncr_msg_id rncr, rcrm_raft_id = ri_csn_raft ri,
        rcrm_sender_id = ri_csn_this_peer ri, rcrm_dest_id = rncr_client_uuid rncr,
        rcrm_app_error = 0, rcrm_sys_error = 0, rcrm_user_tag = 0,
        rcrm_data = rcrm_data reply\<rparr>\<rparr>) }"

definition raft_net_verify_sender_client_msg :: "'b raft_instance \<Rightarrow> uuid \<Rightarrow> int" where
  "raft_net_verify_sender_client_msg ri sender_raft_uuid =
     (if uuid_is_null sender_raft_uuid then - EINVAL
      else if ri_csn_raft ri \<noteq> sender_raft_uuid then - ENODEV else 0)"

text \<open>The second component is the client's node, when the request is not ignored.\<close>

definition raft_server_client_recv_ignore_request ::
  "'b raft_env \<Rightarrow> ctl_svc_table \<Rightarrow> 'b raft_instance \<Rightarrow> raft_client_rpc_msg \<Rightarrow> bool \<times> uuid option" where
  "raft_server_client_recv_ignore_request env svc ri rcm =
     (let u = rcrm_sender_id rcm in
      if raft_net_verify_sender_client_msg ri (rcrm_raft_id rcm) \<noteq> 0 then (True, None)
      else if \<not> (csn_can_lookup svc u \<or> csn_can_add svc u) then (True, None)
      else if csn_is_client svc u \<and> env_net_can_recv env u then (False, Some u)
      else (True, None))"

section \<open>Handling a request\<close>

definition zero_client_msg :: raft_client_rpc_msg where
  "zero_client_msg = \<lparr>rcrm_type = RAFT_CLIENT_RPC_MSG_TYPE_INVALID, rcrm_data_size = 0, rcrm_msg_id = 0,
     rcrm_raft_id = 0, rcrm_sender_id = 0, rcrm_dest_id = 0, rcrm_app_error = 0, rcrm_sys_error = 0,
     rcrm_user_tag = 0, rcrm_data = []\<rparr>"

text \<open>
  The request is either a client's message or the data of a committed entry. The reply buffer,
  when there is one, is zeroed.
\<close>

definition raft_server_net_client_request_init ::
  "'b raft_instance \<Rightarrow> raft_net_client_request_type \<Rightarrow> raft_client_rpc_msg option \<Rightarrow> u8 list option
     \<Rightarrow> nat option \<Rightarrow> bool \<Rightarrow> raft_net_client_request_handle option" where
  "raft_server_net_client_request_init ri type rpc_request commit_data reply_buf_size is_direct_req = do {
     NIOVA_ASSERT (is_direct_req \<or>
       (case reply_buf_size of None \<Rightarrow> False | Some n \<Rightarrow> sizeof_raft_client_rpc_msg \<le> n));
     FATAL_IF (case type of
         RAFT_NET_CLIENT_REQ_TYPE_NONE \<Rightarrow> rpc_request = None \<or> commit_data \<noteq> None
       | RAFT_NET_CLIENT_REQ_TYPE_COMMIT \<Rightarrow> rpc_request \<noteq> None \<or> commit_data = None
       | _ \<Rightarrow> True);
     let rncr = \<lparr>rncr_type = type, rncr_write_raft_entry = False,
        rncr_is_leader = raft_instance_is_leader ri, rncr_is_direct_req = is_direct_req,
        rncr_op_error = 0, rncr_entry_term = rlh_term (ri_log_hdr ri),
        rncr_current_term = rlh_term (ri_log_hdr ri), rncr_apply_handler_version = 0,
        rncr_request = rpc_request,
        rncr_request_or_commit_data = (case rpc_request of
            Some rcm \<Rightarrow> take (unat (rcrm_data_size rcm)) (rcrm_data rcm)
          | None \<Rightarrow> (case commit_data of Some d \<Rightarrow> d | None \<Rightarrow> [])),
        rncr_reply_ptr = map_option (\<lambda>_. zero_client_msg) reply_buf_size,
        rncr_data_max_size = (case reply_buf_size of
            Some n \<Rightarrow> n - sizeof_raft_client_rpc_msg | None \<Rightarrow> 2 ^ 64 - sizeof_raft_client_rpc_msg),
        rncr_data_size = 0, rncr_app_data = [], rncr_msg_id = 0,
        rncr_sm_write_supp = empty_ws, rncr_client_uuid = 0\<rparr>;
     case rpc_request of
       Some rcm \<Rightarrow> do {
         let rncr = raft_net_client_request_handle_set_reply_info (rcrm_sender_id rcm) (rcrm_msg_id rcm) rncr;
         NIOVA_ASSERT (is_direct_req \<or> raft_net_client_request_handle_has_reply_info rncr);
         Some rncr }
     | None \<Rightarrow> do {
         NIOVA_ASSERT (\<not> raft_net_client_request_handle_has_reply_info rncr);
         Some rncr } }"

definition raft_server_net_client_request_init_client_rpc ::
  "'b raft_instance \<Rightarrow> raft_client_rpc_msg \<Rightarrow> nat \<Rightarrow> bool \<Rightarrow> raft_net_client_request_handle option" where
  "raft_server_net_client_request_init_client_rpc ri rpc_request reply_buf_size is_direct_req = do {
     rncr \<leftarrow> raft_server_net_client_request_init ri RAFT_NET_CLIENT_REQ_TYPE_NONE (Some rpc_request)
        None (Some reply_buf_size) is_direct_req;
     if is_direct_req then Some rncr
     else raft_server_client_reply_init ri
            (if rcrm_type rpc_request = RAFT_CLIENT_RPC_MSG_TYPE_PING
             then RAFT_CLIENT_RPC_MSG_TYPE_PING_REPLY else RAFT_CLIENT_RPC_MSG_TYPE_REPLY) rncr }"

definition RAFT_BS_SMALL_SZ :: nat where "RAFT_BS_SMALL_SZ = 4096"
definition RAFT_BS_LARGE_SZ :: nat where "RAFT_BS_LARGE_SZ = 4194304"
definition RAFT_BS_APPLY_SZ :: nat where "RAFT_BS_APPLY_SZ = 4194304"

text \<open>
  Besides the code: the handle and the client's node. A denied request gives its node back.
  Buffers are taken to be available.
\<close>

definition raft_server_client_rncr_prepare ::
  "'b raft_env \<Rightarrow> ctl_svc_table \<Rightarrow> raft_client_rpc_msg \<Rightarrow> nat \<Rightarrow> 'b raft_instance
     \<Rightarrow> (int \<times> raft_net_client_request_handle option \<times> uuid option \<times> 'b raft_instance) option" where
  "raft_server_client_rncr_prepare env svc rcm buf_size ri = (
     let (ignore, csn) = raft_server_client_recv_ignore_request env svc ri rcm in
     if ignore then Some (- EXDEV, None, None, ri)
     else do {
       rncr \<leftarrow> raft_server_net_client_request_init_client_rpc ri rcm buf_size False;
       rc \<leftarrow> raft_server_may_accept_client_request env ri;
       if rc \<noteq> 0
       then do {
         ri \<leftarrow> raft_server_deny_client_request env svc rncr csn rc ri;
         Some (rc, Some rncr, None, ri) }
       else Some (0, Some rncr, csn, ri) })"

text \<open>The return code of the merge is dropped.\<close>

definition raft_server_client_rncr_write_raft_entry ::
  "'b raft_env \<Rightarrow> raft_net_client_request_handle \<Rightarrow> 'b raft_instance \<Rightarrow> 'b raft_instance option" where
  "raft_server_client_rncr_write_raft_entry env rncr ri = do {
     NIOVA_ASSERT (rncr_write_raft_entry rncr);
     rcm \<leftarrow> rncr_request rncr;
     ri \<leftarrow> (if RAFT_ENTRY_MAX_DATA_SIZE ri <
               unat (rcrm_data_size rcm) + rncr_data_size rncr + rcwi_total_size (ri_coalesced_wr ri)
            then raft_server_write_coalesced_entries env ri else Some ri);
     let (_, ws, _) = raft_net_sm_write_supplements_merge (rcwi_ws (ri_coalesced_wr ri)) (rncr_sm_write_supp rncr);
     let ri = ri\<lparr>ri_coalesced_wr := (ri_coalesced_wr ri)\<lparr>rcwi_ws := ws\<rparr>\<rparr>;
     raft_server_write_coalesce_entry env (take (unat (rcrm_data_size rcm)) (rcrm_data rcm))
       (take (rncr_data_size rncr) (rncr_app_data rncr)) ri }"

definition raft_server_client_rncr_complete ::
  "'b raft_env \<Rightarrow> ctl_svc_table \<Rightarrow> raft_net_client_request_handle \<Rightarrow> uuid option \<Rightarrow> int \<Rightarrow> 'b raft_instance
     \<Rightarrow> 'b raft_instance option" where
  "raft_server_client_rncr_complete env svc rncr csn sm_cb_rc ri = do {
     NIOVA_ASSERT (rncr_request rncr \<noteq> None);
     rc \<leftarrow> raft_server_may_accept_client_request env ri;
     if rc \<noteq> 0 \<or> sm_cb_rc \<noteq> 0
     then raft_server_deny_client_request env svc rncr csn (if rc \<noteq> 0 then rc else sm_cb_rc) ri
     else if rncr_write_raft_entry rncr
     then raft_server_client_rncr_write_raft_entry env rncr ri
     else Some (raft_server_reply_to_client env svc rncr csn ri) }"

text \<open>
  A denied ping goes on to \<open>raft_server_client_rncr_complete\<close> with the handle whose reply buffer
  has been released; the model keeps the buffer's contents.
\<close>

definition raft_server_client_recv_handler_ping ::
  "'b raft_env \<Rightarrow> ctl_svc_table \<Rightarrow> raft_client_rpc_msg \<Rightarrow> 'b raft_instance \<Rightarrow> 'b raft_instance option" where
  "raft_server_client_recv_handler_ping env svc rcm ri = do {
     NIOVA_ASSERT (rcrm_type rcm = RAFT_CLIENT_RPC_MSG_TYPE_PING);
     (rc, rncr, csn, ri) \<leftarrow> raft_server_client_rncr_prepare env svc rcm RAFT_BS_SMALL_SZ ri;
     if rc = - EXDEV then Some ri
     else do { rncr \<leftarrow> rncr; raft_server_client_rncr_complete env svc rncr csn rc ri } }"

definition raft_server_client_recv_handler_read ::
  "'b raft_env \<Rightarrow> ctl_svc_table \<Rightarrow> 'b sm_request_handler \<Rightarrow> raft_client_rpc_msg \<Rightarrow> 'b raft_instance
     \<Rightarrow> 'b raft_instance option" where
  "raft_server_client_recv_handler_read env svc sm rcm ri = do {
     NIOVA_ASSERT (rcrm_type rcm = RAFT_CLIENT_RPC_MSG_TYPE_READ);
     (rc, rncr, csn, ri) \<leftarrow> raft_server_client_rncr_prepare env svc rcm RAFT_BS_LARGE_SZ ri;
     if rc \<noteq> 0 then Some ri
     else do {
       rncr \<leftarrow> rncr;
       let (rc, rncr) = sm ri rncr;
       raft_server_client_rncr_complete env svc rncr csn rc ri } }"

definition raft_server_do_client_write ::
  "'b raft_env \<Rightarrow> ctl_svc_table \<Rightarrow> 'b sm_request_handler \<Rightarrow> raft_net_client_request_handle \<Rightarrow> uuid option
     \<Rightarrow> 'b raft_instance \<Rightarrow> 'b raft_instance option" where
  "raft_server_do_client_write env svc sm rncr csn ri = do {
     rcm \<leftarrow> rncr_request rncr;
     NIOVA_ASSERT (rcrm_type rcm = RAFT_CLIENT_RPC_MSG_TYPE_WRITE);
     let (rc, rncr) = sm ri rncr;
     raft_server_client_rncr_complete env svc rncr csn rc ri }"

definition raft_server_client_recv_handler_write ::
  "'b raft_env \<Rightarrow> ctl_svc_table \<Rightarrow> 'b sm_request_handler \<Rightarrow> raft_client_rpc_msg \<Rightarrow> 'b raft_instance
     \<Rightarrow> 'b raft_instance option" where
  "raft_server_client_recv_handler_write env svc sm rcm ri = do {
     NIOVA_ASSERT (rcrm_type rcm = RAFT_CLIENT_RPC_MSG_TYPE_WRITE);
     (rc, rncr, csn, ri) \<leftarrow> raft_server_client_rncr_prepare env svc rcm RAFT_BS_LARGE_SZ ri;
     if rc \<noteq> 0 then Some ri
     else do { rncr \<leftarrow> rncr; raft_server_do_client_write env svc sm rncr csn ri } }"

definition raft_server_client_recv_handler ::
  "'b raft_env \<Rightarrow> ctl_svc_table \<Rightarrow> 'b sm_request_handler option \<Rightarrow> raft_client_rpc_msg \<Rightarrow> nat \<Rightarrow> 'b raft_instance
     \<Rightarrow> 'b raft_instance option" where
  "raft_server_client_recv_handler env svc sm_request_cb rcm recv_bytes ri =
     (case sm_request_cb of None \<Rightarrow> Some ri
      | Some sm \<Rightarrow>
        if recv_bytes < sizeof_raft_client_rpc_msg then Some ri
        else case rcrm_type rcm of
            RAFT_CLIENT_RPC_MSG_TYPE_READ \<Rightarrow> raft_server_client_recv_handler_read env svc sm rcm ri
          | RAFT_CLIENT_RPC_MSG_TYPE_WRITE \<Rightarrow> raft_server_client_recv_handler_write env svc sm rcm ri
          | RAFT_CLIENT_RPC_MSG_TYPE_PING \<Rightarrow> raft_server_client_recv_handler_ping env svc rcm ri
          | _ \<Rightarrow> Some ri)"

section \<open>What the coalesced buffer holds\<close>

text \<open>The pieces of \<open>d\<close> of the given sizes, in order.\<close>

fun slices :: "u32 list \<Rightarrow> u8 list \<Rightarrow> u8 list list" where
  "slices [] d = []"
| "slices (s # ss) d = take (unat s) d # slices ss (drop (unat s) d)"

abbreviation total_len :: "u32 list \<Rightarrow> nat" where
  "total_len ss \<equiv> sum_list (map unat ss)"

lemma length_slices [simp]: "length (slices ss d) = length ss"
  by (induction ss arbitrary: d) simp_all

lemma slices_append: "slices (ss @ ts) d = slices ss d @ slices ts (drop (total_len ss) d)"
  by (induction ss arbitrary: d) (simp_all add: add.commute)

lemma slices_prefix: "total_len ss \<le> n \<Longrightarrow> slices ss (take n d) = slices ss d"
  by (induction ss arbitrary: n d) (simp_all add: min_def drop_take)

lemma concat_slices: "concat (slices ss d) = take (total_len ss) d"
  by (induction ss arbitrary: d) (simp_all add: take_add)

lemma slices_app_data: "total_len ss \<le> length d \<Longrightarrow> slices ss (d @ e) = slices ss d"
  using slices_prefix [of ss "length d" "d @ e"] by simp

text \<open>The writes waiting in the buffer, and the shape of the buffer.\<close>

definition co_writes :: "raft_instance_co_wr \<Rightarrow> u8 list list" where
  "co_writes co = slices (take (unat (rcwi_nentries co)) (rcwi_entry_sizes co)) (rcwi_buffer co)"

definition co_ok :: "raft_instance_co_wr \<Rightarrow> bool" where
  "co_ok co \<longleftrightarrow> length (rcwi_entry_sizes co) = RAFT_ENTRY_NUM_ENTRIES \<and>
     unat (rcwi_nentries co) \<le> RAFT_ENTRY_NUM_ENTRIES \<and> rcwi_total_size co \<le> length (rcwi_buffer co) \<and>
     rcwi_total_size co = total_len (take (unat (rcwi_nentries co)) (rcwi_entry_sizes co))"

text \<open>Adding one write to the buffer.\<close>

definition co_add :: "u8 list \<Rightarrow> u8 list \<Rightarrow> raft_instance_co_wr \<Rightarrow> raft_instance_co_wr" where
  "co_add data app_data co = (co_wr_append app_data (co_wr_append data co))
     \<lparr>rcwi_entry_sizes := (rcwi_entry_sizes co)
        [unat (rcwi_nentries co) := of_nat (length data) + of_nat (length app_data)],
      rcwi_nentries := rcwi_nentries co + 1\<rparr>"

lemma co_wr_append_twice:
  "co_wr_append e (co_wr_append d co) = co_wr_append (d @ e) co" if "rcwi_total_size co \<le> length (rcwi_buffer co)"
  using that by (auto simp: co_wr_append_def min_def ac_simps)

lemma co_add_writes:
  assumes "co_ok co" and "unat (rcwi_nentries co) < RAFT_ENTRY_NUM_ENTRIES"
    and "length data + length app_data < 2 ^ 32"
  shows "co_ok (co_add data app_data co)" and "co_writes (co_add data app_data co) = co_writes co @ [data @ app_data]"
    and "rcwi_total_size (co_add data app_data co) = rcwi_total_size co + length data + length app_data"
    and "unat (rcwi_nentries (co_add data app_data co)) = Suc (unat (rcwi_nentries co))"
proof -
  let ?n = "unat (rcwi_nentries co)" and ?d = "data @ app_data" and ?t = "rcwi_total_size co"
  let ?s = "of_nat (length data) + of_nat (length app_data) :: u32"
  note co = assms(1) [unfolded co_ok_def]
  have s: "unat ?s = length ?d"
    using assms(3) by (simp add: of_nat_add [symmetric] unat_of_nat take_bit_nat_eq_self del: of_nat_add)
  show n: "unat (rcwi_nentries (co_add data app_data co)) = Suc ?n"
    using assms(2) by (simp add: co_add_def unat_word_ariths RAFT_ENTRY_NUM_ENTRIES_def)
  have tk: "take (Suc ?n) ((rcwi_entry_sizes co)[?n := ?s]) = take ?n (rcwi_entry_sizes co) @ [?s]"
    using assms(2) co by (simp add: take_Suc_conv_app_nth take_update_cancel)
  have buf: "rcwi_buffer (co_add data app_data co) = take ?t (rcwi_buffer co) @ ?d @ drop (?t + length ?d) (rcwi_buffer co)"
    using co by (simp add: co_add_def co_wr_append_twice) (simp add: co_wr_append_def)
  show t: "rcwi_total_size (co_add data app_data co) = ?t + length data + length app_data"
    by (simp add: co_add_def co_wr_append_def)
  have sz: "rcwi_entry_sizes (co_add data app_data co) = (rcwi_entry_sizes co)[?n := ?s]"
    by (simp add: co_add_def)
  show "co_ok (co_add data app_data co)"
    using co assms(2) by (simp add: co_ok_def n sz tk t s buf)
  have "slices (take ?n (rcwi_entry_sizes co)) (take ?t (rcwi_buffer co) @ e) = co_writes co" for e
    using co by (simp add: slices_app_data slices_prefix co_writes_def)
  then show "co_writes (co_add data app_data co) = co_writes co @ [?d]"
    using co by (simp add: co_writes_def [of "co_add data app_data co"] n sz tk buf slices_append s)
qed


lemma write_coalesce_entry_eq:
  "raft_server_write_coalesce_entry env data app_data ri = (
     let co = ri_coalesced_wr ri; co' = co_add data app_data co; ri1 = ri\<lparr>ri_coalesced_wr := co'\<rparr> in
     if \<not> (unat (rcwi_nentries co) < RAFT_ENTRY_NUM_ENTRIES \<and> rcwi_total_size co < RAFT_ENTRY_MAX_DATA_SIZE ri) \<or>
        RAFT_ENTRY_MAX_DATA_SIZE ri < length data + length app_data + rcwi_total_size co then None
     else if \<not> ri_coalesced_writes ri \<or> unat (rcwi_nentries co') = RAFT_ENTRY_NUM_ENTRIES \<or>
        rcwi_total_size co' = RAFT_ENTRY_MAX_DATA_SIZE ri
     then raft_server_write_coalesced_entries env ri1 else Some ri1)"
  by (auto simp: raft_server_write_coalesce_entry_def Let_def co_add_def co_wr_append_def RAFT_ENTRY_MAX_DATA_SIZE_def)

text \<open>The sub-entries of a log entry.\<close>

definition entry_writes :: "raft_entry \<Rightarrow> u8 list list" where
  "entry_writes re = slices (take (unat (reh_num_entries (re_header re))) (reh_entry_sz (re_header re))) (re_data re)"

lemma unat_u8_small: "unat (n :: u32) < 256 \<Longrightarrow> unat (ucast n :: u8) = unat n"
  by (simp add: unsigned_ucast_eq take_bit_nat_eq_self)

lemma zero_total: "total_len ss = 0 \<Longrightarrow> ss = replicate (length ss) 0"
  by (induction ss) (auto simp: unat_eq_0)

lemma entry_init_body:
  assumes "raft_server_entry_init env ri i t (Some d) sizes n opts = Some re"
  shows "reh_entry_sz (re_header re) = (if reh_data_size (re_header re) = 0 then replicate RAFT_ENTRY_NUM_ENTRIES 0
      else take (unat n) sizes @ replicate (RAFT_ENTRY_NUM_ENTRIES - unat n) 0)"
    and "re_data re = take (unat (reh_data_size (re_header re))) d"
  using assms by (auto simp: raft_server_entry_init_def Let_def bind_Some split: if_splits)

lemma entry_init_writes:
  assumes "raft_server_entry_init env ri i t (Some (rcwi_buffer co)) (rcwi_entry_sizes co) (rcwi_nentries co) opts = Some re"
    and "co_ok co" and "rcwi_total_size co < 2 ^ 32"
  shows "entry_writes re = co_writes co"
proof -
  note co = assms(2) [unfolded co_ok_def]
  let ?n = "unat (rcwi_nentries co)" and ?ss = "take (unat (rcwi_nentries co)) (rcwi_entry_sizes co)"
  have len: "?n \<le> length (rcwi_entry_sizes co)" "?n \<le> RAFT_ENTRY_NUM_ENTRIES" and tl: "total_len ?ss = rcwi_total_size co"
    using co by simp_all
  have num: "unat (reh_num_entries (re_header re)) = ?n"
    using entry_init_fields(4) [OF assms(1)] len by (simp add: unat_u8_small RAFT_ENTRY_NUM_ENTRIES_def)
  have tot: "word_sum ?ss = reh_data_size (re_header re)"
    using entry_init_fields(5) [OF assms(1)] len by (simp add: raft_server_wr_entries_get_total_size_def)
  have u: "unat (reh_data_size (re_header re)) = rcwi_total_size co"
    unfolding tot [symmetric] using tl assms(3) by (simp add: unat_word_sum_no_wrap)
  note body = entry_init_body [OF assms(1)]
  have "take ?n (reh_entry_sz (re_header re)) = ?ss"
  proof (cases "reh_data_size (re_header re) = 0")
    case True
    then have "total_len ?ss = 0"
      using u unfolding tl by (metis unsigned_0)
    then have "?ss = replicate ?n 0"
      using zero_total [of ?ss] len by (metis length_take min.absorb2)
    moreover have "take ?n (reh_entry_sz (re_header re)) = replicate ?n 0"
      using True len by (simp add: body(1) min_def)
    ultimately show ?thesis by simp
  next
    case False
    then show ?thesis using len by (simp add: body(1))
  qed
  then show ?thesis
    unfolding entry_writes_def co_writes_def num body(2) u using tl by (simp add: slices_prefix)
qed

section \<open>Coalesced writes become an entry\<close>

lemma leader_write_entry:
  assumes "raft_server_leader_write_new_entry env data sizes n opts ws ri = Some ri'"
  obtains ri1 where "raft_instance_is_leader ri"
    and "0 \<le> reh_index (ri_newest_entry_hdr ri RI_NEHDR_UNSYNC) + 1"
    and "raft_server_entry_write env (reh_index (ri_newest_entry_hdr ri RI_NEHDR_UNSYNC) + 1) (rlh_term (ri_log_hdr ri))
         data sizes n opts ws ri = Some (0, ri1)" and "ri' = emit (Eff_notify RAFT_EVP_REMOTE_SEND) ri1"
  using assms
  by (auto simp: raft_server_leader_write_new_entry_def raft_server_write_next_entry_def Let_def bind_Some
      raft_instance_is_defs raft_instance_get_newest_header_def split: if_splits)

lemma flush_writes:
  assumes "posix_file io contents" and "raft_server_write_coalesced_entries (raft_server_backend_use_posix io env) ri = Some ri'"
    and "rcwi_nentries (ri_coalesced_wr ri) \<noteq> 0" and "co_ok (ri_coalesced_wr ri)"
    and "rcwi_total_size (ri_coalesced_wr ri) < 2 ^ 32" and "ri_max_entry_size ri = RAFT_ENTRY_SIZE_POSIX"
    and "reh_index (ri_newest_entry_hdr ri RI_NEHDR_UNSYNC) + 1 < 2 ^ 63"
    and "- (2 ^ 63) \<le> rlh_term (ri_log_hdr ri)" and "rlh_term (ri_log_hdr ri) < 2 ^ 63"
    and "env_realtime env div 1000000000 < 2 ^ 64"
  shows "\<exists>re \<in> stored_log contents ri'. entry_writes re = co_writes (ri_coalesced_wr ri) \<and>
     entry_idx re = reh_index (ri_newest_entry_hdr ri RI_NEHDR_UNSYNC) + 1 \<and>
     reh_term (re_header re) = rlh_term (ri_log_hdr ri)"
    and "co_writes (ri_coalesced_wr ri') = []" and "co_ok (ri_coalesced_wr ri')"
proof -
  let ?env = "raft_server_backend_use_posix io env" and ?co = "ri_coalesced_wr ri"
  let ?i = "reh_index (ri_newest_entry_hdr ri RI_NEHDR_UNSYNC) + 1" and ?t = "rlh_term (ri_log_hdr ri)"
  obtain r where w: "raft_server_leader_write_new_entry ?env (Some (rcwi_buffer ?co)) (rcwi_entry_sizes ?co)
         (rcwi_nentries ?co) RAFT_WR_ENTRY_OPT_NONE (Some (rcwi_ws ?co)) ri = Some r"
    and ri': "ri' = r\<lparr>ri_coalesced_wr := \<lparr>rcwi_nentries = 0, rcwi_entry_sizes = replicate RAFT_ENTRY_NUM_ENTRIES 0,
          rcwi_total_size = 0, rcwi_ws = empty_ws, rcwi_buffer = rcwi_buffer (ri_coalesced_wr r)\<rparr>\<rparr>"
    using assms(2,3) by (auto simp: raft_server_write_coalesced_entries_def Let_def bind_Some)
  obtain r1 where l: "raft_instance_is_leader ri" and i: "0 \<le> ?i"
    and e: "raft_server_entry_write ?env ?i ?t (Some (rcwi_buffer ?co)) (rcwi_entry_sizes ?co) (rcwi_nentries ?co)
         RAFT_WR_ENTRY_OPT_NONE (Some (rcwi_ws ?co)) ri = Some (0, r1)" and r: "r = emit (Eff_notify RAFT_EVP_REMOTE_SEND) r1"
    using w by (rule leader_write_entry)
  have nc: "\<not> raft_instance_is_client ri"
    using l by (simp add: raft_instance_is_defs)
  obtain re where init: "raft_server_entry_init ?env ri ?i ?t (Some (rcwi_buffer ?co)) (rcwi_entry_sizes ?co)
         (rcwi_nentries ?co) RAFT_WR_ENTRY_OPT_NONE = Some re"
    using posix.entry_write_newest [OF env_rib_use_posix e i nc] by metis
  have st: "posix_storable re"
    using i assms(6-10) by (intro entry_init_storable [OF init]) (simp_all add: raft_server_backend_use_posix_def)
  have "posix_holds contents (ri_backend_arg r1) re"
    using posix_file.append_stored [OF assms(1) env_rib_use_posix e init st] by simp
  then show "\<exists>re \<in> stored_log contents ri'. entry_writes re = co_writes (ri_coalesced_wr ri) \<and>
     entry_idx re = ?i \<and> reh_term (re_header re) = ?t"
    using entry_init_writes [OF init assms(4,5)] entry_init_fields(1,2) [OF init]
    by (auto simp: stored_log_def ri' r emit_def)
  show "co_writes (ri_coalesced_wr ri') = []" and "co_ok (ri_coalesced_wr ri')"
    by (simp_all add: ri' co_writes_def co_ok_def)
qed

text \<open>
  C14. Coalescing keeps the writes: a write is added behind the writes that wait in the buffer, or, when
  coalescing is off or a limit is reached, the waiting writes and the new one become the sub-entries,
  in that order, of the next log entry of the leader's term, and the buffer is empty.
\<close>

theorem coalesced_writes_become_entry:
  assumes "posix_file io contents" and "co_ok (ri_coalesced_wr ri)" and "posix_ready ri"
    and "raft_server_write_coalesce_entry (raft_server_backend_use_posix io env) data app_data ri = Some ri'"
    and "reh_index (ri_newest_entry_hdr ri RI_NEHDR_UNSYNC) + 1 < 2 ^ 63"
    and "- (2 ^ 63) \<le> rlh_term (ri_log_hdr ri)" and "rlh_term (ri_log_hdr ri) < 2 ^ 63"
    and "env_realtime env div 1000000000 < 2 ^ 64"
  shows "co_ok (ri_coalesced_wr ri') \<and>
    (if ri_coalesced_writes ri \<and> unat (rcwi_nentries (ri_coalesced_wr ri)) + 1 < RAFT_ENTRY_NUM_ENTRIES \<and>
        rcwi_total_size (ri_coalesced_wr ri) + length data + length app_data < RAFT_ENTRY_MAX_DATA_SIZE ri
     then co_writes (ri_coalesced_wr ri') = co_writes (ri_coalesced_wr ri) @ [data @ app_data] \<and>
        stored_log contents ri' = stored_log contents ri
     else co_writes (ri_coalesced_wr ri') = [] \<and>
       (\<exists>re \<in> stored_log contents ri'. entry_writes re = co_writes (ri_coalesced_wr ri) @ [data @ app_data] \<and>
          entry_idx re = reh_index (ri_newest_entry_hdr ri RI_NEHDR_UNSYNC) + 1 \<and>
          reh_term (re_header re) = rlh_term (ri_log_hdr ri)))"
proof -
  let ?env = "raft_server_backend_use_posix io env" and ?co = "ri_coalesced_wr ri"
  let ?co' = "co_add data app_data ?co" and ?r = "ri\<lparr>ri_coalesced_wr := co_add data app_data (ri_coalesced_wr ri)\<rparr>"
  have max: "RAFT_ENTRY_MAX_DATA_SIZE ri < 2 ^ 32"
    using assms(3) by (simp add: posix_ready_def RAFT_ENTRY_MAX_DATA_SIZE_def RAFT_ENTRY_SIZE_POSIX_def)
  from assms(4) have n: "unat (rcwi_nentries ?co) < RAFT_ENTRY_NUM_ENTRIES"
    and fits: "length data + length app_data + rcwi_total_size ?co \<le> RAFT_ENTRY_MAX_DATA_SIZE ri"
    and w: "(if \<not> ri_coalesced_writes ri \<or> unat (rcwi_nentries ?co') = RAFT_ENTRY_NUM_ENTRIES \<or>
        rcwi_total_size ?co' = RAFT_ENTRY_MAX_DATA_SIZE ri
        then raft_server_write_coalesced_entries ?env ?r else Some ?r) = Some ri'"
    by (auto simp: write_coalesce_entry_eq Let_def split: if_splits)
  have small: "length data + length app_data < 2 ^ 32"
    using fits max by linarith
  note add = co_add_writes [OF assms(2) n small]
  show ?thesis
  proof (cases "ri_coalesced_writes ri \<and> unat (rcwi_nentries ?co) + 1 < RAFT_ENTRY_NUM_ENTRIES \<and>
        rcwi_total_size ?co + length data + length app_data < RAFT_ENTRY_MAX_DATA_SIZE ri")
    case True
    then have "ri' = ?r"
      using w add(3,4) by (auto split: if_splits)
    then show ?thesis
      using True add by (simp add: stored_log_def)
  next
    case False
    then have f: "raft_server_write_coalesced_entries ?env ?r = Some ri'"
      using w add(3,4) n fits by (auto split: if_splits)
    have "rcwi_nentries ?co' \<noteq> 0"
      using add(4) by auto
    then show ?thesis
      using False flush_writes [OF assms(1) f] add fits max assms(3,5-8) by (simp add: posix_ready_def add.commute)
  qed
qed

text \<open>Member 1, leader of term 1 with an empty log, that does not coalesce writes.\<close>

definition demo_writer :: "u8 list posix_instance" where
  "demo_writer = demo0\<lparr>ri_state := RAFT_STATE_LEADER, ri_log_hdr := (ri_log_hdr demo0)\<lparr>rlh_term := 1\<rparr>\<rparr>"

lemma demo_writer_writes:
  "\<exists>ri'. raft_server_write_coalesce_entry (demo_env mem_io) [1, 2] [3] demo_writer = Some ri'"
proof -
  let ?sz = "(replicate RAFT_ENTRY_NUM_ENTRIES 0)[0 := 3] :: u32 list"
  let ?r = "demo_writer\<lparr>ri_coalesced_wr := co_add [1, 2] [3] (ri_coalesced_wr demo_writer)\<rparr>"
  have co: "rcwi_buffer (ri_coalesced_wr ?r) = [1, 2, 3]" "rcwi_entry_sizes (ri_coalesced_wr ?r) = ?sz"
    "rcwi_nentries (ri_coalesced_wr ?r) = 1"
    by (simp_all add: co_add_def co_wr_append_def demo_writer_def)
  have sz: "raft_server_wr_entries_get_total_size ?sz 1 = Some 3"
    by (simp add: raft_server_wr_entries_get_total_size_def RAFT_ENTRY_NUM_ENTRIES_def eval_nat_numeral)
  have one: "Suc 0 \<le> RAFT_ENTRY_NUM_ENTRIES"
    by (simp add: RAFT_ENTRY_NUM_ENTRIES_def)
  obtain re where init: "raft_server_entry_init (demo_env mem_io) ?r 0 1 (Some [1, 2, 3]) ?sz 1 RAFT_WR_ENTRY_OPT_NONE = Some re"
    by (simp add: raft_server_entry_init_def sz Let_def raft_server_entry_calc_crc_def RAFT_ENTRY_MAX_DATA_SIZE_def
        demo_writer_def RAFT_ENTRY_SIZE_POSIX_def one RAFT_ENTRY_HEADER_RESERVE_def)
  have st: "posix_storable re"
    using init by (rule entry_init_storable) (simp_all add: demo_writer_def)
  have ok: "posix_ready ?r" "newest_hdrs_ok ?r" "\<not> raft_instance_is_client ?r"
    using posix_ready_demo [of "[]"]
    by (simp_all add: demo_writer_def newest_hdrs_ok_def hdr_ok_def raft_instance_is_client_def posix_ready_def)
  obtain r1 where "raft_server_entry_write (demo_env mem_io) 0 1 (Some [1, 2, 3]) ?sz 1
      RAFT_WR_ENTRY_OPT_NONE (Some (rcwi_ws (ri_coalesced_wr ?r))) ?r = Some (0, r1)"
    using entry_append_ok [OF ok(1) healthy_mem_io ok(2,3) init [unfolded demo_env_def] st]
    by (auto simp: demo_env_def demo_writer_def)
  then have "raft_server_leader_write_new_entry (demo_env mem_io) (Some [1, 2, 3]) ?sz 1
      RAFT_WR_ENTRY_OPT_NONE (Some (rcwi_ws (ri_coalesced_wr ?r))) ?r = Some (emit (Eff_notify RAFT_EVP_REMOTE_SEND) r1)"
    by (simp add: raft_server_leader_write_new_entry_def raft_server_write_next_entry_def raft_instance_get_newest_header_def
        raft_instance_is_defs opts_has_leader_change_marker_def Let_def) (simp add: demo_writer_def)
  then show ?thesis
    using co by (simp add: write_coalesce_entry_eq Let_def raft_server_write_coalesced_entries_def)
      (simp add: demo_writer_def RAFT_ENTRY_MAX_DATA_SIZE_def RAFT_ENTRY_SIZE_POSIX_def RAFT_ENTRY_NUM_ENTRIES_def
         RAFT_ENTRY_HEADER_RESERVE_def)
qed

theorem coalesced_writes_become_entry_witness:
  "\<exists>ri'. raft_server_write_coalesce_entry (demo_env mem_io) [1, 2] [3] demo_writer = Some ri' \<and>
     (\<exists>re \<in> stored_log (\<lambda>f. f) ri'. entry_writes re = [[1, 2, 3]] \<and> entry_idx re = 0)"
proof -
  obtain ri' where h: "raft_server_write_coalesce_entry (demo_env mem_io) [1, 2] [3] demo_writer = Some ri'"
    using demo_writer_writes by blast
  have ok: "co_ok (ri_coalesced_wr demo_writer)" "posix_ready demo_writer" "co_writes (ri_coalesced_wr demo_writer) = []"
    using posix_ready_demo [of "[]"] by (simp_all add: demo_writer_def co_ok_def co_writes_def posix_ready_def)
  show ?thesis
    using coalesced_writes_become_entry [OF mem.posix_file_axioms ok(1,2) h [folded use_posix_demo]] h ok(3)
    by (simp add: demo_writer_def) fastforce
qed

section \<open>Who is served\<close>

text \<open>
  A server may serve clients when it leads, a majority of the members (itself counted) has
  answered within the lower bound of the election timeout, and it has applied an entry of its term.
\<close>

definition acked_within :: "'b raft_env \<Rightarrow> 'b raft_instance \<Rightarrow> nat \<Rightarrow> nat \<Rightarrow> bool" where
  "acked_within env ri window i \<longleftrightarrow> Some i \<noteq> peer_search (ri_csn_raft_peers ri) (ri_csn_this_peer ri) \<and>
     rfi_last_ack (rls_rfi (ri_leader ri) ! i) \<le> env_realtime env \<and>
     timespec_2_msec (env_realtime env - rfi_last_ack (rls_rfi (ri_leader ri) ! i)) \<le> window"

definition may_serve :: "'b raft_env \<Rightarrow> 'b raft_instance \<Rightarrow> bool" where
  "may_serve env ri \<longleftrightarrow> ri_state ri = RAFT_STATE_LEADER \<and> \<not> raft_instance_is_booting ri \<and>
     is_majority (num_members ri) (1 + card {i. i < num_members ri \<and>
       acked_within env ri (ri_election_timeout_max_ms ri div 2) i}) \<and>
     rls_initial_term_idx (ri_leader ri) < rla_idx (ri_last_applied ri)"

lemma majority_window_iff:
  assumes "raft_leader_majority_followers_comm_window env w ri = Some b"
  shows "b \<Longrightarrow> is_majority (num_members ri) (1 + card {i. i < num_members ri \<and> acked_within env ri w i})"
    and "raft_instance_is_leader ri \<Longrightarrow> \<not> env_fault env raft_leader_may_be_deposed \<Longrightarrow>
     is_majority (num_members ri) (1 + card {i. i < num_members ri \<and> acked_within env ri w i}) \<Longrightarrow> b"
proof -
  have "length (filter (\<lambda>i. Some i \<noteq> raft_server_instance_self_idx ri \<and>
          \<not> env_realtime env < rfi_last_ack (rls_rfi (ri_leader ri) ! i) \<and>
          timespec_2_msec (env_realtime env - rfi_last_ack (rls_rfi (ri_leader ri) ! i)) \<le> w) [0..<n])
      = card {i. i < n \<and> acked_within env ri w i}" for n
    unfolding distinct_length_filter [OF distinct_upt]
    by (auto simp: acked_within_def raft_server_instance_self_idx_def raft_peer_2_idx_def not_less intro: arg_cong [where f = card])
  then show "b \<Longrightarrow> is_majority (num_members ri) (1 + card {i. i < num_members ri \<and> acked_within env ri w i})"
    and "raft_instance_is_leader ri \<Longrightarrow> \<not> env_fault env raft_leader_may_be_deposed \<Longrightarrow>
     is_majority (num_members ri) (1 + card {i. i < num_members ri \<and> acked_within env ri w i}) \<Longrightarrow> b"
    using assms
    by (auto simp: raft_leader_majority_followers_comm_window_def raft_num_members_validate_and_get_def Let_def
        is_majority_def bind_Some split: if_splits)
qed

lemma may_accept_serve:
  assumes "raft_server_may_accept_client_request env ri = Some 0"
  shows "may_serve env ri"
proof -
  obtain fresh where f: "raft_leader_instance_is_fresh env ri = Some fresh" and fresh
    and "raft_leader_has_applied_txn_in_my_term ri = Some True" and l: "raft_instance_is_leader ri"
    and "\<not> raft_instance_is_booting ri"
    using assms by (auto simp: raft_server_may_accept_client_request_def bind_Some split: if_splits)
  then show ?thesis
    using majority_window_iff(1) [OF f [unfolded raft_leader_instance_is_fresh_def]]
    by (auto simp: may_serve_def raft_election_timeout_lower_bound_def raft_leader_has_applied_txn_in_my_term_def
        raft_instance_is_leader_def split: if_splits)
qed

text \<open>Only error replies to clients are sent, and nothing else changes.\<close>

definition only_refused :: "'b raft_instance \<Rightarrow> 'b raft_instance \<Rightarrow> bool" where
  "only_refused ri ri' \<longleftrightarrow> net_core ri' = net_core ri \<and>
     (\<exists>es. ri_effects ri' = ri_effects ri @ es \<and>
        (\<forall>e \<in> set es. \<exists>peer m. e = Eff_client_send peer m \<and> rcrm_sys_error m \<noteq> 0))"

lemma only_refused_refl [simp]: "only_refused ri ri"
  by (simp add: only_refused_def)

lemma only_refused_trans: "only_refused a b \<Longrightarrow> only_refused b c \<Longrightarrow> only_refused a c"
  unfolding only_refused_def by (metis (no_types, lifting) append.assoc set_append Un_iff)

lemma net_send_effects [simp]: "ri_effects (snd (raft_net_send_msg env p n b ri)) = ri_effects ri"
  by (auto simp: raft_net_send_msg_def raft_net_send_tcp_def raft_net_update_last_comm_time_def Let_def
      split: prod.splits option.splits)

lemma deny_only_refused:
  assumes "raft_server_deny_client_request env svc rncr csn rc ri = Some ri'" and "rc \<noteq> 0"
  shows "only_refused ri ri'"
proof -
  obtain reply where r: "ri' = raft_server_reply_to_client env svc (rncr\<lparr>rncr_reply_ptr := Some reply\<rparr>) csn ri"
    and e: "rcrm_sys_error reply \<noteq> 0"
    using assms by (auto simp: raft_server_deny_client_request_def Let_def bind_Some split: if_splits option.splits)
  show ?thesis
    using e
    by (auto simp: r only_refused_def raft_server_reply_to_client_def raft_server_send_msg_to_client_def Let_def
        case_prod_beta emit_def [of _ "snd _"] split: option.split)
qed

lemma may_serve_net_core:
  assumes "net_core ri' = net_core ri"
  shows "may_serve env ri' = may_serve env ri"
  using net_core_fields [OF assms] assms [THEN arg_cong [where f = ri_proc_state]]
    assms [THEN arg_cong [where f = ri_election_timeout_max_ms]]
  by (simp add: may_serve_def acked_within_def num_members_def raft_instance_is_booting_def net_core_def)

lemma prepare_only_refused:
  assumes "raft_server_client_rncr_prepare env svc rcm n ri = Some (rc, rncr, csn, ri')" and "\<not> may_serve env ri"
  shows "rc \<noteq> 0" and "only_refused ri ri'"
  using assms may_accept_serve [of env ri]
  by (auto simp: raft_server_client_rncr_prepare_def Let_def case_prod_beta bind_Some deny_only_refused split: if_splits)

lemma complete_only_refused:
  assumes "raft_server_client_rncr_complete env svc rncr csn rc ri = Some ri'" and "\<not> may_serve env ri"
  shows "only_refused ri ri'"
  using assms may_accept_serve [of env ri]
  by (auto simp: raft_server_client_rncr_complete_def bind_Some deny_only_refused split: if_splits)


text \<open>A client's ping to a follower.\<close>

definition demo_ping :: raft_client_rpc_msg where
  "demo_ping = zero_client_msg\<lparr>rcrm_type := RAFT_CLIENT_RPC_MSG_TYPE_PING, rcrm_msg_id := 7, rcrm_raft_id := 100,
     rcrm_sender_id := 9\<rparr>"

definition demo_svc :: ctl_svc_table where
  "demo_svc = \<lparr>csn_can_lookup = (\<lambda>_. True), csn_can_add = (\<lambda>_. True), csn_is_client = (\<lambda>_. True)\<rparr>"

lemma demo_ping_denied:
  "\<exists>ri'. raft_server_client_recv_handler (demo_env mem_io) demo_svc (Some (\<lambda>_ h. (0, h))) demo_ping
       sizeof_raft_client_rpc_msg demo0 = Some ri' \<and>
     map (\<lambda>e. case e of Eff_client_send p m \<Rightarrow> Some (p, rcrm_sys_error m) | _ \<Rightarrow> None) (ri_effects ri')
       = [Some (9, - ENOSYS), Some (9, - ENOSYS)]"
  by (simp add: raft_server_client_recv_handler_def demo_ping_def zero_client_msg_def raft_server_client_recv_handler_ping_def
     raft_server_client_rncr_prepare_def raft_server_client_recv_ignore_request_def raft_net_verify_sender_client_msg_def
     demo_svc_def raft_server_net_client_request_init_client_rpc_def raft_server_net_client_request_init_def Let_def
     raft_net_client_request_handle_set_reply_info_def raft_net_client_request_handle_has_reply_info_def
     raft_server_client_reply_init_def raft_server_may_accept_client_request_def raft_instance_is_defs raft_instance_is_booting_def
     raft_server_deny_client_request_def raft_server_reply_to_client_def raft_server_send_msg_to_client_def
     raft_server_client_rncr_complete_def raft_net_send_msg_def RAFT_BS_SMALL_SZ_def sizeof_raft_client_rpc_msg_def
     raft_net_max_rpc_size_def raft_net_send_tcp_def raft_net_update_last_comm_time_def raft_peer_2_idx_def emit_def uuid_is_null_def)



end
