(* ===== verification/Raft_Apply.thy ===== *)
theory Raft_Apply
  imports Raft_Client
begin

text \<open>
  Applying committed entries to the state machine (\<open>raft_server.c\<close>): the position of the next
  entry and sub-entry, the loop over the sub-entries of an entry, and the checkpoint and log
  reaping steps that follow what has been applied.
\<close>

section \<open>The applied position\<close>

definition raft_server_backend_setup_last_applied ::
  "raft_last_applied \<Rightarrow> 'b raft_instance \<Rightarrow> 'b raft_instance option" where
  "raft_server_backend_setup_last_applied rla ri = do {
     NIOVA_ASSERT (raft_instance_is_booting ri \<or> raft_instance_is_recovering ri);
     Some (ri\<lparr>ri_last_applied := rla\<rparr>) }"

text \<open>
  \<open>nai\<close> is the position being applied; while the entry has further sub-entries it moves to the
  next one.
\<close>

definition raft_server_set_last_applied ::
  "raft_last_applied \<Rightarrow> 'b raft_instance \<Rightarrow> (raft_last_applied \<times> 'b raft_instance) option" where
  "raft_server_set_last_applied nai ri = do {
     let la = ri_last_applied ri;
     NIOVA_ASSERT (rla_idx la \<le> rla_idx nai \<and> rla_sub_idx nai \<le> rla_sub_idx_max nai);
     let la = la\<lparr>rla_idx := rla_idx nai, rla_sub_idx := rla_sub_idx nai,
                 rla_sub_idx_max := rla_sub_idx_max nai\<rparr>;
     Some (if rla_sub_idx nai = rla_sub_idx_max nai
       then (nai, ri\<lparr>ri_last_applied := la\<lparr>rla_cumulative_crc := rla_cumulative_crc nai,
                       rla_kv_cumulative_crc := rla_kv_cumulative_crc nai\<rparr>\<rparr>)
       else (nai\<lparr>rla_sub_idx := rla_sub_idx nai + 1\<rparr>, ri\<lparr>ri_last_applied := la\<rparr>)) }"

definition raft_server_needs_apply :: "'b raft_instance \<Rightarrow> bool option" where
  "raft_server_needs_apply ri = do {
     let la = ri_last_applied ri;
     NIOVA_ASSERT (rla_idx la \<le> ri_commit_idx ri);
     Some (rla_idx la < ri_commit_idx ri \<or>
           (rla_idx la = ri_commit_idx ri \<and> rla_sub_idx la < rla_sub_idx_max la)) }"

definition raft_server_next_apply_idx :: "'b raft_instance \<Rightarrow> raft_last_applied option" where
  "raft_server_next_apply_idx ri = do {
     let la = ri_last_applied ri;
     NIOVA_ASSERT (rla_sub_idx la \<le> rla_sub_idx_max la);
     Some (if rla_sub_idx la = rla_sub_idx_max la
           then la\<lparr>rla_sub_idx := 0, rla_sub_idx_max := 0, rla_idx := rla_idx la + 1\<rparr>
           else la\<lparr>rla_sub_idx := rla_sub_idx la + 1\<rparr>) }"

text \<open>
  \<open>reh_num_entries - 1\<close> is computed as \<open>int\<close> and stored in a \<open>uint32_t\<close>.
\<close>

definition raft_server_get_raft_header_to_apply ::
  "'b raft_env \<Rightarrow> 'b raft_instance \<Rightarrow> (raft_last_applied \<times> raft_entry_header \<times> 'b raft_instance) option" where
  "raft_server_get_raft_header_to_apply env ri = do {
     nai \<leftarrow> raft_server_next_apply_idx ri;
     (rc, reh, ri) \<leftarrow> raft_server_entry_header_read_by_store env zero_reh (rla_idx nai) ri;
     FATAL_IF (rc \<noteq> 0);
     let la = ri_last_applied ri;
     NIOVA_ASSERT (rla_sub_idx la = rla_sub_idx_max la \<or>
                   (ucast (reh_num_entries reh) :: u32) = rla_sub_idx_max la + 1);
     Some (nai\<lparr>rla_sub_idx_max := ucast (reh_num_entries reh) - 1,
               rla_cumulative_crc := xor (rla_cumulative_crc la) (reh_crc reh)\<rparr>, reh, ri) }"

section \<open>Applying an entry\<close>

definition raft_server_sm_apply_opt ::
  "'b raft_env \<Rightarrow> raft_net_sm_write_supplements option \<Rightarrow> 'b raft_instance \<Rightarrow> 'b raft_instance option" where
  "raft_server_sm_apply_opt env ws ri = (case rib_sm_apply_opt (env_rib env) of
       None \<Rightarrow> Some ri
     | Some f \<Rightarrow> f ri ws)"

definition raft_server_net_client_request_init_sm_apply ::
  "'b raft_instance \<Rightarrow> u8 list \<Rightarrow> nat \<Rightarrow> raft_net_client_request_handle option" where
  "raft_server_net_client_request_init_sm_apply ri commit_data reply_buf_size =
     raft_server_net_client_request_init ri RAFT_NET_CLIENT_REQ_TYPE_COMMIT None (Some commit_data)
       (Some reply_buf_size) False"

definition raft_server_init_send_reply ::
  "'b raft_env \<Rightarrow> ctl_svc_table \<Rightarrow> raft_net_client_request_handle \<Rightarrow> 'b raft_instance \<Rightarrow> 'b raft_instance option" where
  "raft_server_init_send_reply env svc rncr ri =
     (if raft_instance_is_leader ri \<and> raft_net_client_request_handle_has_reply_info rncr \<and>
         rncr_client_uuid rncr \<noteq> ri_csn_this_peer ri
      then do {
        reply \<leftarrow> rncr_reply_ptr rncr;
        rncr \<leftarrow> raft_server_client_reply_init ri RAFT_CLIENT_RPC_MSG_TYPE_REPLY rncr;
        let rncr = rncr\<lparr>rncr_reply_ptr := map_option
              (rcrm_data_size_update (\<lambda>_. rcrm_data_size reply)) (rncr_reply_ptr rncr)\<rparr>;
        Some (raft_server_reply_to_client env svc rncr None ri) }
      else Some ri)"

text \<open>
  The loop over the sub-entries \<open>i\<close> to \<open>n - 1\<close>; \<open>off\<close> is the offset of sub-entry \<open>i\<close> in the data
  (a \<open>uint32_t\<close>). Sub-entries that were applied before are skipped. \<open>reh_num_entries\<close> may exceed
  the size array only in a corrupt header: reading past it is undefined.
\<close>

function apply_loop ::
  "'b raft_env \<Rightarrow> ctl_svc_table \<Rightarrow> 'b sm_request_handler \<Rightarrow> raft_entry_header \<Rightarrow> u8 list \<Rightarrow> nat \<Rightarrow> u32
     \<Rightarrow> raft_last_applied \<Rightarrow> 'b raft_instance \<Rightarrow> 'b raft_instance option" where
  "apply_loop env svc sm reh buf i off nai ri =
     (if i < unat (reh_num_entries reh)
      then do {
        NIOVA_ASSERT (i < length (reh_entry_sz reh));
        let sz = reh_entry_sz reh ! i;
        if i < unat (rla_sub_idx nai) then apply_loop env svc sm reh buf (i + 1) (off + sz) nai ri
        else do {
          rncr \<leftarrow> raft_server_net_client_request_init_sm_apply ri
             (take (unat sz) (drop (unat off) buf)) RAFT_BS_APPLY_SZ;
          let rncr = rncr\<lparr>rncr_sm_write_supp := raft_net_sm_write_supplement_enable_kv_crc
                (rla_kv_cumulative_crc nai) (rncr_sm_write_supp rncr),
                rncr_apply_handler_version := reh_apply_handler_version reh\<rparr>;
          let (rc, rncr) = sm ri rncr;
          let nai = nai\<lparr>rla_kv_cumulative_crc :=
                raft_net_sm_write_supplement_get_kv_crc (rncr_sm_write_supp rncr)\<rparr>;
          (nai, ri) \<leftarrow> raft_server_set_last_applied nai ri;
          ri \<leftarrow> raft_server_sm_apply_opt env (Some (rncr_sm_write_supp rncr)) ri;
          ri \<leftarrow> (if rc = 0 then raft_server_init_send_reply env svc rncr ri else Some ri);
          FATAL_IF (env_fault env raft_server_fail_partial_apply);
          apply_loop env svc sm reh buf (i + 1) (off + sz) nai ri } }
      else Some ri)"
  by pat_completeness auto
termination
  by (relation "measure (\<lambda>(_, _, _, reh, _, i, _, _, _). unat (reh_num_entries reh) - i)") auto

definition raft_server_state_machine_apply ::
  "'b raft_env \<Rightarrow> ctl_svc_table \<Rightarrow> 'b sm_request_handler \<Rightarrow> 'b raft_instance \<Rightarrow> 'b raft_instance option" where
  "raft_server_state_machine_apply env svc sm ri = do {
     needs_apply \<leftarrow> raft_server_needs_apply ri;
     if \<not> needs_apply then Some ri
     else if env_fault env raft_server_bypass_sm_apply then Some ri
     else do {
       (nai, reh, ri) \<leftarrow> raft_server_get_raft_header_to_apply env ri;
       ri \<leftarrow> (if reh_leader_change_marker reh \<or> reh_data_size reh = 0
         then do {
           (_, ri) \<leftarrow> raft_server_set_last_applied nai ri;
           raft_server_sm_apply_opt env None ri }
         else do {
           (rc, data, ri) \<leftarrow> raft_server_entry_read env (rla_idx nai) (unat (reh_data_size reh)) ri;
           FATAL_IF (rc \<noteq> 0);
           buf \<leftarrow> data;
           ri \<leftarrow> apply_loop env svc sm reh buf 0 0 nai ri;
           NIOVA_ASSERT (rla_sub_idx (ri_last_applied ri) = rla_sub_idx_max (ri_last_applied ri));
           Some ri });
       needs_apply \<leftarrow> raft_server_needs_apply ri;
       Some (if needs_apply then emit (Eff_notify RAFT_EVP_SM_APPLY) ri else ri) } }"

section \<open>Checkpoints and log reaping\<close>

definition RAFT_INSTANCE_PERSISTENT_APP_MIN_SCAN_ENTRIES :: int where
  "RAFT_INSTANCE_PERSISTENT_APP_MIN_SCAN_ENTRIES = 500"

definition raft_server_set_checkpoint_last_idx :: "int \<Rightarrow> 'b raft_instance \<Rightarrow> 'b raft_instance option" where
  "raft_server_set_checkpoint_last_idx chkpt_ret_idx ri = do {
     FATAL_IF (chkpt_ret_idx < 0 \<or> chkpt_ret_idx < ri_checkpoint_last_idx ri);
     Some (ri\<lparr>ri_checkpoint_last_idx := chkpt_ret_idx\<rparr>) }"

text \<open>A backend without checkpoints has no checkpoint thread; the call would crash.\<close>

definition raft_server_take_chkpt :: "'b raft_env \<Rightarrow> 'b raft_instance \<Rightarrow> 'b raft_instance option" where
  "raft_server_take_chkpt env ri =
     (if raft_server_instance_chkpt_compact_max_idx ri < 0
      then Some (ri\<lparr>ri_last_chkpt_err := - ENODATA\<rparr>)
      else do {
        checkpoint \<leftarrow> rib_backend_checkpoint (env_rib env);
        (rc, ri) \<leftarrow> checkpoint ri;
        ri \<leftarrow> (if 0 \<le> rc then raft_server_set_checkpoint_last_idx rc ri else Some ri);
        Some (if rc \<le> 0 then ri\<lparr>ri_last_chkpt_err := rc\<rparr> else ri) })"

definition raft_server_reap_log :: "'b raft_env \<Rightarrow> int \<Rightarrow> 'b raft_instance \<Rightarrow> 'b raft_instance option" where
  "raft_server_reap_log env num_keep_entries ri =
     (if num_keep_entries < RAFT_INSTANCE_PERSISTENT_APP_MIN_SCAN_ENTRIES then Some ri
      else let max_idx = raft_server_instance_chkpt_compact_max_idx ri in
        if max_idx < 0 then Some ri
        else do {
          let lowest_idx = max 0 (ri_lowest_idx ri);
          NIOVA_ASSERT (lowest_idx \<le> max_idx);
          let new_lowest_idx = max_idx - num_keep_entries;
          if lowest_idx + num_keep_entries < new_lowest_idx
          then do {
            (rc, ri) \<leftarrow> raft_server_compaction_try_increase_lowest_idx new_lowest_idx ri;
            if rc = 0 then rib_log_reap (env_rib env) ri new_lowest_idx else Some ri }
          else Some ri })"

text \<open>One iteration of the checkpoint thread.\<close>

definition raft_server_chkpt_thread :: "'b raft_env \<Rightarrow> 'b raft_instance \<Rightarrow> 'b raft_instance option" where
  "raft_server_chkpt_thread env ri =
     (if raft_instance_is_shutdown ri then Some ri
      else do {
        let user_requested_chkpt = ri_user_requested_checkpoint ri;
        let user_requested_reap = ri_user_requested_reap ri;
        let ri = ri\<lparr>ri_user_requested_checkpoint := False, ri_user_requested_reap := False\<rparr>;
        let max_idx = raft_server_instance_chkpt_compact_max_idx ri;
        if max_idx < 0 then Some ri
        else do {
          let num_entries_since_last_chkpt = max_idx - ri_checkpoint_last_idx ri;
          FATAL_IF (num_entries_since_last_chkpt < 0);
          ri \<leftarrow> (if user_requested_chkpt \<or>
                    (ri_auto_checkpoints_enabled ri \<and> ri_max_scan_entries ri \<le> num_entries_since_last_chkpt)
                 then raft_server_take_chkpt env ri else Some ri);
          if user_requested_reap \<or> (ri_auto_checkpoints_enabled ri \<and> ri_log_reap_factor ri \<noteq> 0)
          then do {
            NIOVA_ASSERT (0 < ri_log_reap_factor ri);
            raft_server_reap_log env (int (ri_log_reap_factor ri) * ri_max_scan_entries ri) ri }
          else Some ri } })"

section \<open>The loop applies each sub-entry once\<close>

text \<open>Applying one sub-entry, and applying a list of them in order.\<close>

definition apply_sub ::
  "'b raft_env \<Rightarrow> ctl_svc_table \<Rightarrow> 'b sm_request_handler \<Rightarrow> raft_entry_header \<Rightarrow> u8 list
     \<Rightarrow> raft_last_applied \<Rightarrow> 'b raft_instance \<Rightarrow> (raft_last_applied \<times> 'b raft_instance) option" where
  "apply_sub env svc sm reh d nai ri = do {
     rncr \<leftarrow> raft_server_net_client_request_init_sm_apply ri d RAFT_BS_APPLY_SZ;
     let rncr = rncr\<lparr>rncr_sm_write_supp := raft_net_sm_write_supplement_enable_kv_crc
           (rla_kv_cumulative_crc nai) (rncr_sm_write_supp rncr),
           rncr_apply_handler_version := reh_apply_handler_version reh\<rparr>;
     let (rc, rncr) = sm ri rncr;
     let nai = nai\<lparr>rla_kv_cumulative_crc :=
           raft_net_sm_write_supplement_get_kv_crc (rncr_sm_write_supp rncr)\<rparr>;
     (nai, ri) \<leftarrow> raft_server_set_last_applied nai ri;
     ri \<leftarrow> raft_server_sm_apply_opt env (Some (rncr_sm_write_supp rncr)) ri;
     ri \<leftarrow> (if rc = 0 then raft_server_init_send_reply env svc rncr ri else Some ri);
     FATAL_IF (env_fault env raft_server_fail_partial_apply);
     Some (nai, ri) }"

fun apply_each ::
  "'b raft_env \<Rightarrow> ctl_svc_table \<Rightarrow> 'b sm_request_handler \<Rightarrow> raft_entry_header \<Rightarrow> u8 list list
     \<Rightarrow> raft_last_applied \<Rightarrow> 'b raft_instance \<Rightarrow> 'b raft_instance option" where
  "apply_each env svc sm reh [] nai ri = Some ri"
| "apply_each env svc sm reh (d # ds) nai ri = do {
     (nai, ri) \<leftarrow> apply_sub env svc sm reh d nai ri;
     apply_each env svc sm reh ds nai ri }"

lemma apply_sub_nai:
  assumes "apply_sub env svc sm reh d nai ri = Some (nai', ri')"
  shows "rla_sub_idx nai \<le> rla_sub_idx_max nai" and "rla_sub_idx_max nai' = rla_sub_idx_max nai"
    and "rla_idx nai' = rla_idx nai" and "rla_cumulative_crc nai' = rla_cumulative_crc nai"
    and "rla_sub_idx nai' = (if rla_sub_idx nai = rla_sub_idx_max nai then rla_sub_idx nai else rla_sub_idx nai + 1)"
  using assms
  by (auto simp: apply_sub_def Let_def bind_Some case_prod_beta raft_server_set_last_applied_def split: if_splits)

lemma apply_sub_next:
  assumes "apply_sub env svc sm reh d nai ri = Some (nai', ri')"
  shows "unat (rla_sub_idx nai') \<le> Suc (unat (rla_sub_idx nai))"
proof (cases "rla_sub_idx nai = rla_sub_idx_max nai")
  case True
  then show ?thesis using apply_sub_nai(5) [OF assms] by simp
next
  case False
  then show ?thesis
    using apply_sub_nai(5) [OF assms] by (simp add: unat_word_ariths)
qed

declare apply_loop.simps [simp del]

lemma apply_loop_step:
  "apply_loop env svc sm reh buf i off nai ri =
     (if i < unat (reh_num_entries reh)
      then do {
        NIOVA_ASSERT (i < length (reh_entry_sz reh));
        if i < unat (rla_sub_idx nai) then apply_loop env svc sm reh buf (i + 1) (off + reh_entry_sz reh ! i) nai ri
        else do {
          (nai, ri) \<leftarrow> apply_sub env svc sm reh (take (unat (reh_entry_sz reh ! i)) (drop (unat off) buf)) nai ri;
          apply_loop env svc sm reh buf (i + 1) (off + reh_entry_sz reh ! i) nai ri } }
      else Some ri)"
  by (subst apply_loop.simps) (auto simp: apply_sub_def Let_def split_def Option.bind_assoc intro!: Option.bind_cong)

lemma drop_slices_Suc:
  assumes "i < length ss"
  shows "drop i (slices ss d) = take (unat (ss ! i)) (drop (total_len (take i ss)) d) # drop (Suc i) (slices ss d)"
proof -
  have "slices ss d = slices (take i ss @ ss ! i # drop (Suc i) ss) d"
    using assms by (simp add: id_take_nth_drop [symmetric])
  then show ?thesis
    using assms by (simp add: slices_append min_def del: append_take_drop_id)
qed

lemma apply_loop_each:
  assumes "n = unat (reh_num_entries reh)" and "n \<le> length (reh_entry_sz reh)"
    and "total_len (take n (reh_entry_sz reh)) < 2 ^ 32" and "i \<le> n"
    and "off = of_nat (total_len (take i (reh_entry_sz reh)))"
  shows "apply_loop env svc sm reh buf i off nai ri =
    apply_each env svc sm reh (drop (max i (unat (rla_sub_idx nai))) (slices (take n (reh_entry_sz reh)) buf)) nai ri"
  using assms(4,5)
proof (induction "n - i" arbitrary: i off nai ri)
  case 0
  then show ?case
    using assms(1,2) by (subst apply_loop_step) simp
next
  case (Suc k)
  let ?ss = "take n (reh_entry_sz reh)"
  have i: "i < n" "i < length ?ss"
    using Suc.hyps(2) assms(2) by simp_all
  have off': "off + reh_entry_sz reh ! i = of_nat (total_len (take (Suc i) (reh_entry_sz reh)))"
    using i assms(2) by (simp add: Suc.prems take_Suc_conv_app_nth)
  have IH: "apply_loop env svc sm reh buf (Suc i) (off + reh_entry_sz reh ! i) nai ri =
      apply_each env svc sm reh (drop (max (Suc i) (unat (rla_sub_idx nai))) (slices ?ss buf)) nai ri" for nai ri
    using Suc.hyps(2) i off' by (intro Suc.hyps(1)) simp_all
  have "total_len (take i (reh_entry_sz reh)) \<le> total_len ?ss"
  proof -
    have "take i (reh_entry_sz reh) = take i ?ss" using i by (simp add: min_def)
    then show ?thesis by (metis append_take_drop_id le_add1 map_append sum_list_append)
  qed
  then have u: "unat off = total_len (take i ?ss)"
    using assms(3) i by (simp add: Suc.prems unat_of_nat take_bit_nat_eq_self min_def)
  show ?case
  proof (cases "i < unat (rla_sub_idx nai)")
    case True
    then have "max i (unat (rla_sub_idx nai)) = max (Suc i) (unat (rla_sub_idx nai))" by simp
    then show ?thesis
      using True i assms(1,2) IH by (subst apply_loop_step) simp
  next
    case False
    have "apply_loop env svc sm reh buf i off nai ri =
        (apply_sub env svc sm reh (take (unat (?ss ! i)) (drop (total_len (take i ?ss)) buf)) nai ri \<bind>
          (\<lambda>(nai, ri). apply_each env svc sm reh (drop (max (Suc i) (unat (rla_sub_idx nai))) (slices ?ss buf)) nai ri))"
      using False i assms(1,2) u by (subst apply_loop_step) (simp add: IH split_def)
    also have "\<dots> = (apply_sub env svc sm reh (take (unat (?ss ! i)) (drop (total_len (take i ?ss)) buf)) nai ri \<bind>
          (\<lambda>(nai, ri). apply_each env svc sm reh (drop (Suc i) (slices ?ss buf)) nai ri))"
      using False by (intro Option.bind_cong refl) (auto dest!: apply_sub_next simp: max_absorb1)
    finally show ?thesis
      using False i drop_slices_Suc [OF i(2), of buf] by (simp add: max_def)
  qed
qed

text \<open>
  C16. Every sub-entry is handed to the state machine once and in order: on an entry whose sizes do not
  overflow, the loop is the application of its sub-entries from the first one not yet applied.
\<close>

theorem apply_loop_applies_each_once:
  assumes "unat (reh_num_entries reh) \<le> length (reh_entry_sz reh)"
    and "total_len (take (unat (reh_num_entries reh)) (reh_entry_sz reh)) < 2 ^ 32"
  shows "apply_loop env svc sm reh buf 0 0 nai ri =
    apply_each env svc sm reh (drop (unat (rla_sub_idx nai)) (entry_writes \<lparr>re_header = reh, re_data = buf\<rparr>)) nai ri"
  using apply_loop_each [OF refl assms, of 0 0] by (simp add: entry_writes_def)

text \<open>An entry with the sub-entries \<open>[1, 2]\<close> and \<open>[3]\<close>, of which the first has been applied.\<close>

theorem apply_loop_applies_each_once_witness:
  "apply_loop (demo_env mem_io) demo_svc (\<lambda>_ h. (0, h)) (zero_reh\<lparr>reh_num_entries := 2, reh_entry_sz := [2, 1]\<rparr>) [1, 2, 3] 0 0
     ((ri_last_applied demo0)\<lparr>rla_sub_idx := 1, rla_sub_idx_max := 1\<rparr>) demo0
   = apply_each (demo_env mem_io) demo_svc (\<lambda>_ h. (0, h)) (zero_reh\<lparr>reh_num_entries := 2, reh_entry_sz := [2, 1]\<rparr>) [[3]]
     ((ri_last_applied demo0)\<lparr>rla_sub_idx := 1, rla_sub_idx_max := 1\<rparr>) demo0"
  using apply_loop_applies_each_once [of "zero_reh\<lparr>reh_num_entries := 2, reh_entry_sz := [2, 1]\<rparr>" "demo_env mem_io" demo_svc
      "\<lambda>_ h. (0, h)" "[1, 2, 3]" "(ri_last_applied demo0)\<lparr>rla_sub_idx := 1, rla_sub_idx_max := 1\<rparr>" demo0]
  by (simp add: entry_writes_def)

section \<open>The applied position\<close>

lemma reply_last_applied:
  "wp (raft_server_init_send_reply env svc rncr ri) (\<lambda>ri'. ri_last_applied ri' = ri_last_applied ri)"
proof -
  have "ri_last_applied (raft_server_reply_to_client env svc h csn ri) = ri_last_applied ri" for h csn
    by (rule net_core_fields(7))
      (auto simp: raft_server_reply_to_client_def raft_server_send_msg_to_client_def Let_def case_prod_beta split: option.split)
  then show ?thesis
    by (auto simp: raft_server_init_send_reply_def wp_simps Let_def intro!: wpI)
qed

context backend_frame
begin

lemma sm_apply_opt_last_applied:
  assumes "env_rib env = rib"
  shows "wp (raft_server_sm_apply_opt env ws ri) (\<lambda>ri'. ri_last_applied ri' = ri_last_applied ri)"
  unfolding raft_server_sm_apply_opt_def assms
  by (auto simp: wp_simps split: option.split intro!: wpI dest!: sm_apply_frame elim!: backend_onlyE)

lemma apply_sub_position:
  assumes "env_rib env = rib"
  shows "wp (apply_sub env svc sm reh d nai ri) (\<lambda>(nai', ri'). let la = ri_last_applied ri' in
     rla_idx la = rla_idx nai \<and> rla_cumulative_crc nai' = rla_cumulative_crc nai \<and> rla_idx nai' = rla_idx nai \<and>
     (rla_sub_idx la = rla_sub_idx_max la \<longrightarrow> rla_cumulative_crc la = rla_cumulative_crc nai))"
  unfolding apply_sub_def raft_server_set_last_applied_def
  by (auto simp: wp_simps Let_def case_prod_beta intro!: wpI [of "raft_server_net_client_request_init_sm_apply _ _ _"]
      wp_call [OF sm_apply_opt_last_applied [OF assms]] wp_call [OF reply_last_applied])

lemma apply_each_position:
  assumes "env_rib env = rib"
  shows "wp (apply_each env svc sm reh ds nai ri) (\<lambda>ri'. ds \<noteq> [] \<longrightarrow> (let la = ri_last_applied ri' in
     rla_idx la = rla_idx nai \<and>
     (rla_sub_idx la = rla_sub_idx_max la \<longrightarrow> rla_cumulative_crc la = rla_cumulative_crc nai)))"
proof (induction ds arbitrary: nai ri)
  case (Cons d ds)
  show ?case
  proof (cases "ds = []")
    case True
    then show ?thesis
      by (auto simp: wp_simps Let_def intro!: wp_call2 [OF apply_sub_position [OF assms]])
  next
    case False
    then show ?thesis
      by (auto simp: wp_simps intro!: wp_call2 [OF apply_sub_position [OF assms]] wp_call [OF Cons.IH] simp: Let_def)
  qed
qed (simp add: wp_simps)

end

lemma sub_idx_below:
  fixes s m :: u32 and n :: u8
  assumes "s < m" and "ucast n = m + 1" and "n \<noteq> 0"
  shows "unat (s + 1) < unat n"
proof -
  have lt: "unat s < unat m" "unat m < 2 ^ 32"
    using assms(1) unsigned_less [of m] by (simp_all add: word_less_nat_alt)
  have n: "unat n = (unat m + 1) mod 2 ^ 32"
    using assms(2) u8_in_u32(1) [of n] by (simp add: unat_word_ariths)
  have "unat n \<noteq> 0"
    using assms(3) by (simp add: unat_eq_0)
  with n lt(2) have "unat n = unat m + 1"
    by (cases "unat m + 1 = 2 ^ 32") simp_all
  moreover have "unat (s + 1) = unat s + 1"
    using lt by (simp add: unat_word_ariths)
  ultimately show ?thesis
    using lt(1) by simp
qed



end
