(* ===== verification/Raft_Server.thy ===== *)
theory Raft_Server
  imports Raft_Apply
begin

text \<open>
  The server as a whole (\<open>raft_server.c\<close>): dispatch of received messages, the timer, the event
  pipes, the sync thread, and the state a server starts in; then the server as a transition
  system, each of whose steps is one complete handler.
\<close>

section \<open>Messages\<close>

definition raft_server_process_received_server_msg ::
  "'b raft_env \<Rightarrow> raft_rpc_msg \<Rightarrow> uuid \<Rightarrow> 'b raft_instance \<Rightarrow> 'b raft_instance option" where
  "raft_server_process_received_server_msg env rrm sender ri = (
     let ri = raft_net_update_last_comm_time env sender False ri in
     case rrm_payload rrm of
       PRE_VOTE_REQUEST m \<Rightarrow> raft_server_process_vote_request_common env sender True m ri
     | VOTE_REQUEST m \<Rightarrow> raft_server_process_vote_request_common env sender False m ri
     | PRE_VOTE_REPLY m \<Rightarrow> raft_server_process_vote_reply_common env sender True m ri
     | VOTE_REPLY m \<Rightarrow> raft_server_process_vote_reply_common env sender False m ri
     | SYNC_IDX_UPDATE m \<Rightarrow> raft_server_process_sync_idx_update env sender rrm m ri
     | APPEND_ENTRIES_REQUEST m \<Rightarrow> raft_server_process_append_entries_request env sender rrm m ri
     | APPEND_ENTRIES_REPLY m \<Rightarrow> raft_server_process_append_entries_reply env sender rrm m ri
     | UNHANDLED_MSG \<Rightarrow> Some ri)"

text \<open>\<open>recv_bytes\<close> is the size of the datagram that holds the message.\<close>

definition raft_server_peer_recv_handler ::
  "'b raft_env \<Rightarrow> raft_rpc_msg \<Rightarrow> nat \<Rightarrow> 'b raft_instance \<Rightarrow> 'b raft_instance option" where
  "raft_server_peer_recv_handler env rrm recv_bytes ri =
     (if recv_bytes = 0 \<or> recv_bytes \<noteq> raft_rpc_msg_size rrm then Some ri
      else case raft_net_verify_sender_server_msg env ri (rrm_sender_id rrm) (rrm_raft_id rrm) of
          None \<Rightarrow> Some ri
        | Some sender \<Rightarrow> raft_server_process_received_server_msg env rrm sender ri)"

section \<open>The timer\<close>

definition RAFT_SERVER_COALESCE_TIMEOUT_FACTOR :: nat where "RAFT_SERVER_COALESCE_TIMEOUT_FACTOR = 2"
definition RAFT_SERVER_HEARTBEAT_ISSUE_FACTOR :: nat where "RAFT_SERVER_HEARTBEAT_ISSUE_FACTOR = 10"

text \<open>\<open>ri_timer_cnt\<close> is the static counter \<open>cnt\<close> of the function.\<close>

definition raft_server_timerfd_leader_cb :: "'b raft_env \<Rightarrow> 'b raft_instance \<Rightarrow> 'b raft_instance option" where
  "raft_server_timerfd_leader_cb env ri = do {
     let ri = ri\<lparr>ri_timer_cnt := ri_timer_cnt ri + 1\<rparr>;
     let cnt = ri_timer_cnt ri;
     (quorum, ri) \<leftarrow> raft_leader_check_quorum env ri;
     if \<not> quorum then raft_server_become_candidate env True ri
     else do {
       ri \<leftarrow> (if cnt mod RAFT_SERVER_COALESCE_TIMEOUT_FACTOR = 0
              then raft_server_leader_co_wr_timer_expired env ri else Some ri);
       ri \<leftarrow> (if cnt mod RAFT_SERVER_HEARTBEAT_ISSUE_FACTOR = 0
              then raft_server_issue_heartbeat env ri else Some ri);
       raft_server_increment_leader_time env ri } }"

definition raft_server_timerfd_cb :: "'b raft_env \<Rightarrow> 'b raft_instance \<Rightarrow> 'b raft_instance option" where
  "raft_server_timerfd_cb env ri = do {
     ri \<leftarrow> (case ri_state ri of
         RAFT_STATE_FOLLOWER \<Rightarrow> raft_server_become_candidate env True ri
       | RAFT_STATE_CANDIDATE_PREVOTE \<Rightarrow> raft_server_become_candidate env True ri
       | RAFT_STATE_CANDIDATE \<Rightarrow> raft_server_become_candidate env True ri
       | RAFT_STATE_LEADER \<Rightarrow> raft_server_timerfd_leader_cb env ri
       | _ \<Rightarrow> Some ri);
     raft_server_timerfd_settime env ri }"

section \<open>Event pipes and the sync thread\<close>

definition raft_server_remote_send_evp_cb :: "'b raft_env \<Rightarrow> 'b raft_instance \<Rightarrow> 'b raft_instance option" where
  "raft_server_remote_send_evp_cb env ri =
     (if raft_instance_is_leader ri then raft_server_append_entry_sender env False ri
      else if raft_instance_is_follower ri then raft_server_follower_send_sync_idx env ri
      else Some ri)"

definition raft_server_sm_apply_evp_cb ::
  "'b raft_env \<Rightarrow> ctl_svc_table \<Rightarrow> 'b sm_request_handler \<Rightarrow> 'b raft_instance \<Rightarrow> 'b raft_instance option" where
  "raft_server_sm_apply_evp_cb env svc sm ri = raft_server_state_machine_apply env svc sm ri"

definition raft_server_commit_idx_adv_evp_cb :: "'b raft_env \<Rightarrow> 'b raft_instance \<Rightarrow> 'b raft_instance option" where
  "raft_server_commit_idx_adv_evp_cb env ri =
     (if raft_instance_is_leader ri then raft_server_leader_try_advance_commit_idx env ri else Some ri)"

text \<open>One iteration of the sync thread.\<close>

definition raft_server_sync_thread :: "'b raft_env \<Rightarrow> 'b raft_instance \<Rightarrow> 'b raft_instance option" where
  "raft_server_sync_thread env ri = do {
     has_unsynced_entries \<leftarrow> raft_server_has_unsynced_entries ri;
     if has_unsynced_entries
     then do {
       ri \<leftarrow> raft_server_backend_sync_pending env ri;
       raft_server_leader_try_advance_commit_idx_from_sync_thread env (ri\<lparr>ri_sync_cnt := ri_sync_cnt ri + 1\<rparr>) }
     else Some ri }"

section \<open>Startup and bulk recovery\<close>

text \<open>Entering the main loop.\<close>

definition raft_server_main_loop :: "'b raft_env \<Rightarrow> 'b raft_instance \<Rightarrow> 'b raft_instance option" where
  "raft_server_main_loop env ri = do {
     NIOVA_ASSERT (raft_instance_is_running ri);
     raft_server_timerfd_settime env
       (ri\<lparr>ri_state := RAFT_STATE_FOLLOWER, ri_follower_reason := RAFT_BFRSN_LEADER_ALREADY_PRESENT\<rparr>) }"

text \<open>The backend's recovery function, if it has one, is \<open>recover\<close>.\<close>

definition raft_server_bulk_recovery ::
  "('b raft_instance \<Rightarrow> (int \<times> 'b raft_instance) option) option \<Rightarrow> 'b raft_instance
     \<Rightarrow> (int \<times> 'b raft_instance) option" where
  "raft_server_bulk_recovery recover ri = do {
     let proc_state = ri_proc_state ri;
     let ri = ri\<lparr>ri_proc_state := RAFT_PROC_STATE_RECOVERING\<rparr>;
     (rc, ri) \<leftarrow> (case recover of None \<Rightarrow> Some (- EOPNOTSUPP, ri) | Some f \<Rightarrow> f ri);
     Some (rc, ri\<lparr>ri_proc_state := proc_state\<rparr>) }"

section \<open>The server as a transition system\<close>

text \<open>
  A step is one handler run to its end by the main thread, or one iteration of the sync or the
  checkpoint thread. Every step may see different clocks, random numbers, network conditions
  and injected faults; the backend is the same. A handler that aborts is not a step.
\<close>

inductive server_step ::
  "'b raft_instance_backend \<Rightarrow> 'b raft_instance \<Rightarrow> 'b raft_instance \<Rightarrow> bool" for rib where
  recv: "env_rib env = rib \<Longrightarrow> raft_server_peer_recv_handler env rrm n ri = Some ri' \<Longrightarrow> server_step rib ri ri'"
| client_recv: "env_rib env = rib \<Longrightarrow> raft_server_client_recv_handler env svc sm rcm n ri = Some ri' \<Longrightarrow>
     server_step rib ri ri'"
| timer: "env_rib env = rib \<Longrightarrow> raft_server_timerfd_cb env ri = Some ri' \<Longrightarrow> server_step rib ri ri'"
| remote_send: "env_rib env = rib \<Longrightarrow> raft_server_remote_send_evp_cb env ri = Some ri' \<Longrightarrow> server_step rib ri ri'"
| sm_apply: "env_rib env = rib \<Longrightarrow> raft_server_sm_apply_evp_cb env svc app ri = Some ri' \<Longrightarrow> server_step rib ri ri'"
| commit_adv: "env_rib env = rib \<Longrightarrow> raft_server_commit_idx_adv_evp_cb env ri = Some ri' \<Longrightarrow> server_step rib ri ri'"
| sync_thread: "env_rib env = rib \<Longrightarrow> raft_server_sync_thread env ri = Some ri' \<Longrightarrow> server_step rib ri ri'"
| chkpt_thread: "env_rib env = rib \<Longrightarrow> raft_server_chkpt_thread env ri = Some ri' \<Longrightarrow> server_step rib ri ri'"

inductive_cases server_stepE: "server_step rib ri ri'"

inductive server_run ::
  "'b raft_instance_backend \<Rightarrow> 'b raft_instance \<Rightarrow> 'b raft_instance \<Rightarrow> bool" for rib where
  refl: "server_run rib ri ri"
| step: "server_run rib ri ri' \<Longrightarrow> server_step rib ri' ri'' \<Longrightarrow> server_run rib ri ri''"

end
