(* ===== verification/Raft_Invariant.thy ===== *)
theory Raft_Invariant
  imports Raft_Server
begin

text \<open>
  What it takes for a predicate on the server's state to hold along every handler. The locale
  \<open>server_inv\<close> lists the updates of the protocol state the code makes, each with what the code
  has checked when it makes it; a predicate that survives these survives every operation. This
  theory has the elections, \<open>Raft_Run\<close> the other handlers and the runs; \<open>Raft_Safety\<close>
  interprets the locale.
\<close>

section \<open>The laws\<close>

text \<open>What a predicate may depend on.\<close>

definition inv_view where
  "inv_view ri = (ri_state ri, ri_log_hdr ri, rls_leader_term (ri_leader ri),
     rls_initial_term_idx (ri_leader ri), ri_commit_idx ri, ri_last_applied ri, ri_lowest_idx ri,
     ri_newest_entry_hdr ri, ri_csn_raft_peers ri, ri_csn_this_peer ri, ri_synchronous_writes ri,
     ri_backend_arg ri)"

locale server_inv = backend_frame rib for rib :: "'b raft_instance_backend" +
  fixes I :: "'b raft_instance \<Rightarrow> bool"
  assumes I_view: "I ri \<Longrightarrow> inv_view ri' = inv_view ri \<Longrightarrow> I ri'"
    and I_state: "I ri \<Longrightarrow> s \<in> {RAFT_STATE_FOLLOWER, RAFT_STATE_CANDIDATE, RAFT_STATE_CANDIDATE_PREVOTE} \<Longrightarrow>
      I (ri\<lparr>ri_state := s\<rparr>)"
    and I_lead: "I ri \<Longrightarrow> rls_leader_term ls = rlh_term (ri_log_hdr ri) \<Longrightarrow>
      rls_initial_term_idx ls = reh_index (newest_header ri RI_NEHDR_SYNC) \<Longrightarrow>
      I (ri\<lparr>ri_state := RAFT_STATE_LEADER, ri_leader := ls\<rparr>)"
    and I_term: "I ri \<Longrightarrow> ri_state ri \<noteq> RAFT_STATE_LEADER \<Longrightarrow>
      rlh_term (ri_log_hdr ri) < rlh_term lh \<Longrightarrow> I (ri\<lparr>ri_log_hdr := lh\<rparr>)"
    and I_commit: "I ri \<Longrightarrow> ri_commit_idx ri < c \<Longrightarrow>
      raft_server_get_current_raft_entry_index ri RI_NEHDR_SYNC = Some k \<Longrightarrow> c \<le> k \<Longrightarrow>
      I (ri\<lparr>ri_commit_idx := c\<rparr>)"
    and I_lowest: "I ri \<Longrightarrow> ri_lowest_idx ri \<le> l \<Longrightarrow> I (ri\<lparr>ri_lowest_idx := l\<rparr>)"
    and I_applied: "I ri \<Longrightarrow> rla_idx (ri_last_applied ri) \<le> rla_idx la \<Longrightarrow>
      rla_idx la \<le> ri_commit_idx ri \<Longrightarrow> rla_sub_idx la \<le> rla_sub_idx_max la \<Longrightarrow>
      rla_synced_idx la = rla_synced_idx (ri_last_applied ri) \<Longrightarrow> I (ri\<lparr>ri_last_applied := la\<rparr>)"
    and I_applied_synced: "I ri \<Longrightarrow> rla_synced_idx (ri_last_applied ri) \<le> j \<Longrightarrow>
      j \<le> rla_idx (ri_last_applied ri) \<Longrightarrow>
      I (ri\<lparr>ri_last_applied := (ri_last_applied ri)\<lparr>rla_synced_idx := j\<rparr>\<rparr>)"
    and I_sync: "I ri \<Longrightarrow> wp (raft_instance_update_newest_entry_hdr (newest_header ri RI_NEHDR_UNSYNC)
      (NEHDR_ONE RI_NEHDR_SYNC) False ri) I"
    and I_append: "I ri \<Longrightarrow> reh_magic h = RAFT_ENTRY_MAGIC \<Longrightarrow>
      reh_index h = reh_index (newest_header ri RI_NEHDR_UNSYNC) + 1 \<Longrightarrow> 0 \<le> reh_index h \<Longrightarrow>
      reh_term (newest_header ri RI_NEHDR_UNSYNC) \<le> reh_term h \<Longrightarrow>
      wp (raft_instance_update_newest_entry_hdr h (if raft_server_does_synchronous_writes ri
        then RI_NEHDR_ALL else NEHDR_ONE RI_NEHDR_UNSYNC) False ri) I"
    and I_prune: "I ri \<Longrightarrow> ri_state ri = RAFT_STATE_FOLLOWER \<Longrightarrow> reh_magic h = RAFT_ENTRY_MAGIC \<Longrightarrow>
      0 \<le> reh_index h \<Longrightarrow> ri_commit_idx ri \<le> reh_index h \<Longrightarrow> rla_idx (ri_last_applied ri) \<le> reh_index h \<Longrightarrow>
      wp (raft_instance_update_newest_entry_hdr h RI_NEHDR_ALL True ri) I"
    and I_rib_sync: "I ri \<Longrightarrow> wp (rib_backend_sync rib ri) (\<lambda>(rc, ri'). I ri')"
    and I_rib_header_write: "I ri \<Longrightarrow> wp (rib_header_write rib ri) (\<lambda>(rc, ri'). I ri')"
    and I_rib_entry_write: "I ri \<Longrightarrow> reh_index (re_header re) = reh_index (newest_header ri RI_NEHDR_UNSYNC) + 1 \<Longrightarrow>
      0 \<le> reh_index (re_header re) \<Longrightarrow>
      unat (reh_data_size (re_header re)) \<le> RAFT_ENTRY_MAX_DATA_SIZE ri \<Longrightarrow>
      wp (rib_entry_write rib ri re ws) I"
    and I_rib_truncate: "I ri \<Longrightarrow> raft_server_get_current_raft_entry_index ri RI_NEHDR_SYNC = Some k \<Longrightarrow>
      wp (rib_log_truncate rib ri (k + 1)) I"
    and I_rib_reap: "I ri \<Longrightarrow> wp (rib_log_reap rib ri (ri_lowest_idx ri)) I"
    and I_rib_checkpoint: "I ri \<Longrightarrow> rib_backend_checkpoint rib = Some g \<Longrightarrow> wp (g ri) (\<lambda>(rc, ri'). I ri')"
    and I_rib_sm_apply: "I ri \<Longrightarrow> rib_sm_apply_opt rib = Some f \<Longrightarrow> wp (f ri ows) I"
begin

lemma I_updates [simp]:
  "I (ri\<lparr>ri_pending_read_idx := p\<rparr>) = I ri"
  "I (ri\<lparr>ri_csn_leader := l\<rparr>) = I ri"
  "I (ri\<lparr>ri_candidate := c\<rparr>) = I ri"
  "I (ri\<lparr>ri_follower_reason := fr\<rparr>) = I ri"
  "I (ri\<lparr>ri_coalesced_wr := co\<rparr>) = I ri"
  "I (ri\<lparr>ri_needs_bulk_recovery := br\<rparr>) = I ri"
  "I (ri\<lparr>ri_recovery_handle := rh\<rparr>) = I ri"
  "I (ri\<lparr>ri_timer_cnt := tc\<rparr>) = I ri"
  "I (ri\<lparr>ri_sync_cnt := sc\<rparr>) = I ri"
  "I (ri\<lparr>ri_user_requested_checkpoint := uc\<rparr>) = I ri"
  "I (ri\<lparr>ri_user_requested_reap := ur\<rparr>) = I ri"
  "I (ri\<lparr>ri_last_chkpt_err := ce\<rparr>) = I ri"
  "I (ri\<lparr>ri_checkpoint_last_idx := ci\<rparr>) = I ri"
  "I (ri\<lparr>ri_leader := (ri_leader ri)\<lparr>rls_quorum_ok_cnt := q\<rparr>\<rparr>) = I ri"
  "I (ri\<lparr>ri_leader := (ri_leader ri)\<lparr>rls_leader_accumulated := a\<rparr>\<rparr>) = I ri"
  "I (emit e ri) = I ri"
  "I (set_follower_info k f ri) = I ri"
  by (rule iffI; erule I_view; simp add: inv_view_def emit_def set_follower_info_def)+

lemma I_state_simps [simp]:
  "I ri \<Longrightarrow> I (ri\<lparr>ri_state := RAFT_STATE_FOLLOWER\<rparr>)"
  "I ri \<Longrightarrow> I (ri\<lparr>ri_state := RAFT_STATE_CANDIDATE\<rparr>)"
  "I ri \<Longrightarrow> I (ri\<lparr>ri_state := RAFT_STATE_CANDIDATE_PREVOTE\<rparr>)"
  by (simp_all add: I_state)

lemma I_net_core: "net_core ri' = net_core ri \<Longrightarrow> I ri \<Longrightarrow> I ri'"
  using net_core_fields [of ri' ri] by (auto simp: inv_view_def intro!: I_view [of ri])

lemma I_net_simps [simp]:
  "I ri \<Longrightarrow> I (raft_net_update_last_comm_time env p sr ri)"
  "I ri \<Longrightarrow> I (snd (raft_server_send_msg env p m ri))"
  by (rule I_net_core [of _ ri]; simp)+

lemma I_set_leader_csn [simp]: "I (raft_server_set_leader_csn l ri) = I ri"
  "ri_state (raft_server_set_leader_csn l ri) = ri_state ri"
  by (simp_all add: raft_server_set_leader_csn_def)

section \<open>Operations without the backend\<close>

lemma wp_inv:
  "wp m I \<Longrightarrow> (\<And>x. I x \<Longrightarrow> Q x) \<Longrightarrow> wp m Q"
  by (rule wp_call)

lemma wp_inv2:
  "wp m (\<lambda>(rc, ri'). I ri') \<Longrightarrow> (\<And>rc x. I x \<Longrightarrow> Q (rc, x)) \<Longrightarrow> wp m Q"
  by (rule wp_call2)

lemma wp_inv3:
  "wp m (\<lambda>(a, b, ri'). I ri') \<Longrightarrow> (\<And>a b x. I x \<Longrightarrow> Q (a, b, x)) \<Longrightarrow> wp m Q"
  by (rule wp_call3)

lemma timer_inv: "I ri \<Longrightarrow> wp (raft_server_timerfd_settime env ri) I"
  by (auto intro!: wpI dest!: net_core_timer intro: I_net_core)

lemma broadcast_inv: "I ri \<Longrightarrow> wp (raft_server_broadcast_msg env m ri) I"
  by (auto intro!: wpI dest!: net_core_broadcast intro: I_net_core)

lemma reg_vote_inv:
  "I ri \<Longrightarrow> wp (raft_server_candidate_reg_vote_result v r ri) (\<lambda>(rc, ri'). I ri')"
  by (rule wp_call2 [OF reg_vote_result_wp]) auto

lemma register_inv:
  "I ri \<Longrightarrow> wp (raft_server_read_entry_register_idx env i ri) (\<lambda>(rc, ri'). I ri')"
  unfolding raft_server_read_entry_register_idx_def
  by (auto simp: wp_simps Let_def lowest_race_def split: option.split intro!: wpI I_lowest)

lemma read_common_inv:
  "I ri \<Longrightarrow> wp (raft_server_entry_read_by_store_common env re ho ri) (\<lambda>(rc, re', ri'). I ri')"
  unfolding raft_server_entry_read_by_store_common_def raft_server_read_entry_unregister_idx_def
  by (auto simp: wp_simps Let_def intro!: wp_inv2 [OF register_inv] intro: wpI)

lemma header_read_inv:
  "I ri \<Longrightarrow> wp (raft_server_entry_header_read_by_store env h i ri) (\<lambda>(rc, h', ri'). I ri')"
  unfolding raft_server_entry_header_read_by_store_def
  by (auto simp: wp_simps intro!: wp_inv3 [OF read_common_inv])

lemma entry_read_inv:
  "I ri \<Longrightarrow> wp (raft_server_entry_read env i len ri) (\<lambda>(rc, d, ri'). I ri')"
  unfolding raft_server_entry_read_def raft_server_entry_read_by_store_def
  by (auto simp: wp_simps Let_def intro!: wp_inv3 [OF read_common_inv] intro: wpI)

lemma try_increase_inv:
  "I ri \<Longrightarrow> wp (raft_server_compaction_try_increase_lowest_idx l ri) (\<lambda>(rc, ri'). I ri')"
  unfolding raft_server_compaction_try_increase_lowest_idx_def
  by (auto simp: wp_simps intro!: I_lowest)

lemma advance_commit_inv:
  "I ri \<Longrightarrow> wp (raft_server_advance_commit_idx c ri) I"
  unfolding raft_server_advance_commit_idx_def
  by (auto simp: wp_simps intro!: wpI I_commit)

lemma set_last_applied_inv:
  "I ri \<Longrightarrow> rla_idx nai \<le> ri_commit_idx ri \<Longrightarrow>
   wp (raft_server_set_last_applied nai ri) (\<lambda>(n, ri'). I ri' \<and> ri_commit_idx ri' = ri_commit_idx ri \<and> rla_idx n = rla_idx nai)"
  unfolding raft_server_set_last_applied_def
  by (auto simp: wp_simps Let_def intro!: I_applied)

lemma bulk_check_inv:
  "I ri \<Longrightarrow> wp (raft_server_process_bulk_recovery_check env rrm m ri) (\<lambda>(rc, ri'). I ri')"
  unfolding raft_server_process_bulk_recovery_check_def
  by (auto simp: wp_simps raft_server_init_recovery_handle_def intro!: wpI)

section \<open>Sync and the log header\<close>

lemma backend_sync_inv:
  assumes "env_rib env = rib" and "I ri"
  shows "wp (raft_server_backend_sync env ri) (\<lambda>(rc, ri'). I ri' \<and> proto_view ri' = proto_view ri \<and>
     rla_idx (ri_last_applied ri') = rla_idx (ri_last_applied ri))"
proof -
  have sync: "wp (rib_backend_sync rib ri) (\<lambda>(rc, x). I x \<and> (\<exists>b. x = ri\<lparr>ri_backend_arg := b\<rparr>))"
    using wpD [OF I_rib_sync [OF assms(2)]]
    by (intro wpI) (auto dest!: backend_sync_frame elim!: backend_onlyE)
  have upd: "wp (raft_instance_update_newest_entry_hdr (newest_header ri RI_NEHDR_UNSYNC)
      (NEHDR_ONE RI_NEHDR_SYNC) False x)
      (\<lambda>y. I y \<and> proto_view y = proto_view ri \<and> ri_last_applied y = ri_last_applied ri)"
    if "I x" "x = ri\<lparr>ri_backend_arg := b\<rparr>" for x b
  proof (intro wp_conj)
    show "wp (raft_instance_update_newest_entry_hdr (newest_header ri RI_NEHDR_UNSYNC)
      (NEHDR_ONE RI_NEHDR_SYNC) False x) I"
      using I_sync [OF that(1)] that(2)
      by (cases "raft_instance_is_client ri")
        (simp_all add: raft_instance_get_newest_header_def raft_instance_is_client_def)
    show "wp (raft_instance_update_newest_entry_hdr (newest_header ri RI_NEHDR_UNSYNC)
      (NEHDR_ONE RI_NEHDR_SYNC) False x) (\<lambda>x. proto_view x = proto_view ri)"
      using that(2) by (auto intro!: wpI dest!: update_newest_view)
    show "wp (raft_instance_update_newest_entry_hdr (newest_header ri RI_NEHDR_UNSYNC)
      (NEHDR_ONE RI_NEHDR_SYNC) False x) (\<lambda>x. ri_last_applied x = ri_last_applied ri)"
      using that(2) by (auto simp: raft_instance_update_newest_entry_hdr_def wp_simps Let_def intro!: wpI)
  qed
  show ?thesis
    unfolding raft_server_backend_sync_def assms(1)
    using assms(2)
    by (auto simp: wp_simps Let_def intro!: wp_call2 [OF sync] wp_call [OF upd] I_applied_synced
        wpI [of "raft_server_has_unsynced_entries _"]
        wpI [of "raft_server_get_current_raft_entry_index _ _"])
qed

lemma sync_pending_inv:
  assumes "env_rib env = rib" and "I ri"
  shows "wp (raft_server_backend_sync_pending env ri) I"
  unfolding raft_server_backend_sync_pending_def
  using assms(2)
  by (auto simp: wp_simps intro!: wp_call2 [OF backend_sync_inv [OF assms]]
      wpI [of "raft_server_has_unsynced_entries _"])

lemma log_header_write_inv:
  assumes "env_rib env = rib" and "I ri" and "ri_state ri \<noteq> RAFT_STATE_LEADER"
    and "rlh_term (ri_log_hdr ri) < t"
  shows "wp (raft_server_log_header_write env c t ri) (\<lambda>(rc, ri'). I ri')"
proof -
  show ?thesis
    unfolding raft_server_log_header_write_def raft_server_log_header_write_prep_def assms(1)
    using assms(2-4)
    by (auto simp: wp_simps intro!: I_term wp_inv2 [OF I_rib_header_write] wp_call2 [OF backend_sync_inv [OF assms(1)]])
qed

lemma update_log_header_inv:
  assumes "env_rib env = rib" and "I ri" and "ri_state ri \<noteq> RAFT_STATE_LEADER"
  shows "wp (raft_server_update_log_header env t c ri) I"
  unfolding raft_server_update_log_header_def
  by (auto simp: wp_simps intro!: wp_inv2 [OF log_header_write_inv [OF assms]])

section \<open>Elections\<close>

lemma vote_for_self_inv:
  assumes "env_rib env = rib" and "I ri"
    and promote: "\<And>ri. I ri \<Longrightarrow> wp (promote ri) (I)"
  shows "wp (raft_server_vote_for_self env promote ri) (\<lambda>(rc, ri'). I ri')"
  unfolding raft_server_vote_for_self_def
  using assms(2)
  by (auto simp: wp_simps Let_def raft_instance_is_defs intro!: wp_inv2 [OF log_header_write_inv [OF assms(1)]]
      wp_inv2 [OF reg_vote_inv] wp_inv [OF promote])

lemma become_candidate_depth_inv:
  assumes "env_rib env = rib"
  shows "I ri \<Longrightarrow> wp (become_candidate_depth n env prevote ri) (I)"
proof (induction n arbitrary: prevote ri)
  case 0
  then show ?case by (simp add: wp_simps)
next
  case (Suc n)
  from Suc.prems show ?case
    by (auto simp: wp_simps Let_def raft_server_init_candidate_state_def
        intro!: wp_inv2 [OF vote_for_self_inv [OF assms]] wp_inv [OF timer_inv]
          wp_inv [OF broadcast_inv] Suc.IH)
qed

lemma become_candidate_inv:
  "env_rib env = rib \<Longrightarrow> I ri \<Longrightarrow> wp (raft_server_become_candidate env prevote ri) (I)"
  unfolding raft_server_become_candidate_def by (rule become_candidate_depth_inv)

lemma becomes_follower_inv:
  assumes "env_rib env = rib" and "I ri"
  shows "wp (raft_server_becomes_follower env t peer reason ri) (I)"
  unfolding raft_server_becomes_follower_def
  using assms(2)
  by (auto simp: wp_simps Let_def split: option.split
      intro!: wpI [of "raft_peer_uuid_to_csn env ri peer"] wp_inv [OF update_log_header_inv [OF assms(1)]])

lemma entry_write_inv:
  assumes "env_rib env = rib" and "I ri" and "0 \<le> i"
  shows "wp (raft_server_entry_write env i t data sizes n opts ws ri) (\<lambda>(rc, ri'). I ri')"
proof -
  have idx: "reh_index (re_header re) = reh_index (newest_header ri RI_NEHDR_UNSYNC) + 1"
    "reh_term (newest_header ri RI_NEHDR_UNSYNC) \<le> reh_term (re_header re)" "0 \<le> reh_index (re_header re)"
    if "raft_server_entry_init env ri i t data sizes n opts = Some re"
      "raft_server_entry_next_entry_is_valid ri (re_header re) = Some True" for re
    using entry_init_fields [OF that(1)] that(2) assms(3)
    by (auto simp: raft_server_entry_next_entry_is_valid_def Let_def bind_Some split: if_splits)
  have w: "wp (raft_server_entry_write_by_store env re ws ri) (\<lambda>x. I x \<and> (\<exists>b. x = ri\<lparr>ri_backend_arg := b\<rparr>))"
    if "raft_server_entry_init env ri i t data sizes n opts = Some re"
      "raft_server_entry_next_entry_is_valid ri (re_header re) = Some True" for re
    using wpD [OF I_rib_entry_write [OF assms(2) idx(1,3) [OF that] entry_init_fields(6) [OF that(1)], of ws]]
    by (intro wpI) (auto simp: raft_server_entry_write_by_store_def assms(1) dest!: entry_write_frame elim!: backend_onlyE)
  have a: "wp (raft_instance_update_newest_entry_hdr (re_header re) (if raft_server_does_synchronous_writes x
        then RI_NEHDR_ALL else NEHDR_ONE RI_NEHDR_UNSYNC) False x) I"
    if "raft_server_entry_init env ri i t data sizes n opts = Some re"
      "raft_server_entry_next_entry_is_valid ri (re_header re) = Some True"
      "I x" "x = ri\<lparr>ri_backend_arg := b\<rparr>" for re x b
    using entry_init_fields(3) [OF that(1)] idx [OF that(1,2)] that(3,4)
    by (intro I_append) (auto simp: raft_instance_get_newest_header_def raft_instance_is_client_def)
  show ?thesis
    unfolding raft_server_entry_write_def
    using assms(2)
    by (auto simp only: wp_if wp_bind wp_Some wp_fatal wp_True not_not simp_thms prod.case intro!: wp_call [OF w] wp_inv [OF a]
        wpI [of "raft_server_wr_entries_get_total_size _ _"] wpI [of "raft_server_entry_init _ _ _ _ _ _ _ _"]
        wpI [of "raft_server_entry_next_entry_is_valid _ _"])
qed

lemma leader_write_inv:
  assumes "env_rib env = rib" and "I ri"
  shows "wp (raft_server_leader_write_new_entry env data sizes n opts ws ri) (I)"
    and "wp (raft_server_write_next_entry env t data sizes n opts ws ri) (I)"
proof -
  show w: "wp (raft_server_write_next_entry env t data sizes n opts ws ri) (I)" for t
    unfolding raft_server_write_next_entry_def
    by (auto simp: wp_simps Let_def intro!: wp_inv2 [OF entry_write_inv [OF assms(1)]] assms(2))
  show "wp (raft_server_leader_write_new_entry env data sizes n opts ws ri) (I)"
    unfolding raft_server_leader_write_new_entry_def
    by (auto simp: wp_simps intro!: wp_inv [OF w])
qed

lemma becomes_leader_inv:
  assumes "env_rib env = rib" and "I ri"
  shows "wp (raft_server_candidate_becomes_leader env ri) (I)"
  unfolding raft_server_candidate_becomes_leader_def raft_server_leader_init_state_def
    raft_server_write_leader_change_marker_def
  using assms(2)
  by (auto simp: wp_simps Let_def
      intro!: I_lead wp_inv [OF timer_inv] wp_inv [OF leader_write_inv(1) [OF assms(1)]]
        wpI [of "raft_server_has_unsynced_entries _"] wpI [of "raft_num_members_validate_and_get _ _"])

lemma vote_reply_inv:
  assumes "env_rib env = rib" and "I ri"
  shows "wp (raft_server_process_vote_reply_common env sender prevote vreply ri) (I)"
  unfolding raft_server_process_vote_reply_common_def
  using assms(2)
  by (auto simp: wp_simps Let_def split: raft_vote_result.split
      intro!: wp_inv2 [OF reg_vote_inv] wp_inv [OF becomes_leader_inv [OF assms(1)]]
        wpI [of "raft_server_candidate_can_become_leader _ _"]
        wpI [of "raft_server_prevote_candidate_can_become_candidate _ _"]
        wp_inv [OF become_candidate_inv [OF assms(1)]] wp_inv [OF becomes_follower_inv [OF assms(1)]])

lemma vote_request_inv:
  assumes "env_rib env = rib" and "I ri"
  shows "wp (raft_server_process_vote_request_common env sender prevote vreq ri) (I)"
  unfolding raft_server_process_vote_request_common_def
  by (auto simp: wp_simps Let_def intro!: wp_inv [OF sync_pending_inv [OF assms]]
      wp_inv [OF becomes_follower_inv [OF assms(1)]])

end

end
