(* ===== verification/Raft_Run.thy ===== *)
theory Raft_Run
  imports Raft_Invariant
begin

text \<open>
  The forward motion of a server (\<open>Raft_Progress\<close>) along replication, client requests, the
  application of entries and the threads, and with that along every run of the transition
  system of \<open>Raft_Server\<close>.
\<close>

context server_inv
begin

section \<open>The follower\<close>

lemma check_already_stored_inv:
  "I ri \<Longrightarrow> wp (raft_server_append_entry_check_already_stored env raerq ri) (\<lambda>(b, ri'). I ri')"
  unfolding raft_server_append_entry_check_already_stored_def
  by (auto simp: wp_simps Let_def intro!: wp_inv3 [OF header_read_inv]
      wpI [of "raft_server_get_current_raft_entry_index _ _"])

lemma reply_send_inv:
  "I ri \<Longrightarrow> wp (raft_server_append_entry_reply_send env raerq sender st nm sli rc ri) I"
  unfolding raft_server_append_entry_reply_send_def
  by (auto simp: wp_simps case_prod_beta Let_def
      intro!: wpI [of "raft_server_process_append_entries_request_prep_reply _ _ _ _ _ _"])

lemma log_truncate_inv:
  assumes "env_rib env = rib" and "I ri"
  shows "wp (raft_server_log_truncate env ri) I"
  unfolding raft_server_log_truncate_def assms(1)
  using I_rib_truncate [OF assms(2)]
  by (auto simp: wp_simps intro!: wpI [of "raft_server_get_current_raft_entry_index _ _"])

lemma header_read_full:
  assumes "I ri"
  shows "wp (raft_server_entry_header_read_by_store env h i ri) (\<lambda>(rc, h', ri'). I ri' \<and>
     ri_state ri' = ri_state ri \<and> ri_commit_idx ri' = ri_commit_idx ri \<and>
     ri_last_applied ri' = ri_last_applied ri \<and>
     (rc = 0 \<longrightarrow> reh_magic h' = RAFT_ENTRY_MAGIC \<and> reh_index h' = i \<and> 0 \<le> i))"
proof -
  have "(I ri' \<and> ri_state ri' = ri_state ri \<and> ri_commit_idx ri' = ri_commit_idx ri \<and>
     ri_last_applied ri' = ri_last_applied ri \<and>
     (rc = 0 \<longrightarrow> reh_magic h' = RAFT_ENTRY_MAGIC \<and> reh_index h' = i \<and> 0 \<le> i))"
    if r: "raft_server_entry_header_read_by_store env h i ri = Some (rc, h', ri')" for rc h' ri'
    using wpD [OF header_read_inv [OF assms] r] wpD [OF header_read_wp r]
      header_read_valid [of env h i ri h' ri'] r
    by (auto simp: read_view_def proto_view_def)
  then show ?thesis by (auto intro!: wpI)
qed

lemma log_prune_inv:
  assumes "env_rib env = rib" and "I ri"
  shows "wp (raft_server_append_entry_log_prune_if_needed env raerq ri) I"
  unfolding raft_server_append_entry_log_prune_if_needed_def
  by (auto simp: wp_simps Let_def proto_view_def raft_instance_is_defs
      intro!: wp_call2 [OF backend_sync_inv [OF assms]]
      wp_call3 [OF header_read_full] wp_inv [OF I_prune] log_truncate_inv [OF assms(1)])

lemma index_ahead_inv:
  assumes "env_rib env = rib" and "I ri"
  shows "wp (raft_server_follower_index_ahead_of_leader env raerq ri) (\<lambda>(a, b, ri'). I ri')"
  unfolding raft_server_follower_index_ahead_of_leader_def
  by (auto simp: wp_simps Let_def intro!: wp_inv2 [OF check_already_stored_inv [OF assms(2)]]
      wp_inv [OF log_prune_inv [OF assms(1)]] wpI [of "raft_server_has_unsynced_entries _"])

lemma prepare_and_check_inv:
  assumes "env_rib env = rib" and "I ri"
  shows "wp (raft_server_append_entry_log_prepare_and_check env raerq ri) (\<lambda>(rc, ri'). I ri')"
  unfolding raft_server_append_entry_log_prepare_and_check_def
  using assms(2)
  by (auto simp: wp_simps Let_def intro!: wp_inv3 [OF index_ahead_inv [OF assms]])

lemma term_check_inv:
  assumes "env_rib env = rib" and "I ri"
  shows "wp (raft_server_process_append_entries_term_check_ops env sender raerq ri) (\<lambda>(rc, ri'). I ri')"
  unfolding raft_server_process_append_entries_term_check_ops_def
    raft_server_try_update_log_header_null_voted_for_peer_def
  using assms(2)
  by (auto simp: wp_simps Let_def raft_instance_is_defs intro!: wp_inv [OF becomes_follower_inv [OF assms]]
      wp_inv [OF update_log_header_inv [OF assms]])

lemma write_from_leader_inv:
  assumes "env_rib env = rib" and "I ri"
  shows "wp (raft_server_write_new_entry_from_leader env raerq ri) I"
  unfolding raft_server_write_new_entry_from_leader_def
  using assms(2)
  by (auto simp: wp_simps Let_def intro!: wp_inv [OF leader_write_inv(2) [OF assms]])

lemma log_ops_inv:
  assumes "env_rib env = rib" and "I ri"
  shows "wp (append_entries_log_ops env raerq ri) (\<lambda>(rc, nm, ig, ri'). I ri')"
  unfolding append_entries_log_ops_def
  by (auto simp: wp_simps Let_def intro!: wp_inv2 [OF prepare_and_check_inv [OF assms]]
      wp_inv [OF write_from_leader_inv [OF assms(1)]] wp_inv [OF advance_commit_inv]
      wpI [of "raft_server_get_current_raft_entry_index _ _"])

lemma append_entries_request_inv:
  assumes "env_rib env = rib" and "I ri"
  shows "wp (raft_server_process_append_entries_request env sender rrm raerq ri) I"
proof -
  have ops: "wp (append_entries_log_ops env raerq x) Q"
    if "I x" "\<And>rc nm ig y. I y \<Longrightarrow> Q (rc, nm, ig, y)" for x Q
    using log_ops_inv [OF assms(1) that(1), of raerq] that(2) by (auto simp: wp_def)
  show ?thesis
    unfolding raft_server_process_append_entries_request_def
    using assms(2)
    by (auto simp: wp_simps Let_def intro!: wp_inv2 [OF bulk_check_inv] ops
        wp_inv2 [OF term_check_inv [OF assms(1)]] wp_inv [OF reply_send_inv]
        timer_inv)
qed

section \<open>The leader\<close>

lemma setup_self_inv:
  "I ri \<Longrightarrow> wp (raft_server_leader_setup_self_follower_info env ri) I"
  unfolding raft_server_leader_setup_self_follower_info_def
  by (auto simp: wp_simps Let_def intro!: wpI [of "raft_server_instance_self_idx _"]
      wpI [of "raft_server_get_follower_info _ _ _"])

lemma calculate_committed_inv:
  "I ri \<Longrightarrow> wp (raft_server_leader_calculate_committed_idx env ri) (\<lambda>(i, ri'). I ri')"
  unfolding raft_server_leader_calculate_committed_idx_def
  by (auto simp: wp_simps Let_def intro!: wp_inv [OF setup_self_inv]
      wpI [of "raft_server_get_majority_entry_idx _ _"])

lemma can_advance_inv:
  "I ri \<Longrightarrow> wp (raft_server_leader_can_advance_commit_idx env st ri) (\<lambda>(i, ri'). I ri')"
  unfolding raft_server_leader_can_advance_commit_idx_def
  by (auto simp: wp_simps Let_def intro!: wp_inv2 [OF calculate_committed_inv])

lemma try_advance_inv:
  "I ri \<Longrightarrow> wp (raft_server_leader_try_advance_commit_idx env ri) I"
  "I ri \<Longrightarrow> wp (raft_server_leader_try_advance_commit_idx_from_sync_thread env ri) I"
  unfolding raft_server_leader_try_advance_commit_idx_def
    raft_server_leader_try_advance_commit_idx_from_sync_thread_def
  by (auto simp: wp_simps Let_def intro!: wp_inv2 [OF can_advance_inv] advance_commit_inv)

lemma update_sync_idx_inv:
  "I ri \<Longrightarrow> wp (raft_server_try_update_follower_sync_idx env k t sli ri) I"
  unfolding raft_server_try_update_follower_sync_idx_def
  by (auto simp: wp_simps Let_def intro!: try_advance_inv)

lemma apply_reply_inv:
  "I ri \<Longrightarrow> wp (raft_server_apply_append_entries_reply_result env u raerp ri) I"
  unfolding raft_server_apply_append_entries_reply_result_def
  by (auto simp: wp_simps Let_def intro!: wpI [of "raft_peer_2_idx _ _"]
      wpI [of "raft_server_get_follower_info _ _ _"] wp_inv [OF update_sync_idx_inv]
      wpI [of "raft_server_get_current_raft_entry_index _ _"])

lemma sync_idx_update_inv:
  "I ri \<Longrightarrow> wp (raft_server_process_sync_idx_update env sender rrm m ri) I"
  unfolding raft_server_process_sync_idx_update_def
  by (auto simp: wp_simps split: option.split intro!: update_sync_idx_inv
      wpI [of "raft_server_get_follower_info _ _ _"])

lemma refresh_inv:
  "I ri \<Longrightarrow> wp (raft_server_refresh_follower_prev_log_term env k ri) (\<lambda>(rc, ri'). I ri')"
  unfolding raft_server_refresh_follower_prev_log_term_def
  by (auto simp: wp_simps Let_def intro!: wp_inv3 [OF header_read_inv]
      wpI [of "raft_server_get_follower_info _ _ _"] wpI [of "raft_server_get_current_raft_entry_index _ _"])

lemma init_ae_msg_inv:
  "I ri \<Longrightarrow> wp (raft_server_leader_init_append_entry_msg env k hb ri) (\<lambda>(rc, m, ri'). I ri')"
  unfolding raft_server_leader_init_append_entry_msg_def
  by (auto simp: wp_simps Let_def intro!: wp_inv2 [OF refresh_inv]
      wpI [of "raft_server_leader_get_current_term _"])

lemma should_send_inv:
  "I ri \<Longrightarrow> wp (raft_server_append_entry_should_send_to_follower env k ri) (\<lambda>(b, ri'). I ri')"
  unfolding raft_server_append_entry_should_send_to_follower_def
  by (auto simp: wp_simps Let_def case_prod_beta intro!: wpI [of "raft_server_get_follower_info _ _ _"]
      wpI [of "raft_server_get_current_raft_entry_index _ _"])

lemma fill_inv:
  "I ri \<Longrightarrow> wp (append_entry_fill env m ri) (\<lambda>(f, ri'). I ri')"
  unfolding append_entry_fill_def
  by (auto simp: wp_simps Let_def intro!: wp_inv3 [OF header_read_inv] wp_inv3 [OF entry_read_inv])

lemma sender_loop_inv:
  "I ri \<Longrightarrow> wp (append_entry_sender_loop env my is hb ri) I"
proof (induction "is" arbitrary: hb ri)
  case Nil
  then show ?case by (simp add: wp_simps)
next
  case (Cons i "is")
  from Cons.prems show ?case
    by (auto simp: wp_simps Let_def split: option.split intro!: Cons.IH
        wp_inv2 [OF should_send_inv] wp_inv3 [OF init_ae_msg_inv] wp_inv2 [OF fill_inv])
qed

lemma sender_inv:
  "I ri \<Longrightarrow> wp (raft_server_append_entry_sender env hb ri) I"
  unfolding raft_server_append_entry_sender_def
  by (auto simp: wp_simps intro!: sender_loop_inv wpI [of "raft_num_members_validate_and_get _ _"]
      wpI [of "raft_server_get_current_raft_entry_index _ _"])

lemma send_sync_idx_inv:
  "I ri \<Longrightarrow> wp (raft_server_follower_send_sync_idx env ri) I"
  unfolding raft_server_follower_send_sync_idx_def
  by (auto simp: wp_simps Let_def split: option.split)

lemma check_quorum_inv:
  "I ri \<Longrightarrow> wp (raft_leader_check_quorum env ri) (\<lambda>(b, ri'). I ri')"
  unfolding raft_leader_check_quorum_def
  by (auto simp: wp_simps Let_def intro!: wpI [of "raft_leader_majority_followers_comm_window _ _ _"])

lemma leader_time_inv:
  "I ri \<Longrightarrow> wp (raft_server_increment_leader_time env ri) I"
  unfolding raft_server_increment_leader_time_def by (auto simp: wp_simps Let_def)

lemma append_entries_reply_inv:
  assumes "env_rib env = rib" and "I ri"
  shows "wp (raft_server_process_append_entries_reply env sender rrm raerp ri) I"
  unfolding raft_server_process_append_entries_reply_def
  using assms(2)
  by (auto simp: wp_simps intro!: apply_reply_inv becomes_follower_inv [OF assms])

section \<open>Client requests\<close>

lemma net_core_reply_to_client [simp]: "net_core (raft_server_reply_to_client env svc rncr csn ri) = net_core ri"
  by (auto simp: raft_server_reply_to_client_def raft_server_send_msg_to_client_def Let_def
      case_prod_beta split: option.split)

lemma reply_to_client_inv: "I ri \<Longrightarrow> I (raft_server_reply_to_client env svc rncr csn ri)"
  by (rule I_net_core) simp

lemma deny_inv:
  "I ri \<Longrightarrow> wp (raft_server_deny_client_request env svc rncr csn rc ri) I"
  unfolding raft_server_deny_client_request_def
  by (auto simp: wp_simps Let_def reply_to_client_inv intro!: wpI [of "rncr_reply_ptr _"])

lemma rncr_prepare_inv:
  assumes "I ri" and "\<And>rc rncr csn y. I y \<Longrightarrow> Q (rc, rncr, csn, y)"
  shows "wp (raft_server_client_rncr_prepare env svc rcm n ri) Q"
  unfolding raft_server_client_rncr_prepare_def
  using assms
  by (auto simp: wp_simps Let_def case_prod_beta intro!: wp_inv [OF deny_inv]
      wpI [of "raft_server_net_client_request_init_client_rpc _ _ _ _"]
      wpI [of "raft_server_may_accept_client_request _ _"])

lemma write_coalesced_inv:
  assumes "env_rib env = rib" and "I ri"
  shows "wp (raft_server_write_coalesced_entries env ri) I"
  unfolding raft_server_write_coalesced_entries_def
  using assms(2)
  by (auto simp: wp_simps Let_def intro!: wp_inv [OF leader_write_inv(1) [OF assms]])

lemma co_wr_timer_inv:
  assumes "env_rib env = rib" and "I ri"
  shows "wp (raft_server_leader_co_wr_timer_expired env ri) I"
  unfolding raft_server_leader_co_wr_timer_expired_def
  using assms(2)
  by (auto simp: wp_simps intro!: write_coalesced_inv [OF assms]
      wpI [of "raft_server_may_accept_client_request _ _"])

lemma write_coalesce_inv:
  assumes "env_rib env = rib" and "I ri"
  shows "wp (raft_server_write_coalesce_entry env d a ri) I"
  unfolding raft_server_write_coalesce_entry_def
  using assms(2)
  by (auto simp: wp_simps Let_def intro!: write_coalesced_inv [OF assms(1)])

lemma write_raft_entry_inv:
  assumes "env_rib env = rib" and "I ri"
  shows "wp (raft_server_client_rncr_write_raft_entry env rncr ri) I"
  unfolding raft_server_client_rncr_write_raft_entry_def
  using assms(2)
  by (auto simp: wp_simps Let_def case_prod_beta intro!: wp_inv [OF write_coalesced_inv [OF assms]]
      write_coalesce_inv [OF assms(1)] wpI [of "rncr_request _"])

lemma rncr_complete_inv:
  assumes "env_rib env = rib" and "I ri"
  shows "wp (raft_server_client_rncr_complete env svc rncr csn rc ri) I"
  unfolding raft_server_client_rncr_complete_def
  using assms(2)
  by (auto simp: wp_simps reply_to_client_inv intro!: deny_inv write_raft_entry_inv [OF assms]
      wpI [of "raft_server_may_accept_client_request _ _"])

lemma client_recv_inv:
  assumes "env_rib env = rib" and "I ri"
  shows "wp (raft_server_client_recv_handler env svc sm rcm n ri) I"
proof -
  note prep = rncr_prepare_inv [OF assms(2)] and compl = rncr_complete_inv [OF assms(1)]
    and opt = wpI [of "(m :: raft_net_client_request_handle option)" for m]
  have "wp (raft_server_client_recv_handler_ping env svc rcm ri) I"
    unfolding raft_server_client_recv_handler_ping_def
    by (auto simp: wp_simps intro!: prep compl opt)
  moreover have "wp (raft_server_client_recv_handler_read env svc app rcm ri) (I)" for app
    unfolding raft_server_client_recv_handler_read_def
    by (auto simp: wp_simps case_prod_beta intro!: prep compl opt)
  moreover have "wp (raft_server_client_recv_handler_write env svc app rcm ri) (I)" for app
    unfolding raft_server_client_recv_handler_write_def raft_server_do_client_write_def
    by (auto simp: wp_simps case_prod_beta intro!: prep compl opt wpI [of "rncr_request _"])
  ultimately show ?thesis
    unfolding raft_server_client_recv_handler_def
    using assms(2) by (auto simp: wp_simps split: option.split raft_client_rpc_msg_type.split)
qed

section \<open>Applying entries, checkpoints and reaping\<close>

lemma sm_apply_opt_inv:
  assumes "env_rib env = rib" and "I ri"
  shows "wp (raft_server_sm_apply_opt env ws ri) (\<lambda>x. I x \<and> ri_commit_idx x = ri_commit_idx ri)"
proof -
  have "wp (f ri ws) (\<lambda>x. I x \<and> ri_commit_idx x = ri_commit_idx ri)" if "rib_sm_apply_opt rib = Some f" for f
    using wpD [OF I_rib_sm_apply [OF assms(2) that, of ws]] sm_apply_frame [OF that]
    by (intro wpI) (fastforce elim!: backend_onlyE)
  then show ?thesis
    unfolding raft_server_sm_apply_opt_def assms(1)
    using assms(2) by (auto simp: wp_simps split: option.split)
qed

lemma init_send_reply_inv:
  assumes "I ri"
  shows "wp (raft_server_init_send_reply env svc rncr ri) (\<lambda>x. I x \<and> ri_commit_idx x = ri_commit_idx ri)"
proof -
  have "ri_commit_idx (raft_server_reply_to_client env svc rncr' csn ri) = ri_commit_idx ri" for rncr' csn
    by (rule net_core_fields) simp
  then show ?thesis
    unfolding raft_server_init_send_reply_def
    using assms
    by (auto simp: wp_simps Let_def reply_to_client_inv intro!: wpI [of "rncr_reply_ptr _"]
        wpI [of "raft_server_client_reply_init _ _ _"])
qed

lemma apply_loop_inv:
  assumes "env_rib env = rib"
  shows "I ri \<Longrightarrow> rla_idx nai \<le> ri_commit_idx ri \<Longrightarrow> wp (apply_loop env svc sm reh buf i off nai ri) I"
proof (induction "unat (reh_num_entries reh) - i" arbitrary: i off nai ri rule: less_induct)
  case less
  have IH: "wp (apply_loop env svc sm reh buf (Suc i) off' nai' x) I"
    if "I x" "rla_idx nai' \<le> ri_commit_idx x" "i < unat (reh_num_entries reh)" for off' nai' x
    using less.hyps [of "Suc i" x nai' off'] that by simp
  show ?case
    unfolding apply_loop.simps [of env svc sm reh buf i]
    using less.prems
    by (auto simp: wp_simps Let_def case_prod_beta simp del: apply_loop.simps
        intro!: IH wp_call2 [OF set_last_applied_inv] wp_call [OF sm_apply_opt_inv [OF assms]]
          wp_call [OF init_send_reply_inv] wpI [of "raft_server_net_client_request_init_sm_apply _ _ _"])
qed

text \<open>The entry to apply is not beyond the commit index.\<close>

lemma header_to_apply_inv:
  assumes "I ri" and "raft_server_needs_apply ri = Some True"
  shows "wp (raft_server_get_raft_header_to_apply env ri) (\<lambda>(nai, reh, x). I x \<and> rla_idx nai \<le> ri_commit_idx x)"
proof -
  have nxt: "wp (raft_server_next_apply_idx ri) (\<lambda>nai. rla_idx nai \<le> ri_commit_idx ri)"
    using assms(2)
    by (auto simp: raft_server_needs_apply_def raft_server_next_apply_idx_def wp_simps Let_def split: if_splits)
  show ?thesis
    unfolding raft_server_get_raft_header_to_apply_def
    by (auto simp: wp_simps Let_def intro!: wp_call [OF nxt] wp_call3 [OF header_read_full [OF assms(1)]])
qed

lemma state_machine_apply_inv:
  assumes "env_rib env = rib" and "I ri"
  shows "wp (raft_server_state_machine_apply env svc sm ri) I"
proof -
  have read: "wp (raft_server_entry_read env i n x) (\<lambda>(rc, d, y). I y \<and> ri_commit_idx y = ri_commit_idx x)"
    if "I x" for x i n
    using wpD [OF entry_read_inv [OF that]] wpD [OF entry_read_wp]
    by (intro wpI) (fastforce simp: read_view_def proto_view_def)
  show ?thesis
    unfolding raft_server_state_machine_apply_def
    using assms(2)
    by (auto simp: wp_simps Let_def case_prod_beta simp del: apply_loop.simps
        intro!: wp_call3 [OF header_to_apply_inv] wp_call2 [OF set_last_applied_inv]
          wp_call [OF sm_apply_opt_inv [OF assms(1)]] wp_call3 [OF read]
          wp_inv [OF apply_loop_inv [OF assms(1)]] wpI [of "raft_server_needs_apply _"]
          wpI [of "(d :: u8 list option)" for d])
qed

lemma reap_log_inv:
  assumes "env_rib env = rib" and "I ri"
  shows "wp (raft_server_reap_log env n ri) I"
proof -
  have inc: "wp (raft_server_compaction_try_increase_lowest_idx l ri)
      (\<lambda>(rc, x). I x \<and> (rc = 0 \<longrightarrow> wp (rib_log_reap rib x l) I))" for l
    using try_increase_inv [OF assms(2), of l] I_rib_reap [of "ri\<lparr>ri_lowest_idx := l\<rparr>"]
    by (auto simp: wp_simps raft_server_compaction_try_increase_lowest_idx_def split: if_splits)
  show ?thesis
    unfolding raft_server_reap_log_def assms(1)
    using assms(2) by (auto simp: wp_simps Let_def intro!: wp_call2 [OF inc])
qed

lemma take_chkpt_inv:
  assumes "env_rib env = rib" and "I ri"
  shows "wp (raft_server_take_chkpt env ri) I"
proof -
  have c: "wp (rib_backend_checkpoint rib) (\<lambda>g. wp (g ri) (\<lambda>(rc, ri'). I ri'))"
    using I_rib_checkpoint [OF assms(2)] by (auto intro: wpI)
  show ?thesis
    unfolding raft_server_take_chkpt_def raft_server_set_checkpoint_last_idx_def assms(1)
    using assms(2) by (auto simp: wp_simps Let_def intro!: wp_call [OF c] elim: wp_inv2)
qed

lemma chkpt_thread_inv:
  assumes "env_rib env = rib" and "I ri"
  shows "wp (raft_server_chkpt_thread env ri) I"
  unfolding raft_server_chkpt_thread_def
  using assms(2)
  by (auto simp: wp_simps Let_def intro!: wp_inv [OF take_chkpt_inv [OF assms(1)]] reap_log_inv [OF assms(1)])

section \<open>Every step and every run\<close>

lemma peer_recv_inv:
  assumes "env_rib env = rib" and "I ri"
  shows "wp (raft_server_peer_recv_handler env rrm n ri) I"
  unfolding raft_server_peer_recv_handler_def raft_server_process_received_server_msg_def
  using assms(2)
  by (auto simp: wp_simps Let_def split: option.split raft_rpc_payload.split
      intro!: vote_request_inv vote_reply_inv sync_idx_update_inv append_entries_request_inv
        append_entries_reply_inv assms(1))

lemma timer_cb_inv:
  assumes "env_rib env = rib" and "I ri"
  shows "wp (raft_server_timerfd_cb env ri) I"
proof -
  have l: "wp (raft_server_timerfd_leader_cb env ri) I"
    unfolding raft_server_timerfd_leader_cb_def raft_server_issue_heartbeat_def
    using assms(2)
    by (auto simp: wp_simps Let_def intro!: wp_inv2 [OF check_quorum_inv]
        become_candidate_inv [OF assms(1)] wp_inv [OF co_wr_timer_inv [OF assms(1)]]
        wp_inv [OF sender_inv] leader_time_inv)
  show ?thesis
    unfolding raft_server_timerfd_cb_def
    using assms(2)
    by (auto simp: wp_simps split: raft_state.split intro!: timer_inv
        wp_inv [OF become_candidate_inv [OF assms]] wp_inv [OF l])
qed

lemma sync_thread_inv:
  assumes "env_rib env = rib" and "I ri"
  shows "wp (raft_server_sync_thread env ri) I"
  unfolding raft_server_sync_thread_def
  using assms(2)
  by (auto simp: wp_simps intro!: wp_inv [OF sync_pending_inv [OF assms]] try_advance_inv
      wpI [of "raft_server_has_unsynced_entries _"])

lemma event_pipes_inv:
  assumes "env_rib env = rib" and "I ri"
  shows "wp (raft_server_remote_send_evp_cb env ri) I"
    and "wp (raft_server_sm_apply_evp_cb env svc sm ri) I"
    and "wp (raft_server_commit_idx_adv_evp_cb env ri) I"
  unfolding raft_server_remote_send_evp_cb_def raft_server_sm_apply_evp_cb_def
    raft_server_commit_idx_adv_evp_cb_def
  using assms(2)
  by (auto simp: wp_simps intro!: sender_inv send_sync_idx_inv try_advance_inv state_machine_apply_inv [OF assms])

lemmas handler_inv = peer_recv_inv client_recv_inv timer_cb_inv event_pipes_inv sync_thread_inv chkpt_thread_inv

lemma server_step_inv: "server_step rib ri ri' \<Longrightarrow> I ri \<Longrightarrow> I ri'"
  by (erule server_stepE) (erule (2) handler_inv [THEN wpD])+

lemma server_run_inv: "server_run rib ri ri' \<Longrightarrow> I ri \<Longrightarrow> I ri'"
  by (induction rule: server_run.induct) (auto dest: server_step_inv)

end

end
