(* ===== verification/Raft_Safety.thy ===== *)
theory Raft_Safety
  imports Raft_Run
begin

text \<open>
  Two predicates that hold along every run of a server on the flat-file backend, as
  interpretations of \<open>server_inv\<close>: the server only moves forward, and the indices of applied,
  committed, synced and written entries are in this order.
\<close>

section \<open>A server only moves forward\<close>

text \<open>
  The term does not decrease and the vote of a term is not changed; the commit index, the
  applied index and the lowest index of the log do not decrease; the membership stays.
\<close>

definition server_le :: "'b raft_instance \<Rightarrow> 'b raft_instance \<Rightarrow> bool" where
  "server_le r0 ri \<longleftrightarrow> vote_le (ri_log_hdr r0) (ri_log_hdr ri) \<and>
     ri_commit_idx r0 \<le> ri_commit_idx ri \<and>
     rla_idx (ri_last_applied r0) \<le> rla_idx (ri_last_applied ri) \<and>
     rla_synced_idx (ri_last_applied r0) \<le> rla_synced_idx (ri_last_applied ri) \<and>
     ri_lowest_idx r0 \<le> ri_lowest_idx ri \<and>
     ri_csn_raft_peers ri = ri_csn_raft_peers r0 \<and> ri_csn_this_peer ri = ri_csn_this_peer r0 \<and>
     ri_synchronous_writes ri = ri_synchronous_writes r0"

lemma server_le_newest:
  "server_le r0 ri \<Longrightarrow> wp (raft_instance_update_newest_entry_hdr h t f ri) (server_le r0)"
  by (auto simp: raft_instance_update_newest_entry_hdr_def Let_def wp_simps server_le_def intro!: wpI)

lemma server_le_backend_only: "backend_only ri ri' \<Longrightarrow> server_le r0 ri \<Longrightarrow> server_le r0 ri'"
  by (elim backend_onlyE) (simp add: server_le_def)

lemma server_le_chkpt: "server_le r0 ri \<Longrightarrow> server_le r0 (ri\<lparr>ri_checkpoint_last_idx := c\<rparr>)"
  by (simp add: server_le_def)

lemma server_le_laws:
  assumes "server_le r0 ri"
  shows "server_le r0 (ri\<lparr>ri_state := s\<rparr>)" and "server_le r0 (ri\<lparr>ri_state := s, ri_leader := ls\<rparr>)"
    and "rlh_term (ri_log_hdr ri) < rlh_term lh \<Longrightarrow> server_le r0 (ri\<lparr>ri_log_hdr := lh\<rparr>)"
    and "ri_commit_idx ri < c \<Longrightarrow> server_le r0 (ri\<lparr>ri_commit_idx := c\<rparr>)"
    and "ri_lowest_idx ri \<le> l \<Longrightarrow> server_le r0 (ri\<lparr>ri_lowest_idx := l\<rparr>)"
    and "rla_idx (ri_last_applied ri) \<le> rla_idx la \<Longrightarrow>
      rla_synced_idx la = rla_synced_idx (ri_last_applied ri) \<Longrightarrow> server_le r0 (ri\<lparr>ri_last_applied := la\<rparr>)"
    and "rla_synced_idx (ri_last_applied ri) \<le> j \<Longrightarrow>
      server_le r0 (ri\<lparr>ri_last_applied := (ri_last_applied ri)\<lparr>rla_synced_idx := j\<rparr>\<rparr>)"
    and "inv_view ri' = inv_view ri \<Longrightarrow> server_le r0 ri'"
  using assms by (auto simp: server_le_def vote_le_def inv_view_def)

context backend_frame
begin

text \<open>What does not depend on the backend's state survives every call of the backend.\<close>

lemma backend_calls_keep:
  assumes bo: "\<And>ri ri'. backend_only ri ri' \<Longrightarrow> P ri \<Longrightarrow> P ri'"
    and chkpt: "\<And>ri c. P ri \<Longrightarrow> P (ri\<lparr>ri_checkpoint_last_idx := c\<rparr>)" and "P ri"
  shows "wp (rib_backend_sync rib ri) (\<lambda>(rc, ri'). P ri')" and "wp (rib_header_write rib ri) (\<lambda>(rc, ri'). P ri')"
    and "wp (rib_entry_write rib ri re ws) P" and "wp (rib_log_truncate rib ri i) P" and "wp (rib_log_reap rib ri l) P"
    and "rib_backend_checkpoint rib = Some g \<Longrightarrow> wp (g ri) (\<lambda>(rc, ri'). P ri')"
    and "rib_sm_apply_opt rib = Some f \<Longrightarrow> wp (f ri ows) P"
  using assms(3)
  by (auto intro!: wpI dest!: checkpoint_frame intro: bo [OF _ chkpt] bo
      dest: backend_sync_frame header_write_frame entry_write_frame log_truncate_frame log_reap_frame sm_apply_frame)

end

sublocale backend_frame \<subseteq> fwd: server_inv rib "server_le r0" for r0
  by unfold_locales
    (rule server_le_laws server_le_newest backend_calls_keep [of "server_le r0", OF server_le_backend_only server_le_chkpt]; assumption)+

section \<open>Applied, committed, synced, written\<close>

definition server_ok :: "'b raft_instance \<Rightarrow> bool" where
  "server_ok ri \<longleftrightarrow> \<not> raft_instance_is_client ri \<and> newest_hdrs_ok ri \<and>
     rla_synced_idx (ri_last_applied ri) \<le> rla_idx (ri_last_applied ri) \<and>
     rla_sub_idx (ri_last_applied ri) \<le> rla_sub_idx_max (ri_last_applied ri) \<and>
     rla_idx (ri_last_applied ri) \<le> ri_commit_idx ri \<and>
     ri_commit_idx ri \<le> reh_index (ri_newest_entry_hdr ri RI_NEHDR_SYNC) \<and>
     (raft_instance_is_leader ri \<longrightarrow> rls_leader_term (ri_leader ri) = rlh_term (ri_log_hdr ri) \<and>
        rls_initial_term_idx (ri_leader ri) \<le> reh_index (ri_newest_entry_hdr ri RI_NEHDR_SYNC))"

lemma server_ok_sync:
  assumes "server_ok ri"
  shows "wp (raft_instance_update_newest_entry_hdr (newest_header ri RI_NEHDR_UNSYNC)
      (NEHDR_ONE RI_NEHDR_SYNC) False ri) server_ok"
  using assms
  by (auto simp: raft_instance_update_newest_entry_hdr_def update_newest_slot_def Let_def wp_simps
      raft_instance_is_defs raft_instance_get_newest_header_def server_ok_def newest_hdrs_ok_def)

lemma server_ok_append:
  assumes "server_ok ri" and "reh_magic h = RAFT_ENTRY_MAGIC" and "0 \<le> reh_index h"
    and "reh_index h = reh_index (newest_header ri RI_NEHDR_UNSYNC) + 1"
    and "reh_term (newest_header ri RI_NEHDR_UNSYNC) \<le> reh_term h"
  shows "wp (raft_instance_update_newest_entry_hdr h (if raft_server_does_synchronous_writes ri
        then RI_NEHDR_ALL else NEHDR_ONE RI_NEHDR_UNSYNC) False ri) server_ok"
  using assms
  by (auto simp: raft_instance_update_newest_entry_hdr_def update_newest_slot_def Let_def wp_simps
      raft_instance_is_defs raft_instance_get_newest_header_def server_ok_def newest_hdrs_ok_def hdr_ok_def
      raft_server_does_synchronous_writes_def)

lemma server_ok_prune:
  assumes "server_ok ri" and "ri_state ri = RAFT_STATE_FOLLOWER" and "reh_magic h = RAFT_ENTRY_MAGIC"
    and "0 \<le> reh_index h" and "ri_commit_idx ri \<le> reh_index h"
  shows "wp (raft_instance_update_newest_entry_hdr h RI_NEHDR_ALL True ri) server_ok"
  using assms
  by (auto simp: raft_instance_update_newest_entry_hdr_def update_newest_slot_def Let_def wp_simps
      server_ok_def newest_hdrs_ok_def hdr_ok_def raft_instance_is_defs)

lemma server_ok_commit:
  assumes "server_ok ri" and "raft_server_get_current_raft_entry_index ri RI_NEHDR_SYNC = Some k"
    and "ri_commit_idx ri < c" and "c \<le> k"
  shows "server_ok (ri\<lparr>ri_commit_idx := c\<rparr>)"
  using assms current_idx_ok [of ri RI_NEHDR_SYNC]
  by (auto simp: server_ok_def newest_hdrs_ok_def Let_def raft_instance_is_defs)

lemma server_ok_view: "server_ok ri \<Longrightarrow> inv_view ri' = inv_view ri \<Longrightarrow> server_ok ri'"
  by (simp add: server_ok_def inv_view_def newest_hdrs_ok_def raft_instance_is_defs)

lemma server_ok_state:
  "server_ok ri \<Longrightarrow> s \<in> {RAFT_STATE_FOLLOWER, RAFT_STATE_CANDIDATE, RAFT_STATE_CANDIDATE_PREVOTE} \<Longrightarrow>
   server_ok (ri\<lparr>ri_state := s\<rparr>)"
  by (auto simp: server_ok_def newest_hdrs_ok_def raft_instance_is_defs)

lemma server_ok_lead:
  assumes "server_ok ri" and "rls_leader_term ls = rlh_term (ri_log_hdr ri)"
    and "rls_initial_term_idx ls = reh_index (newest_header ri RI_NEHDR_SYNC)"
  shows "server_ok (ri\<lparr>ri_state := RAFT_STATE_LEADER, ri_leader := ls\<rparr>)"
  using assms newest_header_server [of ri]
  by (auto simp: server_ok_def newest_hdrs_ok_def raft_instance_is_defs)

lemma server_ok_backend_only: "backend_only ri ri' \<Longrightarrow> server_ok ri \<Longrightarrow> server_ok ri'"
  by (elim backend_onlyE) (auto simp: server_ok_def newest_hdrs_ok_def raft_instance_is_defs)

lemma server_ok_chkpt: "server_ok ri \<Longrightarrow> server_ok (ri\<lparr>ri_checkpoint_last_idx := c\<rparr>)"
  by (simp add: server_ok_def newest_hdrs_ok_def raft_instance_is_defs)

lemma server_ok_fields:
  assumes "server_ok ri"
  shows "ri_state ri \<noteq> RAFT_STATE_LEADER \<Longrightarrow> server_ok (ri\<lparr>ri_log_hdr := lh\<rparr>)"
    and "server_ok (ri\<lparr>ri_lowest_idx := l\<rparr>)"
    and "rla_idx (ri_last_applied ri) \<le> rla_idx la \<Longrightarrow> rla_idx la \<le> ri_commit_idx ri \<Longrightarrow>
      rla_sub_idx la \<le> rla_sub_idx_max la \<Longrightarrow>
      rla_synced_idx la = rla_synced_idx (ri_last_applied ri) \<Longrightarrow> server_ok (ri\<lparr>ri_last_applied := la\<rparr>)"
    and "j \<le> rla_idx (ri_last_applied ri) \<Longrightarrow>
      server_ok (ri\<lparr>ri_last_applied := (ri_last_applied ri)\<lparr>rla_synced_idx := j\<rparr>\<rparr>)"
  using assms by (auto simp: server_ok_def newest_hdrs_ok_def raft_instance_is_defs)

sublocale backend_frame \<subseteq> ok: server_inv rib server_ok
  by unfold_locales
    (rule server_ok_state server_ok_lead server_ok_sync server_ok_append server_ok_prune
      server_ok_commit server_ok_fields backend_calls_keep [of server_ok, OF server_ok_backend_only server_ok_chkpt] server_ok_view; assumption)+

section \<open>Committed entries stay\<close>

context posix_file
begin

lemma posix_write_keeps_below:
  assumes "rsbp_entry_write io ri re ws = Some ri'" and "0 \<le> entry_idx re"
    and "unat (reh_data_size (re_header re)) \<le> RAFT_ENTRY_MAX_DATA_SIZE ri"
    and "posix_holds contents (ri_backend_arg ri) re'" and "entry_idx re' \<noteq> entry_idx re"
  shows "posix_holds contents (ri_backend_arg ri') re'"
proof -
  obtain rip f rc where rip: "ri_backend_arg ri = Some rip" "ri_backend_arg ri' = Some (rip\<lparr>rip_fd := f\<rparr>)"
    and sz: "ri_max_entry_size ri = RAFT_ENTRY_SIZE_POSIX"
    and w: "niova_io_pwrite io (rip_fd rip) (take (raft_server_entry_to_total_size re) (encode_re re))
        (block_off (entry_idx re)) = (rc, f)"
    using assms(1)
    by (auto simp: rsbp_entry_write_def rsbp_ri_to_rip_def bind_Some Let_def case_prod_beta
        rsbr_raft_entry_to_phys_offset_def rsbr_raft_entry_header_to_phys_idx_def set_fd_def
        rsbr_entry_idx_to_phys_idx_def rsbr_get_num_log_headers_def block_off_def split: if_splits)
      (metis prod.collapse)
  have "length (take (raft_server_entry_to_total_size re) (encode_re re)) \<le> RAFT_ENTRY_SIZE_POSIX"
    using assms(3) sz
    by (auto simp: raft_server_entry_to_total_size_def RAFT_ENTRY_MAX_DATA_SIZE_def RAFT_ENTRY_SIZE_POSIX_def
        RAFT_ENTRY_HEADER_RESERVE_def min_def)
  then show ?thesis
    using pwrite_keeps [OF w _ _ assms(4) [unfolded rip] assms(5), of "rip\<lparr>rip_fd := f\<rparr>"] assms(2) rip(2) by simp
qed

end

text \<open>The server has its log in order, and entry \<open>e\<close> is stored and committed.\<close>

definition has_committed :: "('f \<Rightarrow> u8 list) \<Rightarrow> raft_entry \<Rightarrow> 'f posix_instance \<Rightarrow> bool" where
  "has_committed contents e ri \<longleftrightarrow> server_ok ri \<and> e \<in> stored_log contents ri \<and> entry_idx e \<le> ri_commit_idx ri"

lemma has_committed_fields:
  assumes "has_committed contents e ri"
  shows "server_ok ri'\<Longrightarrow> ri_backend_arg ri' = ri_backend_arg ri \<Longrightarrow> ri_commit_idx ri \<le> ri_commit_idx ri' \<Longrightarrow>
     has_committed contents e ri'"
  using assms by (auto simp: has_committed_def stored_log_def)

lemma update_newest_fields:
  "wp (raft_instance_update_newest_entry_hdr h t f ri)
     (\<lambda>x. ri_backend_arg x = ri_backend_arg ri \<and> ri_commit_idx x = ri_commit_idx ri)"
  by (auto simp: raft_instance_update_newest_entry_hdr_def wp_simps Let_def intro!: wpI)

lemma has_committed_newest:
  assumes "has_committed contents e ri" and "wp (raft_instance_update_newest_entry_hdr h t f ri) server_ok"
  shows "wp (raft_instance_update_newest_entry_hdr h t f ri) (has_committed contents e)"
  using wp_conj [OF assms(2) update_newest_fields] has_committed_fields [OF assms(1)]
  by (auto simp: wp_def)

text \<open>The newest entry is beyond the committed ones.\<close>

lemma server_ok_beyond:
  assumes "server_ok ri"
  shows "ri_commit_idx ri < reh_index (newest_header ri RI_NEHDR_UNSYNC) + 1"
    and "raft_server_get_current_raft_entry_index ri RI_NEHDR_SYNC = Some k \<Longrightarrow> ri_commit_idx ri < k + 1"
  using assms current_idx_ok [of ri RI_NEHDR_SYNC] newest_header_server [of ri RI_NEHDR_UNSYNC]
  by (auto simp: server_ok_def newest_hdrs_ok_def Let_def)

lemma has_committed_backend:
  assumes "has_committed contents e ri" and "backend_only ri ri'"
    and "posix_holds contents (ri_backend_arg ri) e \<Longrightarrow> posix_holds contents (ri_backend_arg ri') e"
  shows "has_committed contents e ri'"
  using assms server_ok_backend_only [OF assms(2)]
  by (auto simp: has_committed_def stored_log_def elim!: backend_onlyE)

sublocale posix_file \<subseteq> keep: server_inv "ribPosix io env" "has_committed contents e" for env e
proof
  fix ri ri' :: "'f posix_instance" and re h ws k i lh la ls c l j s g f ows
  assume I: "has_committed contents e ri"
  then have ok: "server_ok ri" and st: "posix_holds contents (ri_backend_arg ri) e" and le: "entry_idx e \<le> ri_commit_idx ri"
    by (simp_all add: has_committed_def stored_log_def)
  note keep = has_committed_fields [OF I] and newest = has_committed_newest [OF I]
  show "inv_view ri' = inv_view ri \<Longrightarrow> has_committed contents e ri'"
    by (rule keep) (auto simp: inv_view_def intro: server_ok_view [OF ok])
  show "s \<in> {RAFT_STATE_FOLLOWER, RAFT_STATE_CANDIDATE, RAFT_STATE_CANDIDATE_PREVOTE} \<Longrightarrow>
      has_committed contents e (ri\<lparr>ri_state := s\<rparr>)"
    by (rule keep) (simp_all add: server_ok_state [OF ok])
  show "rls_leader_term ls = rlh_term (ri_log_hdr ri) \<Longrightarrow>
      rls_initial_term_idx ls = reh_index (newest_header ri RI_NEHDR_SYNC) \<Longrightarrow>
      has_committed contents e (ri\<lparr>ri_state := RAFT_STATE_LEADER, ri_leader := ls\<rparr>)"
    by (rule keep) (simp_all add: server_ok_lead [OF ok])
  show "ri_state ri \<noteq> RAFT_STATE_LEADER \<Longrightarrow> rlh_term (ri_log_hdr ri) < rlh_term lh \<Longrightarrow>
      has_committed contents e (ri\<lparr>ri_log_hdr := lh\<rparr>)"
    by (rule keep) (simp_all add: server_ok_fields [OF ok])
  show "ri_commit_idx ri < c \<Longrightarrow> raft_server_get_current_raft_entry_index ri RI_NEHDR_SYNC = Some k \<Longrightarrow>
      c \<le> k \<Longrightarrow> has_committed contents e (ri\<lparr>ri_commit_idx := c\<rparr>)"
    by (rule keep) (simp_all add: server_ok_commit [OF ok])
  show "ri_lowest_idx ri \<le> l \<Longrightarrow> has_committed contents e (ri\<lparr>ri_lowest_idx := l\<rparr>)"
    by (rule keep) (simp_all add: server_ok_fields [OF ok])
  show "rla_idx (ri_last_applied ri) \<le> rla_idx la \<Longrightarrow> rla_idx la \<le> ri_commit_idx ri \<Longrightarrow>
      rla_sub_idx la \<le> rla_sub_idx_max la \<Longrightarrow> rla_synced_idx la = rla_synced_idx (ri_last_applied ri) \<Longrightarrow>
      has_committed contents e (ri\<lparr>ri_last_applied := la\<rparr>)"
    by (rule keep) (simp_all add: server_ok_fields [OF ok])
  show "rla_synced_idx (ri_last_applied ri) \<le> j \<Longrightarrow> j \<le> rla_idx (ri_last_applied ri) \<Longrightarrow>
      has_committed contents e (ri\<lparr>ri_last_applied := (ri_last_applied ri)\<lparr>rla_synced_idx := j\<rparr>\<rparr>)"
    by (rule keep) (simp_all add: server_ok_fields [OF ok])
  show "wp (raft_instance_update_newest_entry_hdr (newest_header ri RI_NEHDR_UNSYNC)
      (NEHDR_ONE RI_NEHDR_SYNC) False ri) (has_committed contents e)"
    by (rule newest [OF server_ok_sync [OF ok]])
  show "reh_magic h = RAFT_ENTRY_MAGIC \<Longrightarrow>
      reh_index h = reh_index (newest_header ri RI_NEHDR_UNSYNC) + 1 \<Longrightarrow> 0 \<le> reh_index h \<Longrightarrow>
      reh_term (newest_header ri RI_NEHDR_UNSYNC) \<le> reh_term h \<Longrightarrow>
      wp (raft_instance_update_newest_entry_hdr h (if raft_server_does_synchronous_writes ri
        then RI_NEHDR_ALL else NEHDR_ONE RI_NEHDR_UNSYNC) False ri) (has_committed contents e)"
    by (rule newest [OF server_ok_append [OF ok]])
  show "ri_state ri = RAFT_STATE_FOLLOWER \<Longrightarrow> reh_magic h = RAFT_ENTRY_MAGIC \<Longrightarrow>
      0 \<le> reh_index h \<Longrightarrow> ri_commit_idx ri \<le> reh_index h \<Longrightarrow> rla_idx (ri_last_applied ri) \<le> reh_index h \<Longrightarrow>
      wp (raft_instance_update_newest_entry_hdr h RI_NEHDR_ALL True ri) (has_committed contents e)"
    by (rule newest [OF server_ok_prune [OF ok]])
  note be = has_committed_backend [OF I]
  show "wp (rib_backend_sync (ribPosix io env) ri) (\<lambda>(rc, ri'). has_committed contents e ri')"
    by (auto intro!: wpI be intro: log.sync_keeps posix.backend_sync_frame)
  show "wp (rib_header_write (ribPosix io env) ri) (\<lambda>(rc, ri'). has_committed contents e ri')"
    by (auto intro!: wpI be intro: log.header_write_keeps posix.header_write_frame)
  show "reh_index (re_header re) = reh_index (newest_header ri RI_NEHDR_UNSYNC) + 1 \<Longrightarrow>
      0 \<le> reh_index (re_header re) \<Longrightarrow>
      unat (reh_data_size (re_header re)) \<le> RAFT_ENTRY_MAX_DATA_SIZE ri \<Longrightarrow>
      wp (rib_entry_write (ribPosix io env) ri re ws) (has_committed contents e)"
    using le server_ok_beyond(1) [OF ok]
    by (intro wpI be posix.entry_write_frame)
      (auto simp: ribPosix_def intro: posix_write_keeps_below)
  show "raft_server_get_current_raft_entry_index ri RI_NEHDR_SYNC = Some k \<Longrightarrow>
      wp (rib_log_truncate (ribPosix io env) ri (k + 1)) (has_committed contents e)"
    using le server_ok_beyond(2) [OF ok]
    by (intro wpI be posix.log_truncate_frame)
      (auto intro: log.truncate_keeps)
  show "wp (rib_log_reap (ribPosix io env) ri (ri_lowest_idx ri)) (has_committed contents e)"
    by (simp add: ribPosix_def wp_simps)
  show "rib_backend_checkpoint (ribPosix io env) = Some g \<Longrightarrow> wp (g ri) (\<lambda>(rc, ri'). has_committed contents e ri')"
    by (simp add: ribPosix_def)
  show "rib_sm_apply_opt (ribPosix io env) = Some f \<Longrightarrow> wp (f ri ows) (has_committed contents e)"
    by (simp add: ribPosix_def)
qed

context posix_file
begin

lemma keep_run: "server_run (ribPosix io env) ri ri' \<Longrightarrow> has_committed contents e ri \<Longrightarrow> has_committed contents e ri'"
  by (rule keep.server_run_inv)

end

section \<open>Properties\<close>

text \<open>The checkpoint thread clears a request of the operator: a step of the example server.\<close>

lemma demo_chkpt_step:
  assumes "ri_last_applied ri = ri_last_applied (demo_ri ([] :: u8 list))" and "\<not> raft_instance_is_shutdown ri"
  shows "server_run (ribPosix mem_io demo_base) ri (ri\<lparr>ri_user_requested_checkpoint := False, ri_user_requested_reap := False\<rparr>)"
proof -
  have "raft_server_chkpt_thread (demo_env mem_io) ri
      = Some (ri\<lparr>ri_user_requested_checkpoint := False, ri_user_requested_reap := False\<rparr>)"
    using assms by (simp add: raft_server_chkpt_thread_def Let_def raft_server_instance_chkpt_compact_max_idx_def)
  then show ?thesis
    by (intro server_run.step [OF server_run.refl] server_step.chkpt_thread [of "demo_env mem_io"]) simp_all
qed

lemma server_ok_demo: "server_ok (demo_ri f)"
  by (simp add: server_ok_def raft_instance_is_defs newest_hdrs_ok_def hdr_ok_def)

text \<open>
  C6. A server only moves forward: along any sequence of handlers and thread iterations, the term
  does not decrease and within a term the vote is not changed; the commit index, the applied and the
  synced applied index and the lowest index of the log do not decrease; the membership stays.
\<close>

theorem run_moves_forward:
  assumes "server_run (ribPosix io env) ri ri'"
  shows "server_le ri ri'"
  using posix.fwd.server_run_inv [OF assms, of ri] by (simp add: server_le_def vote_le_def)

theorem run_moves_forward_witness:
  "server_le (demo_ri ([] :: u8 list)\<lparr>ri_user_requested_checkpoint := True\<rparr>)
     (demo_ri []\<lparr>ri_user_requested_checkpoint := False, ri_user_requested_reap := False\<rparr>)"
  using run_moves_forward [OF demo_chkpt_step [of "demo_ri []\<lparr>ri_user_requested_checkpoint := True\<rparr>"]]
  by (simp add: raft_instance_is_shutdown_def)

text \<open>
  C7. Applied, committed, synced, written: these indices stay in this order along every run, the
  two cached headers stay consistent, and a leader's term is the term of its log header.
\<close>

theorem run_keeps_log_order:
  assumes "server_run (ribPosix io env) ri ri'" and "server_ok ri"
  shows "server_ok ri'"
  using assms by (rule posix.ok.server_run_inv)

theorem run_keeps_log_order_witness:
  "server_ok (demo_ri ([] :: u8 list)\<lparr>ri_user_requested_checkpoint := False, ri_user_requested_reap := False\<rparr>)"
  using run_keeps_log_order [OF demo_chkpt_step server_ok_demo] by (simp add: raft_instance_is_shutdown_def)



text \<open>
  C1. Committed entries stay: whatever a server does, an entry that its file holds at an index up to
  its commit index is held by its file ever after, and is still committed.
\<close>

theorem committed_entries_stay:
  assumes "posix_file io contents" and "server_run (ribPosix io env) ri ri'" and "server_ok ri"
    and "e \<in> stored_log contents ri" and "entry_idx e \<le> ri_commit_idx ri"
  shows "e \<in> stored_log contents ri' \<and> entry_idx e \<le> ri_commit_idx ri'"
  using posix_file.keep_run [OF assms(1,2), of e] assms(3-5) by (simp add: has_committed_def)

theorem committed_entries_stay_witness:
  "\<exists>ri. demo_entry 0 \<in> stored_log (\<lambda>f. f) ri \<and> ri_commit_idx ri = 0 \<and>
     demo_entry 0 \<in> stored_log (\<lambda>f. f) (ri\<lparr>ri_user_requested_checkpoint := False, ri_user_requested_reap := False\<rparr>)"
proof -
  obtain rip where w: "rsbp_entry_write mem_io (demo_ri []) (demo_entry 0) None
      = Some (demo_ri []\<lparr>ri_backend_arg := Some rip\<rparr>)"
    using entry_write_succeeds [OF posix_ready_demo healthy_mem_io demo_entry_storable [of 0]] by auto
  let ?ri = "demo_ri []\<lparr>ri_backend_arg := Some rip, ri_newest_entry_hdr := (\<lambda>_. re_header (demo_entry 0)), ri_commit_idx := 0\<rparr>"
  have st: "demo_entry 0 \<in> stored_log (\<lambda>f. f) ?ri"
    using mem.posix_write_holds [OF w demo_entry_storable] by (simp add: stored_log_def)
  have ok: "server_ok ?ri"
    by (simp add: server_ok_def raft_instance_is_defs newest_hdrs_ok_def hdr_ok_def demo_entry_def)
  have idx: "entry_idx (demo_entry 0) \<le> ri_commit_idx ?ri"
    by (simp add: demo_entry_def)
  show ?thesis
    using committed_entries_stay [OF mem.posix_file_axioms demo_chkpt_step ok st idx] st
    by (intro exI [of _ ?ri]) (simp add: raft_instance_is_shutdown_def)
qed

text \<open>
  C2. No second vote: once a server is in a term, by voting in it or otherwise, no vote request for that
  term or an earlier one that it handles later is answered with a granted vote.
\<close>

theorem no_second_vote:
  assumes "server_run (ribPosix io env0) ri ri1" and "server_ok ri"
    and "raft_server_process_vote_request_common (env\<lparr>env_rib := ribPosix io env0\<rparr>) sender prevote vreq ri1 = Some ri2"
    and "rvrqm_proposed_term vreq \<le> rlh_term (ri_log_hdr ri)"
    and "sender \<in> set (ri_csn_raft_peers ri)" and "sender \<noteq> ri_csn_this_peer ri" and "sender \<noteq> null_uuid"
    and "Eff_send peer rrm \<in> set (drop (length (ri_effects ri1)) (ri_effects ri2))"
    and "rrm_payload rrm = VOTE_REPLY v"
  shows "\<not> rvrpm_voted_granted v"
proof
  assume "rvrpm_voted_granted v"
  have le: "server_le ri ri1"
    using posix.fwd.server_run_inv [OF assms(1), of ri] by (simp add: server_le_def vote_le_def)
  have "server_ok ri1"
    using assms(1,2) by (rule posix.ok.server_run_inv)
  then have "vote_reply_ok ri1 sender vreq ri2"
    using le assms(5-7)
    by (intro wpD [OF posix.vote_request_reply_wp assms(3)]) (auto simp: server_ok_def server_le_def)
  with assms(8,9) \<open>rvrpm_voted_granted v\<close> have "rlh_term (ri_log_hdr ri1) < rvrqm_proposed_term vreq"
    unfolding vote_reply_ok_def vote_granted_ok_def by blast
  then show False
    using le assms(4) by (auto simp: server_le_def vote_le_def)
qed

definition demo_voted :: "u8 list posix_instance" where
  "demo_voted = demo0\<lparr>ri_log_hdr := (ri_log_hdr demo0)\<lparr>rlh_term := 1, rlh_voted_for := 3\<rparr>,
     ri_user_requested_checkpoint := False, ri_user_requested_reap := False\<rparr>"

theorem no_second_vote_witness:
  "\<exists>ri2 rrm v. raft_server_process_vote_request_common (demo_env mem_io) 2 False demo_vreq demo_voted = Some ri2 \<and>
     Eff_send 2 rrm \<in> set (ri_effects ri2) \<and> rrm_payload rrm = VOTE_REPLY v \<and> \<not> rvrpm_voted_granted v"
proof -
  let ?v = "\<lparr>rvrpm_voted_granted = False, rvrpm_term = 1, rvrpm_current_leader = 0\<rparr>"
  let ?rrm = "raft_server_set_uuids_in_rpc_msg demo_voted (VOTE_REPLY ?v)"
  have h: "raft_server_process_vote_request_common (demo_env mem_io) 2 False demo_vreq demo_voted
      = Some (snd (raft_server_send_msg (demo_env mem_io) 2 ?rrm demo_voted))" (is "_ = Some ?r")
    by (simp add: demo_voted_def raft_server_process_vote_request_common_def raft_server_backend_sync_pending_def
        raft_server_has_unsynced_entries_def Let_def raft_server_process_vote_request_decide_def demo_vreq_def)
  have e: "ri_effects ?r = [Eff_send 2 ?rrm]"
    by (subst demo_send) (simp_all add: demo_voted_def raft_instance_is_client_def raft_rpc_msg_size_def
        raft_server_set_uuids_in_rpc_msg_def sizeof_raft_rpc_msg_def)
  have run: "server_run (ribPosix mem_io demo_base) demo_voted demo_voted"
    by (rule server_run.refl)
  have ok: "server_ok demo_voted"
    by (simp add: demo_voted_def server_ok_def raft_instance_is_defs newest_hdrs_ok_def hdr_ok_def)
  have new: "Eff_send 2 ?rrm \<in> set (drop (length (ri_effects demo_voted)) (ri_effects ?r))"
    unfolding e by (simp add: demo_voted_def)
  have "\<not> rvrpm_voted_granted ?v"
    using run ok h [unfolded demo_env_def raft_server_backend_use_posix_def] _ _ _ _ new
      [unfolded demo_env_def raft_server_backend_use_posix_def]
    by (rule no_second_vote) (simp_all add: demo_voted_def demo_vreq_def raft_server_set_uuids_in_rpc_msg_def)
  with h e show ?thesis
    by (intro exI [of _ ?r] exI [of _ ?rrm] exI [of _ ?v]) (simp add: raft_server_set_uuids_in_rpc_msg_def)
qed

end
