(* ===== verification/Raft_Tunables.thy ===== *)
theory Raft_Tunables
  imports Raft_Net
begin

text \<open>
  The tunables of an instance, set through the control interface (\<open>raft_net.c\<close>) or by the server
  when it starts (\<open>raft_server.c\<close>): election timeout, heartbeat frequency, and the limits of the
  persistent-application store. The number parsers are library functions and parameters: a
  parser gives a negative error or the number.
\<close>

section \<open>Limits\<close>

definition RAFT_ELECTION__MAX_TIME_MS :: nat where "RAFT_ELECTION__MAX_TIME_MS = 100000"
definition RAFT_ELECTION__MIN_TIME_MS :: nat where "RAFT_ELECTION__MIN_TIME_MS = 100"
definition RAFT_HEARTBEAT__MIN_FREQ :: nat where "RAFT_HEARTBEAT__MIN_FREQ = 2"
definition RAFT_HEARTBEAT__MIN_TIME_MS :: nat where "RAFT_HEARTBEAT__MIN_TIME_MS = 10"
definition RAFT_ELECTION_UPPER_TIME_MS :: nat where "RAFT_ELECTION_UPPER_TIME_MS = 300"
definition RAFT_HEARTBEAT_FREQ_PER_ELECTION :: nat where "RAFT_HEARTBEAT_FREQ_PER_ELECTION = 10"
definition RAFT_ELECTION_CHECK_QUORUM_FACTOR :: nat where "RAFT_ELECTION_CHECK_QUORUM_FACTOR = 10"
definition RAFT_INSTANCE_PERSISTENT_APP_SCAN_ENTRIES :: int where
  "RAFT_INSTANCE_PERSISTENT_APP_SCAN_ENTRIES = 100000"
definition RAFT_INSTANCE_PERSISTENT_APP_MIN_SCAN_ENTRIES :: int where
  "RAFT_INSTANCE_PERSISTENT_APP_MIN_SCAN_ENTRIES = 500"
definition RAFT_INSTANCE_PERSISTENT_APP_REAP_FACTOR_MAX :: nat where
  "RAFT_INSTANCE_PERSISTENT_APP_REAP_FACTOR_MAX = 100"
definition RAFT_INSTANCE_PERSISTENT_APP_REAP_FACTOR_MIN :: nat where
  "RAFT_INSTANCE_PERSISTENT_APP_REAP_FACTOR_MIN = 2"
definition RAFT_INSTANCE_PERSISTENT_APP_REAP_FACTOR_DEFAULT :: nat where
  "RAFT_INSTANCE_PERSISTENT_APP_REAP_FACTOR_DEFAULT = 5"
definition RAFT_INSTANCE_PERSISTENT_APP_CHKPT_MAX :: nat where "RAFT_INSTANCE_PERSISTENT_APP_CHKPT_MAX = 100"
definition RAFT_INSTANCE_PERSISTENT_APP_CHKPT_MIN :: nat where "RAFT_INSTANCE_PERSISTENT_APP_CHKPT_MIN = 2"
definition RAFT_INSTANCE_PERSISTENT_APP_CHKPT_DEFAULT :: nat where
  "RAFT_INSTANCE_PERSISTENT_APP_CHKPT_DEFAULT = 5"

section \<open>Setters\<close>

definition raft_net_calc_max_heartbeat_freq :: "'b raft_instance \<Rightarrow> nat" where
  "raft_net_calc_max_heartbeat_freq ri = ri_election_timeout_max_ms ri div RAFT_HEARTBEAT__MIN_TIME_MS"

definition raft_net_set_heartbeat_freq :: "nat \<Rightarrow> 'b raft_instance \<Rightarrow> 'b raft_instance" where
  "raft_net_set_heartbeat_freq new_hb_freq ri =
     (if new_hb_freq < RAFT_HEARTBEAT__MIN_FREQ then ri
      else let max_hb_freq = raft_net_calc_max_heartbeat_freq ri;
               new_hb_freq = (if max_hb_freq < new_hb_freq then max_hb_freq else new_hb_freq)
           in if new_hb_freq \<noteq> ri_heartbeat_freq_per_election_min ri
              then ri\<lparr>ri_heartbeat_freq_per_election_min := new_hb_freq\<rparr> else ri)"

definition raft_net_set_max_scan_entries :: "bool \<Rightarrow> int \<Rightarrow> 'b raft_instance \<Rightarrow> 'b raft_instance" where
  "raft_net_set_max_scan_entries raft_force_set_max_scan_entries max_scan_entries ri = (
     let ri = (if max_scan_entries < 0 then ri\<lparr>ri_max_scan_entries := -1\<rparr>
               else ri\<lparr>ri_max_scan_entries :=
                      max max_scan_entries RAFT_INSTANCE_PERSISTENT_APP_MIN_SCAN_ENTRIES\<rparr>)
     in if max_scan_entries < ri_max_scan_entries ri \<and> raft_force_set_max_scan_entries
        then ri\<lparr>ri_max_scan_entries := max_scan_entries\<rparr> else ri)"

definition raft_net_set_log_reap_factor :: "nat \<Rightarrow> 'b raft_instance \<Rightarrow> 'b raft_instance" where
  "raft_net_set_log_reap_factor log_reap_factor ri =
     ri\<lparr>ri_log_reap_factor := min (max log_reap_factor RAFT_INSTANCE_PERSISTENT_APP_REAP_FACTOR_MIN)
          RAFT_INSTANCE_PERSISTENT_APP_REAP_FACTOR_MAX\<rparr>"

definition raft_net_set_num_checkpoints :: "nat \<Rightarrow> 'b raft_instance \<Rightarrow> 'b raft_instance" where
  "raft_net_set_num_checkpoints num_ckpts ri =
     ri\<lparr>ri_num_checkpoints := min (max RAFT_INSTANCE_PERSISTENT_APP_CHKPT_MIN num_ckpts)
          RAFT_INSTANCE_PERSISTENT_APP_CHKPT_MAX\<rparr>"

text \<open>The server's own setters; the reap factor has no lower bound here.\<close>

definition raft_server_set_max_scan_entries :: "int \<Rightarrow> 'b raft_instance \<Rightarrow> 'b raft_instance" where
  "raft_server_set_max_scan_entries max_scan_entries ri =
     (if max_scan_entries < 0 then ri\<lparr>ri_max_scan_entries := -1\<rparr>
      else ri\<lparr>ri_max_scan_entries := max max_scan_entries RAFT_INSTANCE_PERSISTENT_APP_MIN_SCAN_ENTRIES\<rparr>)"

definition raft_server_set_log_reap_factor :: "nat \<Rightarrow> 'b raft_instance \<Rightarrow> 'b raft_instance" where
  "raft_server_set_log_reap_factor log_reap_factor ri =
     ri\<lparr>ri_log_reap_factor := min log_reap_factor RAFT_INSTANCE_PERSISTENT_APP_REAP_FACTOR_MAX\<rparr>"

definition raft_server_set_num_checkpoints :: "nat \<Rightarrow> 'b raft_instance \<Rightarrow> 'b raft_instance" where
  "raft_server_set_num_checkpoints num_ckpts ri =
     ri\<lparr>ri_num_checkpoints := min (max RAFT_INSTANCE_PERSISTENT_APP_CHKPT_MIN num_ckpts)
          RAFT_INSTANCE_PERSISTENT_APP_CHKPT_MAX\<rparr>"

section \<open>The control interface\<close>

text \<open>What a write through the interface carries: a string, or a value of another type.\<close>

datatype lreg_value = LREG_VAL_STRING string | LREG_VAL_OTHER

text \<open>\<open>strncmp(s, "default", 7)\<close> is 0.\<close>

definition is_default :: "string \<Rightarrow> bool" where "is_default s \<longleftrightarrow> take 7 s = ''default''"

definition parse_or_default :: "(string \<Rightarrow> int + 'n) \<Rightarrow> 'n \<Rightarrow> string \<Rightarrow> int + 'n" where
  "parse_or_default parse d s = (if is_default s then Inr d else parse s)"

definition raft_net_lreg_set_heartbeat_freq ::
  "(string \<Rightarrow> int + nat) \<Rightarrow> lreg_value \<Rightarrow> 'b raft_instance \<Rightarrow> int \<times> 'b raft_instance" where
  "raft_net_lreg_set_heartbeat_freq parse lv ri = (case lv of
       LREG_VAL_OTHER \<Rightarrow> (- EINVAL, ri)
     | LREG_VAL_STRING s \<Rightarrow> (case parse_or_default parse RAFT_HEARTBEAT_FREQ_PER_ELECTION s of
           Inl rc \<Rightarrow> (rc, ri)
         | Inr hb_freq \<Rightarrow>
             if hb_freq = ri_heartbeat_freq_per_election_min ri then (0, ri)
             else if hb_freq < RAFT_HEARTBEAT__MIN_FREQ then (- ERANGE, ri)
             else (0, raft_net_set_heartbeat_freq hb_freq ri)))"

definition raft_net_lreg_set_election_timeout ::
  "(string \<Rightarrow> int + nat) \<Rightarrow> lreg_value \<Rightarrow> 'b raft_instance \<Rightarrow> int \<times> 'b raft_instance" where
  "raft_net_lreg_set_election_timeout parse lv ri = (case lv of
       LREG_VAL_OTHER \<Rightarrow> (- EINVAL, ri)
     | LREG_VAL_STRING s \<Rightarrow> (case parse_or_default parse RAFT_ELECTION_UPPER_TIME_MS s of
           Inl rc \<Rightarrow> (rc, ri)
         | Inr election_timeout \<Rightarrow>
             if RAFT_ELECTION__MAX_TIME_MS < election_timeout \<or>
                election_timeout < RAFT_ELECTION__MIN_TIME_MS then (- ERANGE, ri)
             else if election_timeout \<noteq> ri_election_timeout_max_ms ri
             then (0, raft_net_set_heartbeat_freq (ri_heartbeat_freq_per_election_min ri)
                        (ri\<lparr>ri_election_timeout_max_ms := election_timeout\<rparr>))
             else (0, ri)))"

definition raft_net_lreg_set_max_scan_entries ::
  "bool \<Rightarrow> (string \<Rightarrow> int + int) \<Rightarrow> lreg_value \<Rightarrow> 'b raft_instance \<Rightarrow> int \<times> 'b raft_instance" where
  "raft_net_lreg_set_max_scan_entries force parse lv ri = (case lv of
       LREG_VAL_OTHER \<Rightarrow> (- EINVAL, ri)
     | LREG_VAL_STRING s \<Rightarrow> (case parse_or_default parse RAFT_INSTANCE_PERSISTENT_APP_SCAN_ENTRIES s of
           Inl rc \<Rightarrow> (rc, ri)
         | Inr n \<Rightarrow> (0, raft_net_set_max_scan_entries force n ri)))"

definition raft_net_lreg_set_log_reap_factor ::
  "(string \<Rightarrow> int + nat) \<Rightarrow> lreg_value \<Rightarrow> 'b raft_instance \<Rightarrow> int \<times> 'b raft_instance" where
  "raft_net_lreg_set_log_reap_factor parse lv ri = (case lv of
       LREG_VAL_OTHER \<Rightarrow> (- EINVAL, ri)
     | LREG_VAL_STRING s \<Rightarrow> (case parse_or_default parse RAFT_INSTANCE_PERSISTENT_APP_REAP_FACTOR_DEFAULT s of
           Inl rc \<Rightarrow> (rc, ri)
         | Inr lrf \<Rightarrow> (0, raft_net_set_log_reap_factor lrf ri)))"

definition raft_net_lreg_set_num_checkpoints ::
  "(string \<Rightarrow> int + nat) \<Rightarrow> lreg_value \<Rightarrow> 'b raft_instance \<Rightarrow> int \<times> 'b raft_instance" where
  "raft_net_lreg_set_num_checkpoints parse lv ri = (case lv of
       LREG_VAL_OTHER \<Rightarrow> (- EINVAL, ri)
     | LREG_VAL_STRING s \<Rightarrow> (case parse_or_default parse RAFT_INSTANCE_PERSISTENT_APP_CHKPT_DEFAULT s of
           Inl rc \<Rightarrow> (rc, ri)
         | Inr nchkpt \<Rightarrow> (0, raft_net_set_num_checkpoints nchkpt ri)))"

section \<open>The values stay usable\<close>

text \<open>
  Before the server initialises its instance a value of 0 means that it has not been set; the
  heartbeat frequency always fits the election timeout. After the initialisation both are set.
\<close>

definition tunables_ok :: "'b raft_instance \<Rightarrow> bool" where
  "tunables_ok ri \<longleftrightarrow>
     (ri_election_timeout_max_ms ri = 0 \<or>
      RAFT_ELECTION__MIN_TIME_MS \<le> ri_election_timeout_max_ms ri \<and>
      ri_election_timeout_max_ms ri \<le> RAFT_ELECTION__MAX_TIME_MS) \<and>
     (ri_heartbeat_freq_per_election_min ri = 0 \<or>
      RAFT_HEARTBEAT__MIN_FREQ \<le> ri_heartbeat_freq_per_election_min ri \<and>
      ri_heartbeat_freq_per_election_min ri * RAFT_HEARTBEAT__MIN_TIME_MS \<le> ri_election_timeout_max_ms ri)"

definition tunables_set :: "'b raft_instance \<Rightarrow> bool" where
  "tunables_set ri \<longleftrightarrow> tunables_ok ri \<and> ri_election_timeout_max_ms ri \<noteq> 0 \<and>
     ri_heartbeat_freq_per_election_min ri \<noteq> 0"

lemmas tunable_limits =
  RAFT_ELECTION__MAX_TIME_MS_def RAFT_ELECTION__MIN_TIME_MS_def RAFT_HEARTBEAT__MIN_FREQ_def
  RAFT_HEARTBEAT__MIN_TIME_MS_def RAFT_ELECTION_UPPER_TIME_MS_def RAFT_HEARTBEAT_FREQ_PER_ELECTION_def

lemma set_heartbeat_freq_fields:
  "ri_election_timeout_max_ms (raft_net_set_heartbeat_freq n ri) = ri_election_timeout_max_ms ri"
  by (simp add: raft_net_set_heartbeat_freq_def Let_def)

lemma set_heartbeat_freq_value:
  assumes "ri_election_timeout_max_ms ri = 0 \<or> RAFT_ELECTION__MIN_TIME_MS \<le> ri_election_timeout_max_ms ri"
    and "RAFT_HEARTBEAT__MIN_FREQ \<le> n"
  shows "ri_heartbeat_freq_per_election_min (raft_net_set_heartbeat_freq n ri)
     = min n (ri_election_timeout_max_ms ri div 10)"
  using assms
  by (auto simp: raft_net_set_heartbeat_freq_def raft_net_calc_max_heartbeat_freq_def Let_def tunable_limits min_def)

lemma set_heartbeat_freq_ok:
  assumes "ri_election_timeout_max_ms ri = 0 \<or> RAFT_ELECTION__MIN_TIME_MS \<le> ri_election_timeout_max_ms ri \<and>
      ri_election_timeout_max_ms ri \<le> RAFT_ELECTION__MAX_TIME_MS"
    and "RAFT_HEARTBEAT__MIN_FREQ \<le> n"
  shows "tunables_ok (raft_net_set_heartbeat_freq n ri)"
    and "ri_election_timeout_max_ms ri \<noteq> 0 \<Longrightarrow> tunables_set (raft_net_set_heartbeat_freq n ri)"
proof -
  have h: "ri_heartbeat_freq_per_election_min (raft_net_set_heartbeat_freq n ri)
     = min n (ri_election_timeout_max_ms ri div 10)"
    using assms by (intro set_heartbeat_freq_value) auto
  have d: "min n (m div 10) * 10 \<le> m" for m :: nat
    by (metis div_times_less_eq_dividend min.cobounded2 mult_le_mono1 order_trans)
  have e: "10 \<le> m div 10" if "100 \<le> m" for m :: nat
    using that by linarith
  show "tunables_ok (raft_net_set_heartbeat_freq n ri)"
    using assms d [of "ri_election_timeout_max_ms ri"] e [of "ri_election_timeout_max_ms ri"]
    by (auto simp: tunables_ok_def set_heartbeat_freq_fields h tunable_limits)
  then show "ri_election_timeout_max_ms ri \<noteq> 0 \<Longrightarrow> tunables_set (raft_net_set_heartbeat_freq n ri)"
    using assms e [of "ri_election_timeout_max_ms ri"]
    by (auto simp: tunables_set_def set_heartbeat_freq_fields h tunable_limits min_def)
qed

lemma lreg_set_heartbeat_ok:
  assumes "tunables_ok ri"
  shows "tunables_ok (snd (raft_net_lreg_set_heartbeat_freq parse lv ri))"
    and "tunables_set ri \<Longrightarrow> tunables_set (snd (raft_net_lreg_set_heartbeat_freq parse lv ri))"
  using assms set_heartbeat_freq_ok [of ri]
  by (auto simp: raft_net_lreg_set_heartbeat_freq_def tunables_ok_def tunables_set_def
      split: lreg_value.split sum.split)

lemma lreg_set_election_ok:
  assumes "tunables_ok ri"
  shows "tunables_ok (snd (raft_net_lreg_set_election_timeout parse lv ri))"
    and "tunables_set ri \<Longrightarrow> tunables_set (snd (raft_net_lreg_set_election_timeout parse lv ri))"
proof -
  have step: "tunables_ok (raft_net_set_heartbeat_freq (ri_heartbeat_freq_per_election_min ri)
        (ri\<lparr>ri_election_timeout_max_ms := e\<rparr>)) \<and>
     (tunables_set ri \<longrightarrow> tunables_set (raft_net_set_heartbeat_freq (ri_heartbeat_freq_per_election_min ri)
        (ri\<lparr>ri_election_timeout_max_ms := e\<rparr>)))"
    if "RAFT_ELECTION__MIN_TIME_MS \<le> e" "e \<le> RAFT_ELECTION__MAX_TIME_MS" for e
  proof (cases "ri_heartbeat_freq_per_election_min ri = 0")
    case True
    then show ?thesis
      using that by (simp add: raft_net_set_heartbeat_freq_def tunable_limits tunables_ok_def tunables_set_def)
  next
    case False
    then have n: "RAFT_HEARTBEAT__MIN_FREQ \<le> ri_heartbeat_freq_per_election_min ri"
      using assms by (simp add: tunables_ok_def)
    show ?thesis
      using set_heartbeat_freq_ok [of "ri\<lparr>ri_election_timeout_max_ms := e\<rparr>", OF _ n] that
      by (auto simp: tunable_limits)
  qed
  show "tunables_ok (snd (raft_net_lreg_set_election_timeout parse lv ri))"
    "tunables_set ri \<Longrightarrow> tunables_set (snd (raft_net_lreg_set_election_timeout parse lv ri))"
    using assms step
    by (auto simp: raft_net_lreg_set_election_timeout_def not_less split: lreg_value.split sum.split)
qed

text \<open>With usable values the assertion of \<open>raft_heartbeat_timeout_msec\<close> holds.\<close>

lemma heartbeat_timeout_ok:
  assumes "tunables_set ri"
  shows "raft_heartbeat_timeout_msec ri
     = Some (ri_election_timeout_max_ms ri div ri_heartbeat_freq_per_election_min ri)"
proof -
  have "10 \<le> e div h" if "0 < h" "h * 10 \<le> e" for e h :: nat
    using that by (metis less_eq_div_iff_mult_less_eq mult.commute)
  then show ?thesis
    using assms
    by (auto simp: raft_heartbeat_timeout_msec_def tunables_set_def tunables_ok_def tunable_limits)
qed

section \<open>Sequences of settings\<close>

datatype tunable_write = Set_election lreg_value | Set_heartbeat lreg_value

fun tunable_write_apply :: "(string \<Rightarrow> int + nat) \<Rightarrow> tunable_write \<Rightarrow> 'b raft_instance \<Rightarrow> 'b raft_instance" where
  "tunable_write_apply parse (Set_election lv) ri = snd (raft_net_lreg_set_election_timeout parse lv ri)"
| "tunable_write_apply parse (Set_heartbeat lv) ri = snd (raft_net_lreg_set_heartbeat_freq parse lv ri)"

lemma tunable_write_ok:
  "tunables_ok ri \<Longrightarrow> tunables_ok (tunable_write_apply parse w ri)"
  "tunables_set ri \<Longrightarrow> tunables_set (tunable_write_apply parse w ri)"
  by (cases w; simp add: lreg_set_heartbeat_ok lreg_set_election_ok tunables_set_def [of ri])+

lemma tunable_writes_ok:
  "tunables_ok ri \<Longrightarrow> tunables_ok (fold (tunable_write_apply parse) ws ri)"
  "tunables_set ri \<Longrightarrow> tunables_set (fold (tunable_write_apply parse) ws ri)"
  by (rule fold_invariant [where Q = "\<lambda>_. True"]; simp add: tunable_write_ok)+

end
