(* ===== verification/Raft_Startup.thy ===== *)
theory Raft_Startup
  imports Raft_Server Raft_Tunables
begin

text \<open>
  How a server process starts, stops and recovers (\<open>raft_server.c\<close>, with the start-up of
  \<open>raft_net.c\<close>): the instance is initialised, its configuration looked up, its backend opened and
  its log loaded; the loop of \<open>raft_server_instance_run\<close> restarts it after a bulk recovery.
\<close>

section \<open>The platform\<close>

text \<open>
  What the start-up calls outside this repository, as return codes of one start: the control
  service (lookup of nodes, the members of a raft, the store path of a peer), the network
  subsystems, the registry, event pipes, threads and mutexes; and the set-up, shutdown and
  recovery functions of the backend in use.
\<close>

datatype net_stage = Net_client_tcp_mgr | Net_peer_tcp_mgr | Net_sockets | Net_timerfd | Net_epoll | Net_bind

datatype net_close = Close_sockets | Close_epoll | Close_timerfd

datatype server_thread = Sync_thread | Chkpt_thread

record 'b server_platform =
  sp_uuid_parse :: "string \<Rightarrow> uuid option"
  sp_csn_lookup :: "uuid \<Rightarrow> int"
  sp_csn_create :: "uuid \<Rightarrow> uuid \<Rightarrow> int"
  sp_csn_members :: "uuid \<Rightarrow> uuid list option"
  sp_store_path :: "uuid \<Rightarrow> string option"
  sp_net_rc :: "net_stage \<Rightarrow> int"
  sp_close_rc :: "net_close \<Rightarrow> int"
  sp_mutex_init :: bool
  sp_mutex_destroy :: "nat \<Rightarrow> int"
  sp_lreg_installed :: bool
  sp_lreg_install :: int
  sp_lreg_remove :: int
  sp_lreg_removed :: bool
  sp_evp_add :: "raft_event_pipe_types \<Rightarrow> int"
  sp_evp_remove :: "raft_event_pipe_types \<Rightarrow> int"
  sp_thread_create :: "server_thread \<Rightarrow> int"
  sp_thread_halt :: "server_thread \<Rightarrow> int"
  sp_worker_cnt :: nat
  sp_buffer_set_init :: "nat \<Rightarrow> nat \<Rightarrow> int"
  sp_malloc :: "nat \<Rightarrow> u8 list"
  sp_apply_handler_version :: u64
  sp_backend_setup :: "'b raft_instance \<Rightarrow> (int \<times> 'b raft_instance) option"
  sp_backend_shutdown :: "'b raft_instance \<Rightarrow> (int \<times> 'b raft_instance) option"
  sp_backend_recover :: "('b raft_instance \<Rightarrow> (int \<times> 'b raft_instance) option) option"

section \<open>Initialising the instance\<close>

definition raft_server_instance_init_rocksdb_persistent_app :: "'b raft_instance \<Rightarrow> 'b raft_instance option" where
  "raft_server_instance_init_rocksdb_persistent_app ri = do {
     NIOVA_ASSERT (raft_instance_is_booting ri);
     Some (if ri_store_type ri = RAFT_INSTANCE_STORE_ROCKSDB_PERSISTENT_APP
           then let ri = (if ri_max_scan_entries ri = 0 then raft_server_set_max_scan_entries
                       RAFT_INSTANCE_PERSISTENT_APP_SCAN_ENTRIES ri else ri);
                    ri = (if ri_log_reap_factor ri = 0 then raft_server_set_log_reap_factor
                       RAFT_INSTANCE_PERSISTENT_APP_REAP_FACTOR_DEFAULT ri else ri)
                in if ri_num_checkpoints ri = 0 then raft_server_set_num_checkpoints
                       RAFT_INSTANCE_PERSISTENT_APP_CHKPT_DEFAULT ri else ri
           else ri) }"

definition raft_server_instance_init_tunables :: "'b raft_instance \<Rightarrow> 'b raft_instance option" where
  "raft_server_instance_init_tunables ri = do {
     NIOVA_ASSERT (raft_instance_is_booting ri);
     if ri_store_type ri = RAFT_INSTANCE_STORE_ROCKSDB_PERSISTENT_APP
     then raft_server_instance_init_rocksdb_persistent_app ri else Some ri }"

definition raft_server_instance_restore_init_values ::
  "u64 \<Rightarrow> 'b raft_instance \<Rightarrow> 'b raft_instance \<Rightarrow> 'b raft_instance" where
  "raft_server_instance_restore_init_values version save ri =
     ri\<lparr>ri_successful_recovery := ri_successful_recovery save,
        ri_ignore_timerfd := ri_ignore_timerfd save,
        ri_max_scan_entries := ri_max_scan_entries save,
        ri_log_reap_factor := ri_log_reap_factor save,
        ri_num_checkpoints := ri_num_checkpoints save,
        ri_election_timeout_max_ms := ri_election_timeout_max_ms save,
        ri_heartbeat_freq_per_election_min := ri_heartbeat_freq_per_election_min save,
        ri_apply_handler_version := version\<rparr>"

text \<open>
  \<open>memset(ri, 0)\<close>: \<open>null\<close> is the backend's \<open>NULL\<close> state. What was emitted so far and the static
  counter of the timer are not part of the struct.
\<close>

definition zero_instance :: "'b \<Rightarrow> 'b raft_instance \<Rightarrow> 'b raft_instance" where
  "zero_instance null ri =
     \<lparr>ri_csn_raft = 0, ri_csn_raft_peers = [], ri_csn_this_peer = 0, ri_csn_leader = None,
      ri_last_send = map (\<lambda>_. 0) (ri_last_send ri), ri_last_recv = map (\<lambda>_. 0) (ri_last_recv ri),
      ri_raft_uuid_str = '''', ri_this_peer_uuid_str = '''', ri_db_uuid = 0, ri_db_recovery_uuid = 0,
      ri_candidate = \<lparr>rcs_term = 0, rcs_prevote = False, rcs_results = []\<rparr>,
      ri_leader = \<lparr>rls_initial_term_idx = 0, rls_leader_term = 0, rls_quorum_ok_cnt = 0,
        rls_leader_start = 0, rls_leader_accumulated = 0, rls_rfi = []\<rparr>,
      ri_state = RAFT_STATE__NONE, ri_proc_state = RAFT_PROC_STATE_BOOTING,
      ri_store_type = RAFT_INSTANCE_STORE_POSIX_FLAT_FILE, ri_ignore_timerfd = False,
      ri_synchronous_writes = False, ri_coalesced_writes = False,
      ri_user_requested_checkpoint = False, ri_user_requested_reap = False,
      ri_auto_checkpoints_enabled = False, ri_needs_bulk_recovery = False,
      ri_lreg_registered = False, ri_incomplete_recovery = False, ri_successful_recovery = False,
      ri_follower_reason = RAFT_BFRSN_NONE, ri_startup_error = 0, ri_log = '''',
      ri_log_hdr = zero_rlh, ri_commit_idx = 0,
      ri_last_applied = \<lparr>rla_idx = 0, rla_sub_idx = 0, rla_sub_idx_max = 0, rla_synced_idx = 0,
        rla_cumulative_crc = 0, rla_kv_cumulative_crc = 0\<rparr>,
      ri_checkpoint_last_idx = 0, ri_lowest_idx = 0, ri_pending_read_idx = 0, ri_last_chkpt_err = 0,
      ri_sync_cnt = 0, ri_max_scan_entries = 0, ri_log_reap_factor = 0, ri_num_checkpoints = 0,
      ri_max_entry_size = 0, ri_newest_entry_hdr = (\<lambda>_. zero_reh),
      ri_election_timeout_max_ms = 0, ri_heartbeat_freq_per_election_min = 0,
      ri_check_quorum_timeout_factor = 0, ri_timer_fd_cb = False, ri_backend_arg = null,
      ri_entries_detected_at_startup = 0,
      ri_recovery_handle = \<lparr>rrh_peer_uuid = 0, rrh_peer_db_uuid = 0, rrh_peer_chkpt_idx = 0,
        rrh_chkpt_size = 0, rrh_remaining = 0, rrh_completed = 0, rrh_start = 0,
        rrh_from_recovery_marker = False\<rparr>,
      ri_apply_handler_version = 0,
      ri_coalesced_wr = \<lparr>rcwi_nentries = 0, rcwi_entry_sizes = replicate RAFT_ENTRY_NUM_ENTRIES 0,
        rcwi_total_size = 0, rcwi_ws = \<lparr>rnsws_ws = [], rnsws_kv_crc = 0, rnsws_kv_crc_enabled = False\<rparr>,
        rcwi_buffer = []\<rparr>,
      ri_timer_cnt = ri_timer_cnt ri, ri_effects = ri_effects ri\<rparr>"

text \<open>The options are bits: synchronous writes, coalesced writes, automatic checkpoints.\<close>

definition raft_server_instance_init ::
  "'b server_platform \<Rightarrow> 'b \<Rightarrow> raft_instance_store_type \<Rightarrow> string \<Rightarrow> string \<Rightarrow> u32
     \<Rightarrow> 'b raft_instance \<Rightarrow> 'b raft_instance option" where
  "raft_server_instance_init sp null type raft_uuid_str this_peer_uuid_str opts ri = do {
     NIOVA_ASSERT (raft_instance_is_booting ri);
     NIOVA_ASSERT (\<not> sp_lreg_installed sp \<and> \<not> ri_lreg_registered ri);
     let ri_save = ri;
     let ri = (zero_instance null ri)\<lparr>ri_proc_state := RAFT_PROC_STATE_BOOTING\<rparr>;
     let ri = raft_server_instance_restore_init_values (sp_apply_handler_version sp) ri_save ri;
     let ri = ri\<lparr>ri_store_type := type\<rparr>;
     let ri = ri\<lparr>ri_election_timeout_max_ms := (if ri_election_timeout_max_ms ri = 0
                   then RAFT_ELECTION_UPPER_TIME_MS else ri_election_timeout_max_ms ri),
                 ri_heartbeat_freq_per_election_min := (if ri_heartbeat_freq_per_election_min ri = 0
                   then RAFT_HEARTBEAT_FREQ_PER_ELECTION else ri_heartbeat_freq_per_election_min ri)\<rparr>;
     let ri = ri\<lparr>ri_check_quorum_timeout_factor := RAFT_ELECTION_CHECK_QUORUM_FACTOR,
                 ri_raft_uuid_str := raft_uuid_str, ri_this_peer_uuid_str := this_peer_uuid_str,
                 ri_apply_handler_version := sp_apply_handler_version sp,
                 ri_synchronous_writes := bit opts 0, ri_coalesced_writes := bit opts 1,
                 ri_auto_checkpoints_enabled := bit opts 2,
                 ri_commit_idx := -1,
                 ri_last_applied := \<lparr>rla_idx = -1, rla_sub_idx = 0, rla_sub_idx_max = 0,
                   rla_synced_idx = -1, rla_cumulative_crc = 0, rla_kv_cumulative_crc = 0\<rparr>,
                 ri_checkpoint_last_idx := -1, ri_pending_read_idx := -1, ri_lowest_idx := -1\<rparr>;
     ri \<leftarrow> raft_server_instance_init_tunables ri;
     Some (ri\<lparr>ri_timer_fd_cb := True\<rparr>) }"

section \<open>Configuration\<close>

text \<open>The loop over the members of the raft: each is looked up, this peer must be among them.\<close>

fun conf_members_loop ::
  "'b server_platform \<Rightarrow> uuid list \<Rightarrow> bool \<Rightarrow> 'b raft_instance \<Rightarrow> int \<times> bool \<times> 'b raft_instance" where
  "conf_members_loop sp [] found ri = (0, found, ri)"
| "conf_members_loop sp (m # ms) found ri =
     (if sp_csn_lookup sp m \<noteq> 0 then (sp_csn_lookup sp m, found, ri)
      else conf_members_loop sp ms (found \<or> ri_csn_this_peer ri = m)
             (ri\<lparr>ri_csn_raft_peers := ri_csn_raft_peers ri @ [m]\<rparr>))"

definition raft_net_conf_init ::
  "'b raft_env \<Rightarrow> 'b server_platform \<Rightarrow> 'b raft_instance \<Rightarrow> int \<times> 'b raft_instance" where
  "raft_net_conf_init env sp ri =
     (case (sp_uuid_parse sp (ri_this_peer_uuid_str ri), sp_uuid_parse sp (ri_raft_uuid_str ri)) of
        (Some tmp, Some tmp1) \<Rightarrow>
          if tmp = tmp1 then (- EINVAL, ri)
          else let ri = ri\<lparr>ri_csn_raft := 0, ri_csn_this_peer := 0, ri_csn_raft_peers := []\<rparr>;
                   rc = sp_csn_lookup sp tmp;
                   rc = (if rc \<noteq> 0 \<and> raft_instance_is_client ri then sp_csn_create sp tmp1 tmp else rc)
               in if rc \<noteq> 0 then (rc, ri)
                  else let ri = ri\<lparr>ri_csn_this_peer := tmp\<rparr>; rc = sp_csn_lookup sp tmp1
                       in if rc \<noteq> 0 then (rc, ri)
                          else let ri = ri\<lparr>ri_csn_raft := tmp1\<rparr>
                               in (case sp_csn_members sp tmp1 of
                                     None \<Rightarrow> (- EINVAL, ri)
                                   | Some members \<Rightarrow>
                                       if env_max_raft_peers env < length members then (- E2BIG, ri)
                                       else let (rc, found, ri) = conf_members_loop sp members False ri
                                            in if rc \<noteq> 0 then (rc, ri)
                                               else if \<not> found \<and> \<not> raft_instance_is_client ri then (- ENODEV, ri)
                                               else (0, ri))
      | _ \<Rightarrow> (- EINVAL, ri))"

section \<open>Setting up the server\<close>

definition PATH_MAX :: nat where "PATH_MAX = 4096"

text \<open>
  \<open>snprintf\<close> stores at most \<open>PATH_MAX - 1\<close> characters and returns the full length; a path of exactly
  \<open>PATH_MAX\<close> characters is cut without an error.
\<close>

definition raft_server_log_file_name_setup ::
  "'b server_platform \<Rightarrow> 'b raft_instance \<Rightarrow> int \<times> 'b raft_instance" where
  "raft_server_log_file_name_setup sp ri = (case sp_store_path sp (ri_csn_this_peer ri) of
       None \<Rightarrow> (- EINVAL, ri)
     | Some store_path \<Rightarrow> (if PATH_MAX < length store_path then - ENAMETOOLONG else 0,
                           ri\<lparr>ri_log := take (PATH_MAX - 1) store_path\<rparr>))"

definition raft_server_backend_setup ::
  "'b server_platform \<Rightarrow> 'b raft_instance \<Rightarrow> (int \<times> 'b raft_instance) option" where
  "raft_server_backend_setup sp ri = (
     let (rc, ri) = raft_server_log_file_name_setup sp ri in
     if rc \<noteq> 0 then Some (rc, ri)
     else do {
       (rc, ri) \<leftarrow> sp_backend_setup sp ri;
       FATAL_IF (rc = 0 \<and> ri_max_entry_size ri < RAFT_ENTRY_SIZE_MIN);
       Some (rc, ri) })"

text \<open>
  The buffers for messages and for applying entries are cut from one allocation, one region for
  each kind: item size, and number of items for the given number of workers.
\<close>

definition RAFT_BS_SMALL_SZ :: nat where "RAFT_BS_SMALL_SZ = 4096"
definition RAFT_BS_LARGE_SZ :: nat where "RAFT_BS_LARGE_SZ = 4194304"
definition RAFT_BS_APPLY_NBUF :: nat where "RAFT_BS_APPLY_NBUF = 2"

definition buff_sets :: "nat \<Rightarrow> (nat \<times> nat) list" where
  "buff_sets workers = [(RAFT_BS_SMALL_SZ, RAFT_ENTRY_NUM_ENTRIES + workers),
     (RAFT_BS_LARGE_SZ, workers + 1), (RAFT_BS_APPLY_SZ, RAFT_BS_APPLY_NBUF)]"

fun buffer_set_loop ::
  "'b server_platform \<Rightarrow> nat \<Rightarrow> nat \<Rightarrow> (nat \<times> nat) list \<Rightarrow> (nat \<times> nat) list option" where
  "buffer_set_loop sp tot off [] = Some []"
| "buffer_set_loop sp tot off ((sz, n) # sets) = do {
     NIOVA_ASSERT (sp_buffer_set_init sp n sz = 0);
     NIOVA_ASSERT (off + sz * n \<le> tot);
     regions \<leftarrow> buffer_set_loop sp tot (off + sz * n) sets;
     Some ((off, sz * n) # regions) }"

definition raft_server_instance_buffer_set_setup ::
  "'b server_platform \<Rightarrow> 'b raft_instance \<Rightarrow> (int \<times> (nat \<times> nat) list) option" where
  "raft_server_instance_buffer_set_setup sp ri =
     (if ri_max_entry_size ri = 0 then Some (- EINVAL, [])
      else do {
        let sets = buff_sets (sp_worker_cnt sp);
        let total_buf_size = sum_list (map (\<lambda>(sz, n). sz * n) sets);
        regions \<leftarrow> buffer_set_loop sp total_buf_size 0 sets;
        Some (0, regions) })"

definition raft_server_instance_lreg_init ::
  "'b server_platform \<Rightarrow> 'b raft_instance \<Rightarrow> (int \<times> 'b raft_instance) option" where
  "raft_server_instance_lreg_init sp ri = do {
     NIOVA_ASSERT (\<not> sp_lreg_installed sp);
     let rc = sp_lreg_install sp;
     Some (rc, if rc = 0 then ri\<lparr>ri_lreg_registered := True\<rparr> else ri) }"

definition server_evps :: "raft_event_pipe_types list" where
  "server_evps = [RAFT_EVP_REMOTE_SEND, RAFT_EVP_ASYNC_COMMIT_IDX_ADV, RAFT_EVP_SM_APPLY]"

text \<open>The first error ends the set-up; the clean-up goes on and returns the first error.\<close>

fun first_rc :: "int list \<Rightarrow> int" where
  "first_rc [] = 0"
| "first_rc (rc # rcs) = (if rc \<noteq> 0 then rc else first_rc rcs)"

definition raft_server_evp_setup :: "'b server_platform \<Rightarrow> 'b raft_instance \<Rightarrow> int" where
  "raft_server_evp_setup sp ri =
     (if raft_instance_is_client ri then - EINVAL else first_rc (map (sp_evp_add sp) server_evps))"

definition raft_server_evp_cleanup :: "'b server_platform \<Rightarrow> 'b raft_instance \<Rightarrow> int" where
  "raft_server_evp_cleanup sp ri =
     (if raft_instance_is_client ri then - EINVAL else first_rc (map (sp_evp_remove sp) server_evps))"

definition raft_server_sync_thread_start :: "'b server_platform \<Rightarrow> 'b raft_instance \<Rightarrow> int option" where
  "raft_server_sync_thread_start sp ri = do {
     NIOVA_ASSERT (raft_instance_is_booting ri);
     Some (if raft_server_does_synchronous_writes ri then 0 else sp_thread_create sp Sync_thread) }"

definition raft_server_chkpt_thread_start ::
  "'b raft_env \<Rightarrow> 'b server_platform \<Rightarrow> 'b raft_instance \<Rightarrow> int option" where
  "raft_server_chkpt_thread_start env sp ri = do {
     NIOVA_ASSERT (raft_instance_is_booting ri);
     Some (if rib_backend_checkpoint (env_rib env) = None then 0 else sp_thread_create sp Chkpt_thread) }"

section \<open>Shutting down\<close>

definition raft_server_sync_thread_join :: "'b server_platform \<Rightarrow> 'b raft_instance \<Rightarrow> int option" where
  "raft_server_sync_thread_join sp ri = do {
     NIOVA_ASSERT (raft_instance_is_shutdown ri);
     Some (if raft_server_does_synchronous_writes ri then 0 else sp_thread_halt sp Sync_thread) }"

definition raft_server_chkpt_thread_join ::
  "'b raft_env \<Rightarrow> 'b server_platform \<Rightarrow> 'b raft_instance \<Rightarrow> int option" where
  "raft_server_chkpt_thread_join env sp ri = do {
     NIOVA_ASSERT (raft_instance_is_shutdown ri);
     Some (if rib_backend_checkpoint (env_rib env) = None then 0 else sp_thread_halt sp Chkpt_thread) }"

definition raft_server_backend_close ::
  "'b server_platform \<Rightarrow> 'b raft_instance \<Rightarrow> (int \<times> 'b raft_instance) option" where
  "raft_server_backend_close sp ri =
     (if \<not> raft_instance_is_shutdown ri then Some (- EINVAL, ri) else sp_backend_shutdown sp ri)"

text \<open>
  The registry removes the node from another thread: \<open>sp_lreg_removed\<close> says whether it has done so
  within the wait.
\<close>

definition raft_server_lreg_node_removal_wait ::
  "'b server_platform \<Rightarrow> 'b raft_instance \<Rightarrow> int \<times> 'b raft_instance" where
  "raft_server_lreg_node_removal_wait sp ri = (
     let ri = (if sp_lreg_removed sp then ri\<lparr>ri_lreg_registered := False\<rparr> else ri)
     in (if ri_lreg_registered ri then - ETIMEDOUT else 0, ri))"

definition raft_server_instance_shutdown ::
  "'b raft_env \<Rightarrow> 'b server_platform \<Rightarrow> 'b raft_instance \<Rightarrow> (int \<times> 'b raft_instance) option" where
  "raft_server_instance_shutdown env sp ri = do {
     let ri = ri\<lparr>ri_proc_state := RAFT_PROC_STATE_SHUTDOWN\<rparr>;
     rc_chkpt \<leftarrow> raft_server_chkpt_thread_join env sp ri;
     rc_sync \<leftarrow> raft_server_sync_thread_join sp ri;
     (rc_backend_close, ri) \<leftarrow> raft_server_backend_close sp ri;
     let rc_evp_cleanup = raft_server_evp_cleanup sp ri;
     let (lreg_removal_wait_rc, ri) = raft_server_lreg_node_removal_wait sp ri;
     Some (first_rc [rc_chkpt, rc_sync, rc_backend_close, rc_evp_cleanup, - sp_mutex_destroy sp 0,
             - sp_mutex_destroy sp 1, sp_lreg_remove sp, lreg_removal_wait_rc],
           ri\<lparr>ri_coalesced_wr := (ri_coalesced_wr ri)\<lparr>rcwi_buffer := []\<rparr>\<rparr>) }"

definition raft_net_instance_shutdown ::
  "'b raft_env \<Rightarrow> 'b server_platform \<Rightarrow> 'b raft_instance \<Rightarrow> (int \<times> 'b raft_instance) option" where
  "raft_net_instance_shutdown env sp ri = do {
     let ri = (if env_has_init_cb env then emit (Eff_init_cb RAFT_INIT_SHUTDOWN_STATE) ri else ri);
     (shutdown_cb_rc, ri) \<leftarrow> raft_server_instance_shutdown env sp ri;
     Some (first_rc [sp_close_rc sp Close_sockets, sp_close_rc sp Close_epoll, shutdown_cb_rc,
             sp_close_rc sp Close_timerfd], ri) }"

section \<open>Starting\<close>

text \<open>The steps between the set-up of the backend and the label \<open>out\<close>.\<close>

definition startup_steps ::
  "'b raft_env \<Rightarrow> 'b server_platform \<Rightarrow> 'b raft_instance \<Rightarrow> (int \<times> 'b raft_instance) option" where
  "startup_steps env sp ri = do {
     (rc, regions) \<leftarrow> raft_server_instance_buffer_set_setup sp ri;
     if rc \<noteq> 0 then Some (rc, ri)
     else do {
       (rc, ri) \<leftarrow> raft_server_instance_lreg_init sp ri;
       if rc \<noteq> 0 then Some (rc, ri)
       else do {
         (rc, ri) \<leftarrow> raft_server_log_load env ri;
         if rc \<noteq> 0 then Some (rc, ri)
         else let rc = raft_server_evp_setup sp ri
              in if rc \<noteq> 0 then Some (rc, ri)
                 else do {
                   rc \<leftarrow> (if \<not> raft_server_does_synchronous_writes ri
                          then raft_server_sync_thread_start sp ri else Some 0);
                   if rc \<noteq> 0 then Some (rc, ri)
                   else do {
                     rc \<leftarrow> (if rib_backend_checkpoint (env_rib env) \<noteq> None
                            then raft_server_chkpt_thread_start env sp ri else Some 0);
                     if rc \<noteq> 0 then Some (rc, ri)
                     else Some (0, if env_has_init_cb env
                                   then emit (Eff_init_cb RAFT_INIT_BOOTUP_STATE) ri else ri) } } } } }"

definition raft_server_instance_startup ::
  "'b raft_env \<Rightarrow> 'b server_platform \<Rightarrow> 'b raft_instance \<Rightarrow> (int \<times> 'b raft_instance) option" where
  "raft_server_instance_startup env sp ri = do {
     NIOVA_ASSERT (raft_instance_is_booting ri);
     FATAL_IF (\<not> sp_mutex_init sp);
     if \<not> ri_timer_fd_cb ri then Some (- EINVAL, ri)
     else do {
       let ri = raft_instance_initialize_newest_entry_hdr ri;
       (rc, ri) \<leftarrow> raft_server_backend_setup sp ri;
       if rc \<noteq> 0 then Some (rc, ri)
       else do {
         (rc, ri) \<leftarrow> startup_steps env sp ri;
         if rc \<noteq> 0
         then do {
           (shutdown_rc, ri) \<leftarrow> raft_net_instance_shutdown env sp (ri\<lparr>ri_startup_error := rc\<rparr>);
           Some (rc, ri) }
         else Some (0, ri) } } }"

text \<open>The start-up of a server; \<open>ri_shutdown_cb\<close> is \<open>raft_server_instance_shutdown\<close>.\<close>

definition raft_net_instance_startup ::
  "'b raft_env \<Rightarrow> 'b server_platform \<Rightarrow> 'b raft_instance \<Rightarrow> (int \<times> 'b raft_instance) option" where
  "raft_net_instance_startup env sp ri = (
     let ri = ri\<lparr>ri_state := RAFT_STATE__NONE, ri_proc_state := RAFT_PROC_STATE_BOOTING\<rparr>;
         (rc, ri) = raft_net_conf_init env sp ri
     in if rc \<noteq> 0 then Some (rc, ri)
        else let rc = (if env_tcp_disabled env then 0
                       else first_rc [sp_net_rc sp Net_client_tcp_mgr, sp_net_rc sp Net_peer_tcp_mgr]);
                 rc = first_rc [rc, sp_net_rc sp Net_sockets]
             in if rc \<noteq> 0 then Some (rc, ri)
                else if first_rc [sp_net_rc sp Net_timerfd, sp_net_rc sp Net_epoll] \<noteq> 0
                then do {
                  (_, ri) \<leftarrow> raft_net_instance_shutdown env sp ri;
                  Some (first_rc [sp_net_rc sp Net_timerfd, sp_net_rc sp Net_epoll], ri) }
                else do {
                  (rc, ri) \<leftarrow> raft_server_instance_startup env sp ri;
                  let rc = first_rc [rc, sp_net_rc sp Net_bind];
                  if rc \<noteq> 0
                  then do {
                    (_, ri) \<leftarrow> raft_server_instance_shutdown env sp ri;
                    Some (rc, ri) }
                  else Some (0, ri\<lparr>ri_proc_state := RAFT_PROC_STATE_RUNNING\<rparr>) })"

section \<open>Running and recovering\<close>

text \<open>
  Before a recovery the server takes a checkpoint: it asks the checkpoint thread for one and polls
  once a second. \<open>tick n\<close> is what that thread does in the second before the last \<open>n\<close>.
\<close>

definition RAFT_SERVER_DEF_CHKPT_TIMEOUT :: nat where "RAFT_SERVER_DEF_CHKPT_TIMEOUT = 300"
definition RAFT_SERVER_RECOVERY_ATTEMPTS :: int where "RAFT_SERVER_RECOVERY_ATTEMPTS = 100"

fun chkpt_wait_loop ::
  "(nat \<Rightarrow> 'b raft_instance \<Rightarrow> 'b raft_instance option) \<Rightarrow> raft_entry_idx_t \<Rightarrow> nat \<Rightarrow> 'b raft_instance
     \<Rightarrow> (bool \<times> 'b raft_instance) option" where
  "chkpt_wait_loop tick last_idx 0 ri = Some (False, ri)"
| "chkpt_wait_loop tick last_idx (Suc n) ri =
     (if last_idx < ri_checkpoint_last_idx ri \<or> ri_last_chkpt_err ri \<noteq> 0 then Some (True, ri)
      else tick n ri \<bind> chkpt_wait_loop tick last_idx n)"

definition raft_server_chkpt_prior_to_recovery ::
  "'b raft_env \<Rightarrow> bool \<Rightarrow> bool \<Rightarrow> int \<Rightarrow> (nat \<Rightarrow> 'b raft_instance \<Rightarrow> 'b raft_instance option)
     \<Rightarrow> 'b raft_instance \<Rightarrow> (int \<times> 'b raft_instance) option" where
  "raft_server_chkpt_prior_to_recovery env thread_is_running raftServerDoesChkptBeforeRecovery alarm_rc tick ri =
     (if rib_backend_checkpoint (env_rib env) = None \<or> \<not> thread_is_running then Some (- EINVAL, ri)
      else if \<not> raftServerDoesChkptBeforeRecovery then Some (0, ri)
      else do {
        idx \<leftarrow> raft_server_get_current_raft_entry_index ri RI_NEHDR_SYNC;
        if idx < 0 then Some (0, ri)
        else do {
          let last_idx = ri_checkpoint_last_idx ri;
          let ri = ri\<lparr>ri_last_chkpt_err := 0, ri_user_requested_checkpoint := True\<rparr>;
          if alarm_rc \<noteq> 0 then Some (alarm_rc, ri)
          else do {
            (chkpt_done, ri) \<leftarrow> chkpt_wait_loop tick last_idx RAFT_SERVER_DEF_CHKPT_TIMEOUT ri;
            let ri = (if \<not> chkpt_done \<and> ri_last_chkpt_err ri = 0
                      then ri\<lparr>ri_last_chkpt_err := - ETIMEDOUT\<rparr> else ri);
            let rc = ri_last_chkpt_err ri;
            Some (if rc = - ENODATA \<or> rc = - EALREADY then 0 else rc, ri) } } })"

text \<open>
  One pass of the loop of \<open>raft_server_instance_run\<close>: whether there is another one, the return
  code, the recovery attempts left, the instance. \<open>main_loop\<close> is what happens from entering the
  main loop to leaving it, \<open>chkpt\<close> the checkpoint before a recovery. The code is 0 when a pass
  begins; \<open>continue\<close> goes to the condition of the loop.
\<close>

definition run_recovery ::
  "'b server_platform \<Rightarrow> 'b raft_instance \<Rightarrow> (int \<times> bool \<times> 'b raft_instance) option" where
  "run_recovery sp ri =
     (if ri_needs_bulk_recovery ri
      then do {
        (rc, ri) \<leftarrow> raft_server_bulk_recovery (sp_backend_recover sp) ri;
        Some (if rc = 0 then (0, True, ri\<lparr>ri_successful_recovery := True, ri_needs_bulk_recovery := False\<rparr>)
              else (rc, False, ri)) }
      else Some (0, False, ri))"

definition run_started ::
  "'b raft_env \<Rightarrow> 'b server_platform \<Rightarrow> ('b raft_instance \<Rightarrow> (int \<times> 'b raft_instance) option)
     \<Rightarrow> ('b raft_instance \<Rightarrow> (int \<times> 'b raft_instance) option) \<Rightarrow> int \<Rightarrow> 'b raft_instance
     \<Rightarrow> (int \<times> 'b raft_instance) option" where
  "run_started env sp main_loop chkpt rc ri = do {
     let ri = ri\<lparr>ri_coalesced_wr := \<lparr>rcwi_nentries = 0, rcwi_entry_sizes = replicate RAFT_ENTRY_NUM_ENTRIES 0,
           rcwi_total_size = 0, rcwi_ws = \<lparr>rnsws_ws = [], rnsws_kv_crc = 0, rnsws_kv_crc_enabled = False\<rparr>,
           rcwi_buffer = sp_malloc sp (RAFT_ENTRY_MAX_DATA_SIZE ri)\<rparr>\<rparr>;
     (main_loop_rc, ri) \<leftarrow> main_loop ri;
     (recovery_chkpt_rc, ri) \<leftarrow> (if main_loop_rc = 0 \<and> ri_needs_bulk_recovery ri then chkpt ri else Some (0, ri));
     (shutdown_rc, ri) \<leftarrow> raft_net_instance_shutdown env sp ri;
     let rc = first_rc [rc, main_loop_rc, recovery_chkpt_rc, shutdown_rc];
     Some (rc, if rc = 0 \<and> ri_needs_bulk_recovery ri
               then ri\<lparr>ri_proc_state := RAFT_PROC_STATE_BOOTING\<rparr> else ri) }"

definition instance_run_pass ::
  "'b raft_env \<Rightarrow> 'b server_platform \<Rightarrow> 'b \<Rightarrow> raft_instance_store_type \<Rightarrow> string \<Rightarrow> string \<Rightarrow> u32
     \<Rightarrow> ('b raft_instance \<Rightarrow> (int \<times> 'b raft_instance) option)
     \<Rightarrow> ('b raft_instance \<Rightarrow> (int \<times> 'b raft_instance) option) \<Rightarrow> int \<Rightarrow> 'b raft_instance
     \<Rightarrow> (bool \<times> int \<times> int \<times> 'b raft_instance) option" where
  "instance_run_pass env sp null type raft peer opts main_loop chkpt tries ri = do {
     (rc, restart_post_recovery, ri) \<leftarrow> run_recovery sp ri;
     if restart_post_recovery then Some (True, 0, RAFT_SERVER_RECOVERY_ATTEMPTS, ri)
     else do {
       ri \<leftarrow> raft_server_instance_init sp null type raft peer opts ri;
       (raft_net_startup_rc, ri) \<leftarrow> raft_net_instance_startup env sp ri;
       (rc, ri) \<leftarrow> (if raft_net_startup_rc = - EUCLEAN then Some (0, ri\<lparr>ri_needs_bulk_recovery := True\<rparr>)
          else if raft_net_startup_rc \<noteq> 0 then Some (raft_net_startup_rc, ri)
          else run_started env sp main_loop chkpt rc ri);
       Some (if rc = 0 \<and> ri_needs_bulk_recovery ri then (0 \<le> tries - 1, rc, tries - 1, ri)
             else (False, rc, tries, ri)) } }"

text \<open>
  The loop, for at most the given number of passes: \<^term>\<open>None\<close> when they do not suffice, and
  \<^term>\<open>Some None\<close> when the process aborts.
\<close>

fun raft_server_instance_run ::
  "nat \<Rightarrow> 'b raft_env \<Rightarrow> 'b server_platform \<Rightarrow> 'b \<Rightarrow> raft_instance_store_type \<Rightarrow> string \<Rightarrow> string \<Rightarrow> u32
     \<Rightarrow> ('b raft_instance \<Rightarrow> (int \<times> 'b raft_instance) option)
     \<Rightarrow> ('b raft_instance \<Rightarrow> (int \<times> 'b raft_instance) option) \<Rightarrow> int \<Rightarrow> 'b raft_instance
     \<Rightarrow> (int \<times> 'b raft_instance) option option" where
  "raft_server_instance_run 0 env sp null type raft peer opts main_loop chkpt tries ri = None"
| "raft_server_instance_run (Suc n) env sp null type raft peer opts main_loop chkpt tries ri =
     (case instance_run_pass env sp null type raft peer opts main_loop chkpt tries ri of
        None \<Rightarrow> Some None
      | Some (again, rc, tries', ri') \<Rightarrow>
          if again then raft_server_instance_run n env sp null type raft peer opts main_loop chkpt tries' ri'
          else Some (Some (rc, ri')))"

end
