(* ===== verification/Raft_Restart.thy ===== *)
theory Raft_Restart
  imports Raft_Safety Raft_Startup
begin

text \<open>
  What a start leaves: on the flat-file backend a server that starts is in order, one that starts
  on the file of a stopped server has that server's term, vote and entries back, the timing values
  in use never make an assertion fail, and what a start that finds an unfinished recovery does.
\<close>

section \<open>A started server is in order\<close>

text \<open>
  While the server starts: no role yet, nothing committed or applied, and both cached headers are
  the header of the last entry the scan has reached.
\<close>

definition boot_ok :: "'b raft_instance \<Rightarrow> bool" where
  "boot_ok ri \<longleftrightarrow> ri_state ri = RAFT_STATE__NONE \<and> ri_commit_idx ri = -1 \<and>
     rla_idx (ri_last_applied ri) = -1 \<and> rla_synced_idx (ri_last_applied ri) = -1 \<and>
     rla_sub_idx (ri_last_applied ri) = 0 \<and> rla_sub_idx_max (ri_last_applied ri) = 0 \<and>
     ri_newest_entry_hdr ri RI_NEHDR_SYNC = ri_newest_entry_hdr ri RI_NEHDR_UNSYNC \<and>
     hdr_ok (ri_newest_entry_hdr ri RI_NEHDR_UNSYNC)"

lemma boot_ok_read_view: "boot_ok ri \<Longrightarrow> read_view ri' = read_view ri \<Longrightarrow> boot_ok ri'"
  by (simp add: boot_ok_def read_view_def proto_view_def)

lemma boot_ok_backend_only: "backend_only ri ri' \<Longrightarrow> boot_ok ri \<Longrightarrow> boot_ok ri'"
  by (elim backend_onlyE) (simp add: boot_ok_def)

lemma boot_ok_newest:
  assumes "boot_ok ri" and "reh_magic h = RAFT_ENTRY_MAGIC" and "0 \<le> reh_index h"
  shows "wp (raft_instance_update_newest_entry_hdr h RI_NEHDR_ALL False ri) boot_ok"
  using assms
  by (auto simp: raft_instance_update_newest_entry_hdr_def update_newest_slot_def wp_simps Let_def
      boot_ok_def hdr_ok_def)

lemma header_read_boot_ok:
  assumes "boot_ok ri"
  shows "wp (raft_server_entry_header_read_by_store env reh i ri)
     (\<lambda>(rc, h, ri'). boot_ok ri' \<and> (rc = 0 \<longrightarrow> reh_magic h = RAFT_ENTRY_MAGIC \<and> 0 \<le> reh_index h))"
proof -
  have "boot_ok ri' \<and> (rc = 0 \<longrightarrow> reh_magic h = RAFT_ENTRY_MAGIC \<and> 0 \<le> reh_index h)"
    if r: "raft_server_entry_header_read_by_store env reh i ri = Some (rc, h, ri')" for rc h ri'
    using boot_ok_read_view [OF assms] wpD [OF header_read_wp r] header_read_valid [of env reh i ri h ri'] r
    by auto
  then show ?thesis by (auto intro!: wpI)
qed

lemma scan_loop_boot_ok:
  "boot_ok ri \<Longrightarrow> wp (entries_scan_loop env start mx i reh ri) (\<lambda>(rc, ri'). boot_ok ri')"
proof (induction "nat (mx - i)" arbitrary: i reh ri start)
  case 0
  then show ?case
    by (subst entries_scan_loop.simps) (simp add: wp_simps del: entries_scan_loop.simps)
next
  case (Suc n)
  have rest: "wp (entries_scan_loop env s mx (i + 1) h x) (\<lambda>(rc, ri'). boot_ok ri')" if "boot_ok x" for h x s
    using Suc.hyps(1) [of "i + 1"] Suc.hyps(2) that by simp
  show ?case
    using Suc.hyps(2) Suc.prems
    by (subst entries_scan_loop.simps)
      (auto simp: wp_simps simp del: entries_scan_loop.simps intro!: wp_call3 [OF header_read_boot_ok]
        wp_call [OF boot_ok_newest] rest wpI [of "raft_server_entry_next_entry_is_valid _ _"])
qed

lemma scan_boot_ok: "boot_ok ri \<Longrightarrow> wp (raft_server_entries_scan env ri) (\<lambda>(rc, ri'). boot_ok ri')"
proof -
  have init: "boot_ok (raft_instance_initialize_newest_entry_hdr x)" if "boot_ok x" for x
    using that by (simp add: boot_ok_def raft_instance_initialize_newest_entry_hdr_def hdr_ok_def)
  show "boot_ok ri \<Longrightarrow> ?thesis"
    unfolding raft_server_entries_scan_def raft_server_entries_scan_internal_def
    by (auto simp: wp_simps Let_def simp del: entries_scan_loop.simps
        intro!: wp_call2 [OF scan_loop_boot_ok] scan_loop_boot_ok init)
qed

lemma log_load_boot_ok:
  "boot_ok ri \<Longrightarrow> wp (raft_server_log_load (raft_server_backend_use_posix io env) ri) (\<lambda>(rc, ri'). boot_ok ri')"
proof -
  have load: "wp (rsbp_header_load io env ri) (\<lambda>(rc, ri'). boot_ok ri')" if "boot_ok ri"
    using that unfolding rsbp_header_load_def
    by (auto simp: wp_simps boot_ok_def intro!: wpI [of "rsbr_get_num_log_headers _"] wpI [of "header_load_loop _ _ _ _ _"])
  have trunc: "wp (raft_server_log_truncate (raft_server_backend_use_posix io env) x) boot_ok" if "boot_ok x" for x
    using that unfolding raft_server_log_truncate_def
    by (auto simp: wp_simps intro!: wpI dest!: posix.log_truncate_frame intro: boot_ok_backend_only)
  have rib: "rib_header_load (ribPosix io env) = rsbp_header_load io env"
    by (simp add: ribPosix_def)
  show "boot_ok ri \<Longrightarrow> ?thesis"
    unfolding raft_server_log_load_def raft_server_header_load_def
    by (auto simp: wp_simps rib intro!: wp_call2 [OF load] wp_call2 [OF scan_boot_ok] wp_call [OF trunc])
qed

lemma posix_setup_boot_ok:
  "boot_ok ri \<Longrightarrow> wp (rsbp_setup io env fresh opened ri) (\<lambda>(rc, ri'). boot_ok ri')"
proof -
  have upd: "boot_ok (x\<lparr>ri_backend_arg := b\<rparr>) = boot_ok x" "boot_ok (x\<lparr>ri_log_hdr := h\<rparr>) = boot_ok x"
    "boot_ok (x\<lparr>ri_entries_detected_at_startup := n\<rparr>) = boot_ok x" "boot_ok (x\<lparr>ri_db_uuid := u\<rparr>) = boot_ok x"
    "boot_ok (x\<lparr>ri_max_entry_size := s\<rparr>) = boot_ok x" for x :: "'a posix_instance" and b h n u s
    by (simp_all add: boot_ok_def)
  have hw: "wp (rsbp_header_write io env x) (\<lambda>(rc, ri'). boot_ok ri')" if "boot_ok x" for x
    using that by (auto intro!: wpI dest!: header_write_only intro: boot_ok_backend_only)
  have loop: "wp (initialize_headers_loop n io env x) (\<lambda>(rc, ri'). boot_ok ri')" if "boot_ok x" for n x
    using that by (induction n arbitrary: x) (auto simp: wp_simps upd intro!: wp_call2 [OF hw])
  have stat: "wp (rsbp_stat_log_fd io x) (\<lambda>(rc, ri'). boot_ok ri')" if "boot_ok x" for x
    using that unfolding rsbp_stat_log_fd_def
    by (auto simp: wp_simps upd split: sum.split intro!: wpI [of "rsbp_ri_to_rip _"])
  have calc: "wp (rsbp_num_entries_calc io x) (\<lambda>(rc, ri'). boot_ok ri')" if "boot_ok x" for x
    using that unfolding rsbp_num_entries_calc_def
    by (auto simp: wp_simps intro!: wp_call2 [OF stat] wpI [of "rsbp_ri_to_log_sz _"] wpI [of "rsbr_get_num_log_headers _"])
  have file_setup: "wp (rsbp_log_file_setup io env opened x) (\<lambda>(rc, ri'). boot_ok ri')" if "boot_ok x" for x
    using that unfolding rsbp_log_file_setup_def rsbp_setup_initialize_headers_def
    by (auto simp: wp_simps Let_def set_fd_def upd split: sum.split intro!: wp_call2 [OF stat] wp_call2 [OF loop]
        wp_call2 [OF calc] wpI [of "rsbp_ri_to_log_sz _"] wpI [of "rsbr_get_num_log_headers _"])
  show "boot_ok ri \<Longrightarrow> ?thesis"
    unfolding rsbp_setup_def
    by (auto simp: wp_simps Let_def rsbp_destroy_def rsbp_set_db_uuid_def upd intro!: wp_call2 [OF file_setup])
qed

section \<open>A restarted server has its log back\<close>

lemma validate_updates [simp]:
  "read_server_entry_validate (ri\<lparr>ri_pending_read_idx := p\<rparr>) = read_server_entry_validate ri"
  "read_server_entry_validate (ri\<lparr>ri_newest_entry_hdr := n\<rparr>) = read_server_entry_validate ri"
  "read_server_entry_validate (ri\<lparr>ri_log_hdr := h\<rparr>) = read_server_entry_validate ri"
  "read_server_entry_validate (ri\<lparr>ri_backend_arg := b\<rparr>) = read_server_entry_validate ri"
  by (auto simp: read_server_entry_validate_def fun_eq_iff RAFT_ENTRY_MAX_DATA_SIZE_def)

text \<open>A stored entry of this server, read through the server's own function.\<close>

lemma stored_header_read:
  assumes "posix_file io contents" and "\<And>f n off. 0 \<le> fst (niova_io_pread io f n off)"
    and "posix_ready ri" and "posix_holds contents (ri_backend_arg ri) re"
    and "length (reh_entry_sz h) = RAFT_ENTRY_NUM_ENTRIES" and "env_lowest_race env = None"
    and "\<not> raft_instance_is_client ri" and "hdr_ok (ri_newest_entry_hdr ri RI_NEHDR_UNSYNC)"
    and "raft_instance_is_booting ri \<or> entry_idx re \<le> reh_index (ri_newest_entry_hdr ri RI_NEHDR_UNSYNC)"
    and "ri_pending_read_idx ri = -1" and "ri_lowest_idx ri \<le> entry_idx re"
    and "read_server_entry_validate ri (re_header re) (entry_idx re) = 0"
  shows "raft_server_entry_header_read_by_store (raft_server_backend_use_posix io env) h (entry_idx re) ri
     = Some (0, re_header re, ri)"
proof -
  have i: "0 \<le> entry_idx re"
    using assms(4) by (simp add: posix_holds_def posix_storable_def)
  have rd: "rsbp_entry_header_read io (ri\<lparr>ri_pending_read_idx := entry_idx re\<rparr>) (h\<lparr>reh_index := entry_idx re\<rparr>)
     = Some (0, re_header re)"
    using assms(3-5) by (intro header_read_succeeds [OF assms(1,2)]) (simp_all add: posix_ready_def)
  have pend: "ri\<lparr>ri_pending_read_idx := -1\<rparr> = ri"
    using assms(10) by simp
  have race: "lowest_race (raft_server_backend_use_posix io env) x = x" for x
    using assms(6) by (simp add: lowest_race_def raft_server_backend_use_posix_def)
  show ?thesis
    using i rd assms(9-12) current_idx_ok [OF assms(8,7)] pend
    by (auto simp: raft_server_entry_header_read_by_store_def raft_server_entry_read_by_store_common_def
      raft_server_read_entry_register_idx_def Let_def raft_server_entry_range_check_def race ribPosix_def
      raft_server_entry_has_been_compacted_def raft_server_read_entry_unregister_idx_def bool_to_int_def)
qed

text \<open>The log of this server in the file: one valid entry for each index from 0.\<close>

definition own_log :: "('f \<Rightarrow> u8 list) \<Rightarrow> raft_entry list \<Rightarrow> 'f posix_instance \<Rightarrow> bool" where
  "own_log contents es ri \<longleftrightarrow> (\<forall>k < length es. es ! k \<in> stored_log contents ri \<and> entry_idx (es ! k) = int k \<and>
     read_server_entry_validate ri (re_header (es ! k)) (int k) = 0)"

definition newest_of :: "raft_entry list \<Rightarrow> raft_entry_header" where
  "newest_of es = (if es = [] then null_reh else re_header (last es))"

lemma own_log_entry:
  assumes "own_log contents es ri" and "k < length es"
  shows "es ! k \<in> stored_log contents ri" and "entry_idx (es ! k) = int k"
    and "read_server_entry_validate ri (re_header (es ! k)) (int k) = 0"
    and "reh_magic (re_header (es ! k)) = RAFT_ENTRY_MAGIC"
  using assms by (auto simp: own_log_def read_server_entry_validate_def split: if_splits)

lemma newest_of_take_Suc: "k < length es \<Longrightarrow> newest_of (take (Suc k) es) = re_header (es ! k)"
  by (auto simp: newest_of_def take_Suc_conv_app_nth)

lemma own_log_newest:
  assumes "own_log contents es ri" and "k \<le> length es"
  shows "hdr_ok (newest_of (take k es))" and "reh_index (newest_of (take k es)) = int k - 1"
proof -
  have "hdr_ok (newest_of (take k es)) \<and> reh_index (newest_of (take k es)) = int k - 1"
  proof (cases k)
    case 0
    then show ?thesis by (simp add: newest_of_def hdr_ok_def)
  next
    case (Suc m)
    then show ?thesis
      using own_log_entry [OF assms(1), of m] assms(2) newest_of_take_Suc [of m es] by (simp add: hdr_ok_def)
  qed
  then show "hdr_ok (newest_of (take k es))" and "reh_index (newest_of (take k es)) = int k - 1"
    by simp_all
qed

text \<open>A server that is starting on such a file, with the headers of the first \<open>k\<close> entries seen.\<close>

definition scan_state :: "raft_entry list \<Rightarrow> nat \<Rightarrow> 'f posix_instance \<Rightarrow> bool" where
  "scan_state es k ri \<longleftrightarrow> posix_ready ri \<and> boot_ok ri \<and> raft_instance_is_booting ri \<and>
     ri_pending_read_idx ri = -1 \<and> ri_lowest_idx ri = -1 \<and>
     ri_newest_entry_hdr ri = (\<lambda>_. newest_of (take k es))"

lemma scan_loop_recovers:
  assumes "posix_file io contents" and "\<And>f n off. 0 \<le> fst (niova_io_pread io f n off)"
    and "env_lowest_race env = None"
  shows "scan_state es k ri \<Longrightarrow> own_log contents es ri \<Longrightarrow> k \<le> length es \<Longrightarrow>
     length (reh_entry_sz h) = RAFT_ENTRY_NUM_ENTRIES \<Longrightarrow>
     entries_scan_loop (raft_server_backend_use_posix io env) 0 (int (length es)) (int k) h ri
       = Some (0, ri\<lparr>ri_newest_entry_hdr := (\<lambda>_. newest_of es)\<rparr>)"
proof (induction "length es - k" arbitrary: k h ri)
  case 0
  then have k: "int k = int (length es)" and same: "ri\<lparr>ri_newest_entry_hdr := (\<lambda>_. newest_of es)\<rparr> = ri"
    by (simp_all add: scan_state_def)
  show ?case
    unfolding same k by (subst entries_scan_loop.simps) (simp del: entries_scan_loop.simps)
next
  case (Suc n)
  let ?e = "es ! k" and ?env = "raft_server_backend_use_posix io env"
  let ?r = "ri\<lparr>ri_newest_entry_hdr := (\<lambda>_. re_header ?e)\<rparr>"
  have k: "k < length es" using Suc.hyps(2) by simp
  note e = own_log_entry [OF Suc.prems(2) k]
  have nw: "ri_newest_entry_hdr ri = (\<lambda>_. newest_of (take k es))"
    using Suc.prems(1) by (simp add: scan_state_def)
  have rd: "raft_server_entry_header_read_by_store ?env h (int k) ri = Some (0, re_header ?e, ri)"
    using stored_header_read [OF assms(1,2), of ri ?e h env] assms(3) Suc.prems e own_log_newest [OF Suc.prems(2,3)]
    by (simp add: scan_state_def stored_log_def raft_instance_is_client_def boot_ok_def)
  have up: "raft_instance_update_newest_entry_hdr (re_header ?e) RI_NEHDR_ALL False ri = Some ?r"
    using e(2) own_log_newest(2) [OF Suc.prems(2,3)]
    by (simp add: raft_instance_update_newest_entry_hdr_def update_newest_slot_def nw both_slots Let_def)
  have st: "scan_state es (Suc k) ?r"
    using Suc.prems(1) e(2,4)
    by (simp add: scan_state_def newest_of_take_Suc [OF k] posix_ready_def boot_ok_def hdr_ok_def raft_instance_is_booting_def)
  have own: "own_log contents es ?r"
    using Suc.prems(2) by (simp add: own_log_def stored_log_def)
  have len: "length (reh_entry_sz (re_header ?e)) = RAFT_ENTRY_NUM_ENTRIES"
    using e(1) by (simp add: stored_log_def posix_holds_def posix_storable_def re_fits_def reh_fits_def)
  have "entries_scan_loop ?env 0 (int (length es)) (int (Suc k)) (re_header ?e) ?r
     = Some (0, ?r\<lparr>ri_newest_entry_hdr := (\<lambda>_. newest_of es)\<rparr>)"
    by (rule Suc.hyps(1)) (use Suc.hyps(2) k st own len in simp_all)
  then show ?case
    using k rd up by (subst entries_scan_loop.simps) (simp add: add.commute del: entries_scan_loop.simps)
qed

lemma truncate_succeeds:
  assumes "posix_ready ri" and "healthy_io io" and "-1 \<le> i"
  shows "\<exists>rip. rsbp_log_truncate io ri (i + 1) = Some (ri\<lparr>ri_backend_arg := Some rip\<rparr>)"
  using assms
  by (auto simp: rsbp_log_truncate_def rsbp_ri_to_rip_def posix_ready_def healthy_io_def case_prod_beta Let_def
      rsbr_raft_index_to_phys_offset_def rsbr_entry_idx_to_phys_idx_def rsbr_get_num_log_headers_def
      NUM_RAFT_LOG_HEADERS_def rsbp_sync_def set_fd_def)

text \<open>
  C27. A restart loses nothing. A server that starts on the file of a stopped server, whose header
  blocks are in order and which holds this server's valid entries for the indices from 0, loads
  the log without an error: it has the stopped server's log header (term and vote), the header of
  the last entry as newest header, and all entries are still in the file.
\<close>

theorem restart_recovers_log:
  assumes "posix_file io contents" and "\<And>f n off. 0 \<le> fst (niova_io_pread io f n off)" and "healthy_io io"
    and "env_lowest_race env = None" and "length (reh_entry_sz (re_header (env_uninit env))) = RAFT_ENTRY_NUM_ENTRIES"
    and "scan_state es 0 ri" and "disk_hdr_ok env contents (ri\<lparr>ri_log_hdr := h\<rparr>)" and "rlh_version h = 0"
    and "own_log contents es ri" and "ri_entries_detected_at_startup ri = int (length es)"
  shows "\<exists>ri'. raft_server_log_load (raft_server_backend_use_posix io env) ri = Some (0, ri') \<and>
     ri_log_hdr ri' = h \<and> ri_newest_entry_hdr ri' = (\<lambda>_. newest_of es) \<and> set es \<subseteq> stored_log contents ri'"
proof -
  let ?env = "raft_server_backend_use_posix io env"
  let ?r1 = "ri\<lparr>ri_log_hdr := h\<rparr>" and ?r2 = "ri\<lparr>ri_log_hdr := h, ri_newest_entry_hdr := (\<lambda>_. newest_of es)\<rparr>"
  have ready: "posix_ready ri" using assms(6) by (simp add: scan_state_def)
  have load: "raft_server_header_load ?env ri = Some (0, ?r1)"
    using posix_file.disk_hdr_load [OF assms(1,7) _ assms(2), of ri] ready
    by (simp add: raft_server_header_load_def ribPosix_def posix_ready_def)
  have st: "scan_state es 0 ?r1" "own_log contents es ?r1"
    using assms(6,8,9)
    by (simp_all add: scan_state_def posix_ready_def boot_ok_def raft_instance_is_booting_def own_log_def stored_log_def
        newest_of_def hdr_ok_def)
  have un: "env_uninit ?env = env_uninit env"
    by (simp add: raft_server_backend_use_posix_def)
  have low: "ri_lowest_idx ri = -1" and ty: "ri_store_type ri = RAFT_INSTANCE_STORE_POSIX_FLAT_FILE"
    and nw: "ri_newest_entry_hdr ri = (\<lambda>_. null_reh)"
    using assms(6) by (simp_all add: scan_state_def posix_ready_def newest_of_def)
  have scan: "raft_server_entries_scan ?env ?r1 = Some (0, ?r2)"
  proof (cases es)
    case Nil
    then have "?r2 = ?r1" using nw by (simp add: newest_of_def)
    with Nil show ?thesis
      using assms(10) by (simp add: raft_server_entries_scan_def)
  next
    case (Cons e es')
    then show ?thesis
      using scan_loop_recovers [OF assms(1,2,4) st(1,2), of "re_header (env_uninit env)"] assms(5,10) low ty
      by (simp add: raft_server_entries_scan_def raft_server_entries_scan_internal_def un del: entries_scan_loop.simps)
  qed
  have ok: "hdr_ok (newest_of es)" "reh_index (newest_of es) = int (length es) - 1"
    using own_log_newest [OF assms(9), of "length es"] by simp_all
  have nc: "\<not> raft_instance_is_client ?r2"
    using assms(6) by (simp add: scan_state_def boot_ok_def raft_instance_is_client_def)
  have idx: "raft_server_get_current_raft_entry_index ?r2 RI_NEHDR_SYNC = Some (int (length es) - 1)"
    using current_idx_ok [OF _ nc, of RI_NEHDR_SYNC] ok by simp
  have r2: "posix_ready ?r2"
    using ready assms(8) by (simp add: posix_ready_def)
  obtain rip where tr: "rsbp_log_truncate io ?r2 (int (length es)) = Some (?r2\<lparr>ri_backend_arg := Some rip\<rparr>)"
    using truncate_succeeds [OF r2 assms(3), of "int (length es) - 1"] by auto
  have "posix_holds contents (Some rip) e" if "e \<in> set es" for e
  proof -
    from that obtain k where k: "k < length es" "e = es ! k" unfolding in_set_conv_nth by blast
    show ?thesis
      using posix_file.posix_truncate_keeps [OF assms(1) tr, of e] own_log_entry [OF assms(9) k(1)] k
      by (simp add: stored_log_def)
  qed
  then show ?thesis
    using load scan idx tr by (simp add: raft_server_log_load_def raft_server_log_truncate_def ribPosix_def stored_log_def subset_iff)
qed

context posix_file
begin

text \<open>Writing an entry leaves the header blocks alone.\<close>

lemma disk_hdr_entry_write:
  assumes "rsbp_entry_write io ri re ws = Some ri'" and "posix_storable re" and "disk_hdr_ok env contents ri"
  shows "disk_hdr_ok env contents ri'"
proof -
  obtain rip f where rip: "ri_backend_arg ri = Some rip" "ri_backend_arg ri' = Some (rip\<lparr>rip_fd := f\<rparr>)"
    and w: "niova_io_pwrite io (rip_fd rip) (encode_re re) (block_off (entry_idx re)) = (int (length (encode_re re)), f)"
    and len: "length (encode_re re) = raft_server_entry_to_total_size re"
    using entry_write_call [OF assms(1,2)] by blast
  have slot: "hdr_slot env (contents f) k h" if "hdr_slot env (contents (rip_fd rip)) k h" "k = -2 \<or> k = -1" for k h
    using that assms(2) len by (intro pwrite_keeps_slot [OF w]) (auto simp: posix_storable_def)
  have hdr: "ri_log_hdr ri' = ri_log_hdr ri"
    using posix.entry_write_frame [of io env ri re ws ri'] assms(1) by (auto simp: ribPosix_def elim!: backend_onlyE)
  show ?thesis
    using assms(3) slot hdr_block_cases [of "ri_log_hdr ri"] unfolding disk_hdr_ok_def hdr rip by auto
qed

end

text \<open>A member of the example cluster that is starting.\<close>

definition demo_boot :: "'f \<Rightarrow> 'f posix_instance" where
  "demo_boot f = (demo_ri f)\<lparr>ri_state := RAFT_STATE__NONE, ri_proc_state := RAFT_PROC_STATE_BOOTING\<rparr>"

theorem restart_recovers_log_witness:
  "\<exists>(ri :: u8 list posix_instance) ri'. own_log (\<lambda>f. f) [demo_marker] ri \<and>
     raft_server_log_load (demo_env mem_io) ri = Some (0, ri') \<and>
     rlh_seqno (ri_log_hdr ri') = 1 \<and> ri_newest_entry_hdr ri' RI_NEHDR_SYNC = re_header demo_marker"
proof -
  let ?h = "zero_rlh\<lparr>rlh_magic := RAFT_HEADER_MAGIC, rlh_seqno := 1\<rparr>" and ?b = "demo_boot [] :: u8 list posix_instance"
  have b: "posix_ready ?b" by (simp add: posix_ready_def demo_boot_def zero_rlh_def)
  obtain rip h0 where i: "rsbp_setup_initialize_headers mem_io demo_base ?b
      = Some (0, ?b\<lparr>ri_backend_arg := Some rip, ri_log_hdr := h0\<rparr>)"
    using new_log_file [OF b healthy_mem_io] by blast
  let ?r0 = "?b\<lparr>ri_backend_arg := Some rip, ri_log_hdr := ?h\<rparr>"
  have d0: "disk_hdr_ok demo_base (\<lambda>f. f) ?r0"
    using mem.initialize_headers_ok [OF i] by simp
  have "posix_ready ?r0" by (simp add: posix_ready_def demo_boot_def zero_rlh_def)
  then obtain rip' where w: "rsbp_entry_write mem_io ?r0 demo_marker None = Some (?r0\<lparr>ri_backend_arg := Some rip'\<rparr>)"
    using entry_write_succeeds [OF _ healthy_mem_io demo_marker_storable] by blast
  let ?r = "?b\<lparr>ri_backend_arg := Some rip', ri_entries_detected_at_startup := 1\<rparr>"
  have d: "disk_hdr_ok demo_base (\<lambda>f. f) (?r\<lparr>ri_log_hdr := ?h\<rparr>)"
    using mem.disk_hdr_entry_write [OF w demo_marker_storable d0] by (simp add: disk_hdr_ok_def)
  have st: "posix_holds (\<lambda>f. f) (Some rip') demo_marker"
    using mem.posix_write_holds [OF w demo_marker_storable] by simp
  note f = entry_init_fields [OF demo_marker_init]
  have own: "own_log (\<lambda>f. f) [demo_marker] ?r"
    using st f by (simp add: own_log_def stored_log_def demo_boot_def read_server_entry_validate_def RAFT_ENTRY_MAX_DATA_SIZE_def)
  have s: "scan_state [demo_marker] 0 ?r"
    by (simp add: scan_state_def demo_boot_def posix_ready_def boot_ok_def zero_rlh_def newest_of_def hdr_ok_def raft_instance_is_booting_def)
  show ?thesis
    using restart_recovers_log [OF mem.posix_file_axioms mem_io_read_ok healthy_mem_io _ _ s d _ own] own
    by (auto simp: demo_base_def null_reh_def zero_rlh_def newest_of_def demo_env_def)
qed

section \<open>From the start to the main loop\<close>

definition init_ok :: "'b raft_instance \<Rightarrow> bool" where
  "init_ok ri \<longleftrightarrow> ri_state ri = RAFT_STATE__NONE \<and> ri_commit_idx ri = -1 \<and>
     rla_idx (ri_last_applied ri) = -1 \<and> rla_synced_idx (ri_last_applied ri) = -1 \<and>
     rla_sub_idx (ri_last_applied ri) = 0 \<and> rla_sub_idx_max (ri_last_applied ri) = 0"

lemma init_ok_updates [simp]:
  "init_ok (ri\<lparr>ri_csn_raft_peers := ps\<rparr>) = init_ok ri" "init_ok (ri\<lparr>ri_csn_this_peer := u\<rparr>) = init_ok ri"
  "init_ok (ri\<lparr>ri_csn_raft := u\<rparr>) = init_ok ri"
  by (simp_all add: init_ok_def)

lemma init_tunables_ok: "init_ok ri \<Longrightarrow> wp (raft_server_instance_init_tunables ri) init_ok"
  unfolding raft_server_instance_init_tunables_def raft_server_instance_init_rocksdb_persistent_app_def
  by (auto simp: wp_simps Let_def init_ok_def raft_server_set_max_scan_entries_def
      raft_server_set_log_reap_factor_def raft_server_set_num_checkpoints_def)

lemma instance_init_ok: "wp (raft_server_instance_init sp null type raft peer opts ri) init_ok"
proof -
  have upd: "init_ok (x\<lparr>ri_timer_fd_cb := b\<rparr>) = init_ok x" for x :: "'b raft_instance" and b
    by (simp add: init_ok_def)
  have st: "ri_state (raft_server_instance_restore_init_values v s (zero_instance null r\<lparr>ri_proc_state := p\<rparr>)) = RAFT_STATE__NONE"
    for v s r p and null :: 'b
    by (simp add: raft_server_instance_restore_init_values_def zero_instance_def)
  have ok: "init_ok (x\<lparr>ri_store_type := a1, ri_election_timeout_max_ms := a2, ri_heartbeat_freq_per_election_min := a3,
      ri_check_quorum_timeout_factor := a4, ri_raft_uuid_str := a5, ri_this_peer_uuid_str := a6,
      ri_apply_handler_version := a7, ri_synchronous_writes := a8, ri_coalesced_writes := a9,
      ri_auto_checkpoints_enabled := a10, ri_commit_idx := -1,
      ri_last_applied := \<lparr>rla_idx = -1, rla_sub_idx = 0, rla_sub_idx_max = 0, rla_synced_idx = -1,
        rla_cumulative_crc = 0, rla_kv_cumulative_crc = 0\<rparr>,
      ri_checkpoint_last_idx := -1, ri_pending_read_idx := -1, ri_lowest_idx := -1\<rparr>)"
    if "ri_state x = RAFT_STATE__NONE" for x :: "'b raft_instance" and a1 a2 a3 a4 a5 a6 a7 a8 a9 a10
    using that by (simp add: init_ok_def)
  show ?thesis
    unfolding raft_server_instance_init_def Let_def wp_bind wp_assert wp_Some
    by (intro impI wp_call [OF init_tunables_ok]) (simp_all add: upd ok st)
qed

lemma members_loop_init_ok: "init_ok ri \<Longrightarrow> init_ok (snd (snd (conf_members_loop sp ms found ri)))"
  by (induction sp ms found ri rule: conf_members_loop.induct) simp_all

lemma conf_init_ok: "init_ok ri \<Longrightarrow> init_ok (snd (raft_net_conf_init env sp ri))"
  by (simp add: raft_net_conf_init_def Let_def case_prod_beta members_loop_init_ok split: option.split)

lemma initialize_newest_boot_ok: "init_ok ri \<Longrightarrow> boot_ok (raft_instance_initialize_newest_entry_hdr ri)"
  by (simp add: init_ok_def boot_ok_def raft_instance_initialize_newest_entry_hdr_def hdr_ok_def)

lemma boot_ok_updates [simp]:
  "boot_ok (ri\<lparr>ri_log := l\<rparr>) = boot_ok ri" "boot_ok (ri\<lparr>ri_lreg_registered := b\<rparr>) = boot_ok ri"
  "boot_ok (ri\<lparr>ri_startup_error := i\<rparr>) = boot_ok ri" "boot_ok (ri\<lparr>ri_proc_state := p\<rparr>) = boot_ok ri"
  "boot_ok (ri\<lparr>ri_coalesced_wr := co\<rparr>) = boot_ok ri" "boot_ok (emit e ri) = boot_ok ri"
  by (simp_all add: boot_ok_def emit_def)

text \<open>Every backend that only opens its store when it is set up and loads a log header.\<close>

lemma startup_boot_ok:
  assumes "\<And>r. boot_ok r \<Longrightarrow> wp (sp_backend_setup sp r) (\<lambda>(rc, r'). boot_ok r')"
    and "\<And>r. boot_ok r \<Longrightarrow> wp (raft_server_log_load env r) (\<lambda>(rc, r'). boot_ok r')"
    and "init_ok ri"
  shows "wp (raft_server_instance_startup env sp ri) (\<lambda>(rc, ri'). rc = 0 \<longrightarrow> boot_ok ri')"
proof -
  have setup': "wp (raft_server_backend_setup sp x) (\<lambda>(rc, r'). boot_ok r')" if "boot_ok x" for x
    using that unfolding raft_server_backend_setup_def raft_server_log_file_name_setup_def
    by (auto simp: wp_simps Let_def split: option.split intro!: wp_call2 [OF assms(1)])
  have lreg: "wp (raft_server_instance_lreg_init sp x) (\<lambda>(rc, r'). boot_ok r')" if "boot_ok x" for x
    using that by (simp add: raft_server_instance_lreg_init_def wp_simps Let_def)
  have steps: "wp (startup_steps env sp x) (\<lambda>(rc, r'). boot_ok r')" if "boot_ok x" for x
    using that unfolding startup_steps_def
    by (auto simp: wp_simps Let_def intro!: wpI [of "raft_server_instance_buffer_set_setup _ _"] wp_call2 [OF lreg]
        wp_call2 [OF assms(2)] wpI [of "raft_server_sync_thread_start _ _"] wpI [of "raft_server_chkpt_thread_start _ _ _"])
  show ?thesis
    unfolding raft_server_instance_startup_def
    using initialize_newest_boot_ok [OF assms(3)]
    by (auto simp: wp_simps Let_def intro!: wp_call2 [OF setup'] wp_call2 [OF steps]
        wpI [of "raft_net_instance_shutdown _ _ _"])
qed

lemma net_startup_boot_ok:
  assumes "\<And>r. boot_ok r \<Longrightarrow> wp (sp_backend_setup sp r) (\<lambda>(rc, r'). boot_ok r')"
    and "\<And>r. boot_ok r \<Longrightarrow> wp (raft_server_log_load env r) (\<lambda>(rc, r'). boot_ok r')"
    and "init_ok ri" and "raft_net_instance_startup env sp ri = Some (0, ri')"
  shows "boot_ok ri'"
proof -
  have "init_ok (ri\<lparr>ri_state := RAFT_STATE__NONE, ri_proc_state := RAFT_PROC_STATE_BOOTING\<rparr>)"
    using assms(3) by (simp add: init_ok_def)
  then obtain r1 r2 where r1: "init_ok r1" and s: "raft_server_instance_startup env sp r1 = Some (0, r2)"
    and ri': "ri' = r2\<lparr>ri_proc_state := RAFT_PROC_STATE_RUNNING\<rparr>"
    using assms(4) conf_init_ok [of "ri\<lparr>ri_state := RAFT_STATE__NONE, ri_proc_state := RAFT_PROC_STATE_BOOTING\<rparr>" env sp]
    by (auto simp: raft_net_instance_startup_def Let_def bind_Some case_prod_beta split: if_splits)
  show ?thesis
    using wpD [OF startup_boot_ok [OF assms(1,2) r1] s] by (simp add: ri')
qed

lemma main_loop_server_ok:
  fixes ri :: "'f posix_instance"
  assumes "boot_ok ri" and "raft_server_main_loop env ri = Some ri'"
  shows "server_ok ri'"
proof -
  let ?r = "ri\<lparr>ri_state := RAFT_STATE_FOLLOWER, ri_follower_reason := RAFT_BFRSN_LEADER_ALREADY_PRESENT\<rparr>"
  have "server_ok ?r"
    using assms(1)
    by (auto simp: boot_ok_def server_ok_def newest_hdrs_ok_def raft_instance_is_defs hdr_ok_def Let_def)
  moreover have "net_core ri' = net_core ?r"
    using assms(2) by (auto simp: raft_server_main_loop_def bind_Some intro: net_core_timer split: if_splits)
  ultimately show ?thesis
    by (rule posix.ok.I_net_core [rotated])
qed


text \<open>A start of the example member on a new, empty file.\<close>

definition demo_platform :: "u8 list raft_instance_posix option server_platform" where
  "demo_platform =
     \<lparr>sp_uuid_parse = (\<lambda>s. if s = ''raft'' then Some 100 else if s = ''peer1'' then Some 1 else None),
      sp_csn_lookup = (\<lambda>_. 0), sp_csn_create = (\<lambda>_ _. 0), sp_csn_members = (\<lambda>_. Some [1, 2, 3]),
      sp_store_path = (\<lambda>_. Some ''/store''), sp_net_rc = (\<lambda>_. 0), sp_close_rc = (\<lambda>_. 0),
      sp_mutex_init = True, sp_mutex_destroy = (\<lambda>_. 0), sp_lreg_installed = False, sp_lreg_install = 0,
      sp_lreg_remove = 0, sp_lreg_removed = True, sp_evp_add = (\<lambda>_. 0), sp_evp_remove = (\<lambda>_. 0),
      sp_thread_create = (\<lambda>_. 0), sp_thread_halt = (\<lambda>_. 0), sp_worker_cnt = 1,
      sp_buffer_set_init = (\<lambda>_ _. 0), sp_malloc = (\<lambda>n. replicate n 0), sp_apply_handler_version = 0,
      sp_backend_setup = rsbp_setup mem_io demo_base [] (Inr []),
      sp_backend_shutdown = (\<lambda>ri. Some (0, rsbp_destroy ri)), sp_backend_recover = None\<rparr>"

lemma demo_platform_simps [simp]:
  "sp_uuid_parse demo_platform ''raft'' = Some 100" "sp_uuid_parse demo_platform ''peer1'' = Some 1"
  "sp_csn_lookup demo_platform = (\<lambda>_. 0)" "sp_csn_members demo_platform = (\<lambda>_. Some [1, 2, 3])"
  "sp_store_path demo_platform = (\<lambda>_. Some ''/store'')" "sp_net_rc demo_platform = (\<lambda>_. 0)"
  "sp_mutex_init demo_platform" "\<not> sp_lreg_installed demo_platform" "sp_lreg_install demo_platform = 0"
  "sp_evp_add demo_platform = (\<lambda>_. 0)" "sp_thread_create demo_platform = (\<lambda>_. 0)"
  "sp_buffer_set_init demo_platform = (\<lambda>_ _. 0)"
  "sp_backend_setup demo_platform = rsbp_setup mem_io demo_base [] (Inr [])"
  by (simp_all add: demo_platform_def)

lemma mem_header_write_length:
  assumes "rsbp_header_write mem_io env ri = Some (0, ri')" and "ri_backend_arg ri = Some rip"
  shows "\<exists>rip'. ri_backend_arg ri' = Some rip' \<and> length (rip_fd rip') = max (length (rip_fd rip))
       (block_off (uint (rlh_seqno (ri_log_hdr ri)) mod 2 - 2) + RAFT_ENTRY_HEADER_RESERVE + sizeof_raft_log_header)"
proof -
  obtain rip0 f wsz re rip' where r: "ri_backend_arg ri = Some rip0" and b: "ri_backend_arg ri' = Some rip'"
    and c: "rip_fd rip' = f"
    and w: "niova_io_pwrite mem_io (rip_fd rip0) (take (raft_server_entry_to_total_size re) (encode_re re))
       (block_off (reh_index (re_header re))) = (wsz, f)"
    and init: "raft_server_entry_init_for_log_header env ri
       (uint (rlh_seqno (ri_log_hdr ri)) mod 2 - 2) (rlh_term (ri_log_hdr ri))
       (encode_rlh (ri_log_hdr ri)) (of_nat sizeof_raft_log_header) = Some re"
    and i: "reh_index (re_header re) = uint (rlh_seqno (ri_log_hdr ri)) mod 2 - 2"
    using mem.header_write_call [OF assms(1)] by metis
  have r0: "rip0 = rip" using r assms(2) by simp
  note e = header_entry_size [OF init]
  have "length (encode_re re) = raft_server_entry_to_total_size re"
    by (simp add: encode_re_def e(1,2,6))
  then have "length f = max (length (rip_fd rip)) (block_off (uint (rlh_seqno (ri_log_hdr ri)) mod 2 - 2)
      + (RAFT_ENTRY_HEADER_RESERVE + sizeof_raft_log_header))"
    using w i e(1) by (auto simp: r0 mem_io_def length_file_write RAFT_ENTRY_HEADER_RESERVE_def split: if_splits)
  then show ?thesis using b c by (simp add: add.assoc)
qed

lemma mem_new_file_length:
  assumes "rsbp_setup_initialize_headers mem_io env ri = Some (0, ri')"
    and "ri_backend_arg ri = Some rip" and "rip_fd rip = []"
  shows "\<exists>rip'. ri_backend_arg ri' = Some rip' \<and>
     length (rip_fd rip') = RAFT_ENTRY_SIZE_POSIX + RAFT_ENTRY_HEADER_RESERVE + sizeof_raft_log_header"
    and "rlh_version (ri_log_hdr ri') = 0"
proof -
  let ?h0 = "zero_rlh\<lparr>rlh_magic := RAFT_HEADER_MAGIC\<rparr>"
  have two: "nat NUM_RAFT_LOG_HEADERS = Suc (Suc 0)"
    by (simp add: NUM_RAFT_LOG_HEADERS_def)
  have off: "block_off (- 2) = 0" "block_off (- 1) = RAFT_ENTRY_SIZE_POSIX"
    by (simp_all add: block_off_def NUM_RAFT_LOG_HEADERS_def)
  have "initialize_headers_loop (Suc (Suc 0)) mem_io env (ri\<lparr>ri_log_hdr := ?h0\<rparr>) = Some (0, ri')"
    using assms(1)
    by (simp add: rsbp_setup_initialize_headers_def Let_def two rsbr_get_num_log_headers_def zero_rlh_def
        split: if_splits del: initialize_headers_loop.simps)
  then obtain r1 r2 where w0: "rsbp_header_write mem_io env (ri\<lparr>ri_log_hdr := ?h0\<rparr>) = Some (0, r1)"
    and w1: "rsbp_header_write mem_io env (r1\<lparr>ri_log_hdr := (ri_log_hdr r1)\<lparr>rlh_seqno := rlh_seqno (ri_log_hdr r1) + 1\<rparr>\<rparr>)
      = Some (0, r2)" and ri': "ri' = r2\<lparr>ri_log_hdr := (ri_log_hdr r2)\<lparr>rlh_seqno := rlh_seqno (ri_log_hdr r2) + 1\<rparr>\<rparr>"
    by (elim initialize_headers_loop_SucE) auto
  have h1: "ri_log_hdr r1 = ?h0"
    using header_write_only [OF w0] by (auto elim!: backend_onlyE)
  have h2: "ri_log_hdr r2 = ?h0\<lparr>rlh_seqno := 1\<rparr>"
    using header_write_only [OF w1] by (auto elim!: backend_onlyE simp: h1 zero_rlh_def)
  show "rlh_version (ri_log_hdr ri') = 0"
    by (simp add: ri' h2 zero_rlh_def)
  obtain rip1 where r1: "ri_backend_arg r1 = Some rip1"
    and l1: "length (rip_fd rip1) = RAFT_ENTRY_HEADER_RESERVE + sizeof_raft_log_header"
    using mem_header_write_length [OF w0, of rip] assms(2,3) by (auto simp: zero_rlh_def off)
  have "\<exists>rip2. ri_backend_arg r2 = Some rip2 \<and> length (rip_fd rip2) = max (length (rip_fd rip1))
      (RAFT_ENTRY_SIZE_POSIX + RAFT_ENTRY_HEADER_RESERVE + sizeof_raft_log_header)"
    using mem_header_write_length [OF w1, of rip1] r1 by (simp add: h1 zero_rlh_def off)
  then show "\<exists>rip'. ri_backend_arg ri' = Some rip' \<and>
     length (rip_fd rip') = RAFT_ENTRY_SIZE_POSIX + RAFT_ENTRY_HEADER_RESERVE + sizeof_raft_log_header"
    using l1 by (auto simp: ri')
qed

lemma mem_new_file_setup:
  fixes ri :: "u8 list posix_instance"
  assumes "ri_backend_arg ri = None" and "ri_store_type ri = RAFT_INSTANCE_STORE_POSIX_FLAT_FILE"
    and "rlh_version (ri_log_hdr ri) = 0" and "env_realtime env div 1000000000 < 2 ^ 64"
  obtains rip h where "rsbp_setup mem_io env [] (Inr []) ri = Some (0, ri\<lparr>ri_log_hdr := h,
      ri_max_entry_size := RAFT_ENTRY_SIZE_POSIX, ri_db_uuid := ri_csn_this_peer ri,
      ri_backend_arg := Some rip, ri_entries_detected_at_startup := 0\<rparr>)"
    and "disk_hdr_ok env (\<lambda>f. f) (ri\<lparr>ri_backend_arg := Some rip,
      ri_log_hdr := zero_rlh\<lparr>rlh_magic := RAFT_HEADER_MAGIC, rlh_seqno := 1\<rparr>\<rparr>)" and "rlh_version h = 0"
proof -
  let ?r = "ri\<lparr>ri_max_entry_size := RAFT_ENTRY_SIZE_POSIX,
    ri_backend_arg := Some \<lparr>rip_stb_size = 0, rip_fd = []\<rparr>\<rparr>"
  have "posix_ready ?r" using assms by (simp add: posix_ready_def)
  then obtain rip h where i: "rsbp_setup_initialize_headers mem_io env ?r
      = Some (0, ?r\<lparr>ri_backend_arg := Some rip, ri_log_hdr := h\<rparr>)"
    using new_log_file [OF _ healthy_mem_io] by blast
  have l: "length (rip_fd rip) = RAFT_ENTRY_SIZE_POSIX + RAFT_ENTRY_HEADER_RESERVE + sizeof_raft_log_header"
    and v: "rlh_version h = 0"
    using mem_new_file_length [OF i] by simp_all
  have d: "disk_hdr_ok env (\<lambda>f. f) (ri\<lparr>ri_backend_arg := Some (rip\<lparr>rip_stb_size := length (rip_fd rip)\<rparr>),
      ri_log_hdr := zero_rlh\<lparr>rlh_magic := RAFT_HEADER_MAGIC, rlh_seqno := 1\<rparr>\<rparr>)"
    using mem.initialize_headers_ok [OF i assms(4)] by (simp add: disk_hdr_ok_def)
  have stat: "posix_fstat mem_io f = Inr (length f)" for f
    by (simp add: mem_io_def)
  have "rsbp_setup mem_io env [] (Inr []) ri = Some (0, ri\<lparr>ri_log_hdr := h,
      ri_max_entry_size := RAFT_ENTRY_SIZE_POSIX, ri_db_uuid := ri_csn_this_peer ri,
      ri_backend_arg := Some (rip\<lparr>rip_stb_size := length (rip_fd rip)\<rparr>), ri_entries_detected_at_startup := 0\<rparr>)"
    using assms(1,2) i
    by (simp add: rsbp_setup_def rsbp_log_file_setup_def rsbp_stat_log_fd_def rsbp_ri_to_rip_def set_fd_def stat
        rsbp_ri_to_log_sz_def rsbp_num_entries_calc_def rsbr_get_num_log_headers_def NUM_RAFT_LOG_HEADERS_def l
        rsbp_set_db_uuid_def RAFT_ENTRY_SIZE_POSIX_def RAFT_ENTRY_HEADER_RESERVE_def sizeof_raft_log_header_def v)
  then show ?thesis
    using that d v by blast
qed

lemma mem_empty_log_load:
  fixes ri :: "u8 list posix_instance"
  assumes "posix_ready ri" and "disk_hdr_ok env (\<lambda>f. f) (ri\<lparr>ri_log_hdr := h\<rparr>)"
    and "ri_entries_detected_at_startup ri = 0" and "ri_newest_entry_hdr ri = (\<lambda>_. null_reh)"
    and "\<not> raft_instance_is_client ri" and "rlh_version h = 0"
  shows "\<exists>rip. raft_server_log_load (raft_server_backend_use_posix mem_io env) ri
     = Some (0, ri\<lparr>ri_log_hdr := h, ri_backend_arg := Some rip\<rparr>)"
proof -
  have load: "rsbp_header_load mem_io env ri = Some (0, ri\<lparr>ri_log_hdr := h\<rparr>)"
    using mem.disk_hdr_load [OF assms(2) _ mem_io_read_ok, of ri] assms(1) by (simp add: posix_ready_def)
  have r: "posix_ready (ri\<lparr>ri_log_hdr := h\<rparr>)"
    using assms(1,6) by (simp add: posix_ready_def)
  have idx: "raft_server_get_current_raft_entry_index (ri\<lparr>ri_log_hdr := h\<rparr>) RI_NEHDR_SYNC = Some (-1)"
    using assms(4,5) current_idx_ok [of "ri\<lparr>ri_log_hdr := h\<rparr>" RI_NEHDR_SYNC]
    by (simp add: hdr_ok_def raft_instance_is_client_def)
  obtain rip where "rsbp_log_truncate mem_io (ri\<lparr>ri_log_hdr := h\<rparr>) 0 = Some (ri\<lparr>ri_log_hdr := h, ri_backend_arg := Some rip\<rparr>)"
    using truncate_succeeds [OF r healthy_mem_io, of "-1"] by auto
  then show ?thesis
    using load idx assms(3)
    by (auto simp: raft_server_log_load_def raft_server_header_load_def ribPosix_def raft_server_entries_scan_def
        raft_server_log_truncate_def)
qed

lemma demo_init:
  "\<exists>ri1. raft_server_instance_init demo_platform None RAFT_INSTANCE_STORE_POSIX_FLAT_FILE ''raft'' ''peer1'' 1
      (demo_boot []) = Some ri1 \<and> ri_raft_uuid_str ri1 = ''raft'' \<and> ri_this_peer_uuid_str ri1 = ''peer1'' \<and>
     ri_store_type ri1 = RAFT_INSTANCE_STORE_POSIX_FLAT_FILE \<and> ri_synchronous_writes ri1 \<and> ri_timer_fd_cb ri1 \<and>
     ri_backend_arg ri1 = None \<and> ri_log_hdr ri1 = zero_rlh \<and> ri_ignore_timerfd ri1 = False \<and>
     ri_election_timeout_max_ms ri1 = 300 \<and> ri_heartbeat_freq_per_election_min ri1 = 10"
  by (simp add: raft_server_instance_init_def demo_boot_def raft_instance_is_booting_def Let_def
      raft_server_instance_restore_init_values_def zero_instance_def raft_server_instance_init_tunables_def)

lemma demo_buffers: "0 < ri_max_entry_size ri \<Longrightarrow> raft_server_instance_buffer_set_setup demo_platform ri
    = Some (0, [(0, RAFT_BS_SMALL_SZ * (RAFT_ENTRY_NUM_ENTRIES + 1)), (RAFT_BS_SMALL_SZ * (RAFT_ENTRY_NUM_ENTRIES + 1),
        RAFT_BS_LARGE_SZ * 2), (RAFT_BS_SMALL_SZ * (RAFT_ENTRY_NUM_ENTRIES + 1) + RAFT_BS_LARGE_SZ * 2,
        RAFT_BS_APPLY_SZ * RAFT_BS_APPLY_NBUF)])"
  by (simp add: raft_server_instance_buffer_set_setup_def buff_sets_def demo_platform_def Let_def)

lemma demo_startup:
  fixes ri :: "u8 list posix_instance"
  assumes "ri_raft_uuid_str ri = ''raft''" and "ri_this_peer_uuid_str ri = ''peer1''"
    and "ri_store_type ri = RAFT_INSTANCE_STORE_POSIX_FLAT_FILE" and "ri_synchronous_writes ri" and "ri_timer_fd_cb ri"
    and "ri_backend_arg ri = None" and "ri_log_hdr ri = zero_rlh"
  obtains ri' where "raft_net_instance_startup (demo_env mem_io) demo_platform ri = Some (0, ri')"
    and "raft_instance_is_running ri'" and "ri_ignore_timerfd ri' = ri_ignore_timerfd ri"
    and "ri_election_timeout_max_ms ri' = ri_election_timeout_max_ms ri"
    and "ri_heartbeat_freq_per_election_min ri' = ri_heartbeat_freq_per_election_min ri"
proof -
  let ?r = "ri\<lparr>ri_csn_raft := 100, ri_csn_this_peer := 1, ri_csn_raft_peers := [1, 2, 3], ri_state := RAFT_STATE__NONE,
    ri_proc_state := RAFT_PROC_STATE_BOOTING, ri_newest_entry_hdr := (\<lambda>_. null_reh), ri_log := ''/store''\<rparr>"
  let ?h = "zero_rlh\<lparr>rlh_magic := RAFT_HEADER_MAGIC, rlh_seqno := 1\<rparr>"
  obtain rip h where su: "rsbp_setup mem_io demo_base [] (Inr []) ?r = Some (0, ?r\<lparr>ri_log_hdr := h,
      ri_max_entry_size := RAFT_ENTRY_SIZE_POSIX, ri_db_uuid := 1,
      ri_backend_arg := Some rip, ri_entries_detected_at_startup := 0\<rparr>)"
    and d: "disk_hdr_ok demo_base (\<lambda>f. f) (?r\<lparr>ri_backend_arg := Some rip, ri_log_hdr := ?h\<rparr>)"
    and v: "rlh_version h = 0"
    by (rule mem_new_file_setup [of ?r demo_base]) (use assms in \<open>simp_all add: zero_rlh_def\<close>)
  let ?r1 = "?r\<lparr>ri_log_hdr := h, ri_max_entry_size := RAFT_ENTRY_SIZE_POSIX, ri_db_uuid := 1,
      ri_backend_arg := Some rip, ri_entries_detected_at_startup := 0, ri_lreg_registered := True\<rparr>"
  obtain rip' where ld: "raft_server_log_load (demo_env mem_io) ?r1
      = Some (0, ?r1\<lparr>ri_log_hdr := ?h, ri_backend_arg := Some rip'\<rparr>)"
    using mem_empty_log_load [of ?r1 demo_base ?h] d assms v
    by (auto simp: posix_ready_def disk_hdr_ok_def raft_instance_is_client_def zero_rlh_def demo_env_def)
  let ?r2 = "?r1\<lparr>ri_log_hdr := ?h, ri_backend_arg := Some rip'\<rparr>"
  let ?r0 = "?r\<lparr>ri_log_hdr := h, ri_max_entry_size := RAFT_ENTRY_SIZE_POSIX, ri_db_uuid := 1,
      ri_backend_arg := Some rip, ri_entries_detected_at_startup := 0\<rparr>"
  have steps: "startup_steps (demo_env mem_io) demo_platform ?r0 = Some (0, ?r2)"
    using ld assms
    by (simp add: startup_steps_def demo_buffers RAFT_ENTRY_SIZE_POSIX_def raft_server_instance_lreg_init_def Let_def
        raft_server_evp_setup_def raft_instance_is_client_def server_evps_def raft_server_does_synchronous_writes_def ribPosix_def)
  let ?c = "ri\<lparr>ri_csn_raft := 100, ri_csn_this_peer := 1, ri_csn_raft_peers := [1, 2, 3],
    ri_state := RAFT_STATE__NONE, ri_proc_state := RAFT_PROC_STATE_BOOTING\<rparr>"
  have bs: "raft_server_backend_setup demo_platform (raft_instance_initialize_newest_entry_hdr ?c) = Some (0, ?r0)"
    using su
    by (simp add: raft_server_backend_setup_def raft_server_log_file_name_setup_def PATH_MAX_def
        raft_instance_initialize_newest_entry_hdr_def RAFT_ENTRY_SIZE_POSIX_def RAFT_ENTRY_SIZE_MIN_def)
  have start: "raft_server_instance_startup (demo_env mem_io) demo_platform ?c = Some (0, ?r2)"
    using bs steps assms by (simp add: raft_server_instance_startup_def raft_instance_is_booting_def Let_def)
  have conf: "raft_net_conf_init (demo_env mem_io) demo_platform
      (ri\<lparr>ri_state := RAFT_STATE__NONE, ri_proc_state := RAFT_PROC_STATE_BOOTING\<rparr>) = (0, ?c)"
    using assms by (simp add: raft_net_conf_init_def Let_def)
  have "raft_net_instance_startup (demo_env mem_io) demo_platform ri = Some (0, ?r2\<lparr>ri_proc_state := RAFT_PROC_STATE_RUNNING\<rparr>)"
    using start by (simp add: raft_net_instance_startup_def conf Let_def del: raft_instance.update_convs)
  then show ?thesis
    by (rule that) (simp_all add: raft_instance_is_running_def)
qed


section \<open>Timing values\<close>

lemma instance_init_tunables:
  assumes "raft_server_instance_init sp null type raft peer opts ri = Some ri'" and "tunables_ok ri"
  shows "tunables_set ri'"
proof -
  let ?e = "if ri_election_timeout_max_ms ri = 0 then RAFT_ELECTION_UPPER_TIME_MS else ri_election_timeout_max_ms ri"
  let ?h = "if ri_heartbeat_freq_per_election_min ri = 0 then RAFT_HEARTBEAT_FREQ_PER_ELECTION
     else ri_heartbeat_freq_per_election_min ri"
  let ?P = "\<lambda>r. ri_election_timeout_max_ms r = ?e \<and> ri_heartbeat_freq_per_election_min r = ?h"
  have tun: "wp (raft_server_instance_init_tunables x) ?P" if "?P x" for x :: "'b raft_instance"
    using that unfolding raft_server_instance_init_tunables_def raft_server_instance_init_rocksdb_persistent_app_def
    by (simp add: wp_simps Let_def raft_server_set_max_scan_entries_def raft_server_set_log_reap_factor_def
        raft_server_set_num_checkpoints_def)
  have upd: "?P (x\<lparr>ri_timer_fd_cb := b\<rparr>) = ?P x" for x :: "'b raft_instance" and b
    by simp
  have "wp (raft_server_instance_init sp null type raft peer opts ri) ?P"
    unfolding raft_server_instance_init_def Let_def wp_bind wp_assert wp_Some upd
    by (intro impI tun) (simp add: raft_server_instance_restore_init_values_def)
  from wpD [OF this assms(1)] show ?thesis
    using assms(2) by (auto simp: tunables_set_def tunables_ok_def tunable_limits split: if_splits)
qed

lemma timing_bounds:
  assumes "tunables_set ri"
  shows "\<exists>e h. raft_election_timeout_calc env ri = Some e \<and> raft_heartbeat_timeout_msec ri = Some h \<and>
     RAFT_HEARTBEAT__MIN_TIME_MS \<le> h \<and> h \<le> e \<and> e < RAFT_ELECTION__MAX_TIME_MS"
proof -
  let ?m = "ri_election_timeout_max_ms ri" and ?f = "ri_heartbeat_freq_per_election_min ri"
  have m: "100 \<le> ?m" "?m \<le> 100000" "2 \<le> ?f" "?f * 10 \<le> ?m"
    using assms by (auto simp: tunables_set_def tunables_ok_def tunable_limits)
  have "10 \<le> ?m div ?f" using m by (metis less_eq_div_iff_mult_less_eq mult.commute not_numeral_le_zero not_gr0)
  moreover have "?m div ?f \<le> ?m div 2" using m by (intro div_le_mono2) simp_all
  moreover have "env_random env mod (?m div 2) < ?m div 2" using m by simp
  moreover from this have "?m div 2 + env_random env mod (?m div 2) < 100000" using m by linarith
  ultimately show ?thesis
    using heartbeat_timeout_ok [OF assms] m
    by (simp add: raft_election_timeout_calc_def raft_election_timeout_lower_bound_def Let_def tunable_limits)
qed

text \<open>
  C29. The timers of a server never trap. Whatever was written to the timing tunables before the
  instance was initialised, and whatever is written while it runs, both timeouts are defined: the
  division by the heartbeat frequency and the modulus of the election timeout are not by zero, the
  assertion on the heartbeat holds, and a leader's heartbeat interval is at least 10 ms and never
  longer than an election timeout that the same values give, which is below the maximum.
\<close>

theorem timing_never_traps:
  assumes "ri_election_timeout_max_ms ri0 = 0" and "ri_heartbeat_freq_per_election_min ri0 = 0"
    and "raft_server_instance_init sp null type raft peer opts (fold (tunable_write_apply parse) ws ri0) = Some ri1"
  shows "\<exists>e h. raft_election_timeout_calc env (fold (tunable_write_apply parse) ws' ri1) = Some e \<and>
     raft_heartbeat_timeout_msec (fold (tunable_write_apply parse) ws' ri1) = Some h \<and>
     RAFT_HEARTBEAT__MIN_TIME_MS \<le> h \<and> h \<le> e \<and> e < RAFT_ELECTION__MAX_TIME_MS"
proof -
  have "tunables_ok ri0" using assms(1,2) by (simp add: tunables_ok_def)
  from instance_init_tunables [OF assms(3) tunable_writes_ok(1) [OF this]]
  show ?thesis by (intro timing_bounds tunable_writes_ok(2))
qed

lemma init_succeeds:
  assumes "raft_instance_is_booting ri" and "\<not> sp_lreg_installed sp" and "\<not> ri_lreg_registered ri"
  shows "\<exists>ri'. raft_server_instance_init sp null RAFT_INSTANCE_STORE_POSIX_FLAT_FILE raft peer opts ri = Some ri'"
  using assms
  by (simp add: raft_server_instance_init_def Let_def raft_server_instance_init_tunables_def raft_instance_is_booting_def
      raft_server_instance_restore_init_values_def)

theorem timing_never_traps_witness:
  "\<exists>ri1. raft_server_instance_init demo_platform None RAFT_INSTANCE_STORE_POSIX_FLAT_FILE ''raft'' ''peer1'' 1
      (fold (tunable_write_apply (\<lambda>_. Inr 250)) [Set_election (LREG_VAL_STRING ''250'')]
        (demo_boot []\<lparr>ri_election_timeout_max_ms := 0, ri_heartbeat_freq_per_election_min := 0\<rparr>)) = Some ri1 \<and>
     (\<exists>e h. raft_election_timeout_calc (demo_env mem_io) ri1 = Some e \<and> raft_heartbeat_timeout_msec ri1 = Some h \<and> h \<le> e)"
proof -
  let ?r = "demo_boot []\<lparr>ri_election_timeout_max_ms := 0, ri_heartbeat_freq_per_election_min := 0\<rparr>"
  let ?w = "[Set_election (LREG_VAL_STRING ''250'')]"
  obtain ri1 where i: "raft_server_instance_init demo_platform None RAFT_INSTANCE_STORE_POSIX_FLAT_FILE ''raft'' ''peer1'' 1
      (fold (tunable_write_apply (\<lambda>_. Inr 250)) ?w ?r) = Some ri1"
    using init_succeeds [of "fold (tunable_write_apply (\<lambda>_. Inr 250)) ?w ?r" demo_platform]
    by (fastforce simp: demo_boot_def raft_instance_is_booting_def raft_net_lreg_set_election_timeout_def
      parse_or_default_def is_default_def tunable_limits raft_net_set_heartbeat_freq_def)
  show ?thesis
    using timing_never_traps [OF _ _ i, where ws' = "[]" and env = "demo_env mem_io"] i by fastforce
qed

section \<open>An unfinished recovery\<close>

lemma init_not_booting:
  "\<not> raft_instance_is_booting ri \<Longrightarrow> raft_server_instance_init sp null type raft peer opts ri = None"
  by (simp add: raft_server_instance_init_def)

lemma shutdown_proc_state:
  assumes "raft_server_instance_shutdown env sp ri = Some (rc, ri')"
    and "\<And>r rc r'. sp_backend_shutdown sp r = Some (rc, r') \<Longrightarrow> ri_proc_state r' = ri_proc_state r"
  shows "ri_proc_state ri' = RAFT_PROC_STATE_SHUTDOWN"
proof -
  have close: "wp (raft_server_backend_close sp x) (\<lambda>(rc, r). ri_proc_state r = RAFT_PROC_STATE_SHUTDOWN)"
    if "ri_proc_state x = RAFT_PROC_STATE_SHUTDOWN" for x
    using that assms(2) [of x] by (auto simp: raft_server_backend_close_def raft_instance_is_shutdown_def wp_simps intro!: wpI)
  have "wp (raft_server_instance_shutdown env sp ri) (\<lambda>(rc, r). ri_proc_state r = RAFT_PROC_STATE_SHUTDOWN)"
    unfolding raft_server_instance_shutdown_def raft_server_lreg_node_removal_wait_def
    by (auto simp: wp_simps Let_def intro!: wpI [of "raft_server_chkpt_thread_join _ _ _"]
        wpI [of "raft_server_sync_thread_join _ _"] wp_call2 [OF close])
  from wpD [OF this assms(1)] show ?thesis by simp
qed

lemma pass_not_booting:
  assumes "\<not> raft_instance_is_booting ri"
  shows "instance_run_pass env sp null type raft peer opts main_loop chkpt tries ri = None \<or>
     (\<exists>ri'. instance_run_pass env sp null type raft peer opts main_loop chkpt tries ri
          = Some (True, 0, RAFT_SERVER_RECOVERY_ATTEMPTS, ri') \<and>
        \<not> raft_instance_is_booting ri' \<and> \<not> ri_needs_bulk_recovery ri' \<and> ri_needs_bulk_recovery ri)"
proof (cases "run_recovery sp ri")
  case (Some p)
  obtain rc again ri' where p: "p = (rc, again, ri')" by (cases p)
  have "\<not> raft_instance_is_booting ri'" "again \<longrightarrow> \<not> ri_needs_bulk_recovery ri' \<and> ri_needs_bulk_recovery ri"
    using Some assms
    by (auto simp: p run_recovery_def raft_server_bulk_recovery_def Let_def bind_Some raft_instance_is_booting_def split: if_splits)
  then show ?thesis
    using Some by (auto simp: instance_run_pass_def p init_not_booting)
qed (simp add: instance_run_pass_def)

lemma run_not_booting:
  assumes "\<not> raft_instance_is_booting ri"
  shows "raft_server_instance_run (Suc (Suc n)) env sp null type raft peer opts main_loop chkpt tries ri = Some None"
proof -
  have last: "raft_server_instance_run (Suc n) env sp null type raft peer opts main_loop chkpt t r = Some None"
    if "\<not> raft_instance_is_booting r" "\<not> ri_needs_bulk_recovery r" for r t
    using pass_not_booting [OF that(1), of env sp null type raft peer opts main_loop chkpt t] that(2) by auto
  show ?thesis
    using pass_not_booting [OF assms, of env sp null type raft peer opts main_loop chkpt tries] last
    by auto
qed



end
