(* ===== verification/Raft_Keys.thy ===== *)
theory Raft_Keys
  imports Raft_Prelude "HOL-Library.List_Lexorder"
begin

text \<open>
  The keys of the key-value backend (\<open>raft_server_backend_rocksdb.c\<close>). RocksDB orders keys bytewise,
  a proper prefix first; the backend relies on this order to walk and cut the log, so the order of
  the entry keys has to be the order of the indices.
\<close>

section \<open>Formats\<close>

definition bytes_of :: "string \<Rightarrow> u8 list" where
  "bytes_of s = map of_char s"

text \<open>\<open>%zu\<close>, and \<open>%016zu\<close>, which pads with zeros to at least 16 digits.\<close>

fun dec_digits :: "nat \<Rightarrow> u8 list" where
  "dec_digits n = (if n < 10 then [48 + of_nat n] else dec_digits (n div 10) @ [48 + of_nat (n mod 10)])"

declare dec_digits.simps [simp del]

definition zero_padded :: "nat \<Rightarrow> nat \<Rightarrow> u8 list" where
  "zero_padded w n = (let ds = dec_digits n in replicate (w - length ds) 48 @ ds)"

text \<open>An index is printed as a \<open>size_t\<close>.\<close>

definition idx_digits :: "int \<Rightarrow> u8 list" where
  "idx_digits i = zero_padded 16 (nat (i mod 2 ^ 64))"

definition RAFT_ENTRY_KEY_PREFIX_ROCKSDB :: "u8 list" where
  "RAFT_ENTRY_KEY_PREFIX_ROCKSDB = bytes_of ''e0.''"

definition RAFT_ENTRY_KEY_PRINTF :: "int \<Rightarrow> u8 list" where
  "RAFT_ENTRY_KEY_PRINTF i = RAFT_ENTRY_KEY_PREFIX_ROCKSDB @ idx_digits i @ bytes_of ''e''"

definition RAFT_ENTRY_HEADER_KEY_PRINTF :: "int \<Rightarrow> u8 list" where
  "RAFT_ENTRY_HEADER_KEY_PRINTF i = RAFT_ENTRY_KEY_PREFIX_ROCKSDB @ idx_digits i @ bytes_of ''h''"

definition RAFT_LOG_HEADER_ROCKSDB :: "u8 list" where
  "RAFT_LOG_HEADER_ROCKSDB = bytes_of ''a0_hdr.''"

definition RAFT_LOG_HEADER_ROCKSDB_END :: "u8 list" where
  "RAFT_LOG_HEADER_ROCKSDB_END = bytes_of ''a1_hdr.''"

definition RAFT_LOG_LASTENTRY_ROCKSDB :: "u8 list" where
  "RAFT_LOG_LASTENTRY_ROCKSDB = bytes_of ''z0_last.''"

definition RAFT_LOG_HEADER_FMT :: "string \<Rightarrow> string \<Rightarrow> u8 list" where
  "RAFT_LOG_HEADER_FMT raft peer = RAFT_LOG_HEADER_ROCKSDB @ bytes_of (raft @ ''__'' @ peer)"

definition RAFT_LOG_LASTENTRY_FMT :: "string \<Rightarrow> string \<Rightarrow> u8 list" where
  "RAFT_LOG_LASTENTRY_FMT raft peer = RAFT_LOG_LASTENTRY_ROCKSDB @ bytes_of (raft @ ''__'' @ peer)"

definition RAFT_LOG_HEADER_ROCKSDB_LAST_SYNC :: "u8 list" where
  "RAFT_LOG_HEADER_ROCKSDB_LAST_SYNC = RAFT_LOG_HEADER_ROCKSDB_END @ bytes_of ''last_sync''"

definition RAFT_LOG_HEADER_LAST_APPLIED_ROCKSDB :: "u8 list" where
  "RAFT_LOG_HEADER_LAST_APPLIED_ROCKSDB = RAFT_LOG_HEADER_ROCKSDB_END @ bytes_of ''last_applied''"

definition RAFT_LOG_HEADER_UUID :: "u8 list" where
  "RAFT_LOG_HEADER_UUID = RAFT_LOG_HEADER_ROCKSDB_END @ bytes_of ''UUID''"

definition RAFT_LOG_HEADER_UUID_PRE_RECOVERY :: "u8 list" where
  "RAFT_LOG_HEADER_UUID_PRE_RECOVERY = RAFT_LOG_HEADER_UUID @ bytes_of ''.pre-recovery''"

text \<open>\<open>strtoull\<close> on the rest of a key: the number its leading digits write, at most \<open>ULLONG_MAX\<close>.\<close>

definition is_digit :: "u8 \<Rightarrow> bool" where "is_digit b \<longleftrightarrow> 48 \<le> b \<and> b \<le> 57"

definition strtoull :: "u8 list \<Rightarrow> nat" where
  "strtoull bs = min (2 ^ 64 - 1) (foldl (\<lambda>n b. 10 * n + unat (b - 48)) 0 (takeWhile is_digit bs))"

section \<open>Digits of a fixed number\<close>

fun fixed_digits :: "nat \<Rightarrow> nat \<Rightarrow> u8 list" where
  "fixed_digits 0 n = []"
| "fixed_digits (Suc w) n = fixed_digits w (n div 10) @ [48 + of_nat (n mod 10)]"

lemma length_fixed_digits [simp]: "length (fixed_digits w n) = w"
  by (induction w arbitrary: n) simp_all

lemma fixed_digits_zero: "fixed_digits w 0 = replicate w 48"
  by (induction w) (simp_all add: replicate_append_same)

lemma length_dec_digits: "n < 10 ^ w \<Longrightarrow> 0 < w \<Longrightarrow> length (dec_digits n) \<le> w"
proof (induction w arbitrary: n)
  case (Suc w)
  show ?case
  proof (cases "n < 10")
    case True
    then show ?thesis by (simp add: dec_digits.simps [of n])
  next
    case False
    then have "n div 10 < 10 ^ w" "0 < w"
      using Suc.prems(1) by (simp_all add: less_mult_imp_div_less mult.commute) (cases w, simp_all)
    then show ?thesis
      using Suc.IH False by (simp add: dec_digits.simps [of n])
  qed
qed simp

lemma dec_digits_ne [simp]: "dec_digits n \<noteq> []"
  by (simp add: dec_digits.simps [of n])

lemma zero_padded_fixed: "n < 10 ^ w \<Longrightarrow> 0 < w \<Longrightarrow> zero_padded w n = fixed_digits w n"
proof (induction w arbitrary: n)
  case (Suc w)
  show ?case
  proof (cases "n < 10")
    case True
    then show ?thesis
      by (simp add: zero_padded_def dec_digits.simps [of n] fixed_digits_zero)
  next
    case False
    then have n: "n div 10 < 10 ^ w" "0 < w"
      using Suc.prems(1) by (simp_all add: less_mult_imp_div_less mult.commute) (cases w, simp_all)
    then have "zero_padded w (n div 10) = fixed_digits w (n div 10)"
      by (rule Suc.IH)
    then show ?thesis
      using False by (simp add: zero_padded_def Let_def dec_digits.simps [of n])
  qed
qed simp

text \<open>Lists of one length compare as their starts do, then as their last elements.\<close>

lemma append_same_length_less:
  fixes xs ys :: "'a::linorder list"
  assumes "length xs = length ys"
  shows "xs @ us < ys @ vs \<longleftrightarrow> xs < ys \<or> xs = ys \<and> us < vs"
  using assms by (induction xs ys rule: list_induct2) auto

lemma digit_less: "m < 10 \<Longrightarrow> n < 10 \<Longrightarrow> (48 + of_nat m :: u8) < 48 + of_nat n \<longleftrightarrow> m < n"
  by (simp add: word_less_nat_alt unat_word_ariths unat_of_nat take_bit_nat_eq_self)

lemma digit_eq: "m < 10 \<Longrightarrow> n < 10 \<Longrightarrow> (48 + of_nat m :: u8) = 48 + of_nat n \<longleftrightarrow> m = n"
  by (metis digit_less less_irrefl linorder_less_linear)

lemma fixed_digits_less:
  "m < 10 ^ w \<Longrightarrow> n < 10 ^ w \<Longrightarrow> fixed_digits w m < fixed_digits w n \<longleftrightarrow> m < n"
proof (induction w arbitrary: m n)
  case (Suc w)
  have IH: "fixed_digits w (m div 10) < fixed_digits w (n div 10) \<longleftrightarrow> m div 10 < n div 10"
    "fixed_digits w (n div 10) < fixed_digits w (m div 10) \<longleftrightarrow> n div 10 < m div 10"
    using Suc by (simp_all add: less_mult_imp_div_less mult.commute)
  then have eq: "fixed_digits w (m div 10) = fixed_digits w (n div 10) \<longleftrightarrow> m div 10 = n div 10"
    by (cases "m div 10" "n div 10" rule: linorder_cases) auto
  have "m < n \<longleftrightarrow> m div 10 < n div 10 \<or> m div 10 = n div 10 \<and> m mod 10 < n mod 10"
    using mult_div_mod_eq [of 10 m] mult_div_mod_eq [of 10 n] mod_less_divisor [of 10 m] mod_less_divisor [of 10 n]
    by linarith
  then show ?case
    by (simp add: append_same_length_less IH eq digit_less)
qed simp

lemma fixed_digits_eq:
  "m < 10 ^ w \<Longrightarrow> n < 10 ^ w \<Longrightarrow> fixed_digits w m = fixed_digits w n \<longleftrightarrow> m = n"
  using fixed_digits_less [of m w n] fixed_digits_less [of n w m]
  by (cases m n rule: linorder_cases) auto

section \<open>The order of the entry keys\<close>

text \<open>The indices whose keys have exactly 16 digits.\<close>

definition key_idx :: "int \<Rightarrow> bool" where "key_idx i \<longleftrightarrow> 0 \<le> i \<and> i < 10 ^ 16"

lemma key_idx_digits: "key_idx i \<Longrightarrow> idx_digits i = fixed_digits 16 (nat i)"
  by (simp add: idx_digits_def key_idx_def zero_padded_fixed nat_less_iff)

lemma entry_keys_less:
  assumes "key_idx i" and "key_idx j"
  shows "RAFT_ENTRY_KEY_PRINTF i < RAFT_ENTRY_KEY_PRINTF j \<longleftrightarrow> i < j"
    and "RAFT_ENTRY_HEADER_KEY_PRINTF i < RAFT_ENTRY_HEADER_KEY_PRINTF j \<longleftrightarrow> i < j"
    and "RAFT_ENTRY_HEADER_KEY_PRINTF i < RAFT_ENTRY_KEY_PRINTF j \<longleftrightarrow> i < j"
    and "RAFT_ENTRY_KEY_PRINTF i < RAFT_ENTRY_HEADER_KEY_PRINTF j \<longleftrightarrow> i \<le> j"
proof -
  have lt: "fixed_digits 16 (nat i) < fixed_digits 16 (nat j) \<longleftrightarrow> i < j"
    using assms fixed_digits_less [of "nat i" 16 "nat j"] by (auto simp: key_idx_def nat_less_iff)
  have eq: "fixed_digits 16 (nat i) = fixed_digits 16 (nat j) \<longleftrightarrow> i = j"
    using assms fixed_digits_eq [of "nat i" 16 "nat j"] by (auto simp: key_idx_def nat_less_iff)
  show "RAFT_ENTRY_KEY_PRINTF i < RAFT_ENTRY_KEY_PRINTF j \<longleftrightarrow> i < j"
    "RAFT_ENTRY_HEADER_KEY_PRINTF i < RAFT_ENTRY_HEADER_KEY_PRINTF j \<longleftrightarrow> i < j"
    "RAFT_ENTRY_HEADER_KEY_PRINTF i < RAFT_ENTRY_KEY_PRINTF j \<longleftrightarrow> i < j"
    "RAFT_ENTRY_KEY_PRINTF i < RAFT_ENTRY_HEADER_KEY_PRINTF j \<longleftrightarrow> i \<le> j"
    using assms lt eq
    by (auto simp: RAFT_ENTRY_KEY_PRINTF_def RAFT_ENTRY_HEADER_KEY_PRINTF_def key_idx_digits
        append_same_length_less bytes_of_def)
qed

lemmas key_formats =
  RAFT_ENTRY_KEY_PRINTF_def RAFT_ENTRY_HEADER_KEY_PRINTF_def RAFT_ENTRY_KEY_PREFIX_ROCKSDB_def
  RAFT_LOG_HEADER_ROCKSDB_def RAFT_LOG_HEADER_ROCKSDB_END_def RAFT_LOG_LASTENTRY_ROCKSDB_def
  RAFT_LOG_HEADER_FMT_def RAFT_LOG_LASTENTRY_FMT_def RAFT_LOG_HEADER_ROCKSDB_LAST_SYNC_def
  RAFT_LOG_HEADER_LAST_APPLIED_ROCKSDB_def RAFT_LOG_HEADER_UUID_def RAFT_LOG_HEADER_UUID_PRE_RECOVERY_def

text \<open>The log lies between the \<open>a1_hdr.\<close> and the \<open>z0_last.\<close> keys.\<close>

lemma entry_keys_between:
  "RAFT_LOG_HEADER_ROCKSDB_END @ k < RAFT_ENTRY_KEY_PRINTF i"
  "RAFT_LOG_HEADER_ROCKSDB_END @ k < RAFT_ENTRY_HEADER_KEY_PRINTF i"
  "RAFT_ENTRY_KEY_PRINTF i < RAFT_LOG_LASTENTRY_ROCKSDB @ k"
  "RAFT_ENTRY_HEADER_KEY_PRINTF i < RAFT_LOG_LASTENTRY_ROCKSDB @ k"
  "RAFT_ENTRY_KEY_PRINTF i < RAFT_LOG_LASTENTRY_ROCKSDB"
  "RAFT_ENTRY_HEADER_KEY_PRINTF i < RAFT_LOG_LASTENTRY_ROCKSDB"
  by (simp_all add: key_formats bytes_of_def)

lemma entry_keys_eq:
  assumes "key_idx i" and "key_idx j"
  shows "RAFT_ENTRY_KEY_PRINTF i = RAFT_ENTRY_KEY_PRINTF j \<longleftrightarrow> i = j"
    and "RAFT_ENTRY_HEADER_KEY_PRINTF i = RAFT_ENTRY_HEADER_KEY_PRINTF j \<longleftrightarrow> i = j"
proof -
  have "fixed_digits 16 (nat i) = fixed_digits 16 (nat j) \<longleftrightarrow> i = j"
    using assms fixed_digits_eq [of "nat i" 16 "nat j"] by (auto simp: key_idx_def nat_less_iff)
  then show "RAFT_ENTRY_KEY_PRINTF i = RAFT_ENTRY_KEY_PRINTF j \<longleftrightarrow> i = j"
    "RAFT_ENTRY_HEADER_KEY_PRINTF i = RAFT_ENTRY_HEADER_KEY_PRINTF j \<longleftrightarrow> i = j"
    using assms by (simp_all add: RAFT_ENTRY_KEY_PRINTF_def RAFT_ENTRY_HEADER_KEY_PRINTF_def key_idx_digits)
qed

lemma entry_key_kinds:
  "RAFT_ENTRY_KEY_PRINTF i \<noteq> RAFT_ENTRY_HEADER_KEY_PRINTF j"
  "RAFT_ENTRY_HEADER_KEY_PRINTF j \<noteq> RAFT_ENTRY_KEY_PRINTF i"
  by (auto simp: key_formats bytes_of_def)

text \<open>A parsed key gives its index back.\<close>

lemma fixed_digits_digit: "b \<in> set (fixed_digits w n) \<Longrightarrow> is_digit b"
proof (induction w arbitrary: n)
  case (Suc w)
  have "m < 10 \<Longrightarrow> is_digit (48 + of_nat m)" for m
    by (simp add: is_digit_def word_le_nat_alt unat_word_ariths unat_of_nat take_bit_nat_eq_self)
  then show ?case using Suc by auto
qed simp

lemma strtoull_digits:
  assumes "n < 10 ^ w" and "n < 2 ^ 64" and "rest \<noteq> [] \<Longrightarrow> \<not> is_digit (hd rest)"
  shows "strtoull (fixed_digits w n @ rest) = n"
proof -
  have "takeWhile is_digit rest = []"
    using assms(3) by (cases rest) auto
  then have tw: "takeWhile is_digit (fixed_digits w n @ rest) = fixed_digits w n"
    using fixed_digits_digit by (simp add: takeWhile_append)
  have val: "foldl (\<lambda>n b. 10 * n + unat (b - 48)) 0 (fixed_digits w n) = n" if "n < 10 ^ w" for w n
    using that
  proof (induction w arbitrary: n)
    case (Suc w)
    have "n div 10 < 10 ^ w" using Suc.prems by (simp add: less_mult_imp_div_less mult.commute)
    moreover have "unat (of_nat (n mod 10) :: u8) = n mod 10"
      by (simp add: unat_of_nat take_bit_nat_eq_self order_less_trans [of "n mod 10" 10])
    ultimately show ?case using Suc.IH by simp
  qed simp
  show ?thesis
    using assms(1,2) by (simp add: strtoull_def tw val)
qed

lemma idx_digits_digit: "key_idx i \<Longrightarrow> idx_digits i \<noteq> [] \<and> is_digit (hd (idx_digits i))"
proof -
  assume "key_idx i"
  then have "idx_digits i = fixed_digits 16 (nat i)" by (rule key_idx_digits)
  moreover have "fixed_digits 16 (nat i) \<noteq> []"
    using length_fixed_digits [of 16 "nat i"] by (metis list.size(3) zero_neq_numeral)
  ultimately show ?thesis by (metis fixed_digits_digit hd_in_set)
qed

lemma strtoull_idx:
  assumes "key_idx i" and "\<not> is_digit c"
  shows "strtoull (idx_digits i @ [c]) = nat i"
  using assms strtoull_digits [of "nat i" 16 "[c]"] by (simp add: key_idx_digits key_idx_def nat_less_iff)

text \<open>
  C35. The keys order the log: for all indices below \<open>10 ^ 16\<close> the key of an entry sorts as its index,
  directly before the key of its header and after the header of the entry before; all of them sort
  after every \<open>a1_hdr.\<close> key and before the \<open>z0_last.\<close> key, and parsing a key gives the index.
\<close>

theorem key_order_is_log_order:
  assumes "0 \<le> i" and "i < 10 ^ 16" and "0 \<le> j" and "j < 10 ^ 16"
  shows "(RAFT_ENTRY_KEY_PRINTF i < RAFT_ENTRY_KEY_PRINTF j \<longleftrightarrow> i < j) \<and>
    (RAFT_ENTRY_HEADER_KEY_PRINTF i < RAFT_ENTRY_KEY_PRINTF j \<longleftrightarrow> i < j) \<and>
    (RAFT_ENTRY_KEY_PRINTF i < RAFT_ENTRY_HEADER_KEY_PRINTF j \<longleftrightarrow> i \<le> j) \<and>
    RAFT_LOG_HEADER_ROCKSDB_END @ k < RAFT_ENTRY_KEY_PRINTF i \<and>
    RAFT_ENTRY_HEADER_KEY_PRINTF i < RAFT_LOG_LASTENTRY_ROCKSDB \<and>
    strtoull (drop 3 (RAFT_ENTRY_KEY_PRINTF i)) = nat i"
proof -
  have i: "key_idx i" and j: "key_idx j" using assms by (simp_all add: key_idx_def)
  have "drop 3 (RAFT_ENTRY_KEY_PRINTF i) = idx_digits i @ [101]"
    by (simp add: RAFT_ENTRY_KEY_PRINTF_def RAFT_ENTRY_KEY_PREFIX_ROCKSDB_def bytes_of_def)
  then show ?thesis
    using entry_keys_less [OF i j] entry_keys_between strtoull_idx [OF i, of 101] by (simp add: is_digit_def)
qed

theorem key_order_is_log_order_witness:
  "RAFT_ENTRY_KEY_PRINTF 9 < RAFT_ENTRY_KEY_PRINTF 10 \<and> strtoull (drop 3 (RAFT_ENTRY_KEY_PRINTF 9)) = 9"
  using key_order_is_log_order [of 9 10 "[]"] by simp

text \<open>
  From \<open>10 ^ 16\<close> on the keys have more digits and sort before those of smaller indices.
\<close>

lemma key_order_breaks_at_17_digits:
  "RAFT_ENTRY_KEY_PRINTF (10 ^ 16) < RAFT_ENTRY_KEY_PRINTF (10 ^ 16 - 1)"
  by (simp add: RAFT_ENTRY_KEY_PRINTF_def RAFT_ENTRY_KEY_PREFIX_ROCKSDB_def bytes_of_def idx_digits_def
      zero_padded_def dec_digits.simps Let_def)

end
