(* ===== verification/Raft_Rocksdb.thy ===== *)
theory Raft_Rocksdb
  imports Raft_Codec Raft_Log Raft_Keys
begin

text \<open>
  The key-value backend (\<open>raft_server_backend_rocksdb.c\<close>) on an open database: entries and their
  headers under keys that sort as their indices, the log header, the last applied position and the
  identity of the database under keys before them. RocksDB itself is the record \<open>rocksdb\<close>; the
  locale \<open>rocksdb_store\<close> states what its calls do.
\<close>

section \<open>RocksDB\<close>

text \<open>
  The operations of a write batch, on a column family given by its name (\<^term>\<open>None\<close> for the default
  one, which also has the name \<open>default\<close>), and the state of an iterator.
\<close>

datatype wb_op =
  WB_put "string option" "u8 list" "u8 list"
| WB_delete "string option" "u8 list"
| WB_delete_range "u8 list" "u8 list"

datatype iter_pos = Iter_error | Iter_invalid | Iter_at "u8 list"

text \<open>
  The calls on an open database of type \<open>'d\<close>: \<open>rocksdb_write\<close> (with sync, the batch) gives
  \<^term>\<open>None\<close> when it sets an error; \<open>rocksdb_get\<close> gives \<^term>\<open>None\<close> on an error and when the key is
  not there; \<open>rocksdb_create_iterator\<close> says whether an iterator that is not yet valid is returned.
\<close>

record 'd rocksdb =
  rocksdb_write :: "'d \<Rightarrow> bool \<Rightarrow> wb_op list \<Rightarrow> 'd option"
  rocksdb_get :: "'d \<Rightarrow> u8 list \<Rightarrow> u8 list option"
  rocksdb_create_iterator :: "'d \<Rightarrow> bool"
  rocksdb_iter_seek :: "'d \<Rightarrow> u8 list \<Rightarrow> iter_pos"
  rocksdb_iter_next :: "'d \<Rightarrow> u8 list \<Rightarrow> iter_pos"
  rocksdb_iter_prev :: "'d \<Rightarrow> u8 list \<Rightarrow> iter_pos"
  rocksdb_compact_range :: "'d \<Rightarrow> u8 list \<Rightarrow> u8 list \<Rightarrow> 'd"
  rocksdb_delete_file_in_range :: "'d \<Rightarrow> u8 list \<Rightarrow> u8 list \<Rightarrow> 'd"

text \<open>
  The backend's structure; a handle of the library is whether it has been created. The backend
  state of an instance is the structure (\<open>NULL\<close> until the backend is set up) and the directory tree
  of the store, of type \<open>'s\<close>.
\<close>

record 'd raft_instance_rocks_db =
  rir_log_fd :: int
  rir_db :: "'d option"
  rir_options :: bool
  rir_writeoptions_sync :: bool
  rir_writeoptions_async :: bool
  rir_readoptions :: bool
  rir_writebatch :: "wb_op list option"
  rir_cf_table :: "string list"

record ('s, 'd) rocks_store =
  rs_fs :: 's
  rs_rir :: "'d raft_instance_rocks_db option"

type_synonym ('s, 'd) rocks_instance = "('s, 'd) rocks_store raft_instance"
type_synonym ('s, 'd) rocks_raft_env = "('s, 'd) rocks_store raft_env"

definition set_rir :: "'d raft_instance_rocks_db \<Rightarrow> ('s, 'd) rocks_instance \<Rightarrow> ('s, 'd) rocks_instance" where
  "set_rir rir ri = ri\<lparr>ri_backend_arg := (ri_backend_arg ri)\<lparr>rs_rir := Some rir\<rparr>\<rparr>"

definition rsbr_ri_to_rirdb :: "('s, 'd) rocks_instance \<Rightarrow> 'd raft_instance_rocks_db option" where
  "rsbr_ri_to_rirdb ri = do {
     rir \<leftarrow> rs_rir (ri_backend_arg ri);
     NIOVA_ASSERT (ri_proc_state ri = RAFT_PROC_STATE_RUNNING \<longrightarrow>
       rir_writeoptions_sync rir \<and> rir_writeoptions_async rir \<and> rir_writebatch rir \<noteq> None \<and> rir_readoptions rir);
     Some rir }"

text \<open>
  A write of the instance's batch: cleared, filled, written, cleared again. An error is fatal; a
  missing handle is a null dereference.
\<close>

definition rsbr_batch_write ::
  "'d rocksdb \<Rightarrow> bool \<Rightarrow> wb_op list \<Rightarrow> 'd raft_instance_rocks_db \<Rightarrow> ('s, 'd) rocks_instance
     \<Rightarrow> ('s, 'd) rocks_instance option" where
  "rsbr_batch_write rdb sync wb rir ri = do {
     _ \<leftarrow> rir_writebatch rir;
     db \<leftarrow> rir_db rir;
     FATAL_IF (\<not> (if sync then rir_writeoptions_sync rir else rir_writeoptions_async rir));
     db \<leftarrow> rocksdb_write rdb db sync wb;
     Some (set_rir (rir\<lparr>rir_db := Some db, rir_writebatch := Some []\<rparr>) ri) }"

section \<open>Writing entries\<close>

definition rsbr_write_supplement_op :: "raft_net_wr_supp \<Rightarrow> wb_op" where
  "rsbr_write_supplement_op supp = (case rnws_op supp of
       RAFT_NET_WR_SUPP_OP_DELETE \<Rightarrow> WB_delete (rnws_cf_name supp) (rnws_key supp)
     | RAFT_NET_WR_SUPP_OP_WRITE \<Rightarrow> WB_put (rnws_cf_name supp) (rnws_key supp) (rnws_value supp))"

definition rsbr_write_supplements_put ::
  "raft_net_sm_write_supplements option \<Rightarrow> wb_op list \<Rightarrow> wb_op list" where
  "rsbr_write_supplements_put ws wb = (case ws of
       None \<Rightarrow> wb
     | Some ws \<Rightarrow> wb @ map rsbr_write_supplement_op (rnsws_ws ws))"

definition encode_rla :: "raft_last_applied \<Rightarrow> u8 list" where
  "encode_rla la = le_bytes 8 (word_of_int (rla_idx la) :: u64) @ le_bytes 4 (rla_sub_idx la) @
     le_bytes 4 (rla_sub_idx_max la) @ le_bytes 8 (word_of_int (rla_synced_idx la) :: u64) @
     le_bytes 4 (rla_cumulative_crc la) @ le_bytes 4 (rla_kv_cumulative_crc la)"

definition decode_rla :: "u8 list \<Rightarrow> raft_last_applied" where
  "decode_rla bs =
     \<lparr>rla_idx = sint (word_of_le (field 0 8 bs) :: u64), rla_sub_idx = word_of_le (field 8 4 bs),
      rla_sub_idx_max = word_of_le (field 12 4 bs), rla_synced_idx = sint (word_of_le (field 16 8 bs) :: u64),
      rla_cumulative_crc = word_of_le (field 24 4 bs), rla_kv_cumulative_crc = word_of_le (field 28 4 bs)\<rparr>"

definition sizeof_raft_last_applied :: nat where "sizeof_raft_last_applied = 32"

definition rsb_sm_apply_add_last_applied_kv :: "raft_last_applied \<Rightarrow> wb_op list \<Rightarrow> wb_op list" where
  "rsb_sm_apply_add_last_applied_kv rla wb =
     wb @ [WB_put None RAFT_LOG_HEADER_LAST_APPLIED_ROCKSDB (encode_rla rla)]"

definition rsbr_sm_apply_opt ::
  "'d rocksdb \<Rightarrow> ('s, 'd) rocks_instance \<Rightarrow> raft_net_sm_write_supplements option
     \<Rightarrow> ('s, 'd) rocks_instance option" where
  "rsbr_sm_apply_opt rdb ri ws = do {
     rir \<leftarrow> rsbr_ri_to_rirdb ri;
     let wb = rsb_sm_apply_add_last_applied_kv (ri_last_applied ri) [];
     rsbr_batch_write rdb False (rsbr_write_supplements_put ws wb) rir ri }"

definition rsbr_entry_header_write_recovery_scrub ::
  "'d rocksdb \<Rightarrow> ('s, 'd) rocks_instance \<Rightarrow> raft_entry_header \<Rightarrow> ('s, 'd) rocks_instance option" where
  "rsbr_entry_header_write_recovery_scrub rdb ri reh = do {
     NIOVA_ASSERT (raft_instance_is_recovering ri);
     rir \<leftarrow> rsbr_ri_to_rirdb ri;
     rsbr_batch_write rdb False
       [WB_put None (RAFT_ENTRY_HEADER_KEY_PRINTF (reh_index reh)) (encode_reh reh)] rir ri }"

text \<open>Every header has an entry: an empty one is stored as one zero byte.\<close>

definition rsbr_entry_value :: "raft_entry \<Rightarrow> u8 list" where
  "rsbr_entry_value re =
     (if reh_data_size (re_header re) = 0 then [0] else take (unat (reh_data_size (re_header re))) (re_data re))"

definition rsbr_entry_write ::
  "'d rocksdb \<Rightarrow> ('s, 'd) rocks_instance \<Rightarrow> raft_entry \<Rightarrow> raft_net_sm_write_supplements option
     \<Rightarrow> ('s, 'd) rocks_instance option" where
  "rsbr_entry_write rdb ri re ws = do {
     NIOVA_ASSERT (0 \<le> reh_index (re_header re));
     let entry_idx = reh_index (re_header re);
     rir \<leftarrow> rsbr_ri_to_rirdb ri;
     let wb = [WB_put None (RAFT_ENTRY_HEADER_KEY_PRINTF entry_idx) (encode_reh (re_header re)),
               WB_put None (RAFT_ENTRY_KEY_PRINTF entry_idx) (rsbr_entry_value re)];
     rsbr_batch_write rdb (raft_server_does_synchronous_writes ri) (rsbr_write_supplements_put ws wb) rir ri }"

section \<open>Reading\<close>

text \<open>The return code, the length of the value found, and the buffer.\<close>

definition rsbr_get ::
  "'d rocksdb \<Rightarrow> 'd raft_instance_rocks_db \<Rightarrow> u8 list \<Rightarrow> u8 list \<Rightarrow> nat
     \<Rightarrow> (int \<times> nat \<times> u8 list) option" where
  "rsbr_get rdb rir key value max_value_len =
     (if key = [] \<or> max_value_len = 0 then Some (- EINVAL, 0, value)
      else do {
        db \<leftarrow> rir_db rir;
        FATAL_IF (\<not> rir_readoptions rir);
        Some (case rocksdb_get rdb db key of
            None \<Rightarrow> (- ENOENT, 0, value)
          | Some v \<Rightarrow> (0, length v, take max_value_len v @ drop (min (length v) max_value_len) value)) })"

definition rsbr_get_exact_val_size ::
  "'d rocksdb \<Rightarrow> 'd raft_instance_rocks_db \<Rightarrow> u8 list \<Rightarrow> u8 list \<Rightarrow> nat \<Rightarrow> (int \<times> u8 list) option" where
  "rsbr_get_exact_val_size rdb rir key value expected_value_len =
     (if key = [] \<or> expected_value_len = 0 then Some (- EINVAL, value)
      else do {
        (rc, ret_value_len, value) \<leftarrow> rsbr_get rdb rir key value expected_value_len;
        Some (if rc \<noteq> 0 then rc
              else if ret_value_len \<noteq> expected_value_len
              then if expected_value_len < ret_value_len then - ENOSPC else - EMSGSIZE
              else 0, value) })"

definition rsbr_entry_header_read ::
  "'d rocksdb \<Rightarrow> ('s, 'd) rocks_instance \<Rightarrow> raft_entry_header \<Rightarrow> (int \<times> raft_entry_header) option" where
  "rsbr_entry_header_read rdb ri reh =
     (if reh_index reh < 0 then Some (- EINVAL, reh)
      else do {
        rir \<leftarrow> rsbr_ri_to_rirdb ri;
        (rc, bs) \<leftarrow> rsbr_get_exact_val_size rdb rir (RAFT_ENTRY_HEADER_KEY_PRINTF (reh_index reh))
          (encode_reh reh) RAFT_ENTRY_HEADER_RESERVE;
        Some (rc, decode_reh bs) })"

definition rsbr_entry_read ::
  "'d rocksdb \<Rightarrow> ('s, 'd) rocks_instance \<Rightarrow> raft_entry \<Rightarrow> (int \<times> raft_entry) option" where
  "rsbr_entry_read rdb ri re = do {
     (rc, reh) \<leftarrow> rsbr_entry_header_read rdb ri (re_header re);
     let re = re\<lparr>re_header := reh\<rparr>;
     if rc \<noteq> 0 then Some (rc, re)
     else do {
       rir \<leftarrow> rsbr_ri_to_rirdb ri;
       (rc, bs) \<leftarrow> rsbr_get_exact_val_size rdb rir (RAFT_ENTRY_KEY_PRINTF (reh_index reh))
         (re_data re) (unat (reh_data_size reh));
       Some (if rc < 0 then rc else int (unat (reh_data_size reh) + RAFT_ENTRY_HEADER_RESERVE),
             re\<lparr>re_data := bs\<rparr>) } }"

section \<open>The log header\<close>

definition rsbr_header_load :: "'d rocksdb \<Rightarrow> ('s, 'd) rocks_instance \<Rightarrow> (int \<times> ('s, 'd) rocks_instance) option" where
  "rsbr_header_load rdb ri = do {
     rir \<leftarrow> rsbr_ri_to_rirdb ri;
     (rc, bs) \<leftarrow> rsbr_get_exact_val_size rdb rir
       (RAFT_LOG_HEADER_FMT (ri_raft_uuid_str ri) (ri_this_peer_uuid_str ri))
       (encode_rlh (ri_log_hdr ri)) sizeof_raft_log_header;
     let ri = ri\<lparr>ri_log_hdr := decode_rlh bs\<rparr>;
     Some (if rc = 0 \<and> rlh_magic (ri_log_hdr ri) \<noteq> RAFT_HEADER_MAGIC then - EBADMSG else rc, ri) }"

definition rsbr_header_write :: "'d rocksdb \<Rightarrow> ('s, 'd) rocks_instance \<Rightarrow> (int \<times> ('s, 'd) rocks_instance) option" where
  "rsbr_header_write rdb ri = do {
     rir \<leftarrow> rsbr_ri_to_rirdb ri;
     NIOVA_ASSERT (rir_writeoptions_sync rir \<and> rir_writebatch rir \<noteq> None);
     ri \<leftarrow> rsbr_batch_write rdb True
       [WB_put None (RAFT_LOG_HEADER_FMT (ri_raft_uuid_str ri) (ri_this_peer_uuid_str ri))
         (encode_rlh (ri_log_hdr ri))] rir ri;
     Some (0, ri) }"

text \<open>\<open>instance_uuid\<close> is what \<open>uuid_generate\<close> gives.\<close>

definition rsbr_init_header ::
  "'d rocksdb \<Rightarrow> uuid \<Rightarrow> ('s, 'd) rocks_instance \<Rightarrow> (int \<times> ('s, 'd) rocks_instance) option" where
  "rsbr_init_header rdb instance_uuid ri = do {
     NIOVA_ASSERT (raft_instance_is_recovering ri \<longrightarrow> rlh_magic (ri_log_hdr ri) = RAFT_HEADER_MAGIC);
     let ri = (if raft_instance_is_recovering ri then ri
               else ri\<lparr>ri_log_hdr := zero_rlh\<lparr>rlh_magic := RAFT_HEADER_MAGIC\<rparr>\<rparr>);
     rir \<leftarrow> rsbr_ri_to_rirdb ri;
     NIOVA_ASSERT (rir_writeoptions_sync rir \<and> rir_writebatch rir \<noteq> None);
     let wb = [WB_put None (RAFT_LOG_LASTENTRY_FMT (ri_raft_uuid_str ri) (ri_this_peer_uuid_str ri))
                 (encode_rlh (ri_log_hdr ri)),
               WB_put None RAFT_LOG_HEADER_UUID (le_bytes 16 instance_uuid)];
     let peer_db = rrh_peer_db_uuid (ri_recovery_handle ri);
     let wb = (if raft_instance_is_recovering ri \<and> peer_db \<noteq> ri_db_recovery_uuid ri
               then wb @ [WB_put None RAFT_LOG_HEADER_UUID_PRE_RECOVERY (le_bytes 16 peer_db)] else wb);
     ri \<leftarrow> rsbr_batch_write rdb True wb rir ri;
     rsbr_header_write rdb ri }"

definition rsb_sm_get_last_applied_kv_idx ::
  "'d rocksdb \<Rightarrow> ('s, 'd) rocks_instance \<Rightarrow> ('s, 'd) rocks_instance option" where
  "rsb_sm_get_last_applied_kv_idx rdb ri = do {
     rir \<leftarrow> rsbr_ri_to_rirdb ri;
     (rc, bs) \<leftarrow> rsbr_get_exact_val_size rdb rir RAFT_LOG_HEADER_LAST_APPLIED_ROCKSDB
       (replicate sizeof_raft_last_applied 0) sizeof_raft_last_applied;
     if rc \<noteq> 0 then Some ri
     else do {
       NIOVA_ASSERT (raft_instance_is_booting ri \<or> raft_instance_is_recovering ri);
       Some (ri\<lparr>ri_last_applied := decode_rla bs\<rparr>) } }"

definition rsb_sm_get_instance_uuid ::
  "'d rocksdb \<Rightarrow> ('s, 'd) rocks_instance \<Rightarrow> ('s, 'd) rocks_instance option" where
  "rsb_sm_get_instance_uuid rdb ri = do {
     rir \<leftarrow> rsbr_ri_to_rirdb ri;
     (rc, bs) \<leftarrow> rsbr_get_exact_val_size rdb rir RAFT_LOG_HEADER_UUID (replicate 16 0) 16;
     FATAL_IF (rc \<noteq> 0);
     let ri = ri\<lparr>ri_db_uuid := word_of_le bs\<rparr>;
     (rc, bs) \<leftarrow> rsbr_get_exact_val_size rdb rir RAFT_LOG_HEADER_UUID_PRE_RECOVERY bs 16;
     Some (if rc = 0 then ri\<lparr>ri_db_recovery_uuid := word_of_le bs\<rparr> else ri) }"

section \<open>Walking the keys\<close>

definition rsbr_iter_check_error :: "iter_pos \<Rightarrow> bool \<Rightarrow> int" where
  "rsbr_iter_check_error iter expect_valid = (case iter of
       Iter_error \<Rightarrow> - EIO
     | Iter_invalid \<Rightarrow> if expect_valid then - ENOENT else 0
     | Iter_at _ \<Rightarrow> if expect_valid then 0 else - EEXIST)"

text \<open>\<open>strncmp\<close> on the first bytes of the key, whose length is asked for only if \<open>exact_len\<close>.\<close>

definition rsbr_string_matches_iter_key :: "u8 list \<Rightarrow> u8 list \<Rightarrow> bool \<Rightarrow> bool" where
  "rsbr_string_matches_iter_key str iter_key exact_len \<longleftrightarrow>
     \<not> (exact_len \<and> length str \<noteq> length iter_key) \<and> take (length str) iter_key = str"

text \<open>
  The first entry key at or after \<open>a1_hdr.\<close>. The loop may not end if the iterator does not; then
  the result is \<^term>\<open>None\<close>, as when the process aborts. \<open>to_ull\<close> is
  \<open>niova_string_to_unsigned_long_long\<close>.
\<close>

partial_function (option) lowest_entry_loop ::
  "'d rocksdb \<Rightarrow> (u8 list \<Rightarrow> int + nat) \<Rightarrow> 'd \<Rightarrow> u8 list \<Rightarrow> (int \<times> raft_entry_idx_t) option" where
  "lowest_entry_loop rdb to_ull db key = (
     let iter = rocksdb_iter_next rdb db key; rc = rsbr_iter_check_error iter True
     in if rc \<noteq> 0 then Some (rc, -1)
        else (case iter of
            Iter_at key \<Rightarrow>
              if rsbr_string_matches_iter_key RAFT_LOG_LASTENTRY_ROCKSDB key False then Some (0, -1)
              else if rsbr_string_matches_iter_key RAFT_ENTRY_KEY_PREFIX_ROCKSDB key False
              then (case to_ull (drop 3 key) of
                  Inl rc \<Rightarrow> None
                | Inr val \<Rightarrow> Some (0, sint (word_of_nat val :: u64)))
              else lowest_entry_loop rdb to_ull db key
          | _ \<Rightarrow> None))"

definition rsbr_lowest_entry_get ::
  "'d rocksdb \<Rightarrow> (u8 list \<Rightarrow> int + nat) \<Rightarrow> ('s, 'd) rocks_instance \<Rightarrow> (int \<times> raft_entry_idx_t) option" where
  "rsbr_lowest_entry_get rdb to_ull ri = do {
     rir \<leftarrow> rsbr_ri_to_rirdb ri;
     (case rir_db rir of
        None \<Rightarrow> Some (- ENOMEM, -1)
      | Some db \<Rightarrow>
          if \<not> rir_readoptions rir \<or> \<not> rocksdb_create_iterator rdb db then Some (- ENOMEM, -1)
          else let iter = rocksdb_iter_seek rdb db RAFT_LOG_HEADER_ROCKSDB_END;
                   rc = rsbr_iter_check_error iter True
               in if rc \<noteq> 0 then Some (rc, -1)
                  else (case iter of Iter_at key \<Rightarrow> lowest_entry_loop rdb to_ull db key | _ \<Rightarrow> None)) }"

text \<open>The number of entries: the index in the key before \<open>z0_last.\<close>, plus one.\<close>

definition rsbr_num_entries_calc :: "'d rocksdb \<Rightarrow> ('s, 'd) rocks_instance \<Rightarrow> int option" where
  "rsbr_num_entries_calc rdb ri = do {
     rir \<leftarrow> rsbr_ri_to_rirdb ri;
     (case rir_db rir of
        None \<Rightarrow> Some (- ENOMEM)
      | Some db \<Rightarrow>
          if \<not> rir_readoptions rir \<or> \<not> rocksdb_create_iterator rdb db then Some (- ENOMEM)
          else (case rocksdb_iter_seek rdb db RAFT_LOG_LASTENTRY_ROCKSDB of
              Iter_error \<Rightarrow> Some (- EIO)
            | Iter_invalid \<Rightarrow> Some (- ENOENT)
            | Iter_at last_key \<Rightarrow> (case rocksdb_iter_prev rdb db last_key of
                  Iter_error \<Rightarrow> Some (- EIO)
                | Iter_invalid \<Rightarrow> Some (- ENOENT)
                | Iter_at key \<Rightarrow>
                    if rsbr_string_matches_iter_key RAFT_LOG_HEADER_ROCKSDB_END key False then Some 0
                    else if \<not> rsbr_string_matches_iter_key RAFT_ENTRY_KEY_PREFIX_ROCKSDB key False then Some (- ENOKEY)
                    else if length key \<le> 3 then Some (- EBADMSG)
                    else let last_entry_idx = sint (word_of_nat (strtoull (drop 3 key)) :: u64)
                         in Some (if 0 \<le> last_entry_idx then last_entry_idx + 1 else last_entry_idx)))) }"

section \<open>Cutting the log\<close>

definition rsbr_log_truncate ::
  "'d rocksdb \<Rightarrow> ('s, 'd) rocks_instance \<Rightarrow> raft_entry_idx_t \<Rightarrow> ('s, 'd) rocks_instance option" where
  "rsbr_log_truncate rdb ri entry_idx = do {
     rir \<leftarrow> rsbr_ri_to_rirdb ri;
     NIOVA_ASSERT (rir_writeoptions_sync rir \<and> rir_writebatch rir \<noteq> None);
     rsbr_batch_write rdb True
       [WB_delete_range (RAFT_ENTRY_KEY_PRINTF entry_idx) RAFT_LOG_LASTENTRY_ROCKSDB] rir ri }"

text \<open>The checkpoint and the sync thread use a batch of their own.\<close>

definition rsbr_own_batch_write ::
  "'d rocksdb \<Rightarrow> wb_op list \<Rightarrow> 'd raft_instance_rocks_db \<Rightarrow> 'd raft_instance_rocks_db option" where
  "rsbr_own_batch_write rdb wb rir = do {
     NIOVA_ASSERT (rir_writeoptions_sync rir);
     db \<leftarrow> rir_db rir;
     db \<leftarrow> rocksdb_write rdb db True wb;
     Some (rir\<lparr>rir_db := Some db\<rparr>) }"

definition rsbr_log_reap ::
  "'d rocksdb \<Rightarrow> ('s, 'd) rocks_instance \<Rightarrow> raft_entry_idx_t \<Rightarrow> ('s, 'd) rocks_instance option" where
  "rsbr_log_reap rdb ri entry_idx = do {
     rir \<leftarrow> rsbr_ri_to_rirdb ri;
     NIOVA_ASSERT (0 \<le> entry_idx);
     let start_entry_key = RAFT_ENTRY_KEY_PRINTF 0;
     let end_entry_key = RAFT_ENTRY_KEY_PRINTF entry_idx;
     rir \<leftarrow> rsbr_own_batch_write rdb [WB_delete_range start_entry_key end_entry_key] rir;
     db \<leftarrow> rir_db rir;
     let db = rocksdb_compact_range rdb db start_entry_key end_entry_key;
     let db = rocksdb_delete_file_in_range rdb db start_entry_key end_entry_key;
     Some (set_rir (rir\<lparr>rir_db := Some db\<rparr>) ri) }"

definition encode_timespec :: "timespec \<Rightarrow> u8 list" where
  "encode_timespec ts = le_bytes 8 (of_nat (ts div 1000000000) :: u64) @ le_bytes 8 (of_nat (ts mod 1000000000) :: u64)"

definition rsbr_sync ::
  "'d rocksdb \<Rightarrow> ('s, 'd) rocks_raft_env \<Rightarrow> ('s, 'd) rocks_instance \<Rightarrow> (int \<times> ('s, 'd) rocks_instance) option" where
  "rsbr_sync rdb env ri = do {
     rir \<leftarrow> rsbr_ri_to_rirdb ri;
     rir \<leftarrow> rsbr_own_batch_write rdb
       [WB_put None RAFT_LOG_HEADER_ROCKSDB_LAST_SYNC (encode_timespec (env_realtime env))] rir;
     Some (0, set_rir rir ri) }"

section \<open>What RocksDB promises\<close>

type_synonym kv_map = "string \<Rightarrow> u8 list \<Rightarrow> u8 list option"

definition cf_of :: "string option \<Rightarrow> string" where
  "cf_of c = (case c of None \<Rightarrow> ''default'' | Some c \<Rightarrow> c)"

fun wb_apply :: "wb_op \<Rightarrow> kv_map \<Rightarrow> kv_map" where
  "wb_apply (WB_put c k v) m = m(cf_of c := (m (cf_of c))(k := Some v))"
| "wb_apply (WB_delete c k) m = m(cf_of c := (m (cf_of c))(k := None))"
| "wb_apply (WB_delete_range a b) m = m(''default'' := (\<lambda>k. if a \<le> k \<and> k < b then None else m ''default'' k))"

text \<open>
  A database is a map from keys to values for each column family. A batch is written as a whole,
  in order; \<open>delete_range\<close> excludes its end. An iterator goes through the keys of the default family
  in bytewise order. Deleting the files in a range may remove keys up to and including its end.
\<close>

locale rocksdb_store =
  fixes rdb :: "'d rocksdb" and kv :: "'d \<Rightarrow> kv_map"
  assumes write_ok: "rocksdb_write rdb db sync wb = Some db' \<Longrightarrow> kv db' = fold wb_apply wb (kv db)"
    and get_ok: "rocksdb_get rdb db k = Some v \<Longrightarrow> kv db ''default'' k = Some v"
    and seek_at: "rocksdb_iter_seek rdb db k = Iter_at k' \<Longrightarrow>
      k \<le> k' \<and> kv db ''default'' k' \<noteq> None \<and> (\<forall>j. k \<le> j \<and> j < k' \<longrightarrow> kv db ''default'' j = None)"
    and seek_invalid: "rocksdb_iter_seek rdb db k = Iter_invalid \<Longrightarrow> k \<le> j \<Longrightarrow> kv db ''default'' j = None"
    and next_at: "rocksdb_iter_next rdb db k = Iter_at k' \<Longrightarrow>
      k < k' \<and> kv db ''default'' k' \<noteq> None \<and> (\<forall>j. k < j \<and> j < k' \<longrightarrow> kv db ''default'' j = None)"
    and next_invalid: "rocksdb_iter_next rdb db k = Iter_invalid \<Longrightarrow> k < j \<Longrightarrow> kv db ''default'' j = None"
    and prev_at: "rocksdb_iter_prev rdb db k = Iter_at k' \<Longrightarrow>
      k' < k \<and> kv db ''default'' k' \<noteq> None \<and> (\<forall>j. k' < j \<and> j < k \<longrightarrow> kv db ''default'' j = None)"
    and prev_invalid: "rocksdb_iter_prev rdb db k = Iter_invalid \<Longrightarrow> j < k \<Longrightarrow> kv db ''default'' j = None"
    and finite_keys: "finite (dom (kv db ''default''))"
    and compact_ok: "kv (rocksdb_compact_range rdb db a b) = kv db"
    and delete_file_cf: "c \<noteq> ''default'' \<Longrightarrow> kv (rocksdb_delete_file_in_range rdb db a b) c = kv db c"
    and delete_file_outside: "k < a \<or> b < k \<Longrightarrow>
      kv (rocksdb_delete_file_in_range rdb db a b) ''default'' k = kv db ''default'' k"
    and delete_file_inside: "kv (rocksdb_delete_file_in_range rdb db a b) ''default'' k \<in> {kv db ''default'' k, None}"

section \<open>The log in the database\<close>

definition rocks_storable :: "raft_entry \<Rightarrow> bool" where
  "rocks_storable re \<longleftrightarrow> key_idx (reh_index (re_header re)) \<and> re_fits re"

definition rocks_holds :: "('d \<Rightarrow> kv_map) \<Rightarrow> ('s, 'd) rocks_store \<Rightarrow> raft_entry \<Rightarrow> bool" where
  "rocks_holds kv b re \<longleftrightarrow> rocks_storable re \<and>
     (\<exists>rir db. rs_rir b = Some rir \<and> rir_db rir = Some db \<and>
        kv db ''default'' (RAFT_ENTRY_HEADER_KEY_PRINTF (reh_index (re_header re))) = Some (encode_reh (re_header re)) \<and>
        kv db ''default'' (RAFT_ENTRY_KEY_PRINTF (reh_index (re_header re))) = Some (rsbr_entry_value re))"

text \<open>Write supplements that leave the log alone.\<close>

definition log_key :: "u8 list \<Rightarrow> bool" where
  "log_key k \<longleftrightarrow> take 3 k = RAFT_ENTRY_KEY_PREFIX_ROCKSDB"

definition rocks_ws_ok :: "raft_net_sm_write_supplements option \<Rightarrow> bool" where
  "rocks_ws_ok ws = (case ws of None \<Rightarrow> True
     | Some ws \<Rightarrow> list_all (\<lambda>s. cf_of (rnws_cf_name s) \<noteq> ''default'' \<or> \<not> log_key (rnws_key s)) (rnsws_ws ws))"

lemma log_key_entry [simp]: "log_key (RAFT_ENTRY_KEY_PRINTF i)" "log_key (RAFT_ENTRY_HEADER_KEY_PRINTF i)"
  by (simp_all add: log_key_def key_formats bytes_of_def)

lemma not_log_key [simp]:
  "\<not> log_key (RAFT_LOG_HEADER_FMT r p)" "\<not> log_key RAFT_LOG_HEADER_ROCKSDB_LAST_SYNC"
  "\<not> log_key RAFT_LOG_HEADER_LAST_APPLIED_ROCKSDB" "\<not> log_key RAFT_LOG_HEADER_UUID"
  "\<not> log_key RAFT_LOG_HEADER_UUID_PRE_RECOVERY" "\<not> log_key (RAFT_LOG_LASTENTRY_FMT r p)"
  by (simp_all add: log_key_def key_formats bytes_of_def)

text \<open>An operation of a batch that is not on a key of the log.\<close>

fun off_log :: "wb_op \<Rightarrow> bool" where
  "off_log (WB_put c k v) \<longleftrightarrow> cf_of c \<noteq> ''default'' \<or> \<not> log_key k"
| "off_log (WB_delete c k) \<longleftrightarrow> cf_of c \<noteq> ''default'' \<or> \<not> log_key k"
| "off_log (WB_delete_range a b) \<longleftrightarrow> False"

lemma off_log_apply: "off_log op \<Longrightarrow> log_key k \<Longrightarrow> wb_apply op m ''default'' k = m ''default'' k"
  by (cases op) auto

lemma off_log_fold:
  "list_all off_log wb \<Longrightarrow> log_key k \<Longrightarrow> fold wb_apply wb m ''default'' k = m ''default'' k"
  by (induction wb arbitrary: m) (simp_all add: off_log_apply)

lemma supplements_off_log:
  assumes "rocks_ws_ok ws"
  obtains wb' where "rsbr_write_supplements_put ws wb = wb @ wb'" and "list_all off_log wb'"
proof
  let ?wb = "case ws of None \<Rightarrow> [] | Some ws \<Rightarrow> map rsbr_write_supplement_op (rnsws_ws ws)"
  show "rsbr_write_supplements_put ws wb = wb @ ?wb"
    by (simp add: rsbr_write_supplements_put_def split: option.split)
  show "list_all off_log ?wb"
    using assms
    by (auto simp: rocks_ws_ok_def list_all_iff rsbr_write_supplement_op_def split: option.splits raft_net_wr_supp_op.splits)
qed

lemma rirdb_rs_rir: "rsbr_ri_to_rirdb ri = Some rir \<Longrightarrow> rs_rir (ri_backend_arg ri) = Some rir"
  by (auto simp: rsbr_ri_to_rirdb_def bind_Some split: if_splits)

lemma set_rir_fields [simp]: "rs_rir (ri_backend_arg (set_rir rir ri)) = Some rir" "backend_only ri (set_rir rir ri)"
  by (simp_all add: set_rir_def)

lemma rocks_holds_update:
  assumes "rs_rir b = Some rir" and "rir_db rir = Some db"
  shows "rocks_holds kv b re \<longleftrightarrow> rocks_storable re \<and>
     kv db ''default'' (RAFT_ENTRY_HEADER_KEY_PRINTF (reh_index (re_header re))) = Some (encode_reh (re_header re)) \<and>
     kv db ''default'' (RAFT_ENTRY_KEY_PRINTF (reh_index (re_header re))) = Some (rsbr_entry_value re)"
  using assms by (auto simp: rocks_holds_def)

lemma entry_value_eq:
  assumes "re_header re = re_header re'" and "re_fits re" and "re_fits re'" and "rsbr_entry_value re = rsbr_entry_value re'"
  shows "re = re'"
proof -
  have "re_data re = re_data re'"
    using assms by (auto simp: re_fits_def rsbr_entry_value_def split: if_splits)
  with assms(1) show ?thesis by (intro raft_entry.equality) simp_all
qed

lemma rocks_holds_unique:
  assumes "rocks_holds kv b re" and "rocks_holds kv b re'" and "reh_index (re_header re) = reh_index (re_header re')"
  shows "re = re'"
proof -
  obtain rir db where b: "rs_rir b = Some rir" "rir_db rir = Some db"
    using assms(1) by (auto simp: rocks_holds_def)
  note h = assms(1,2) [unfolded rocks_holds_update [OF b]]
  have f: "re_fits re" "re_fits re'" using h by (simp_all add: rocks_storable_def)
  have "encode_reh (re_header re) = encode_reh (re_header re')" using h assms(3) by simp
  then have "re_header re = re_header re'"
    using f decode_encode_reh [of "re_header re" "[]"] decode_encode_reh [of "re_header re'" "[]"]
    by (simp add: re_fits_def)
  then show ?thesis using f h assms(3) by (intro entry_value_eq) auto
qed

lemma batch_write_frame:
  "rsbr_batch_write rdb sync wb rir ri = Some ri' \<Longrightarrow> backend_only ri ri'"
  by (auto simp: rsbr_batch_write_def bind_Some split: if_splits)

context rocksdb_store
begin

text \<open>What a batch leaves of the keys of the log.\<close>

lemma batch_write_kv:
  assumes "rsbr_batch_write rdb sync wb rir ri = Some ri'"
  obtains db db' rir' where "rir_db rir = Some db" and "rs_rir (ri_backend_arg ri') = Some rir'"
    and "rir_db rir' = Some db'" and "kv db' = fold wb_apply wb (kv db)"
  using assms by (auto simp: rsbr_batch_write_def bind_Some split: if_splits dest!: write_ok)

lemma off_log_batch:
  assumes "rs_rir (ri_backend_arg ri) = Some rir" and "rsbr_batch_write rdb sync wb rir ri = Some ri'"
    and "list_all off_log wb" and "rocks_holds kv (ri_backend_arg ri) re"
  shows "rocks_holds kv (ri_backend_arg ri') re"
proof -
  obtain db db' rir' where d: "rir_db rir = Some db" and r: "rs_rir (ri_backend_arg ri') = Some rir'" "rir_db rir' = Some db'"
    and k: "kv db' = fold wb_apply wb (kv db)"
    using batch_write_kv [OF assms(2)] .
  show ?thesis
    using assms(4) unfolding rocks_holds_update [OF assms(1) d] rocks_holds_update [OF r]
    by (simp add: k off_log_fold [OF assms(3)])
qed

lemma own_batch_holds:
  assumes "rs_rir (ri_backend_arg ri) = Some rir" and "rsbr_own_batch_write rdb wb rir = Some rir'"
    and "list_all off_log wb" and "rocks_holds kv (ri_backend_arg ri) re"
  shows "rocks_holds kv (ri_backend_arg (set_rir rir' ri)) re"
proof -
  obtain db db' where d: "rir_db rir = Some db" "rir_db rir' = Some db'" and k: "kv db' = fold wb_apply wb (kv db)"
    using assms(2) by (auto simp: rsbr_own_batch_write_def bind_Some split: if_splits dest!: write_ok)
  show ?thesis
    using assms(4) unfolding rocks_holds_update [OF assms(1) d(1)] rocks_holds_update [OF set_rir_fields(1) d(2)]
    by (simp add: k off_log_fold [OF assms(3)])
qed

lemma entry_write_kv:
  assumes "rsbr_entry_write rdb ri re ws = Some ri'" and "rocks_ws_ok ws"
  obtains rir db rir' db' where "rs_rir (ri_backend_arg ri) = Some rir" "rir_db rir = Some db"
    "rs_rir (ri_backend_arg ri') = Some rir'" "rir_db rir' = Some db'"
    "\<And>k. log_key k \<Longrightarrow> kv db' ''default'' k =
       (if k = RAFT_ENTRY_KEY_PRINTF (reh_index (re_header re)) then Some (rsbr_entry_value re)
        else if k = RAFT_ENTRY_HEADER_KEY_PRINTF (reh_index (re_header re)) then Some (encode_reh (re_header re))
        else kv db ''default'' k)"
proof -
  let ?i = "reh_index (re_header re)"
  let ?wb = "[WB_put None (RAFT_ENTRY_HEADER_KEY_PRINTF ?i) (encode_reh (re_header re)),
     WB_put None (RAFT_ENTRY_KEY_PRINTF ?i) (rsbr_entry_value re)]"
  obtain wb' where wb: "rsbr_write_supplements_put ws ?wb = ?wb @ wb'" and off: "list_all off_log wb'"
    using supplements_off_log [OF assms(2)] .
  obtain rir where rir: "rsbr_ri_to_rirdb ri = Some rir"
    and w: "rsbr_batch_write rdb (raft_server_does_synchronous_writes ri) (?wb @ wb') rir ri = Some ri'"
    using assms(1) by (auto simp: rsbr_entry_write_def Let_def bind_Some wb split: if_splits)
  obtain db db' rir' where d: "rir_db rir = Some db" and r: "rs_rir (ri_backend_arg ri') = Some rir'" "rir_db rir' = Some db'"
    and k: "kv db' = fold wb_apply (?wb @ wb') (kv db)"
    using batch_write_kv [OF w] .
  show thesis
    by (rule that [OF rirdb_rs_rir [OF rir] d r]) (simp add: k off_log_fold [OF off] cf_of_def)
qed

lemma rocks_write_holds:
  assumes "rsbr_entry_write rdb ri re ws = Some ri'" and "rocks_storable re" and "rocks_ws_ok ws"
  shows "rocks_holds kv (ri_backend_arg ri') re"
  by (rule entry_write_kv [OF assms(1,3)]) (simp add: rocks_holds_def entry_key_kinds assms(2))

lemma rocks_write_keeps:
  assumes "rsbr_entry_write rdb ri re ws = Some ri'" and "rocks_storable re" and "rocks_ws_ok ws"
    and "rocks_holds kv (ri_backend_arg ri) re'" and "reh_index (re_header re') \<noteq> reh_index (re_header re)"
  shows "rocks_holds kv (ri_backend_arg ri') re'"
proof -
  have "key_idx (reh_index (re_header re))" "key_idx (reh_index (re_header re'))"
    using assms(2,4) by (auto simp: rocks_storable_def rocks_holds_def)
  note ne = entry_keys_eq [OF this(2,1)] entry_key_kinds
  obtain rir db rir' db' where r: "rs_rir (ri_backend_arg ri) = Some rir" "rir_db rir = Some db"
    "rs_rir (ri_backend_arg ri') = Some rir'" "rir_db rir' = Some db'"
    and k: "\<And>k. log_key k \<Longrightarrow> kv db' ''default'' k =
       (if k = RAFT_ENTRY_KEY_PRINTF (reh_index (re_header re)) then Some (rsbr_entry_value re)
        else if k = RAFT_ENTRY_HEADER_KEY_PRINTF (reh_index (re_header re)) then Some (encode_reh (re_header re))
        else kv db ''default'' k)"
    by (rule entry_write_kv [OF assms(1,3)]) (rule that)
  show ?thesis
    using assms(4,5) unfolding rocks_holds_update [OF r(1,2)] rocks_holds_update [OF r(3,4)] by (simp add: k ne)
qed

text \<open>A read that returns 0 has the value of the key.\<close>

lemma get_exact:
  assumes "rsbr_get_exact_val_size rdb rir key value n = Some (0, bs)"
  obtains db v where "rir_db rir = Some db" and "kv db ''default'' key = Some v" and "length v = n"
    and "bs = v @ drop n value"
  using assms
  by (auto simp: rsbr_get_exact_val_size_def rsbr_get_def bind_Some split: if_splits option.splits dest!: get_ok)

lemma header_read_value:
  assumes "rsbr_entry_header_read rdb ri h = Some (0, h')" and "rs_rir (ri_backend_arg ri) = Some rir" and "rir_db rir = Some db"
    and "kv db ''default'' (RAFT_ENTRY_HEADER_KEY_PRINTF (reh_index h)) = Some (encode_reh e)" and "reh_fits e"
  shows "h' = e"
proof -
  obtain rir' bs where rir: "rsbr_ri_to_rirdb ri = Some rir'" and h': "h' = decode_reh bs"
    and g: "rsbr_get_exact_val_size rdb rir' (RAFT_ENTRY_HEADER_KEY_PRINTF (reh_index h)) (encode_reh h)
      RAFT_ENTRY_HEADER_RESERVE = Some (0, bs)"
    using assms(1) by (auto simp: rsbr_entry_header_read_def bind_Some split: if_splits)
  have "rir' = rir" using rirdb_rs_rir [OF rir] assms(2) by simp
  with get_exact [OF g] obtain v where "kv db ''default'' (RAFT_ENTRY_HEADER_KEY_PRINTF (reh_index h)) = Some v"
      "bs = v @ drop RAFT_ENTRY_HEADER_RESERVE (encode_reh h)"
    using assms(3) by auto
  then show ?thesis
    using assms(4,5) by (auto simp: h' decode_encode_reh)
qed

lemma rocks_header_read:
  assumes "rsbr_entry_header_read rdb ri h = Some (0, h')" and "rocks_holds kv (ri_backend_arg ri) re"
    and "reh_index h = reh_index (re_header re)"
  shows "h' = re_header re"
  using assms(2,3) header_read_value [OF assms(1)]
  by (auto simp: rocks_holds_def rocks_storable_def re_fits_def)

lemma rocks_entry_read:
  assumes "rsbr_entry_read rdb ri buf = Some (rc, re')" and "0 \<le> rc" and "rocks_holds kv (ri_backend_arg ri) re"
    and "reh_index (re_header buf) = reh_index (re_header re)"
  shows "re_header re' = re_header re \<and> take (unat (reh_data_size (re_header re))) (re_data re') = re_data re"
proof -
  let ?n = "unat (reh_data_size (re_header re))"
  have neg: "rsbr_entry_header_read rdb ri h = Some (rc, h') \<Longrightarrow> rc \<le> 0" for h rc h'
    by (auto simp: rsbr_entry_header_read_def rsbr_get_exact_val_size_def rsbr_get_def bind_Some
        split: if_splits option.splits)
  obtain h rc' where hr: "rsbr_entry_header_read rdb ri (re_header buf) = Some (rc', h)"
    using assms(1) by (auto simp: rsbr_entry_read_def bind_Some)
  have rc': "rc' = 0"
    using assms(1,2) hr neg [OF hr] by (auto simp: rsbr_entry_read_def bind_Some Let_def split: if_splits)
  have h: "h = re_header re"
    using rocks_header_read [OF hr [unfolded rc'] assms(3,4)] .
  obtain rir bs rc2 where rir: "rsbr_ri_to_rirdb ri = Some rir"
    and g: "rsbr_get_exact_val_size rdb rir (RAFT_ENTRY_KEY_PRINTF (reh_index h)) (re_data buf) ?n = Some (rc2, bs)"
    and re': "re' = \<lparr>re_header = h, re_data = bs\<rparr>" and rc2: "\<not> rc2 < 0"
    using assms(1,2) hr rc' by (auto simp: rsbr_entry_read_def bind_Some Let_def h split: if_splits)
  have "rc2 = 0"
    using g rc2 by (auto simp: rsbr_get_exact_val_size_def rsbr_get_def bind_Some split: if_splits option.splits)
  then obtain db v where d: "rir_db rir = Some db"
    and v: "kv db ''default'' (RAFT_ENTRY_KEY_PRINTF (reh_index h)) = Some v" "length v = ?n" "bs = v @ drop ?n (re_data buf)"
    using get_exact g by blast
  show ?thesis
    using assms(3) v unfolding rocks_holds_update [OF rirdb_rs_rir [OF rir] d]
    by (auto simp: re' h rocks_storable_def re_fits_def rsbr_entry_value_def split: if_splits)
qed

lemma truncate_kv:
  assumes "rsbr_log_truncate rdb ri i = Some ri'"
  obtains rir db rir' db' where "rs_rir (ri_backend_arg ri) = Some rir" "rir_db rir = Some db"
    "rs_rir (ri_backend_arg ri') = Some rir'" "rir_db rir' = Some db'"
    "kv db' ''default'' = (\<lambda>k. if RAFT_ENTRY_KEY_PRINTF i \<le> k \<and> k < RAFT_LOG_LASTENTRY_ROCKSDB then None
       else kv db ''default'' k)"
proof -
  obtain rir where rir: "rsbr_ri_to_rirdb ri = Some rir"
    and w: "rsbr_batch_write rdb True [WB_delete_range (RAFT_ENTRY_KEY_PRINTF i) RAFT_LOG_LASTENTRY_ROCKSDB] rir ri = Some ri'"
    using assms by (auto simp: rsbr_log_truncate_def bind_Some split: if_splits)
  obtain db db' rir' where d: "rir_db rir = Some db" "rs_rir (ri_backend_arg ri') = Some rir'" "rir_db rir' = Some db'"
    and k: "kv db' = fold wb_apply [WB_delete_range (RAFT_ENTRY_KEY_PRINTF i) RAFT_LOG_LASTENTRY_ROCKSDB] (kv db)"
    using batch_write_kv [OF w] .
  show thesis
    by (rule that [OF rirdb_rs_rir [OF rir] d]) (simp add: k)
qed

lemma rocks_truncate_keeps:
  assumes "rsbr_log_truncate rdb ri i = Some ri'" and "key_idx i" and "rocks_holds kv (ri_backend_arg ri) re"
    and "reh_index (re_header re) < i"
  shows "rocks_holds kv (ri_backend_arg ri') re"
proof -
  have "key_idx (reh_index (re_header re))"
    using assms(3) by (auto simp: rocks_storable_def rocks_holds_def)
  note lt = entry_keys_less [OF this assms(2)]
  obtain rir db rir' db' where r: "rs_rir (ri_backend_arg ri) = Some rir" "rir_db rir = Some db"
    "rs_rir (ri_backend_arg ri') = Some rir'" "rir_db rir' = Some db'"
    and k: "kv db' ''default'' = (\<lambda>k. if RAFT_ENTRY_KEY_PRINTF i \<le> k \<and> k < RAFT_LOG_LASTENTRY_ROCKSDB then None
       else kv db ''default'' k)"
    using truncate_kv [OF assms(1)] .
  show ?thesis
    using assms(3,4) lt unfolding rocks_holds_update [OF r(1,2)] rocks_holds_update [OF r(3,4)]
    by (simp add: k not_le [symmetric])
qed

lemma rocks_truncate_drops:
  assumes "rsbr_log_truncate rdb ri i = Some ri'" and "key_idx i" and "rocks_holds kv (ri_backend_arg ri') re"
  shows "reh_index (re_header re) < i"
proof (rule ccontr)
  assume "\<not> reh_index (re_header re) < i"
  moreover have "key_idx (reh_index (re_header re))"
    using assms(3) by (auto simp: rocks_storable_def rocks_holds_def)
  ultimately have "RAFT_ENTRY_KEY_PRINTF i \<le> RAFT_ENTRY_KEY_PRINTF (reh_index (re_header re))"
    using entry_keys_less(1) [OF _ assms(2)] by (simp add: not_less [symmetric])
  moreover obtain rir db rir' db' where r: "rs_rir (ri_backend_arg ri') = Some rir'" "rir_db rir' = Some db'"
    and k: "kv db' ''default'' = (\<lambda>k. if RAFT_ENTRY_KEY_PRINTF i \<le> k \<and> k < RAFT_LOG_LASTENTRY_ROCKSDB then None
       else kv db ''default'' k)"
    using truncate_kv [OF assms(1)] .
  ultimately show False
    using assms(3) entry_keys_between(5) unfolding rocks_holds_update [OF r] by (simp add: k)
qed

lemma rocks_header_write_keeps:
  assumes "rsbr_header_write rdb ri = Some (rc, ri')" and "rocks_holds kv (ri_backend_arg ri) re"
  shows "rocks_holds kv (ri_backend_arg ri') re"
proof -
  obtain rir where rir: "rsbr_ri_to_rirdb ri = Some rir" and w: "rsbr_batch_write rdb True
      [WB_put None (RAFT_LOG_HEADER_FMT (ri_raft_uuid_str ri) (ri_this_peer_uuid_str ri)) (encode_rlh (ri_log_hdr ri))] rir ri = Some ri'"
    using assms(1) by (auto simp: rsbr_header_write_def bind_Some split: if_splits)
  show ?thesis
    by (rule off_log_batch [OF rirdb_rs_rir [OF rir] w _ assms(2)]) simp
qed

lemma rocks_sync_keeps:
  assumes "rsbr_sync rdb env ri = Some (rc, ri')" and "rocks_holds kv (ri_backend_arg ri) re"
  shows "rocks_holds kv (ri_backend_arg ri') re"
proof -
  obtain rir rir' where rir: "rsbr_ri_to_rirdb ri = Some rir" and ri': "ri' = set_rir rir' ri"
    and w: "rsbr_own_batch_write rdb [WB_put None RAFT_LOG_HEADER_ROCKSDB_LAST_SYNC (encode_timespec (env_realtime env))] rir = Some rir'"
    using assms(1) by (auto simp: rsbr_sync_def bind_Some)
  show ?thesis
    unfolding ri' by (rule own_batch_holds [OF rirdb_rs_rir [OF rir] w _ assms(2)]) simp
qed

lemma rocks_apply_keeps:
  assumes "rsbr_sm_apply_opt rdb ri ws = Some ri'" and "rocks_ws_ok ws" and "rocks_holds kv (ri_backend_arg ri) re"
  shows "rocks_holds kv (ri_backend_arg ri') re"
proof -
  let ?wb = "[WB_put None RAFT_LOG_HEADER_LAST_APPLIED_ROCKSDB (encode_rla (ri_last_applied ri))]"
  obtain wb' where wb: "rsbr_write_supplements_put ws ?wb = ?wb @ wb'" and off: "list_all off_log wb'"
    using supplements_off_log [OF assms(2)] .
  obtain rir where rir: "rsbr_ri_to_rirdb ri = Some rir" and w: "rsbr_batch_write rdb False (?wb @ wb') rir ri = Some ri'"
    using assms(1) by (auto simp: rsbr_sm_apply_opt_def rsb_sm_apply_add_last_applied_kv_def bind_Some wb)
  show ?thesis
    by (rule off_log_batch [OF rirdb_rs_rir [OF rir] w _ assms(3)]) (simp add: off)
qed

text \<open>Reaping keeps the entries above the index.\<close>

lemma rocks_reap_keeps:
  assumes "rsbr_log_reap rdb ri i = Some ri'" and "key_idx i" and "rocks_holds kv (ri_backend_arg ri) re"
    and "i < reh_index (re_header re)"
  shows "rocks_holds kv (ri_backend_arg ri') re"
proof -
  let ?j = "reh_index (re_header re)"
  have j: "key_idx ?j"
    using assms(3) by (auto simp: rocks_storable_def rocks_holds_def)
  obtain rir rir' db' db where rir: "rsbr_ri_to_rirdb ri = Some rir"
    and w: "rsbr_own_batch_write rdb [WB_delete_range (RAFT_ENTRY_KEY_PRINTF 0) (RAFT_ENTRY_KEY_PRINTF i)] rir = Some rir'"
    and d': "rir_db rir' = Some db'"
    and r: "rs_rir (ri_backend_arg ri') = Some (rir'\<lparr>rir_db := Some (rocksdb_delete_file_in_range rdb
        (rocksdb_compact_range rdb db' (RAFT_ENTRY_KEY_PRINTF 0) (RAFT_ENTRY_KEY_PRINTF i))
        (RAFT_ENTRY_KEY_PRINTF 0) (RAFT_ENTRY_KEY_PRINTF i))\<rparr>)"
    using assms(1) by (auto simp: rsbr_log_reap_def bind_Some Let_def split: if_splits)
  obtain db where d: "rir_db rir = Some db"
    and k: "kv db' = wb_apply (WB_delete_range (RAFT_ENTRY_KEY_PRINTF 0) (RAFT_ENTRY_KEY_PRINTF i)) (kv db)"
    using w d' by (auto simp: rsbr_own_batch_write_def bind_Some split: if_splits dest!: write_ok)
  have lt: "RAFT_ENTRY_KEY_PRINTF i < RAFT_ENTRY_KEY_PRINTF ?j" "RAFT_ENTRY_KEY_PRINTF i < RAFT_ENTRY_HEADER_KEY_PRINTF ?j"
    using entry_keys_less [OF assms(2) j] assms(4) by simp_all
  show ?thesis
    using assms(3) lt unfolding rocks_holds_update [OF rirdb_rs_rir [OF rir] d]
    by (auto simp: rocks_holds_def r delete_file_outside compact_ok k)
qed

end

end
