(* ===== verification/Raft_Store.thy ===== *)
theory Raft_Store
  imports Raft_Rocksdb Raft_Append
begin

text \<open>
  The store directory of the key-value backend: checkpoints, the trash, opening and closing the
  database, and the bulk recovery that replaces it by a peer's checkpoint
  (\<open>raft_server_backend_rocksdb.c\<close>). The file system, the processes the backend starts and the
  opening of a database are the record \<open>store_fs\<close>.
\<close>

section \<open>The platform\<close>

text \<open>The regular expressions of the recovery, compiled when the library is loaded.\<close>

datatype recovery_regexes =
  RECOVERY_MARKER_NAME__regex | RECOVERY_RSYNC_TOTAL_SIZE__regex | RECOVERY_RSYNC_TOTAL_XFER_SIZE__regex
| RECOVERY_RSYNC_PROGRESS_LINE__regex | RECOVERY_RSYNC_PROGRESS_LINE_RATE__regex | RECOVERY_CHKPT_DIRNAME__regex

datatype rir_alloc = Alloc_rir | Alloc_options | Alloc_writeoptions_sync | Alloc_writeoptions_async
| Alloc_readoptions | Alloc_writebatch

record dirent =
  d_name :: string
  d_is_dir :: bool
  d_reclen :: nat

text \<open>
  The calls on a directory tree of type \<open>'s\<close>. A call that can fail gives 0 or the \<open>errno\<close>, or the
  \<open>errno\<close> on the left. \<open>fs_scandir\<close> gives the entries in the order of \<open>alphasort\<close>;
  \<open>fs_remove_tree\<close> is \<open>nftw\<close> with the callback that removes everything below a directory;
  \<open>fs_popen_cmd_out\<close> runs a command and hands its output line by line to a callback.
\<close>

record ('s, 'd) store_fs =
  fs_pathname_build :: "'s \<Rightarrow> string \<Rightarrow> int \<times> 's"
  fs_open_dir :: "'s \<Rightarrow> string \<Rightarrow> int + int"
  fs_mkdirat :: "'s \<Rightarrow> string \<Rightarrow> int \<times> 's"
  fs_isdir :: "'s \<Rightarrow> string \<Rightarrow> int + bool"
  fs_stat :: "'s \<Rightarrow> string \<Rightarrow> bool"
  fs_rename :: "'s \<Rightarrow> string \<Rightarrow> string \<Rightarrow> int \<times> 's"
  fs_scandir :: "'s \<Rightarrow> string \<Rightarrow> int + dirent list"
  fs_remove_tree :: "'s \<Rightarrow> string \<Rightarrow> 's"
  fs_free_space :: "'s \<Rightarrow> string \<Rightarrow> int"
  fs_popen_cmd_out :: "'s \<Rightarrow> string \<Rightarrow> (string \<Rightarrow> raft_recovery_handle \<Rightarrow> int \<times> raft_recovery_handle)
     \<Rightarrow> raft_recovery_handle \<Rightarrow> int \<times> raft_recovery_handle \<times> 's"
  fs_rocksdb_open :: "'s \<Rightarrow> string \<Rightarrow> bool \<Rightarrow> string list \<Rightarrow> 'd option \<times> 's"
  fs_rocksdb_close :: "'d \<Rightarrow> 's \<Rightarrow> 's"
  fs_checkpoint_create :: "'d \<Rightarrow> string \<Rightarrow> 's \<Rightarrow> bool \<times> 's"
  fs_alloc :: "rir_alloc \<Rightarrow> bool"
  fs_uuid_generate :: "'s \<Rightarrow> uuid"
  fs_uuid_parse :: "string \<Rightarrow> uuid option"
  fs_uuid_unparse :: "uuid \<Rightarrow> string"
  fs_regexec :: "recovery_regexes \<Rightarrow> string \<Rightarrow> bool"
  fs_last_instance_of_char :: "string \<Rightarrow> char \<Rightarrow> int"
  fs_to_ull :: "u8 list \<Rightarrow> int + nat"
  fs_parse_comma_uint :: "string \<Rightarrow> int + nat"
  fs_csn_store :: "uuid \<Rightarrow> int + (string option \<times> string)"

type_synonym ('s, 'd) store = "'d rocksdb \<times> ('s, 'd) store_fs"

definition fs_of :: "('s, 'd) rocks_instance \<Rightarrow> 's" where
  "fs_of ri = rs_fs (ri_backend_arg ri)"

definition set_fs :: "'s \<Rightarrow> ('s, 'd) rocks_instance \<Rightarrow> ('s, 'd) rocks_instance" where
  "set_fs s ri = ri\<lparr>ri_backend_arg := (ri_backend_arg ri)\<lparr>rs_fs := s\<rparr>\<rparr>"

definition STORE_PATH_MAX :: nat where "STORE_PATH_MAX = 4096"
definition UUID_STR_LEN :: nat where "UUID_STR_LEN = 37"

section \<open>Names\<close>

definition SUBDIR_DB :: string where "SUBDIR_DB = ''db''"
definition SUBDIR_CHKPT_SELF :: string where "SUBDIR_CHKPT_SELF = ''chkpt/self''"
definition SUBDIR_CHKPT_PEERS :: string where "SUBDIR_CHKPT_PEERS = ''chkpt/peers''"
definition SUBDIR_TRASH :: string where "SUBDIR_TRASH = ''trash''"

definition ribSubDirs :: "string list" where
  "ribSubDirs = [SUBDIR_DB, ''chkpt'', SUBDIR_CHKPT_SELF, SUBDIR_CHKPT_PEERS, SUBDIR_TRASH]"

definition RECOVERY_MARKER_NAME :: string where "RECOVERY_MARKER_NAME = ''inprogress-recovery-db''"
definition RECOVERY_MARKER_NAME_LEN :: nat where "RECOVERY_MARKER_NAME_LEN = 22"

text \<open>What \<open>snprintf\<close> leaves in a buffer of \<open>len\<close> bytes.\<close>

definition snprintf :: "nat \<Rightarrow> string \<Rightarrow> string" where
  "snprintf len s = take (len - 1) s"

definition idx_digits_020 :: "raft_entry_idx_t \<Rightarrow> string" where
  "idx_digits_020 i = map (\<lambda>b. char_of (unat b)) (zero_padded 20 (nat (i mod 2 ^ 64)))"

definition rsbr_recovery_rsync_path_build ::
  "('s, 'd) store_fs \<Rightarrow> string \<Rightarrow> uuid \<Rightarrow> uuid \<Rightarrow> nat \<Rightarrow> int \<times> string" where
  "rsbr_recovery_rsync_path_build fs base peer_id db_id len =
     (if uuid_is_null peer_id \<or> uuid_is_null db_id \<or> len = 0 then (- EINVAL, '''')
      else let path = base @ ''/'' @ SUBDIR_CHKPT_PEERS @ ''/'' @ fs_uuid_unparse fs db_id @ ''_'' @ fs_uuid_unparse fs peer_id
           in (if len \<le> length path then - ENAMETOOLONG else 0, snprintf len path))"

definition rsbr_recovery_inprogress_path_build ::
  "('s, 'd) store_fs \<Rightarrow> string \<Rightarrow> raft_recovery_handle \<Rightarrow> nat \<Rightarrow> int \<times> string" where
  "rsbr_recovery_inprogress_path_build fs base rrh len =
     (if len = 0 \<or> uuid_is_null (rrh_peer_uuid rrh) \<or> uuid_is_null (rrh_peer_db_uuid rrh) then (- EINVAL, '''')
      else let path = base @ ''/'' @ RECOVERY_MARKER_NAME @ ''.'' @ fs_uuid_unparse fs (rrh_peer_db_uuid rrh) @ ''_'' @
                 fs_uuid_unparse fs (rrh_peer_uuid rrh)
           in (if len \<le> length path then - ENAMETOOLONG else 0, snprintf len path))"

definition rsbr_checkpoint_path_build ::
  "('s, 'd) store_fs \<Rightarrow> string \<Rightarrow> uuid \<Rightarrow> uuid \<Rightarrow> raft_entry_idx_t \<Rightarrow> bool \<Rightarrow> bool \<Rightarrow> nat \<Rightarrow> int \<times> string" where
  "rsbr_checkpoint_path_build fs base peer_id db_id sync_idx local initial len =
     (if uuid_is_null peer_id \<or> uuid_is_null db_id \<or> len = 0 \<or> sync_idx < 0 then (- EINVAL, '''')
      else let path = base @ ''/'' @ (if local then SUBDIR_CHKPT_SELF else SUBDIR_CHKPT_PEERS) @ ''/'' @
                 (if initial then ''.in-progress_'' else '''') @ fs_uuid_unparse fs db_id @ ''_'' @
                 fs_uuid_unparse fs peer_id @ ''_'' @ idx_digits_020 sync_idx
           in (if len < length path then - ENAMETOOLONG else 0, snprintf len path))"

definition rsbr_make_db_pathname ::
  "('s, 'd) store_fs \<Rightarrow> ('s, 'd) rocks_instance \<Rightarrow> nat \<Rightarrow> int \<times> string" where
  "rsbr_make_db_pathname fs ri len =
     (if len = 0 then (- EINVAL, '''')
      else if ri_proc_state ri = RAFT_PROC_STATE_RECOVERING
      then rsbr_recovery_inprogress_path_build fs (ri_log ri) (ri_recovery_handle ri) len
      else let path = ri_log ri @ ''/'' @ SUBDIR_DB
           in (if STORE_PATH_MAX \<le> length path then - ENAMETOOLONG else 0, snprintf len path))"

section \<open>The trash\<close>

definition rsbr_remove_trash :: "('s, 'd) store_fs \<Rightarrow> ('s, 'd) rocks_instance \<Rightarrow> int \<times> ('s, 'd) rocks_instance" where
  "rsbr_remove_trash fs ri = (
     let trash_path = ri_log ri @ ''/'' @ SUBDIR_TRASH
     in if STORE_PATH_MAX < length trash_path then (- ENAMETOOLONG, ri)
        else (0, set_fs (fs_remove_tree fs (fs_of ri) (snprintf STORE_PATH_MAX trash_path)) ri))"

definition rsbr_try_ri_to_rirdb_logfd :: "('s, 'd) rocks_instance \<Rightarrow> int option" where
  "rsbr_try_ri_to_rirdb_logfd ri = (case rs_rir (ri_backend_arg ri) of
       None \<Rightarrow> Some (- ENOENT)
     | Some _ \<Rightarrow> do { rir \<leftarrow> rsbr_ri_to_rirdb ri; Some (rir_log_fd rir) })"

definition rsbr_move_item_to_trash ::
  "('s, 'd) store_fs \<Rightarrow> ('s, 'd) rocks_instance \<Rightarrow> string \<Rightarrow> (int \<times> ('s, 'd) rocks_instance) option" where
  "rsbr_move_item_to_trash fs ri path = do {
     fd \<leftarrow> rsbr_try_ri_to_rirdb_logfd ri;
     let fd = (if fd = - ENOENT then case fs_open_dir fs (fs_of ri) (ri_log ri) of Inl _ \<Rightarrow> - 1 | Inr fd \<Rightarrow> fd
               else fd);
     if fd < 0 then Some (- EBADF, ri)
     else let dir_name = fs_uuid_unparse fs (fs_uuid_generate fs (fs_of ri));
              tmp_path = SUBDIR_TRASH @ ''/'' @ dir_name
          in if STORE_PATH_MAX < length tmp_path then Some (- ENAMETOOLONG, ri)
             else let (rc, s) = fs_mkdirat fs (fs_of ri) (snprintf STORE_PATH_MAX tmp_path); ri = set_fs s ri
                  in if rc \<noteq> 0 then Some (- rc, ri)
                     else let file_name_idx = nat (max 0 (fs_last_instance_of_char fs path CHR ''/''));
                              tmp_path = SUBDIR_TRASH @ ''/'' @ dir_name @ ''/'' @ drop file_name_idx path
                          in if STORE_PATH_MAX < length tmp_path then Some (- ENAMETOOLONG, ri)
                             else let (rc, s) = fs_rename fs (fs_of ri) path (snprintf STORE_PATH_MAX tmp_path)
                                  in Some (- rc, set_fs s ri) }"

section \<open>Checkpoints\<close>

definition CHKPT_FILENAME_LEN :: nat where "CHKPT_FILENAME_LEN = UUID_STR_LEN * 2 + 20"

definition rsbr_chkpt_scan_parse_entry ::
  "('s, 'd) store_fs \<Rightarrow> dirent \<Rightarrow> int + (uuid \<times> uuid \<times> raft_entry_idx_t)" where
  "rsbr_chkpt_scan_parse_entry fs dent =
     (if d_reclen dent < CHKPT_FILENAME_LEN then Inl (- ERANGE)
      else if \<not> d_is_dir dent then Inl (- ENOTDIR)
      else let dname = take CHKPT_FILENAME_LEN (d_name dent)
           in (case (fs_uuid_parse fs (take (UUID_STR_LEN - 1) dname),
                     fs_uuid_parse fs (take (UUID_STR_LEN - 1) (drop UUID_STR_LEN dname)),
                     fs_to_ull fs (bytes_of (drop (UUID_STR_LEN * 2) dname))) of
                 (Some db, Some peer, Inr idx) \<Rightarrow> Inr (db, peer, sint (word_of_nat idx :: u64))
               | _ \<Rightarrow> Inl (- EBADMSG)))"

text \<open>The loop over the checkpoints, from the last name to the first; \<open>n\<close> are found so far.\<close>

fun self_chkpt_scan_loop ::
  "('s, 'd) store_fs \<Rightarrow> dirent list \<Rightarrow> nat \<Rightarrow> ('s, 'd) rocks_instance \<Rightarrow> ('s, 'd) rocks_instance option" where
  "self_chkpt_scan_loop fs [] n ri = Some ri"
| "self_chkpt_scan_loop fs (dent # dents) n ri = do {
     let (trash, n, ri) = (case rsbr_chkpt_scan_parse_entry fs dent of
         Inl rc \<Rightarrow> (True, n, ri)
       | Inr (db_uuid, peer_uuid, chkpt_idx) \<Rightarrow>
           if ri_csn_this_peer ri \<noteq> peer_uuid \<or> ri_db_uuid ri \<noteq> db_uuid then (True, n, ri)
           else let n = n + 1
                in if n = 1
                   then (False, n, if raft_instance_is_booting ri then ri\<lparr>ri_checkpoint_last_idx := chkpt_idx\<rparr> else ri)
                   else (ri_num_checkpoints ri < n, n, ri));
     ri \<leftarrow> (if trash
            then do { (rc, ri) \<leftarrow> rsbr_move_item_to_trash fs ri (snprintf STORE_PATH_MAX (SUBDIR_CHKPT_SELF @ ''/'' @ d_name dent)); Some ri }
            else Some ri);
     self_chkpt_scan_loop fs dents n ri }"

definition rsbr_self_chkpt_scan ::
  "('s, 'd) store_fs \<Rightarrow> 'd raft_instance_rocks_db \<Rightarrow> ('s, 'd) rocks_instance \<Rightarrow> (int \<times> ('s, 'd) rocks_instance) option" where
  "rsbr_self_chkpt_scan fs rir ri = do {
     NIOVA_ASSERT (0 \<le> rir_log_fd rir);
     (case fs_scandir fs (fs_of ri) SUBDIR_CHKPT_SELF of
        Inl errno \<Rightarrow> Some (- errno, ri)
      | Inr dents \<Rightarrow> do {
          let self_chkpts = filter (\<lambda>d. fs_regexec fs RECOVERY_CHKPT_DIRNAME__regex (d_name d)) dents;
          ri \<leftarrow> self_chkpt_scan_loop fs (rev self_chkpts) 0 ri;
          Some (0, ri) }) }"

definition rsbr_startup_checkpoint_scan ::
  "('s, 'd) store_fs \<Rightarrow> ('s, 'd) rocks_instance \<Rightarrow> (int \<times> ('s, 'd) rocks_instance) option" where
  "rsbr_startup_checkpoint_scan fs ri = (case rs_rir (ri_backend_arg ri) of
       None \<Rightarrow> Some (- EINVAL, ri)
     | Some rir \<Rightarrow>
         if uuid_is_null (ri_db_uuid ri) then Some (- EINVAL, ri)
         else do {
           NIOVA_ASSERT (raft_instance_is_booting ri);
           if rir_log_fd rir < 0 then Some (- EBADF, ri) else rsbr_self_chkpt_scan fs rir ri })"

definition rsbr_checkpoint_cleanup ::
  "('s, 'd) store_fs \<Rightarrow> 'd raft_instance_rocks_db \<Rightarrow> ('s, 'd) rocks_instance \<Rightarrow> ('s, 'd) rocks_instance option" where
  "rsbr_checkpoint_cleanup fs rir ri = do {
     (_, ri) \<leftarrow> rsbr_self_chkpt_scan fs rir ri;
     Some (snd (rsbr_remove_trash fs ri)) }"

text \<open>Taking a checkpoint once its two paths are known.\<close>

definition checkpoint_at ::
  "('s, 'd) store_fs \<Rightarrow> raft_entry_idx_t \<Rightarrow> string \<Rightarrow> string \<Rightarrow> ('s, 'd) rocks_instance
     \<Rightarrow> (int \<times> ('s, 'd) rocks_instance) option" where
  "checkpoint_at fs chkpt_idx chkpt_tmp_path chkpt_path ri =
     (if fs_stat fs (fs_of ri) chkpt_path then Some (- EALREADY, ri)
      else do {
        rir \<leftarrow> rsbr_ri_to_rirdb ri;
        db \<leftarrow> rir_db rir;
        let (ok, s) = fs_checkpoint_create fs db chkpt_tmp_path (fs_of ri);
        let ri = set_fs s ri;
        if \<not> ok then Some (- ENOMEM, ri)
        else do {
          let (rc, s) = fs_rename fs (fs_of ri) chkpt_tmp_path chkpt_path;
          ri \<leftarrow> rsbr_checkpoint_cleanup fs rir (set_fs s ri);
          Some (if rc \<noteq> 0 then - rc else chkpt_idx, ri) } })"

text \<open>An error of the path is returned with the wrong sign.\<close>

definition rsbr_checkpoint ::
  "('s, 'd) store_fs \<Rightarrow> ('s, 'd) rocks_instance \<Rightarrow> (int \<times> ('s, 'd) rocks_instance) option" where
  "rsbr_checkpoint fs ri = do {
     _ \<leftarrow> rsbr_ri_to_rirdb ri;
     let chkpt_idx = raft_server_instance_chkpt_compact_max_idx ri;
     if chkpt_idx < 0 then Some (- ENODATA, ri)
     else if chkpt_idx = ri_checkpoint_last_idx ri then Some (- EALREADY, ri)
     else let path = (\<lambda>initial. rsbr_checkpoint_path_build fs (ri_log ri) (ri_csn_this_peer ri) (ri_db_uuid ri)
                chkpt_idx True initial STORE_PATH_MAX)
          in if fst (path True) \<noteq> 0 then Some (- fst (path True), ri)
             else if fst (path False) \<noteq> 0 then Some (- fst (path False), ri)
             else do {
               (rc, ri) \<leftarrow> (if fs_stat fs (fs_of ri) (snd (path True))
                            then rsbr_move_item_to_trash fs ri (snd (path True)) else Some (0, ri));
               if rc \<noteq> 0 then Some (rc, ri)
               else checkpoint_at fs chkpt_idx (snd (path True)) (snd (path False)) ri } }"

section \<open>Opening the database\<close>

fun create_subdirs_loop :: "('s, 'd) store_fs \<Rightarrow> string list \<Rightarrow> 's \<Rightarrow> int \<times> 's" where
  "create_subdirs_loop fs [] s = (0, s)"
| "create_subdirs_loop fs (dir # dirs) s = (
     let (errno, s) = fs_mkdirat fs s dir
     in if errno = 0 then create_subdirs_loop fs dirs s
        else if errno = EEXIST
        then (case fs_isdir fs s dir of
                Inl errno \<Rightarrow> (- errno, s)
              | Inr isdir \<Rightarrow> if isdir then create_subdirs_loop fs dirs s else (- ENOTDIR, s))
        else (- errno, s))"

definition rsbr_setup_create_subdirs ::
  "('s, 'd) store_fs \<Rightarrow> 'd raft_instance_rocks_db \<Rightarrow> 's \<Rightarrow> int \<times> 's" where
  "rsbr_setup_create_subdirs fs rir s =
     (if rir_log_fd rir < 0 then (- EINVAL, s) else create_subdirs_loop fs ribSubDirs s)"

definition rsbr_subdirs_setup ::
  "('s, 'd) store_fs \<Rightarrow> ('s, 'd) rocks_instance \<Rightarrow> int \<times> ('s, 'd) rocks_instance" where
  "rsbr_subdirs_setup fs ri = (case rs_rir (ri_backend_arg ri) of
       None \<Rightarrow> (- EINVAL, ri)
     | Some rir \<Rightarrow>
         let (rc, s) = fs_pathname_build fs (fs_of ri) (ri_log ri); ri = set_fs s ri
         in if rc \<noteq> 0 then (rc, ri)
            else (case fs_open_dir fs (fs_of ri) (ri_log ri) of
                Inl errno \<Rightarrow> (- errno, set_rir (rir\<lparr>rir_log_fd := - 1\<rparr>) ri)
              | Inr fd \<Rightarrow>
                  let rir = rir\<lparr>rir_log_fd := fd\<rparr>; ri = set_rir rir ri
                  in if ri_proc_state ri \<noteq> RAFT_PROC_STATE_RECOVERING
                     then let (rc, s) = rsbr_setup_create_subdirs fs rir (fs_of ri) in (rc, set_fs s ri)
                     else (0, ri)))"

definition rsbr_setup_rir_rockdsdb_items ::
  "('s, 'd) store_fs \<Rightarrow> 'd raft_instance_rocks_db \<Rightarrow> int \<times> 'd raft_instance_rocks_db" where
  "rsbr_setup_rir_rockdsdb_items fs rir =
     (let rir = rir\<lparr>rir_options := fs_alloc fs Alloc_options\<rparr>
      in if \<not> fs_alloc fs Alloc_options then (- ENOMEM, rir)
      else let rir = rir\<lparr>rir_writeoptions_sync := fs_alloc fs Alloc_writeoptions_sync\<rparr>
      in if \<not> fs_alloc fs Alloc_writeoptions_sync then (- ENOMEM, rir)
      else let rir = rir\<lparr>rir_writeoptions_async := fs_alloc fs Alloc_writeoptions_async\<rparr>
      in if \<not> fs_alloc fs Alloc_writeoptions_async then (- ENOMEM, rir)
      else let rir = rir\<lparr>rir_readoptions := fs_alloc fs Alloc_readoptions\<rparr>
      in if \<not> fs_alloc fs Alloc_readoptions then (- ENOMEM, rir)
      else if \<not> fs_alloc fs Alloc_writebatch then (- ENOMEM, rir\<lparr>rir_writebatch := None\<rparr>)
      else (0, rir\<lparr>rir_writebatch := Some []\<rparr>))"

text \<open>\<open>cft\<close> are the column families the application asks for (\<open>ri_backend_init_arg\<close>).\<close>

definition rsbr_setup_rir ::
  "('s, 'd) store_fs \<Rightarrow> string list \<Rightarrow> ('s, 'd) rocks_instance \<Rightarrow> int \<times> ('s, 'd) rocks_instance" where
  "rsbr_setup_rir fs cft ri =
     (if rs_rir (ri_backend_arg ri) \<noteq> None then (- EALREADY, ri)
      else if \<not> fs_alloc fs Alloc_rir then (- ENOMEM, ri)
      else let rir = \<lparr>rir_log_fd = - 1, rir_db = None, rir_options = False, rir_writeoptions_sync = False,
                 rir_writeoptions_async = False, rir_readoptions = False, rir_writebatch = None, rir_cf_table = cft\<rparr>;
               (rc, ri) = rsbr_subdirs_setup fs (set_rir rir ri)
           in if rc \<noteq> 0 then (rc, ri)
              else (case rs_rir (ri_backend_arg ri) of
                  None \<Rightarrow> (- EINVAL, ri)
                | Some rir \<Rightarrow> let (rc, rir) = rsbr_setup_rir_rockdsdb_items fs rir in (rc, set_rir rir ri)))"

definition RAFT_ROCKSDB_MAX_CF :: nat where "RAFT_ROCKSDB_MAX_CF = 32"
definition RAFT_ROCKSDB_MAX_CF_NAME_LEN :: nat where "RAFT_ROCKSDB_MAX_CF_NAME_LEN = 4096"

definition rsbr_db_open_internal ::
  "('s, 'd) store_fs \<Rightarrow> bool \<Rightarrow> ('s, 'd) rocks_instance \<Rightarrow> (int \<times> ('s, 'd) rocks_instance) option" where
  "rsbr_db_open_internal fs create_db ri = do {
     rir \<leftarrow> rs_rir (ri_backend_arg ri);
     NIOVA_ASSERT (rir_options rir);
     NIOVA_ASSERT (raft_instance_is_booting ri \<or> raft_instance_is_recovering ri);
     let (rc, rocksdb_dir) = rsbr_make_db_pathname fs ri STORE_PATH_MAX;
     if rc \<noteq> 0 then Some (rc, ri)
     else do {
       NIOVA_ASSERT (length (rir_cf_table rir) \<le> RAFT_ROCKSDB_MAX_CF);
       let (db, s) = fs_rocksdb_open fs (fs_of ri) rocksdb_dir create_db (rir_cf_table rir);
       Some (if db = None then - ENOENT else 0, set_rir (rir\<lparr>rir_db := db\<rparr>) (set_fs s ri)) } }"

definition rsbr_prep_raft_instance_from_db ::
  "('s, 'd) store \<Rightarrow> ('s, 'd) rocks_instance \<Rightarrow> (int \<times> ('s, 'd) rocks_instance) option" where
  "rsbr_prep_raft_instance_from_db st ri = do {
     let (rdb, fs) = st;
     ri \<leftarrow> rsb_sm_get_instance_uuid rdb ri;
     n \<leftarrow> rsbr_num_entries_calc rdb ri;
     FATAL_IF (n < 0);
     let ri = ri\<lparr>ri_entries_detected_at_startup := n\<rparr>;
     (rc, lowest_idx) \<leftarrow> (if 0 < n then rsbr_lowest_entry_get rdb (fs_to_ull fs) ri else Some (0, - 1));
     FATAL_IF (rc \<noteq> 0);
     let ri = ri\<lparr>ri_lowest_idx := lowest_idx\<rparr>;
     ri \<leftarrow> (if ri_store_type ri = RAFT_INSTANCE_STORE_ROCKSDB_PERSISTENT_APP
            then rsb_sm_get_last_applied_kv_idx rdb ri else Some ri);
     (rc, ri) \<leftarrow> (if raft_instance_is_booting ri then rsbr_startup_checkpoint_scan fs ri else Some (0, ri));
     FATAL_IF (rc \<noteq> 0);
     Some (0, ri) }"

definition rsbr_db_open ::
  "('s, 'd) store \<Rightarrow> ('s, 'd) rocks_instance \<Rightarrow> (int \<times> ('s, 'd) rocks_instance) option" where
  "rsbr_db_open st ri = do {
     let (rdb, fs) = st;
     NIOVA_ASSERT (raft_instance_is_booting ri \<or> raft_instance_is_recovering ri);
     (rc, ri) \<leftarrow> rsbr_db_open_internal fs False ri;
     (rc, ri) \<leftarrow> (if rc \<noteq> 0 \<and> \<not> raft_instance_is_recovering ri
        then do {
          (rc, ri) \<leftarrow> rsbr_db_open_internal fs True ri;
          if rc = 0 then rsbr_init_header rdb (fs_uuid_generate fs (fs_of ri)) ri else Some (rc, ri) }
        else Some (rc, ri));
     if rc \<noteq> 0 then Some (- ENOTCONN, ri) else rsbr_prep_raft_instance_from_db st ri }"

text \<open>\<open>close\<close> is called on a descriptor only when it is negative, and then fails.\<close>

definition rsbr_destroy ::
  "('s, 'd) store_fs \<Rightarrow> ('s, 'd) rocks_instance \<Rightarrow> (int \<times> ('s, 'd) rocks_instance) option" where
  "rsbr_destroy fs ri = (case rs_rir (ri_backend_arg ri) of
       None \<Rightarrow> Some (- EALREADY, ri)
     | Some _ \<Rightarrow> do {
         rir \<leftarrow> rsbr_ri_to_rirdb ri;
         let s = (case rir_db rir of None \<Rightarrow> fs_of ri | Some db \<Rightarrow> fs_rocksdb_close fs db (fs_of ri));
         Some (0, ri\<lparr>ri_backend_arg := \<lparr>rs_fs = s, rs_rir = None\<rparr>\<rparr>) })"

section \<open>The recovery marker\<close>

definition rsbr_recovery_marker_scan ::
  "('s, 'd) store_fs \<Rightarrow> ('s, 'd) rocks_raft_env \<Rightarrow> ('s, 'd) rocks_instance \<Rightarrow> int \<times> ('s, 'd) rocks_instance" where
  "rsbr_recovery_marker_scan fs env ri = (case rs_rir (ri_backend_arg ri) of
       None \<Rightarrow> (- EINVAL, ri)
     | Some rir \<Rightarrow>
         if rir_log_fd rir < 0 then (- EBADF, ri)
         else let ri = ri\<lparr>ri_incomplete_recovery := False\<rparr>
              in (case fs_scandir fs (fs_of ri) ''.'' of
                    Inl errno \<Rightarrow> (- errno, ri)
                  | Inr dents \<Rightarrow>
                      (case filter (\<lambda>d. d_is_dir d \<and> fs_regexec fs RECOVERY_MARKER_NAME__regex (d_name d)) dents of
                         [] \<Rightarrow> (0, ri)
                       | [dent] \<Rightarrow>
                           let dname = d_name dent;
                               db_uuid_str = take (UUID_STR_LEN - 1) (drop RECOVERY_MARKER_NAME_LEN dname);
                               peer_uuid_str = take (UUID_STR_LEN - 1) (drop (RECOVERY_MARKER_NAME_LEN + UUID_STR_LEN) dname);
                               (rc, ri) = raft_server_init_recovery_handle_from_marker env
                                 (fs_uuid_parse fs db_uuid_str) (fs_uuid_parse fs peer_uuid_str) ri
                           in (rc, if rc = 0 then ri\<lparr>ri_incomplete_recovery := True\<rparr> else ri)
                       | _ \<Rightarrow> (- E2BIG, ri))))"

definition rsbr_setup_detect_recovery ::
  "('s, 'd) store_fs \<Rightarrow> ('s, 'd) rocks_raft_env \<Rightarrow> ('s, 'd) rocks_instance \<Rightarrow> (int \<times> ('s, 'd) rocks_instance) option" where
  "rsbr_setup_detect_recovery fs env ri = (
     let (rc, ri) = rsbr_recovery_marker_scan fs env ri
     in if rc = 0 \<and> ri_incomplete_recovery ri
        then let rrh = ri_recovery_handle ri
             in if \<not> rrh_from_recovery_marker rrh \<or> uuid_is_null (rrh_peer_uuid rrh) \<or> uuid_is_null (rrh_peer_db_uuid rrh)
                then Some (- ENXIO, ri)
                else Some (- EUCLEAN, ri)
        else do { NIOVA_ASSERT (rc \<noteq> - EUCLEAN); Some (rc, ri) })"

definition RAFT_ENTRY_SIZE_ROCKSDB :: nat where "RAFT_ENTRY_SIZE_ROCKSDB = 4194304"

definition rsbr_setup ::
  "('s, 'd) store \<Rightarrow> ('s, 'd) rocks_raft_env \<Rightarrow> string list \<Rightarrow> ('s, 'd) rocks_instance
     \<Rightarrow> (int \<times> ('s, 'd) rocks_instance) option" where
  "rsbr_setup st env cft ri = do {
     let (rdb, fs) = st;
     let ri = ri\<lparr>ri_max_entry_size := RAFT_ENTRY_SIZE_ROCKSDB\<rparr>;
     let (rc, ri) = rsbr_setup_rir fs cft ri;
     (rc, ri) \<leftarrow> (if rc \<noteq> 0 then Some (rc, ri)
        else do {
          let ri = snd (rsbr_remove_trash fs ri);
          (rc, ri) \<leftarrow> rsbr_setup_detect_recovery fs env ri;
          if rc \<noteq> 0 then Some (rc, ri) else rsbr_db_open st ri });
     if rc \<noteq> 0 then do { (_, ri) \<leftarrow> rsbr_destroy fs ri; Some (rc, ri) } else Some (0, ri) }"

end
