(* ===== verification/Raft_Recovery.thy ===== *)
theory Raft_Recovery
  imports Raft_Store
begin

text \<open>
  Bulk recovery on the key-value backend (\<open>raft_server_backend_rocksdb.c\<close>): a server that is too far
  behind copies a checkpoint of the leader with \<open>rsync\<close>, renames it into place and rewrites what in it
  belongs to the peer. Also the table of column families and the function table of the backend.
\<close>

section \<open>Copying a peer's checkpoint\<close>

definition rsbr_bulk_recover_build_remote_path ::
  "('s, 'd) store_fs \<Rightarrow> raft_recovery_handle \<Rightarrow> nat \<Rightarrow> int \<times> string" where
  "rsbr_bulk_recover_build_remote_path fs rrh len = (case fs_csn_store fs (rrh_peer_uuid rrh) of
       Inl rc \<Rightarrow> (rc, [])
     | Inr (None, _) \<Rightarrow> (- ENOENT, [])
     | Inr (Some remote_store, ipaddr) \<Rightarrow>
         let (rc, remote_relative_path) = rsbr_checkpoint_path_build fs remote_store (rrh_peer_uuid rrh)
               (rrh_peer_db_uuid rrh) (rrh_peer_chkpt_idx rrh) True False STORE_PATH_MAX
         in if rc \<noteq> 0 then (rc, [])
            else let path = ipaddr @ '':'' @ remote_relative_path
                 in (if len \<le> length path then - ENAMETOOLONG else 0, snprintf (len - 1) path))"

definition rsbr_bulk_recover_try_parse ::
  "('s, 'd) store_fs \<Rightarrow> string \<Rightarrow> recovery_regexes \<Rightarrow> raft_recovery_handle \<Rightarrow> int \<times> raft_recovery_handle" where
  "rsbr_bulk_recover_try_parse fs output val_type rrh =
     (if \<not> fs_regexec fs val_type output then (0, rrh)
      else let (rc, val) = (case fs_parse_comma_uint fs output of Inl rc \<Rightarrow> (rc, - 1) | Inr n \<Rightarrow> (0, int n))
           in (rc, if val_type = RECOVERY_RSYNC_TOTAL_SIZE__regex then rrh\<lparr>rrh_chkpt_size := val\<rparr>
                   else rrh\<lparr>rrh_remaining := val\<rparr>))"

definition rsbr_bulk_recover_calculate_remaining_rsync_cb ::
  "('s, 'd) store_fs \<Rightarrow> string \<Rightarrow> raft_recovery_handle \<Rightarrow> int \<times> raft_recovery_handle" where
  "rsbr_bulk_recover_calculate_remaining_rsync_cb fs output rrh =
     (if output = [] then (- EINVAL, rrh)
      else let (rc, rrh) = (if rrh_chkpt_size rrh < 0
                 then rsbr_bulk_recover_try_parse fs output RECOVERY_RSYNC_TOTAL_SIZE__regex rrh else (0, rrh))
           in if rrh_remaining rrh < 0
              then rsbr_bulk_recover_try_parse fs output RECOVERY_RSYNC_TOTAL_XFER_SIZE__regex rrh
              else (rc, rrh))"

definition rsbr_bulk_recover_calculate_remaining_rsync ::
  "('s, 'd) store_fs \<Rightarrow> string \<Rightarrow> string \<Rightarrow> raft_recovery_handle \<times> 's \<Rightarrow> int \<times> raft_recovery_handle \<times> 's" where
  "rsbr_bulk_recover_calculate_remaining_rsync fs remote_path local_path = (\<lambda>(rrh, s).
     let cmd = ''rsync -an --info=stats2 '' @ remote_path @ ''/ '' @ local_path @ '' 2>&1''
     in if STORE_PATH_MAX < length cmd then (- ENAMETOOLONG, rrh, s)
        else fs_popen_cmd_out fs s (snprintf STORE_PATH_MAX cmd) (rsbr_bulk_recover_calculate_remaining_rsync_cb fs) rrh)"

text \<open>The rate is only reported.\<close>

definition rsbr_bulk_recover_xfer_rsync_cb ::
  "('s, 'd) store_fs \<Rightarrow> string \<Rightarrow> raft_recovery_handle \<Rightarrow> int \<times> raft_recovery_handle" where
  "rsbr_bulk_recover_xfer_rsync_cb fs output rrh =
     (if output = [] then (- EINVAL, rrh)
      else if \<not> fs_regexec fs RECOVERY_RSYNC_PROGRESS_LINE__regex output then (0, rrh)
      else (case fs_parse_comma_uint fs output of
          Inl rc \<Rightarrow> (rc, rrh)
        | Inr val \<Rightarrow> (0, if rrh_completed rrh < val then rrh\<lparr>rrh_completed := val\<rparr> else rrh)))"

definition rsbr_bulk_recover_xfer_rsync ::
  "('s, 'd) store_fs \<Rightarrow> bool \<Rightarrow> string \<Rightarrow> string \<Rightarrow> raft_recovery_handle \<times> 's \<Rightarrow> int \<times> raft_recovery_handle \<times> 's" where
  "rsbr_bulk_recover_xfer_rsync fs raft_limit_rsync_bw remote_path local_path = (\<lambda>(rrh, s).
     let cmd = ''rsync -a '' @ (if raft_limit_rsync_bw then ''--bwlimit=1 '' else []) @ ''--info=progress2 '' @
           remote_path @ ''/ '' @ local_path @ '' 2>&1''
     in if STORE_PATH_MAX < length cmd then (- ENAMETOOLONG, rrh, s)
        else fs_popen_cmd_out fs s (snprintf STORE_PATH_MAX cmd) (rsbr_bulk_recover_xfer_rsync_cb fs) rrh)"

text \<open>A command is tried at most \<open>BULK_RECOVERY_RSYNC_RETRY_MAX\<close> times.\<close>

definition BULK_RECOVERY_RSYNC_RETRY_MAX :: nat where "BULK_RECOVERY_RSYNC_RETRY_MAX = 4"

fun rsync_cmd_loop ::
  "nat \<Rightarrow> (raft_recovery_handle \<times> 's \<Rightarrow> int \<times> raft_recovery_handle \<times> 's) \<Rightarrow> raft_recovery_handle \<times> 's
     \<Rightarrow> int \<times> raft_recovery_handle \<times> 's" where
  "rsync_cmd_loop 0 func x = (0, x)"
| "rsync_cmd_loop (Suc n) func x = (
     let (rc, x) = func x
     in if rc = 0 \<or> n = 0 then (rc, x) else rsync_cmd_loop n func x)"

definition RSBR_BULK_RECOVER_RSYNC_CMD ::
  "(raft_recovery_handle \<times> 's \<Rightarrow> int \<times> raft_recovery_handle \<times> 's) \<Rightarrow> raft_recovery_handle \<times> 's
     \<Rightarrow> int \<times> raft_recovery_handle \<times> 's" where
  "RSBR_BULK_RECOVER_RSYNC_CMD func x = rsync_cmd_loop BULK_RECOVERY_RSYNC_RETRY_MAX func x"

definition rsbr_bulk_recover_xfer ::
  "('s, 'd) store_fs \<Rightarrow> bool \<Rightarrow> string \<Rightarrow> string \<Rightarrow> raft_recovery_handle \<times> 's \<Rightarrow> int \<times> raft_recovery_handle \<times> 's" where
  "rsbr_bulk_recover_xfer fs bw remote_path local_path x =
     RSBR_BULK_RECOVER_RSYNC_CMD (rsbr_bulk_recover_xfer_rsync fs bw remote_path local_path) x"

definition rsbr_bulk_recover_calculate_remaining ::
  "('s, 'd) store_fs \<Rightarrow> string \<Rightarrow> string \<Rightarrow> int \<Rightarrow> raft_recovery_handle \<times> 's \<Rightarrow> int \<times> raft_recovery_handle \<times> 's" where
  "rsbr_bulk_recover_calculate_remaining fs remote_path local_path available_cap x = (
     let (rc, rrh, s) = RSBR_BULK_RECOVER_RSYNC_CMD (rsbr_bulk_recover_calculate_remaining_rsync fs remote_path local_path) x
     in if rc \<noteq> 0 then (rc, rrh, s)
        else if rrh_remaining rrh < 0 \<or> rrh_chkpt_size rrh < 0 then (- ENODATA, rrh, s)
        else if available_cap < rrh_remaining rrh then (- ENOSPC, rrh, s)
        else (0, rrh, s))"

definition rsbr_bulk_recovery_import_remote_db ::
  "('s, 'd) store_fs \<Rightarrow> bool \<Rightarrow> ('s, 'd) rocks_instance \<Rightarrow> int \<times> ('s, 'd) rocks_instance" where
  "rsbr_bulk_recovery_import_remote_db fs bw ri = (
     let rrh = ri_recovery_handle ri; cap = fs_free_space fs (fs_of ri) (ri_log ri);
         put = (\<lambda>(rrh, s). set_fs s (ri\<lparr>ri_recovery_handle := rrh\<rparr>))
     in if ri_incomplete_recovery ri \<or> rrh_from_recovery_marker rrh \<or> rrh_peer_chkpt_idx rrh < 0 \<or>
           rrh_peer_uuid rrh = ri_csn_this_peer ri then (- EINVAL, ri)
        else if cap < 0 then (cap, ri)
        else let (rc, remote_path) = rsbr_bulk_recover_build_remote_path fs rrh STORE_PATH_MAX
             in if rc \<noteq> 0 then (rc, ri)
        else let (rc, local_path) = rsbr_recovery_rsync_path_build fs (ri_log ri) (rrh_peer_uuid rrh)
                   (rrh_peer_db_uuid rrh) STORE_PATH_MAX
             in if rc \<noteq> 0 then (rc, ri)
        else let (rc, x) = rsbr_bulk_recover_calculate_remaining fs remote_path local_path cap (rrh, fs_of ri)
             in if rc \<noteq> 0 then (rc, put x)
        else let (rc, x) = rsbr_bulk_recover_xfer fs bw remote_path local_path x
             in if rc \<noteq> 0 then (rc, put x)
        else let (rc, x) = rsbr_bulk_recover_calculate_remaining fs remote_path local_path cap
                   ((fst x)\<lparr>rrh_remaining := - 1\<rparr>, snd x)
             in if rc \<noteq> 0 then (rc, put x)
                else if rrh_remaining (fst x) \<noteq> 0 then (- EBADE, put x)
                else (0, put x))"

definition rsbr_bulk_recovery_stage_remote_db ::
  "('s, 'd) store_fs \<Rightarrow> ('s, 'd) rocks_instance \<Rightarrow> int \<times> ('s, 'd) rocks_instance" where
  "rsbr_bulk_recovery_stage_remote_db fs ri = (
     let rrh = ri_recovery_handle ri;
         (rc, rsync_path) = rsbr_recovery_rsync_path_build fs (ri_log ri) (rrh_peer_uuid rrh) (rrh_peer_db_uuid rrh) STORE_PATH_MAX
     in if rc \<noteq> 0 then (rc, ri)
        else let (rc, stage_path) = rsbr_recovery_inprogress_path_build fs (ri_log ri) rrh STORE_PATH_MAX
             in if rc \<noteq> 0 then (rc, ri)
                else let (errno, s) = fs_rename fs (fs_of ri) rsync_path stage_path in (- errno, set_fs s ri))"

definition rsbr_bulk_recovery_remove_current_db_contents ::
  "('s, 'd) store_fs \<Rightarrow> ('s, 'd) rocks_instance \<Rightarrow> (int \<times> ('s, 'd) rocks_instance) option" where
  "rsbr_bulk_recovery_remove_current_db_contents fs ri = do {
     (rc, ri) \<leftarrow> rsbr_move_item_to_trash fs ri SUBDIR_DB;
     Some (if rc \<noteq> 0 \<and> rc \<noteq> - ENOENT then (rc, ri) else rsbr_remove_trash fs ri) }"

section \<open>Scrubbing it\<close>

text \<open>
  The loop over the entry headers, from \<open>i\<close> on for \<open>n\<close> entries: each is rewritten with this peer's
  uuid. A header that is not the expected one ends the loop with the code of the read, which is 0.
\<close>

fun scrub_entry_headers_loop ::
  "'d rocksdb \<Rightarrow> nat \<Rightarrow> raft_entry_idx_t \<Rightarrow> raft_entry_header \<Rightarrow> ('s, 'd) rocks_instance
     \<Rightarrow> (int \<times> ('s, 'd) rocks_instance) option" where
  "scrub_entry_headers_loop rdb 0 i reh ri = Some (0, ri)"
| "scrub_entry_headers_loop rdb (Suc n) i reh ri = do {
     (rc, reh) \<leftarrow> rsbr_entry_header_read rdb ri (reh\<lparr>reh_index := i\<rparr>);
     if rc \<noteq> 0 \<or> reh_magic reh \<noteq> RAFT_ENTRY_MAGIC \<or> reh_index reh \<noteq> i then Some (rc, ri)
     else do {
       let reh = reh\<lparr>reh_self_uuid := ri_csn_this_peer ri\<rparr>;
       ri \<leftarrow> rsbr_entry_header_write_recovery_scrub rdb ri reh;
       scrub_entry_headers_loop rdb n (i + 1) reh ri } }"

definition rsbr_bulk_recovery_db_scrub_entry_headers ::
  "'d rocksdb \<Rightarrow> ('s, 'd) rocks_raft_env \<Rightarrow> ('s, 'd) rocks_instance \<Rightarrow> (int \<times> ('s, 'd) rocks_instance) option" where
  "rsbr_bulk_recovery_db_scrub_entry_headers rdb env ri = do {
     NIOVA_ASSERT (raft_instance_is_recovering ri);
     NIOVA_ASSERT (ri_csn_this_peer ri \<noteq> rrh_peer_uuid (ri_recovery_handle ri));
     let start = ri_lowest_idx ri;
     let finish = ri_entries_detected_at_startup ri;
     NIOVA_ASSERT (0 \<le> start \<and> 0 \<le> finish \<and> start \<le> finish);
     scrub_entry_headers_loop rdb (nat (finish - start)) start (re_header (env_uninit env)) ri }"

text \<open>
  On an error the instance keeps the peer's uuid string, which was on the stack of this function.
\<close>

definition rsbr_bulk_recovery_db_scrub ::
  "('s, 'd) store \<Rightarrow> ('s, 'd) rocks_raft_env \<Rightarrow> ('s, 'd) rocks_instance \<Rightarrow> (int \<times> ('s, 'd) rocks_instance) option" where
  "rsbr_bulk_recovery_db_scrub st env ri = do {
     let (rdb, fs) = st;
     NIOVA_ASSERT (raft_instance_is_recovering ri);
     let rrh = ri_recovery_handle ri;
     if ri_db_uuid ri \<noteq> rrh_peer_db_uuid rrh \<and> ri_db_recovery_uuid ri \<noteq> rrh_peer_db_uuid rrh then Some (- ENODEV, ri)
     else do {
       let tmp_this_peer_uuid_str = ri_this_peer_uuid_str ri;
       (rc, ri) \<leftarrow> rsbr_header_load rdb (ri\<lparr>ri_this_peer_uuid_str := fs_uuid_unparse fs (rrh_peer_uuid rrh)\<rparr>);
       if rc \<noteq> 0 then Some (rc, ri)
       else do {
         (rc, ri) \<leftarrow> rsbr_bulk_recovery_db_scrub_entry_headers rdb env ri;
         if rc \<noteq> 0 then Some (rc, ri)
         else rsbr_init_header rdb (fs_uuid_generate fs (fs_of ri))
                (ri\<lparr>ri_this_peer_uuid_str := tmp_this_peer_uuid_str\<rparr>) } } }"

definition rsbr_bulk_recovery_promote_scrubbed_db ::
  "('s, 'd) store_fs \<Rightarrow> ('s, 'd) rocks_instance \<Rightarrow> int \<times> ('s, 'd) rocks_instance" where
  "rsbr_bulk_recovery_promote_scrubbed_db fs ri = (
     let (rc, stage_path) = rsbr_recovery_inprogress_path_build fs (ri_log ri) (ri_recovery_handle ri) STORE_PATH_MAX
     in if rc \<noteq> 0 then (rc, ri)
        else let ri = ri\<lparr>ri_proc_state := RAFT_PROC_STATE_SHUTDOWN\<rparr>;
                 (rc, db_path) = rsbr_make_db_pathname fs ri STORE_PATH_MAX
             in if rc \<noteq> 0 then (rc, ri)
                else let (errno, s) = fs_rename fs (fs_of ri) stage_path db_path in (- errno, set_fs s ri))"

section \<open>Bulk recovery\<close>

text \<open>From the removal of the old database on.\<close>

definition bulk_recover_staged ::
  "('s, 'd) store \<Rightarrow> ('s, 'd) rocks_raft_env \<Rightarrow> string list \<Rightarrow> ('s, 'd) rocks_instance
     \<Rightarrow> (int \<times> ('s, 'd) rocks_instance) option" where
  "bulk_recover_staged st env cft ri = do {
     let (rdb, fs) = st;
     (rc, ri) \<leftarrow> rsbr_bulk_recovery_remove_current_db_contents fs ri;
     if rc \<noteq> 0 then Some (rc, ri)
     else do {
       let (rc, ri) = rsbr_setup_rir fs cft ri;
       (rc, ri) \<leftarrow> (if rc \<noteq> 0 then Some (rc, ri)
          else do {
            (rc, ri) \<leftarrow> rsbr_db_open st ri;
            if rc \<noteq> 0 then Some (rc, ri) else rsbr_bulk_recovery_db_scrub st env ri });
       (_, ri) \<leftarrow> rsbr_destroy fs ri;
       Some (if rc = 0 then rsbr_bulk_recovery_promote_scrubbed_db fs ri else (rc, ri)) } }"

definition rsbr_bulk_recover ::
  "('s, 'd) store \<Rightarrow> ('s, 'd) rocks_raft_env \<Rightarrow> string list \<Rightarrow> bool \<Rightarrow> ('s, 'd) rocks_instance
     \<Rightarrow> (int \<times> ('s, 'd) rocks_instance) option" where
  "rsbr_bulk_recover st env cft bw ri = do {
     let (rdb, fs) = st;
     NIOVA_ASSERT (ri_proc_state ri = RAFT_PROC_STATE_RECOVERING);
     let ri = ri\<lparr>ri_recovery_handle := (ri_recovery_handle ri)\<lparr>rrh_remaining := - 1, rrh_chkpt_size := - 1\<rparr>\<rparr>;
     let rrh = ri_recovery_handle ri;
     if uuid_is_null (rrh_peer_uuid rrh) \<or> uuid_is_null (rrh_peer_db_uuid rrh) then Some (- EINVAL, ri)
     else do {
       let (rc, ri) = (if rrh_from_recovery_marker rrh then (0, ri)
            else let (rc, ri) = rsbr_bulk_recovery_import_remote_db fs bw ri
                 in if rc \<noteq> 0 then (rc, ri) else rsbr_bulk_recovery_stage_remote_db fs ri);
       if rc \<noteq> 0 then Some (rc, ri) else bulk_recover_staged st env cft ri } }"

section \<open>Column families\<close>

text \<open>
  \<open>strndup\<close> copies at most \<open>cf_name_len\<close> characters and can fail; two names are compared up to
  \<open>RAFT_ROCKSDB_MAX_CF\<close> characters.
\<close>

definition raft_server_rocksdb_add_cf_name ::
  "(string \<Rightarrow> bool) \<Rightarrow> string list \<Rightarrow> string \<Rightarrow> nat \<Rightarrow> int \<times> string list" where
  "raft_server_rocksdb_add_cf_name strndup_ok cft cf_name cf_name_len =
     (if cf_name_len = 0 \<or> RAFT_ROCKSDB_MAX_CF_NAME_LEN < cf_name_len then (- EINVAL, cft)
      else if cft = [] \<and> \<not> strndup_ok ''default'' then (- ENOMEM, cft)
      else let cft = (if cft = [] then [''default''] else cft)
           in if RAFT_ROCKSDB_MAX_CF \<le> length cft then (- ENOSPC, cft)
              else if list_ex (\<lambda>n. take RAFT_ROCKSDB_MAX_CF n = take RAFT_ROCKSDB_MAX_CF cf_name) (tl cft) then (- EALREADY, cft)
              else if \<not> strndup_ok cf_name then (- ENOMEM, cft)
              else (0, cft @ [take cf_name_len cf_name]))"

section \<open>The function table\<close>

definition ribRocksDB ::
  "('s, 'd) store \<Rightarrow> ('s, 'd) rocks_raft_env \<Rightarrow> ('s, 'd) rocks_store raft_instance_backend" where
  "ribRocksDB st env = (case st of (rdb, fs) \<Rightarrow>
     \<lparr>rib_entry_write = rsbr_entry_write rdb,
      rib_entry_header_read = rsbr_entry_header_read rdb,
      rib_entry_read = rsbr_entry_read rdb,
      rib_log_truncate = rsbr_log_truncate rdb,
      rib_log_reap = rsbr_log_reap rdb,
      rib_header_load = rsbr_header_load rdb,
      rib_header_write = rsbr_header_write rdb,
      rib_backend_sync = rsbr_sync rdb env,
      rib_backend_checkpoint = Some (rsbr_checkpoint fs),
      rib_sm_apply_opt = Some (rsbr_sm_apply_opt rdb)\<rparr>)"

definition raft_server_backend_use_rocksdb ::
  "('s, 'd) store \<Rightarrow> ('s, 'd) rocks_raft_env \<Rightarrow> ('s, 'd) rocks_raft_env" where
  "raft_server_backend_use_rocksdb st env = env\<lparr>env_rib := ribRocksDB st env\<rparr>"

end
