(* ===== verification/Raft_Kvlog.thy ===== *)
theory Raft_Kvlog
  imports Raft_Recovery Raft_Safety
begin

text \<open>
  The key-value backend satisfies the contracts of the server: it changes nothing but its own state,
  and under the promises of RocksDB its keys are a log. A database in memory satisfies these
  promises.
\<close>

section \<open>Frame\<close>

lemma set_fs_only [simp]: "backend_only ri (set_fs s ri)" "rs_rir (ri_backend_arg (set_fs s ri)) = rs_rir (ri_backend_arg ri)"
  by (simp_all add: set_fs_def)

text \<open>The checkpoint thread may also note the index of a checkpoint it finds.\<close>

definition chkpt_only :: "('s, 'd) rocks_instance \<Rightarrow> ('s, 'd) rocks_instance \<Rightarrow> bool" where
  "chkpt_only ri ri' \<longleftrightarrow> (\<forall>b. ri'\<lparr>ri_backend_arg := b, ri_checkpoint_last_idx := 0\<rparr> =
       ri\<lparr>ri_backend_arg := b, ri_checkpoint_last_idx := 0\<rparr>) \<and>
     rs_rir (ri_backend_arg ri') = rs_rir (ri_backend_arg ri)"

lemma chkpt_only_simps [simp]:
  "chkpt_only ri ri" "chkpt_only ri (ri'\<lparr>ri_checkpoint_last_idx := c\<rparr>) = chkpt_only ri ri'"
  "chkpt_only ri (set_fs s ri') = chkpt_only ri ri'" "chkpt_only (set_fs s ri) ri' = chkpt_only ri ri'"
  by (simp_all add: chkpt_only_def set_fs_def)

lemma chkpt_only_trans: "chkpt_only a b \<Longrightarrow> chkpt_only b c \<Longrightarrow> chkpt_only a c"
  by (simp add: chkpt_only_def)

lemma chkpt_update_swap:
  "ri\<lparr>ri_backend_arg := b, ri_checkpoint_last_idx := c\<rparr> = ri\<lparr>ri_checkpoint_last_idx := c, ri_backend_arg := b\<rparr>"
  by (rule raft_instance.equality) simp_all

lemma chkpt_only_backend:
  assumes "chkpt_only ri ri'"
  shows "\<exists>c. backend_only (ri\<lparr>ri_checkpoint_last_idx := c\<rparr>) ri'"
proof -
  have "ri'\<lparr>ri_backend_arg := ri_backend_arg ri', ri_checkpoint_last_idx := 0\<rparr> =
      ri\<lparr>ri_backend_arg := ri_backend_arg ri', ri_checkpoint_last_idx := 0\<rparr>"
    using assms unfolding chkpt_only_def by blast
  from arg_cong [OF this, of "\<lambda>x. x\<lparr>ri_checkpoint_last_idx := ri_checkpoint_last_idx ri'\<rparr>"]
  have "ri' = ri\<lparr>ri_checkpoint_last_idx := ri_checkpoint_last_idx ri', ri_backend_arg := ri_backend_arg ri'\<rparr>"
    by (simp add: chkpt_update_swap)
  then show ?thesis unfolding backend_only_def by blast
qed

lemma move_to_trash_only:
  "rsbr_move_item_to_trash fs ri path = Some (rc, ri') \<Longrightarrow> chkpt_only ri ri'"
  by (auto simp: rsbr_move_item_to_trash_def Let_def bind_Some case_prod_beta split: if_splits sum.splits)

lemma scan_loop_only: "self_chkpt_scan_loop fs dents n ri = Some ri' \<Longrightarrow> chkpt_only ri ri'"
proof (induction dents arbitrary: n ri)
  case (Cons dent dents)
  obtain trash n' ri1 ri2 where s: "chkpt_only ri ri1" "self_chkpt_scan_loop fs dents n' ri2 = Some ri'"
    and t: "(if trash then do { (rc, ri) \<leftarrow> rsbr_move_item_to_trash fs ri1 (snprintf STORE_PATH_MAX (SUBDIR_CHKPT_SELF @ ''/'' @ d_name dent)); Some ri }
       else Some ri1) = Some ri2"
  proof -
    let ?x = "(case rsbr_chkpt_scan_parse_entry fs dent of
         Inl rc \<Rightarrow> (True, n, ri)
       | Inr (db_uuid, peer_uuid, chkpt_idx) \<Rightarrow>
           if ri_csn_this_peer ri \<noteq> peer_uuid \<or> ri_db_uuid ri \<noteq> db_uuid then (True, n, ri)
           else let n = n + 1
                in if n = 1
                   then (False, n, if raft_instance_is_booting ri then ri\<lparr>ri_checkpoint_last_idx := chkpt_idx\<rparr> else ri)
                   else (ri_num_checkpoints ri < n, n, ri))"
    have "chkpt_only ri (snd (snd ?x))"
      by (auto simp: Let_def split: sum.split)
    moreover obtain tr n' r1 where x: "?x = (tr, n', r1)" by (cases ?x)
    ultimately show thesis
      using Cons.prems that [of r1 n' _ tr] by (auto simp: x bind_Some simp del: split_paired_All split_paired_Ex)
  qed
  have "chkpt_only ri1 ri2"
    using t by (auto simp: bind_Some split: if_splits dest: move_to_trash_only)
  then show ?case
    using chkpt_only_trans [OF s(1)] Cons.IH [OF s(2)] by (blast intro: chkpt_only_trans)
qed simp

lemma chkpt_scan_only: "rsbr_self_chkpt_scan fs rir ri = Some (rc, ri') \<Longrightarrow> chkpt_only ri ri'"
  by (auto simp: rsbr_self_chkpt_scan_def bind_Some split: if_splits sum.splits dest: scan_loop_only)

lemma remove_trash_only [simp]: "chkpt_only ri (snd (rsbr_remove_trash fs ri')) = chkpt_only ri ri'"
  by (simp add: rsbr_remove_trash_def Let_def)

lemma checkpoint_only:
  assumes "rsbr_checkpoint fs ri = Some (rc, ri')"
  shows "chkpt_only ri ri'"
proof -
  have cl: "rsbr_checkpoint_cleanup fs rir x = Some y \<Longrightarrow> chkpt_only x y" for rir x y
    by (auto simp: rsbr_checkpoint_cleanup_def bind_Some dest: chkpt_scan_only)
  have at: "checkpoint_at fs i p q x = Some (rc, y) \<Longrightarrow> chkpt_only x y" for i p q x rc y
    by (auto simp: checkpoint_at_def Let_def bind_Some case_prod_beta split: if_splits
        dest: cl)
  show ?thesis
    using assms
    by (auto simp: rsbr_checkpoint_def Let_def bind_Some split: if_splits
        dest!: at move_to_trash_only intro: chkpt_only_trans)
qed


interpretation rocks: backend_frame "ribRocksDB st env"
  for st :: "('s, 'd) store" and env :: "('s, 'd) rocks_raft_env"
proof
  fix ri ri' :: "('s, 'd) rocks_instance" and re ws rc i g f
  obtain rdb fs where st: "st = (rdb, fs)" by (cases st)
  show "rib_entry_write (ribRocksDB st env) ri re ws = Some ri' \<Longrightarrow> backend_only ri ri'"
    by (auto simp: ribRocksDB_def st rsbr_entry_write_def bind_Some Let_def split: if_splits dest: batch_write_frame)
  show "rib_log_truncate (ribRocksDB st env) ri i = Some ri' \<Longrightarrow> backend_only ri ri'"
    by (auto simp: ribRocksDB_def st rsbr_log_truncate_def bind_Some split: if_splits dest: batch_write_frame)
  show "rib_log_reap (ribRocksDB st env) ri i = Some ri' \<Longrightarrow> backend_only ri ri'"
    by (auto simp: ribRocksDB_def st rsbr_log_reap_def bind_Some Let_def split: if_splits)
  show "rib_header_write (ribRocksDB st env) ri = Some (rc, ri') \<Longrightarrow> backend_only ri ri'"
    by (auto simp: ribRocksDB_def st rsbr_header_write_def bind_Some split: if_splits dest: batch_write_frame)
  show "rib_backend_sync (ribRocksDB st env) ri = Some (rc, ri') \<Longrightarrow> backend_only ri ri'"
    by (auto simp: ribRocksDB_def st rsbr_sync_def bind_Some)
  show "rib_backend_checkpoint (ribRocksDB st env) = Some g \<Longrightarrow> g ri = Some (rc, ri') \<Longrightarrow>
      \<exists>c. backend_only (ri\<lparr>ri_checkpoint_last_idx := c\<rparr>) ri'"
    by (auto simp: ribRocksDB_def st dest!: checkpoint_only intro: chkpt_only_backend)
  show "rib_sm_apply_opt (ribRocksDB st env) = Some f \<Longrightarrow> f ri ws = Some ri' \<Longrightarrow> backend_only ri ri'"
    by (auto simp: ribRocksDB_def st rsbr_sm_apply_opt_def bind_Some Let_def split: if_splits dest: batch_write_frame)
qed

section \<open>Contents\<close>

sublocale rocksdb_store \<subseteq> log: log_backend "ribRocksDB (rdb, fs) env" "rocks_holds kv" rocks_storable rocks_ws_ok key_idx
  for fs :: "('s, 'd) store_fs" and env
  by unfold_locales
    (auto simp: ribRocksDB_def intro: rocks_holds_unique rocks_write_holds rocks_write_keeps rocks_header_read
      rocks_truncate_keeps rocks_truncate_drops rocks_header_write_keeps rocks_sync_keeps dest: rocks_entry_read)

text \<open>The abstract log: the entries the database holds.\<close>

definition rocks_log :: "('d \<Rightarrow> kv_map) \<Rightarrow> ('s, 'd) rocks_instance \<Rightarrow> raft_entry set" where
  "rocks_log kv ri = {re. rocks_holds kv (ri_backend_arg ri) re}"

section \<open>Finding the ends of the log\<close>

text \<open>
  The keys of a database that stores the entries from \<open>lo\<close> to \<open>hi\<close>: between the \<open>a1_hdr.\<close> keys and the
  \<open>z0_last.\<close> key there are the entry and header keys of these indices and nothing else.
\<close>

definition log_keys_between :: "(u8 list \<Rightarrow> u8 list option) \<Rightarrow> raft_entry_idx_t \<Rightarrow> raft_entry_idx_t \<Rightarrow> bool" where
  "log_keys_between m lo hi \<longleftrightarrow> key_idx lo \<and> key_idx hi \<and> lo \<le> hi \<and>
     m RAFT_LOG_HEADER_UUID \<noteq> None \<and> (\<exists>s. m (RAFT_LOG_LASTENTRY_ROCKSDB @ s) \<noteq> None) \<and>
     (\<forall>i. lo \<le> i \<and> i \<le> hi \<longrightarrow> m (RAFT_ENTRY_KEY_PRINTF i) \<noteq> None \<and> m (RAFT_ENTRY_HEADER_KEY_PRINTF i) \<noteq> None) \<and>
     (\<forall>k. m k \<noteq> None \<and> RAFT_LOG_HEADER_ROCKSDB_END \<le> k \<and> k < RAFT_LOG_LASTENTRY_ROCKSDB \<longrightarrow>
        (\<exists>s. k = RAFT_LOG_HEADER_ROCKSDB_END @ s) \<or>
        (\<exists>i. lo \<le> i \<and> i \<le> hi \<and> (k = RAFT_ENTRY_KEY_PRINTF i \<or> k = RAFT_ENTRY_HEADER_KEY_PRINTF i)))"

text \<open>An iterator that meets no I/O error.\<close>

definition healthy_rocksdb :: "'d rocksdb \<Rightarrow> bool" where
  "healthy_rocksdb rdb \<longleftrightarrow> (\<forall>db. rocksdb_create_iterator rdb db) \<and> (\<forall>db k. rocksdb_iter_seek rdb db k \<noteq> Iter_error \<and>
     rocksdb_iter_next rdb db k \<noteq> Iter_error \<and> rocksdb_iter_prev rdb db k \<noteq> Iter_error)"

lemma log_keys_idx: "log_keys_between m lo hi \<Longrightarrow> lo \<le> i \<Longrightarrow> i \<le> hi \<Longrightarrow> key_idx i"
  by (auto simp: log_keys_between_def key_idx_def)

lemma append_le: "xs \<le> xs @ (ys :: 'a::linorder list)"
  by (induction xs) simp_all

lemma key_matches:
  "rsbr_string_matches_iter_key RAFT_ENTRY_KEY_PREFIX_ROCKSDB (RAFT_ENTRY_KEY_PRINTF i) False"
  "rsbr_string_matches_iter_key RAFT_ENTRY_KEY_PREFIX_ROCKSDB (RAFT_ENTRY_HEADER_KEY_PRINTF i) False"
  "\<not> rsbr_string_matches_iter_key RAFT_LOG_LASTENTRY_ROCKSDB (RAFT_ENTRY_KEY_PRINTF i) False"
  "\<not> rsbr_string_matches_iter_key RAFT_LOG_HEADER_ROCKSDB_END (RAFT_ENTRY_HEADER_KEY_PRINTF i) False"
  "\<not> rsbr_string_matches_iter_key RAFT_ENTRY_KEY_PREFIX_ROCKSDB (RAFT_LOG_HEADER_ROCKSDB_END @ s) False"
  "\<not> rsbr_string_matches_iter_key RAFT_LOG_LASTENTRY_ROCKSDB (RAFT_LOG_HEADER_ROCKSDB_END @ s) False"
  by (simp_all add: rsbr_string_matches_iter_key_def key_formats bytes_of_def)

lemma drop_key_prefix:
  "drop 3 (RAFT_ENTRY_KEY_PRINTF i) = idx_digits i @ [101]"
  "drop 3 (RAFT_ENTRY_HEADER_KEY_PRINTF i) = idx_digits i @ [104]"
  by (simp_all add: key_formats bytes_of_def)

context rocksdb_store
begin

text \<open>The key before \<open>z0_last.\<close> is the header of the last entry.\<close>

lemma last_log_key:
  assumes "healthy_rocksdb rdb" and "log_keys_between (kv db ''default'') lo hi"
  obtains last_key where "rocksdb_iter_seek rdb db RAFT_LOG_LASTENTRY_ROCKSDB = Iter_at last_key"
    and "rocksdb_iter_prev rdb db last_key = Iter_at (RAFT_ENTRY_HEADER_KEY_PRINTF hi)"
proof -
  let ?L = RAFT_LOG_LASTENTRY_ROCKSDB and ?H = "RAFT_ENTRY_HEADER_KEY_PRINTF hi" and ?m = "kv db ''default''"
  have hi: "key_idx hi" "lo \<le> hi" "?m ?H \<noteq> None"
    using assms(2) by (auto simp: log_keys_between_def)
  obtain s where s: "?m (?L @ s) \<noteq> None" using assms(2) by (auto simp: log_keys_between_def)
  obtain lk where lk: "rocksdb_iter_seek rdb db ?L = Iter_at lk"
    using assms(1) seek_invalid [of db ?L "?L @ s"] s append_le [of ?L s]
    by (cases "rocksdb_iter_seek rdb db ?L") (auto simp: healthy_rocksdb_def)
  note sk = seek_at [OF lk]
  have H_lt: "?H < lk" using entry_keys_between(6) [of hi] sk by (auto intro: less_le_trans)
  obtain pk where pk: "rocksdb_iter_prev rdb db lk = Iter_at pk"
    using assms(1) prev_invalid [of db lk ?H] hi H_lt
    by (cases "rocksdb_iter_prev rdb db lk") (auto simp: healthy_rocksdb_def)
  note pv = prev_at [OF pk]
  have ge: "?H \<le> pk" using pv hi H_lt by (meson not_le)
  have lt: "pk < ?L" using pv sk by (meson not_le)
  have "RAFT_LOG_HEADER_ROCKSDB_END @ [] < ?H" by (rule entry_keys_between)
  then have a: "RAFT_LOG_HEADER_ROCKSDB_END \<le> pk" using ge by simp
  then consider (a) s where "pk = RAFT_LOG_HEADER_ROCKSDB_END @ s"
    | (i) i where "lo \<le> i" "i \<le> hi" "pk = RAFT_ENTRY_KEY_PRINTF i \<or> pk = RAFT_ENTRY_HEADER_KEY_PRINTF i"
    using assms(2) pv lt unfolding log_keys_between_def by blast
  then have "pk = ?H"
  proof cases
    case a
    then show ?thesis using ge entry_keys_between(2) [of s hi] by simp
  next
    case i
    have ki: "key_idx i" using log_keys_idx [OF assms(2) i(1,2)] .
    show ?thesis
      using i ge entry_keys_less [OF hi(1) ki] by (auto simp: le_less entry_key_kinds)
  qed
  then show thesis using that lk pk by blast
qed

lemma num_entries_ok:
  assumes "healthy_rocksdb rdb" and "log_keys_between (kv db ''default'') lo hi"
    and "rsbr_ri_to_rirdb ri = Some rir" and "rir_db rir = Some db" and "rir_readoptions rir"
  shows "rsbr_num_entries_calc rdb ri = Some (hi + 1)"
proof -
  have hi: "key_idx hi" using assms(2) by (simp add: log_keys_between_def)
  obtain lk where k: "rocksdb_iter_seek rdb db RAFT_LOG_LASTENTRY_ROCKSDB = Iter_at lk"
    "rocksdb_iter_prev rdb db lk = Iter_at (RAFT_ENTRY_HEADER_KEY_PRINTF hi)"
    using last_log_key [OF assms(1,2)] .
  have v: "sint (word_of_int hi :: u64) = hi"
    using hi sint_word_of_int_64 [of hi] by (simp add: key_idx_def)
  have n: "strtoull (idx_digits hi @ [104]) = nat hi"
    using strtoull_idx [OF hi] by (simp add: is_digit_def)
  have len: "\<not> length (RAFT_ENTRY_HEADER_KEY_PRINTF hi) \<le> 3"
    by (simp add: key_formats bytes_of_def)
  show ?thesis
    using assms(1,3-5) hi
    by (simp add: rsbr_num_entries_calc_def k key_matches drop_key_prefix n v len healthy_rocksdb_def Let_def key_idx_def)
qed

text \<open>From any \<open>a1_hdr.\<close> key the loop ends at the entry key of the lowest index.\<close>

lemma lowest_loop_ok:
  assumes "healthy_rocksdb rdb" and "log_keys_between (kv db ''default'') lo hi"
    and "\<And>bs. bs \<noteq> [] \<Longrightarrow> is_digit (hd bs) \<Longrightarrow> to_ull bs = Inr (strtoull bs)"
  shows "lowest_entry_loop rdb to_ull db (RAFT_LOG_HEADER_ROCKSDB_END @ s) = Some (0, lo)"
proof (induction "card {j \<in> dom (kv db ''default''). RAFT_LOG_HEADER_ROCKSDB_END @ s < j}" arbitrary: s rule: less_induct)
  case less
  let ?m = "kv db ''default''" and ?A = "RAFT_LOG_HEADER_ROCKSDB_END @ s" and ?E = "RAFT_ENTRY_KEY_PRINTF lo"
  have lo: "key_idx lo" "?m ?E \<noteq> None" using assms(2) by (auto simp: log_keys_between_def)
  have E: "?A < ?E" by (rule entry_keys_between)
  obtain k where k: "rocksdb_iter_next rdb db ?A = Iter_at k"
    using assms(1) next_invalid [of db ?A ?E] lo E
    by (cases "rocksdb_iter_next rdb db ?A") (auto simp: healthy_rocksdb_def)
  note nx = next_at [OF k]
  have le: "k \<le> ?E" using nx lo E by (meson not_le)
  have lt: "k < RAFT_LOG_LASTENTRY_ROCKSDB" using le entry_keys_between(5) by (rule le_less_trans)
  have ge: "RAFT_LOG_HEADER_ROCKSDB_END \<le> k" using nx append_le order_trans less_imp_le by blast
  consider (a) s' where "k = RAFT_LOG_HEADER_ROCKSDB_END @ s'"
    | (i) i where "lo \<le> i" "i \<le> hi" "k = RAFT_ENTRY_KEY_PRINTF i \<or> k = RAFT_ENTRY_HEADER_KEY_PRINTF i"
    using assms(2) nx lt ge unfolding log_keys_between_def by blast
  then show ?case
  proof cases
    case a
    have "{j \<in> dom ?m. k < j} \<subset> {j \<in> dom ?m. ?A < j}"
      using nx by (auto intro: less_trans)
    then have "card {j \<in> dom ?m. k < j} < card {j \<in> dom ?m. ?A < j}"
      using finite_keys [of db] by (intro psubset_card_mono) auto
    then have "lowest_entry_loop rdb to_ull db k = Some (0, lo)"
      unfolding a by (rule less)
    then show ?thesis
      by (subst lowest_entry_loop.simps) (simp add: k a key_matches rsbr_iter_check_error_def)
  next
    case i
    have ki: "key_idx i" using log_keys_idx [OF assms(2) i(1,2)] .
    have "k = ?E"
      using i le entry_keys_less [OF lo(1) ki] entry_keys_less [OF ki lo(1)] by (auto simp: le_less entry_key_kinds)
    moreover have "is_digit (hd (idx_digits lo @ [101]))"
      using idx_digits_digit [OF lo(1)] by simp
    ultimately show ?thesis
      using lo(1) strtoull_idx [OF lo(1), of 101] assms(3) [of "idx_digits lo @ [101]"] sint_word_of_int_64 [of lo]
      by (subst lowest_entry_loop.simps)
        (simp add: k key_matches rsbr_iter_check_error_def drop_key_prefix is_digit_def key_idx_def)
  qed
qed

lemma lowest_entry_ok:
  assumes "healthy_rocksdb rdb" and "log_keys_between (kv db ''default'') lo hi"
    and "\<And>bs. bs \<noteq> [] \<Longrightarrow> is_digit (hd bs) \<Longrightarrow> to_ull bs = Inr (strtoull bs)"
    and "rsbr_ri_to_rirdb ri = Some rir" and "rir_db rir = Some db" and "rir_readoptions rir"
  shows "rsbr_lowest_entry_get rdb to_ull ri = Some (0, lo)"
proof -
  let ?m = "kv db ''default''" and ?A = RAFT_LOG_HEADER_ROCKSDB_END
  have u: "?m RAFT_LOG_HEADER_UUID \<noteq> None" "?A \<le> RAFT_LOG_HEADER_UUID"
    using assms(2) by (simp_all add: log_keys_between_def RAFT_LOG_HEADER_UUID_def append_le)
  obtain k where k: "rocksdb_iter_seek rdb db ?A = Iter_at k"
    using assms(1) seek_invalid [of db ?A RAFT_LOG_HEADER_UUID] u
    by (cases "rocksdb_iter_seek rdb db ?A") (auto simp: healthy_rocksdb_def)
  note sk = seek_at [OF k]
  have le: "k \<le> RAFT_LOG_HEADER_UUID" using sk u by (meson not_le)
  have lt: "RAFT_LOG_HEADER_UUID < RAFT_ENTRY_KEY_PRINTF i" "RAFT_LOG_HEADER_UUID < RAFT_ENTRY_HEADER_KEY_PRINTF i" for i
    unfolding RAFT_LOG_HEADER_UUID_def by (rule entry_keys_between)+
  then have "k < RAFT_LOG_LASTENTRY_ROCKSDB" using le entry_keys_between(5) by (blast intro: le_less_trans less_trans)
  then consider (a) s where "k = ?A @ s" | (i) i where "k = RAFT_ENTRY_KEY_PRINTF i \<or> k = RAFT_ENTRY_HEADER_KEY_PRINTF i"
    using assms(2) sk unfolding log_keys_between_def by blast
  then show ?thesis
  proof cases
    case a
    then show ?thesis
      using assms(1,4-6) lowest_loop_ok [OF assms(1-3), of s]
      by (simp add: rsbr_lowest_entry_get_def k healthy_rocksdb_def rsbr_iter_check_error_def)
  next
    case i
    then show ?thesis using le lt by (auto dest: leD)
  qed
qed

end

section \<open>A database in memory\<close>

text \<open>
  The pairs of a column family and a key with their values. Deleting the files of a range removes the
  keys of the range, its end included: what RocksDB is allowed to do.
\<close>

type_synonym memdb = "((string \<times> u8 list) \<times> u8 list) list"

definition memdb_drop :: "(string \<times> u8 list \<Rightarrow> bool) \<Rightarrow> memdb \<Rightarrow> memdb" where
  "memdb_drop P db = filter (\<lambda>e. \<not> P (fst e)) db"

fun memdb_op :: "wb_op \<Rightarrow> memdb \<Rightarrow> memdb" where
  "memdb_op (WB_put c k v) db = ((cf_of c, k), v) # db"
| "memdb_op (WB_delete c k) db = memdb_drop (\<lambda>ck. ck = (cf_of c, k)) db"
| "memdb_op (WB_delete_range a b) db = memdb_drop (\<lambda>(c, k). c = ''default'' \<and> a \<le> k \<and> k < b) db"

definition memdb_keys :: "memdb \<Rightarrow> u8 list set" where
  "memdb_keys db = set (map (snd \<circ> fst) (filter (\<lambda>e. fst (fst e) = ''default'') db))"

definition memdb_pick :: "(u8 list set \<Rightarrow> u8 list) \<Rightarrow> u8 list set \<Rightarrow> iter_pos" where
  "memdb_pick f ks = (if ks = {} then Iter_invalid else Iter_at (f ks))"

definition memdb_kv :: "memdb \<Rightarrow> kv_map" where
  "memdb_kv db c k = map_of db (c, k)"

definition mem_rocksdb :: "memdb rocksdb" where
  "mem_rocksdb =
     \<lparr>rocksdb_write = (\<lambda>db sync wb. Some (fold memdb_op wb db)),
      rocksdb_get = (\<lambda>db k. map_of db (''default'', k)),
      rocksdb_create_iterator = (\<lambda>_. True),
      rocksdb_iter_seek = (\<lambda>db k. memdb_pick Min {j \<in> memdb_keys db. k \<le> j}),
      rocksdb_iter_next = (\<lambda>db k. memdb_pick Min {j \<in> memdb_keys db. k < j}),
      rocksdb_iter_prev = (\<lambda>db k. memdb_pick Max {j \<in> memdb_keys db. j < k}),
      rocksdb_compact_range = (\<lambda>db a b. db),
      rocksdb_delete_file_in_range = (\<lambda>db a b.
        memdb_drop (\<lambda>(c, k). c = ''default'' \<and> a \<le> k \<and> k \<le> b) db)\<rparr>"

lemma memdb_drop_kv [simp]: "memdb_kv (memdb_drop P db) c k = (if P (c, k) then None else memdb_kv db c k)"
  unfolding memdb_drop_def memdb_kv_def by (induction db) auto

lemma memdb_op_kv: "memdb_kv (memdb_op op db) = wb_apply op (memdb_kv db)"
proof (cases op)
  case (WB_put c k v)
  then show ?thesis by (auto simp: memdb_kv_def fun_eq_iff)
qed (simp_all add: fun_eq_iff)

lemma memdb_keys_kv: "k \<in> memdb_keys db \<longleftrightarrow> memdb_kv db ''default'' k \<noteq> None"
  by (force simp: memdb_keys_def memdb_kv_def map_of_eq_None_iff image_iff)

lemma finite_memdb_keys [simp]: "finite (memdb_keys db)"
  by (simp add: memdb_keys_def)

lemma memdb_pick_min:
  assumes "memdb_pick Min {j \<in> memdb_keys db. P j} = Iter_at k"
  shows "P k \<and> k \<in> memdb_keys db \<and> (\<forall>j. P j \<and> j < k \<longrightarrow> j \<notin> memdb_keys db)"
proof -
  let ?S = "{j \<in> memdb_keys db. P j}"
  have f: "finite ?S" by simp
  have k: "k = Min ?S" "?S \<noteq> {}" using assms by (auto simp: memdb_pick_def split: if_splits)
  then have "k \<in> ?S" "\<And>j. j \<in> ?S \<Longrightarrow> k \<le> j" using f Min_in [of ?S] Min_le [of ?S] by auto
  then show ?thesis by (auto dest: leD)
qed

lemma memdb_pick_max:
  assumes "memdb_pick Max {j \<in> memdb_keys db. P j} = Iter_at k"
  shows "P k \<and> k \<in> memdb_keys db \<and> (\<forall>j. P j \<and> k < j \<longrightarrow> j \<notin> memdb_keys db)"
proof -
  let ?S = "{j \<in> memdb_keys db. P j}"
  have f: "finite ?S" by simp
  have k: "k = Max ?S" "?S \<noteq> {}" using assms by (auto simp: memdb_pick_def split: if_splits)
  then have "k \<in> ?S" "\<And>j. j \<in> ?S \<Longrightarrow> j \<le> k" using f Max_in [of ?S] Max_ge [of ?S] by auto
  then show ?thesis by (auto dest: leD)
qed

lemma memdb_pick_invalid:
  "memdb_pick f {j \<in> memdb_keys db. P j} = Iter_invalid \<Longrightarrow> P k \<Longrightarrow> k \<notin> memdb_keys db"
  by (auto simp: memdb_pick_def split: if_splits)

interpretation memdb: rocksdb_store mem_rocksdb memdb_kv
proof
  fix db db' :: memdb and sync wb k k' j a b c v
  show "rocksdb_write mem_rocksdb db sync wb = Some db' \<Longrightarrow> memdb_kv db' = fold wb_apply wb (memdb_kv db)"
  proof -
    have "memdb_kv (fold memdb_op wb db) = fold wb_apply wb (memdb_kv db)"
      by (induction wb arbitrary: db) (simp_all add: memdb_op_kv)
    then show "rocksdb_write mem_rocksdb db sync wb = Some db' \<Longrightarrow> memdb_kv db' = fold wb_apply wb (memdb_kv db)"
      by (simp add: mem_rocksdb_def)
  qed
  show "rocksdb_get mem_rocksdb db k = Some v \<Longrightarrow> memdb_kv db ''default'' k = Some v"
    by (simp add: mem_rocksdb_def memdb_kv_def)
  show "rocksdb_iter_seek mem_rocksdb db k = Iter_at k' \<Longrightarrow>
      k \<le> k' \<and> memdb_kv db ''default'' k' \<noteq> None \<and> (\<forall>j. k \<le> j \<and> j < k' \<longrightarrow> memdb_kv db ''default'' j = None)"
    "rocksdb_iter_next mem_rocksdb db k = Iter_at k' \<Longrightarrow>
      k < k' \<and> memdb_kv db ''default'' k' \<noteq> None \<and> (\<forall>j. k < j \<and> j < k' \<longrightarrow> memdb_kv db ''default'' j = None)"
    using memdb_pick_min [of db "\<lambda>j. k \<le> j" k'] memdb_pick_min [of db "\<lambda>j. k < j" k']
    by (simp_all add: memdb_keys_kv mem_rocksdb_def)
  show "rocksdb_iter_prev mem_rocksdb db k = Iter_at k' \<Longrightarrow>
      k' < k \<and> memdb_kv db ''default'' k' \<noteq> None \<and> (\<forall>j. k' < j \<and> j < k \<longrightarrow> memdb_kv db ''default'' j = None)"
    using memdb_pick_max [of db "\<lambda>j. j < k" k'] by (simp add: memdb_keys_kv mem_rocksdb_def conj_commute)
  show "rocksdb_iter_seek mem_rocksdb db k = Iter_invalid \<Longrightarrow> k \<le> j \<Longrightarrow> memdb_kv db ''default'' j = None"
    "rocksdb_iter_next mem_rocksdb db k = Iter_invalid \<Longrightarrow> k < j \<Longrightarrow> memdb_kv db ''default'' j = None"
    "rocksdb_iter_prev mem_rocksdb db k = Iter_invalid \<Longrightarrow> j < k \<Longrightarrow> memdb_kv db ''default'' j = None"
    using memdb_pick_invalid [of _ db "\<lambda>j. k \<le> j" j] memdb_pick_invalid [of _ db "\<lambda>j. k < j" j]
      memdb_pick_invalid [of _ db "\<lambda>j. j < k" j]
    by (simp_all add: memdb_keys_kv mem_rocksdb_def)
  show "finite (dom (memdb_kv db ''default''))"
  proof -
    have "dom (memdb_kv db ''default'') = memdb_keys db" by (auto simp: memdb_keys_kv)
    then show ?thesis by simp
  qed
  show "memdb_kv (rocksdb_compact_range mem_rocksdb db a b) = memdb_kv db"
    by (simp add: mem_rocksdb_def)
  show "c \<noteq> ''default'' \<Longrightarrow> memdb_kv (rocksdb_delete_file_in_range mem_rocksdb db a b) c = memdb_kv db c"
    "k < a \<or> b < k \<Longrightarrow> memdb_kv (rocksdb_delete_file_in_range mem_rocksdb db a b) ''default'' k = memdb_kv db ''default'' k"
    "memdb_kv (rocksdb_delete_file_in_range mem_rocksdb db a b) ''default'' k \<in> {memdb_kv db ''default'' k, None}"
    by (auto simp: mem_rocksdb_def fun_eq_iff)
qed

lemma healthy_mem_rocksdb: "healthy_rocksdb mem_rocksdb"
  by (simp add: healthy_rocksdb_def mem_rocksdb_def memdb_pick_def)

end
