(* ===== verification/Raft_Database.thy ===== *)
theory Raft_Database
  imports Raft_Kvlog
begin

text \<open>
  What the key-value backend gives to the server: the database refines a log, the ends of the log are
  found again when the server starts, and every run on it moves forward. Then what the recovery from
  a peer's checkpoint leaves, and what becomes of a recovery that was cut off.
\<close>

section \<open>A server on the database in memory\<close>

definition demo_rir :: "memdb \<Rightarrow> memdb raft_instance_rocks_db" where
  "demo_rir db = \<lparr>rir_log_fd = 3, rir_db = Some db, rir_options = True, rir_writeoptions_sync = True,
     rir_writeoptions_async = True, rir_readoptions = True, rir_writebatch = Some [], rir_cf_table = []\<rparr>"

definition demo_kv :: "memdb \<Rightarrow> (unit, memdb) rocks_instance" where
  "demo_kv db = demo_inst \<lparr>rs_fs = (), rs_rir = Some (demo_rir db)\<rparr>"

lemma demo_kv_rir [simp]: "rsbr_ri_to_rirdb (demo_kv db) = Some (demo_rir db)"
  by (simp add: demo_kv_def rsbr_ri_to_rirdb_def demo_rir_def)

lemma demo_rir_simps [simp]:
  "rir_db (demo_rir db) = Some db" "rir_readoptions (demo_rir db)" "rir_writeoptions_sync (demo_rir db)"
  "rir_writeoptions_async (demo_rir db)" "rir_writebatch (demo_rir db) = Some []" "rir_log_fd (demo_rir db) = 3"
  by (simp_all add: demo_rir_def)

section \<open>The database is a log\<close>

context rocksdb_store
begin

lemma rocks_write_log:
  assumes "rsbr_entry_write rdb ri re ws = Some ri'" and "rocks_storable re" and "rocks_ws_ok ws"
  shows "rocks_log kv ri' = insert re {e \<in> rocks_log kv ri. entry_idx e \<noteq> entry_idx re}"
proof (intro set_eqI iffI)
  fix e
  assume e: "e \<in> rocks_log kv ri'"
  have ki: "key_idx (entry_idx re)" "key_idx (entry_idx e)"
    using assms(2) e by (auto simp: rocks_storable_def rocks_holds_def rocks_log_def)
  obtain rir db rir' db' where r: "rs_rir (ri_backend_arg ri) = Some rir" "rir_db rir = Some db"
    "rs_rir (ri_backend_arg ri') = Some rir'" "rir_db rir' = Some db'"
    and k: "\<And>k. log_key k \<Longrightarrow> kv db' ''default'' k =
       (if k = RAFT_ENTRY_KEY_PRINTF (entry_idx re) then Some (rsbr_entry_value re)
        else if k = RAFT_ENTRY_HEADER_KEY_PRINTF (entry_idx re) then Some (encode_reh (re_header re))
        else kv db ''default'' k)"
    by (rule entry_write_kv [OF assms(1,3)]) (rule that)
  show "e \<in> insert re {e \<in> rocks_log kv ri. entry_idx e \<noteq> entry_idx re}"
  proof (cases "entry_idx e = entry_idx re")
    case True
    then have "e = re"
      using rocks_holds_unique e rocks_write_holds [OF assms] unfolding rocks_log_def by blast
    then show ?thesis by simp
  next
    case False
    then show ?thesis
      using e unfolding rocks_log_def mem_Collect_eq rocks_holds_update [OF r(1,2)] rocks_holds_update [OF r(3,4)]
      by (simp add: k entry_keys_eq [OF ki(2,1)] entry_key_kinds)
  qed
qed (auto simp: rocks_log_def intro: rocks_write_holds [OF assms] rocks_write_keeps [OF assms])

lemma rocks_truncate_log:
  assumes "rsbr_log_truncate rdb ri i = Some ri'" and "key_idx i"
  shows "rocks_log kv ri' = {e \<in> rocks_log kv ri. entry_idx e < i}"
proof -
  obtain rir db rir' db' where r: "rs_rir (ri_backend_arg ri) = Some rir" "rir_db rir = Some db"
    "rs_rir (ri_backend_arg ri') = Some rir'" "rir_db rir' = Some db'"
    and k: "kv db' ''default'' = (\<lambda>k. if RAFT_ENTRY_KEY_PRINTF i \<le> k \<and> k < RAFT_LOG_LASTENTRY_ROCKSDB then None
       else kv db ''default'' k)"
    using truncate_kv [OF assms(1)] .
  have "rocks_holds kv (ri_backend_arg ri') e \<Longrightarrow> rocks_holds kv (ri_backend_arg ri) e" for e
    unfolding rocks_holds_update [OF r(1,2)] rocks_holds_update [OF r(3,4)] by (auto simp: k split: if_splits)
  then show ?thesis
    by (auto simp: rocks_log_def intro: rocks_truncate_keeps [OF assms] dest: rocks_truncate_drops [OF assms])
qed

end

text \<open>
  C31. The database refines a log that is a set of entries, at most one per index below \<open>10 ^ 16\<close>: a
  write puts the entry in place of the one that had its index and changes nothing else of the log, a
  truncation keeps exactly the entries below its index, a reap loses no entry above its index, and a
  write of the log header, a sync and the apply of a request lose none.
\<close>

theorem rocks_refines_log:
  assumes "rocksdb_store rdb kv"
  shows "inj_on entry_idx (rocks_log kv ri) \<and>
    (rsbr_entry_write rdb ri re ws = Some ri' \<and> rocks_storable re \<and> rocks_ws_ok ws \<longrightarrow>
       rocks_log kv ri' = insert re {e \<in> rocks_log kv ri. entry_idx e \<noteq> entry_idx re}) \<and>
    (rsbr_log_truncate rdb ri i = Some ri' \<and> key_idx i \<longrightarrow>
       rocks_log kv ri' = {e \<in> rocks_log kv ri. entry_idx e < i}) \<and>
    (rsbr_log_reap rdb ri i = Some ri' \<and> key_idx i \<longrightarrow>
       {e \<in> rocks_log kv ri. i < entry_idx e} \<subseteq> rocks_log kv ri') \<and>
    (rsbr_header_write rdb ri = Some (rc, ri') \<longrightarrow> rocks_log kv ri \<subseteq> rocks_log kv ri') \<and>
    (rsbr_sync rdb env ri = Some (rc, ri') \<longrightarrow> rocks_log kv ri \<subseteq> rocks_log kv ri') \<and>
    (rsbr_sm_apply_opt rdb ri ws = Some ri' \<and> rocks_ws_ok ws \<longrightarrow> rocks_log kv ri \<subseteq> rocks_log kv ri')"
proof -
  note st = assms
  have "inj_on entry_idx (rocks_log kv ri)"
    by (auto simp: inj_on_def rocks_log_def intro: rocks_holds_unique)
  moreover have "rsbr_log_reap rdb ri i = Some ri' \<and> key_idx i \<longrightarrow>
       {e \<in> rocks_log kv ri. i < entry_idx e} \<subseteq> rocks_log kv ri'"
    "rsbr_header_write rdb ri = Some (rc, ri') \<longrightarrow> rocks_log kv ri \<subseteq> rocks_log kv ri'"
    "rsbr_sync rdb env ri = Some (rc, ri') \<longrightarrow> rocks_log kv ri \<subseteq> rocks_log kv ri'"
    "rsbr_sm_apply_opt rdb ri ws = Some ri' \<and> rocks_ws_ok ws \<longrightarrow> rocks_log kv ri \<subseteq> rocks_log kv ri'"
    by (auto simp: rocks_log_def intro: rocksdb_store.rocks_reap_keeps [OF st] rocksdb_store.rocks_header_write_keeps [OF st]
        rocksdb_store.rocks_sync_keeps [OF st] rocksdb_store.rocks_apply_keeps [OF st])
  ultimately show ?thesis
    using rocksdb_store.rocks_write_log [OF st, of ri re ws ri'] rocksdb_store.rocks_truncate_log [OF st, of ri i ri'] by blast
qed

lemma demo_entry_rocks: "key_idx i \<Longrightarrow> rocks_storable (demo_entry i)"
  by (simp add: rocks_storable_def demo_entry_def re_fits_def reh_fits_def null_reh_def key_idx_def)

lemma mem_write_succeeds: "0 \<le> entry_idx re \<Longrightarrow> \<exists>ri'. rsbr_entry_write mem_rocksdb (demo_kv db) re ws = Some ri'"
  by (simp add: rsbr_entry_write_def rsbr_batch_write_def mem_rocksdb_def Let_def)

theorem rocks_refines_log_witness:
  "\<exists>ri'. rsbr_entry_write mem_rocksdb (demo_kv []) (demo_entry 5) None = Some ri' \<and>
     rocks_log memdb_kv ri' = insert (demo_entry 5) {e \<in> rocks_log memdb_kv (demo_kv []). entry_idx e \<noteq> 5}"
proof -
  have idx: "entry_idx (demo_entry 5) = 5" by (simp add: demo_entry_def)
  then obtain ri' where "rsbr_entry_write mem_rocksdb (demo_kv []) (demo_entry 5) None = Some ri'"
    using mem_write_succeeds [of "demo_entry 5" "[]" None] by auto
  then show ?thesis
    using rocks_refines_log [OF memdb.rocksdb_store_axioms, of "demo_kv []" "demo_entry 5" None ri']
      demo_entry_rocks [of 5] idx
    by (simp add: key_idx_def rocks_ws_ok_def)
qed

section \<open>The ends of the log at start-up\<close>

text \<open>
  C33. The ends of the log are found: on a database that stores the entries from \<open>lo\<close> to \<open>hi\<close> and whose
  iterators meet no I/O error, the count of entries is \<open>hi + 1\<close>, and the walk over the keys for the lowest
  entry comes to an end and gives \<open>lo\<close>.
\<close>

theorem log_ends_found:
  assumes "rocksdb_store rdb kv" and "healthy_rocksdb rdb" and "log_keys_between (kv db ''default'') lo hi"
    and "\<And>bs. bs \<noteq> [] \<Longrightarrow> is_digit (hd bs) \<Longrightarrow> to_ull bs = Inr (strtoull bs)"
    and "rsbr_ri_to_rirdb ri = Some rir" and "rir_db rir = Some db" and "rir_readoptions rir"
  shows "rsbr_num_entries_calc rdb ri = Some (hi + 1) \<and> rsbr_lowest_entry_get rdb to_ull ri = Some (0, lo)"
  using rocksdb_store.num_entries_ok [OF assms(1-3,5-7)] rocksdb_store.lowest_entry_ok [OF assms] by blast

text \<open>Entry 7 alone, after the entries before it were reaped.\<close>

definition demo_db :: memdb where
  "demo_db = map (\<lambda>k. ((''default'', k), [0])) [RAFT_LOG_HEADER_UUID, RAFT_LOG_HEADER_LAST_APPLIED_ROCKSDB,
     RAFT_ENTRY_KEY_PRINTF 7, RAFT_ENTRY_HEADER_KEY_PRINTF 7, RAFT_LOG_LASTENTRY_ROCKSDB]"

lemma demo_db_keys: "log_keys_between (memdb_kv demo_db ''default'') 7 7"
proof -
  have k: "memdb_kv demo_db ''default'' k = (if k \<in> {RAFT_LOG_HEADER_UUID, RAFT_LOG_HEADER_LAST_APPLIED_ROCKSDB,
     RAFT_ENTRY_KEY_PRINTF 7, RAFT_ENTRY_HEADER_KEY_PRINTF 7, RAFT_LOG_LASTENTRY_ROCKSDB} then Some [0] else None)" for k
    by (auto simp: memdb_kv_def demo_db_def)
  have "memdb_kv demo_db ''default'' (RAFT_LOG_LASTENTRY_ROCKSDB @ []) \<noteq> None" by (simp add: k)
  then have "\<exists>s. memdb_kv demo_db ''default'' (RAFT_LOG_LASTENTRY_ROCKSDB @ s) \<noteq> None" by blast
  then show ?thesis
    unfolding log_keys_between_def
    by (auto simp: key_idx_def k RAFT_LOG_HEADER_UUID_def RAFT_LOG_HEADER_LAST_APPLIED_ROCKSDB_def split: if_splits)
qed

theorem log_ends_found_witness:
  "rsbr_num_entries_calc mem_rocksdb (demo_kv demo_db) = Some 8 \<and>
   rsbr_lowest_entry_get mem_rocksdb (\<lambda>bs. Inr (strtoull bs)) (demo_kv demo_db) = Some (0, 7)"
proof -
  have "rsbr_num_entries_calc mem_rocksdb (demo_kv demo_db) = Some (7 + 1) \<and>
    rsbr_lowest_entry_get mem_rocksdb (\<lambda>bs. Inr (strtoull bs)) (demo_kv demo_db) = Some (0, 7)"
    by (rule log_ends_found [OF memdb.rocksdb_store_axioms healthy_mem_rocksdb demo_db_keys HOL.refl demo_kv_rir])
      (rule demo_rir_simps)+
  then show ?thesis by simp
qed

section \<open>Runs\<close>

text \<open>
  C32. A server on the key-value backend only moves forward, and its applied, committed, synced and
  written indices stay in order, whatever RocksDB and the file system do.
\<close>

theorem rocks_run_forward_in_order:
  assumes "server_run (ribRocksDB st env) ri ri'" and "server_ok ri"
  shows "server_le ri ri' \<and> server_ok ri'"
  using rocks.fwd.server_run_inv [OF assms(1), of ri] rocks.ok.server_run_inv [OF assms]
  by (simp add: server_le_def vote_le_def)

text \<open>The platform on which every call succeeds and the store has one recovery marker.\<close>

definition demo_fs :: "(unit, memdb) store_fs" where
  "demo_fs =
     \<lparr>fs_pathname_build = (\<lambda>s _. (0, s)), fs_open_dir = (\<lambda>_ _. Inr 3), fs_mkdirat = (\<lambda>s _. (0, s)),
      fs_isdir = (\<lambda>_ _. Inr True), fs_stat = (\<lambda>_ _. False), fs_rename = (\<lambda>s _ _. (0, s)),
      fs_scandir = (\<lambda>_ _. Inr [\<lparr>d_name = ''inprogress-recovery-db.1_2'', d_is_dir = True, d_reclen = 120\<rparr>]),
      fs_remove_tree = (\<lambda>s _. s), fs_free_space = (\<lambda>_ _. 1000), fs_popen_cmd_out = (\<lambda>s _ _ rrh. (0, rrh, s)),
      fs_rocksdb_open = (\<lambda>s _ _ _. (Some [], s)), fs_rocksdb_close = (\<lambda>_ s. s),
      fs_checkpoint_create = (\<lambda>_ _ s. (True, s)), fs_alloc = (\<lambda>_. True), fs_uuid_generate = (\<lambda>_. 77),
      fs_uuid_parse = (\<lambda>s. if s = ''1'' then Some 1 else if s = ''2'' then Some 2 else None),
      fs_uuid_unparse = (\<lambda>u. if u = 1 then ''1'' else ''2''), fs_regexec = (\<lambda>_ _. True),
      fs_last_instance_of_char = (\<lambda>_ _. 0), fs_to_ull = (\<lambda>bs. Inr (strtoull bs)),
      fs_parse_comma_uint = (\<lambda>_. Inl (- EINVAL)), fs_csn_store = (\<lambda>_. Inl (- ENOENT))\<rparr>"

theorem rocks_run_forward_in_order_witness:
  "server_le (demo_kv []\<lparr>ri_user_requested_checkpoint := True\<rparr>)
     (demo_kv []\<lparr>ri_user_requested_checkpoint := False, ri_user_requested_reap := False\<rparr>)"
proof -
  let ?ri = "demo_kv []\<lparr>ri_user_requested_checkpoint := True\<rparr>" and ?env = "raft_server_backend_use_rocksdb (mem_rocksdb, demo_fs) demo_base"
  have "raft_server_chkpt_thread ?env ?ri = Some (?ri\<lparr>ri_user_requested_checkpoint := False, ri_user_requested_reap := False\<rparr>)"
    by (simp add: raft_server_chkpt_thread_def Let_def raft_server_instance_chkpt_compact_max_idx_def demo_kv_def
        raft_instance_is_shutdown_def)
  then have run: "server_run (ribRocksDB (mem_rocksdb, demo_fs) demo_base) ?ri (?ri\<lparr>ri_user_requested_checkpoint := False, ri_user_requested_reap := False\<rparr>)"
    by (intro server_run.step [OF server_run.refl] server_step.chkpt_thread [of ?env])
      (simp_all add: raft_server_backend_use_rocksdb_def)
  have ok: "server_ok ?ri"
    by (simp add: server_ok_def raft_instance_is_defs newest_hdrs_ok_def hdr_ok_def demo_kv_def)
  show ?thesis
    using rocks_run_forward_in_order [OF run ok] unfolding raft_instance.update_convs by simp
qed

section \<open>A recovery that was cut off\<close>

lemma snprintf_full: "length s < n \<Longrightarrow> snprintf n s = s"
  by (simp add: snprintf_def)

text \<open>The name the recovery gives to the database it works on.\<close>

lemma marker_name:
  assumes "rsbr_recovery_inprogress_path_build fs base rrh len = (0, base @ ''/'' @ name)"
  shows "\<exists>rest. name = RECOVERY_MARKER_NAME @ ''.'' @ rest"
  using assms by (auto simp: rsbr_recovery_inprogress_path_build_def Let_def snprintf_full split: if_splits)

lemma marker_scan_fails:
  assumes "rs_rir (ri_backend_arg ri) = Some rir" and "0 \<le> rir_log_fd rir" and "fs_scandir fs (fs_of ri) ''.'' = Inr dents"
    and "filter (\<lambda>d. d_is_dir d \<and> fs_regexec fs RECOVERY_MARKER_NAME__regex (d_name d)) dents = [dent]"
    and "d_name dent = RECOVERY_MARKER_NAME @ ''.'' @ rest" and "\<And>s. fs_uuid_parse fs (CHR ''.'' # s) = None"
  shows "rsbr_recovery_marker_scan fs env ri = (- EINVAL, ri\<lparr>ri_incomplete_recovery := False\<rparr>)"
proof -
  have "take (UUID_STR_LEN - 1) (drop RECOVERY_MARKER_NAME_LEN (d_name dent)) = CHR ''.'' # take (UUID_STR_LEN - 2) rest"
    by (simp add: assms(5) RECOVERY_MARKER_NAME_def RECOVERY_MARKER_NAME_LEN_def UUID_STR_LEN_def)
  then show ?thesis
    using assms(1-4)
    by (simp add: rsbr_recovery_marker_scan_def fs_of_def raft_server_init_recovery_handle_from_marker_def assms(6)
        Let_def split: option.split)
qed

text \<open>\<open>open\<close> gives a descriptor or an error. The set-up leaves an open directory and does not change what the instance does.\<close>

definition open_dir_ok :: "('s, 'd) store_fs \<Rightarrow> bool" where
  "open_dir_ok fs \<longleftrightarrow> (\<forall>s p. case fs_open_dir fs s p of Inl errno \<Rightarrow> 0 < errno | Inr fd \<Rightarrow> 0 \<le> fd)"

lemma open_dir_okD:
  "open_dir_ok fs \<Longrightarrow> fs_open_dir fs s p = Inl errno \<Longrightarrow> errno \<noteq> 0"
  "open_dir_ok fs \<Longrightarrow> fs_open_dir fs s p = Inr fd \<Longrightarrow> 0 \<le> fd"
  unfolding open_dir_ok_def by (metis sum.case less_irrefl)+

lemma subdirs_setup_open:
  assumes "rsbr_subdirs_setup fs ri = (0, ri')" and "open_dir_ok fs"
  shows "ri_proc_state ri' = ri_proc_state ri \<and> (\<exists>rir. rs_rir (ri_backend_arg ri') = Some rir \<and> 0 \<le> rir_log_fd rir)"
  using assms(1)
  by (auto simp: rsbr_subdirs_setup_def Let_def case_prod_beta set_rir_def set_fs_def split: if_splits option.splits sum.splits
      dest: open_dir_okD [OF assms(2)])

lemma set_rir_proc [simp]: "ri_proc_state (set_rir rir ri) = ri_proc_state ri"
  by (simp add: set_rir_def)

lemma setup_items_fd: "rir_log_fd (snd (rsbr_setup_rir_rockdsdb_items fs rir)) = rir_log_fd rir"
  by (simp add: rsbr_setup_rir_rockdsdb_items_def Let_def)

lemma setup_rir_open:
  assumes "rsbr_setup_rir fs cft ri = (0, ri')" and "open_dir_ok fs"
  shows "ri_proc_state ri' = ri_proc_state ri \<and> (\<exists>rir. rs_rir (ri_backend_arg ri') = Some rir \<and> 0 \<le> rir_log_fd rir)"
proof -
  let ?r0 = "set_rir \<lparr>rir_log_fd = - 1, rir_db = None, rir_options = False, rir_writeoptions_sync = False,
     rir_writeoptions_async = False, rir_readoptions = False, rir_writebatch = None, rir_cf_table = cft\<rparr> ri"
  obtain r1 where sub: "rsbr_subdirs_setup fs ?r0 = (0, r1)"
    using assms(1) by (cases "rsbr_subdirs_setup fs ?r0") (auto simp: rsbr_setup_rir_def Let_def split: if_splits)
  obtain rir where rir: "rs_rir (ri_backend_arg r1) = Some rir" "0 \<le> rir_log_fd rir" "ri_proc_state r1 = ri_proc_state ri"
    using subdirs_setup_open [OF sub assms(2)] by (auto simp: set_rir_def)
  then show ?thesis
    using assms(1) setup_items_fd [of fs rir] by (auto simp: rsbr_setup_rir_def sub Let_def case_prod_beta split: if_splits)
qed

lemma remove_trash_simps [simp]:
  "ri_proc_state (snd (rsbr_remove_trash fs ri)) = ri_proc_state ri"
  "rs_rir (ri_backend_arg (snd (rsbr_remove_trash fs ri))) = rs_rir (ri_backend_arg ri)"
  by (simp_all add: rsbr_remove_trash_def Let_def set_fs_def)

text \<open>
  C36. A recovery that was cut off is not resumed: when the store has the directory a recovery works
  on, under the name the recovery itself gives it, the set-up of the backend fails with \<open>- EINVAL\<close>
  and never opens a database, because the uuids are looked for one character too early in the name.
\<close>

theorem cut_off_recovery_not_resumed:
  assumes "rsbr_setup_rir fs cft (ri\<lparr>ri_max_entry_size := RAFT_ENTRY_SIZE_ROCKSDB\<rparr>) = (0, ri1)"
    and "ri_proc_state ri = RAFT_PROC_STATE_BOOTING"
    and "fs_scandir fs (fs_of (snd (rsbr_remove_trash fs ri1))) ''.'' = Inr dents"
    and "filter (\<lambda>d. d_is_dir d \<and> fs_regexec fs RECOVERY_MARKER_NAME__regex (d_name d)) dents = [dent]"
    and "rsbr_recovery_inprogress_path_build fs base rrh len = (0, base @ ''/'' @ d_name dent)"
    and "\<And>s. fs_uuid_parse fs (CHR ''.'' # s) = None" and "open_dir_ok fs"
  shows "\<exists>ri'. rsbr_setup (rdb, fs) env cft ri = Some (- EINVAL, ri') \<and> rs_rir (ri_backend_arg ri') = None \<and>
     \<not> ri_incomplete_recovery ri'"
proof -
  let ?r2 = "snd (rsbr_remove_trash fs ri1)"
  obtain rir where rir: "rs_rir (ri_backend_arg ?r2) = Some rir" "0 \<le> rir_log_fd rir"
    and boot: "ri_proc_state ?r2 = RAFT_PROC_STATE_BOOTING"
    using setup_rir_open [OF assms(1,7)] assms(2) by auto
  obtain rest where name: "d_name dent = RECOVERY_MARKER_NAME @ ''.'' @ rest"
    using marker_name [OF assms(5)] by blast
  have "rsbr_setup_detect_recovery fs env ?r2 = Some (- EINVAL, ?r2\<lparr>ri_incomplete_recovery := False\<rparr>)"
    by (simp add: rsbr_setup_detect_recovery_def marker_scan_fails [OF rir assms(3,4) name assms(6)])
  then show ?thesis
    using rir boot
    by (simp add: rsbr_setup_def Let_def assms(1) rsbr_destroy_def rsbr_ri_to_rirdb_def)
qed

definition demo_booting :: "(unit, memdb) rocks_instance" where
  "demo_booting = demo_inst \<lparr>rs_fs = (), rs_rir = None\<rparr>\<lparr>ri_proc_state := RAFT_PROC_STATE_BOOTING\<rparr>"

theorem cut_off_recovery_not_resumed_witness:
  "\<exists>ri'. rsbr_setup (mem_rocksdb, demo_fs) demo_base [] demo_booting = Some (- EINVAL, ri') \<and>
     rs_rir (ri_backend_arg ri') = None \<and> \<not> ri_incomplete_recovery ri'"
proof (rule cut_off_recovery_not_resumed)
  let ?rrh = "ri_recovery_handle demo_booting\<lparr>rrh_peer_uuid := 2, rrh_peer_db_uuid := 1\<rparr>"
  show "rsbr_setup_rir demo_fs [] (demo_booting\<lparr>ri_max_entry_size := RAFT_ENTRY_SIZE_ROCKSDB\<rparr>) =
      (0, snd (rsbr_setup_rir demo_fs [] (demo_booting\<lparr>ri_max_entry_size := RAFT_ENTRY_SIZE_ROCKSDB\<rparr>)))"
    by (simp add: rsbr_setup_rir_def rsbr_subdirs_setup_def rsbr_setup_create_subdirs_def ribSubDirs_def
        rsbr_setup_rir_rockdsdb_items_def demo_fs_def demo_booting_def Let_def set_rir_def set_fs_def)
  show "rsbr_recovery_inprogress_path_build demo_fs ''/store'' ?rrh 4096 = (0, ''/store'' @ ''/'' @ d_name
      \<lparr>d_name = ''inprogress-recovery-db.1_2'', d_is_dir = True, d_reclen = 120\<rparr>)"
    by (simp add: rsbr_recovery_inprogress_path_build_def demo_fs_def snprintf_def uuid_is_null_def Let_def
        RECOVERY_MARKER_NAME_def)
  show "filter (\<lambda>d. d_is_dir d \<and> fs_regexec demo_fs RECOVERY_MARKER_NAME__regex (d_name d))
      [\<lparr>d_name = ''inprogress-recovery-db.1_2'', d_is_dir = True, d_reclen = 120\<rparr>] =
      [\<lparr>d_name = ''inprogress-recovery-db.1_2'', d_is_dir = True, d_reclen = 120\<rparr>]"
    by (simp add: demo_fs_def)
qed (auto simp: demo_fs_def demo_booting_def open_dir_ok_def)

section \<open>What a recovery leaves\<close>

text \<open>The headers \<open>e\<close> of the entries from \<open>i\<close> to \<open>j - 1\<close> are in the database.\<close>

definition headers_in :: "(u8 list \<Rightarrow> u8 list option) \<Rightarrow> raft_entry_idx_t \<Rightarrow> raft_entry_idx_t
    \<Rightarrow> (raft_entry_idx_t \<Rightarrow> raft_entry_header) \<Rightarrow> bool" where
  "headers_in m i j e \<longleftrightarrow> (\<forall>k. i \<le> k \<and> k < j \<longrightarrow> m (RAFT_ENTRY_HEADER_KEY_PRINTF k) = Some (encode_reh (e k)))"

definition own_header :: "uuid \<Rightarrow> (raft_entry_idx_t \<Rightarrow> raft_entry_header) \<Rightarrow> raft_entry_idx_t \<Rightarrow> raft_entry_header" where
  "own_header me e k = (e k)\<lparr>reh_self_uuid := me\<rparr>"

definition headers_ok :: "raft_entry_idx_t \<Rightarrow> raft_entry_idx_t \<Rightarrow> (raft_entry_idx_t \<Rightarrow> raft_entry_header) \<Rightarrow> bool" where
  "headers_ok i j e \<longleftrightarrow> (\<forall>k. i \<le> k \<and> k < j \<longrightarrow> key_idx k \<and> reh_fits (e k) \<and> reh_magic (e k) = RAFT_ENTRY_MAGIC \<and> reh_index (e k) = k)"

lemma headers_step:
  assumes "headers_in m i j e" and "headers_ok i j e" and "i < j"
  shows "m (RAFT_ENTRY_HEADER_KEY_PRINTF i) = Some (encode_reh (e i))" and "reh_fits (e i)" and "key_idx i"
    and "reh_magic (e i) = RAFT_ENTRY_MAGIC" and "reh_index (e i) = i" and "headers_ok (i + 1) j e"
    and "headers_in (m(RAFT_ENTRY_HEADER_KEY_PRINTF i := x)) (i + 1) j e"
proof -
  show "key_idx i" using assms by (simp add: headers_ok_def)
  then have "RAFT_ENTRY_HEADER_KEY_PRINTF k \<noteq> RAFT_ENTRY_HEADER_KEY_PRINTF i" if "i + 1 \<le> k" "k < j" for k
    using assms(2) that entry_keys_eq(2) [of k i] by (auto simp: headers_ok_def)
  then show "headers_in (m(RAFT_ENTRY_HEADER_KEY_PRINTF i := x)) (i + 1) j e"
    using assms(1) by (auto simp: headers_in_def)
qed (use assms in \<open>auto simp: headers_in_def headers_ok_def\<close>)

context rocksdb_store
begin

text \<open>A batch of puts to the default family, on the level of the map.\<close>

lemma batch_put_kv:
  assumes "rsbr_batch_write rdb sync wb rir ri = Some ri'" and "rir_db rir = Some db"
  obtains rir' db' where "rs_rir (ri_backend_arg ri') = Some rir'" and "rir_db rir' = Some db'"
    and "kv db' = fold wb_apply wb (kv db)"
  using batch_write_kv [OF assms(1)] assms(2) that by (metis option.inject)

lemma scrub_loop_kv:
  assumes "scrub_entry_headers_loop rdb n i reh ri = Some (0, ri')"
    and "rs_rir (ri_backend_arg ri) = Some rir" and "rir_db rir = Some db"
    and "headers_in (kv db ''default'') i (i + int n) e" and "headers_ok i (i + int n) e"
  shows "\<exists>rir' db'. rs_rir (ri_backend_arg ri') = Some rir' \<and> rir_db rir' = Some db' \<and> backend_only ri ri' \<and>
     headers_in (kv db' ''default'') i (i + int n) (own_header (ri_csn_this_peer ri) e) \<and>
     (\<forall>k. (\<forall>j. i \<le> j \<and> j < i + int n \<longrightarrow> k \<noteq> RAFT_ENTRY_HEADER_KEY_PRINTF j) \<longrightarrow> kv db' ''default'' k = kv db ''default'' k)"
  using assms
proof (induction n arbitrary: i reh ri rir db)
  case 0
  then show ?case by (auto simp: headers_in_def)
next
  case (Suc n)
  let ?me = "ri_csn_this_peer ri" and ?K = RAFT_ENTRY_HEADER_KEY_PRINTF
  note step = headers_step [OF Suc.prems(4,5), simplified]
  obtain rc h where rd: "rsbr_entry_header_read rdb ri (reh\<lparr>reh_index := i\<rparr>) = Some (rc, h)"
    using Suc.prems(1) by (auto simp: bind_Some)
  have "rc = 0"
    using Suc.prems(1) rd header_read_value [of ri "reh\<lparr>reh_index := i\<rparr>" h rir db "e i"] Suc.prems(2,3) step
    by (auto simp: bind_Some split: if_splits)
  then have h: "h = e i"
    using header_read_value [of ri "reh\<lparr>reh_index := i\<rparr>" h rir db "e i"] rd Suc.prems(2,3) step by simp
  let ?h = "(e i)\<lparr>reh_self_uuid := ?me\<rparr>"
  obtain r1 where w: "rsbr_entry_header_write_recovery_scrub rdb ri ?h = Some r1"
    and rest: "scrub_entry_headers_loop rdb n (i + 1) ?h r1 = Some (0, ri')"
    using Suc.prems(1) rd \<open>rc = 0\<close> h step by (auto simp: bind_Some Let_def split: if_splits)
  have bw: "rsbr_batch_write rdb False [WB_put None (?K i) (encode_reh ?h)] rir ri = Some r1"
    using w Suc.prems(2) step by (auto simp: rsbr_entry_header_write_recovery_scrub_def bind_Some split: if_splits dest!: rirdb_rs_rir)
  obtain rir1 db1 where d1: "rs_rir (ri_backend_arg r1) = Some rir1" "rir_db rir1 = Some db1"
    and k1: "kv db1 = fold wb_apply [WB_put None (?K i) (encode_reh ?h)] (kv db)"
    using batch_put_kv [OF bw Suc.prems(3)] .
  have k1': "kv db1 ''default'' = (kv db ''default'')(?K i := Some (encode_reh ?h))"
    by (simp add: k1 cf_of_def)
  have bo: "backend_only ri r1" using bw by (rule batch_write_frame)
  have me: "ri_csn_this_peer r1 = ?me" using bo by (elim backend_onlyE) simp
  have hin: "headers_in (kv db1 ''default'') (i + 1) (i + 1 + int n) e" "headers_ok (i + 1) (i + 1 + int n) e"
    using step(6,7) unfolding k1' by (simp_all add: add.assoc)
  obtain rir' db' where ih: "rs_rir (ri_backend_arg ri') = Some rir'" "rir_db rir' = Some db'" "backend_only r1 ri'"
    "headers_in (kv db' ''default'') (i + 1) (i + 1 + int n) (own_header ?me e)"
    "\<forall>k. (\<forall>j. i + 1 \<le> j \<and> j < i + 1 + int n \<longrightarrow> k \<noteq> ?K j) \<longrightarrow> kv db' ''default'' k = kv db1 ''default'' k"
    using Suc.IH [OF rest d1 hin] unfolding me by blast
  have "?K i \<noteq> ?K j" if "i + 1 \<le> j" "j < i + 1 + int n" for j
    using that hin(2) step(3) entry_keys_eq(2) [of i j] by (auto simp: headers_ok_def)
  then have Ki: "kv db' ''default'' (?K i) = Some (encode_reh (own_header ?me e i))"
    using ih(5) by (simp add: k1' own_header_def)
  have "headers_in (kv db' ''default'') i (i + int (Suc n)) (own_header ?me e)"
    unfolding headers_in_def
  proof (intro allI impI)
    fix k assume "i \<le> k \<and> k < i + int (Suc n)"
    then show "kv db' ''default'' (?K k) = Some (encode_reh (own_header ?me e k))"
      using Ki ih(4) by (cases "k = i") (auto simp: headers_in_def)
  qed
  moreover have "kv db' ''default'' k = kv db ''default'' k" if "\<forall>j. i \<le> j \<and> j < i + int (Suc n) \<longrightarrow> k \<noteq> ?K j" for k
    using that ih(5) by (auto simp: k1')
  ultimately show ?case
    using ih(1,2) backend_only_trans [OF bo ih(3)] by blast
qed

lemma header_load_kv:
  assumes "rsbr_header_load rdb ri = Some (0, ri')" and "rs_rir (ri_backend_arg ri) = Some rir" and "rir_db rir = Some db"
    and "kv db ''default'' (RAFT_LOG_HEADER_FMT (ri_raft_uuid_str ri) (ri_this_peer_uuid_str ri)) = Some (encode_rlh h)"
    and "- (2 ^ 63) \<le> rlh_term h" and "rlh_term h < 2 ^ 63"
  shows "ri' = ri\<lparr>ri_log_hdr := h\<rparr>"
proof -
  obtain rir' rc bs where rir: "rsbr_ri_to_rirdb ri = Some rir'" and ri': "ri' = ri\<lparr>ri_log_hdr := decode_rlh bs\<rparr>"
    and g: "rsbr_get_exact_val_size rdb rir' (RAFT_LOG_HEADER_FMT (ri_raft_uuid_str ri) (ri_this_peer_uuid_str ri))
      (encode_rlh (ri_log_hdr ri)) sizeof_raft_log_header = Some (rc, bs)" and rc: "rc = 0"
    using assms(1) by (auto simp: rsbr_header_load_def bind_Some Let_def split: if_splits)
  have "rir' = rir" using rirdb_rs_rir [OF rir] assms(2) by simp
  with g rc have g': "rsbr_get_exact_val_size rdb rir (RAFT_LOG_HEADER_FMT (ri_raft_uuid_str ri) (ri_this_peer_uuid_str ri))
      (encode_rlh (ri_log_hdr ri)) sizeof_raft_log_header = Some (0, bs)" by simp
  obtain db' v where "rir_db rir = Some db'"
    and "kv db' ''default'' (RAFT_LOG_HEADER_FMT (ri_raft_uuid_str ri) (ri_this_peer_uuid_str ri)) = Some v"
    and "bs = v @ drop sizeof_raft_log_header (encode_rlh (ri_log_hdr ri))"
    using get_exact [OF g'] .
  then have "bs = encode_rlh h" using assms(3,4) by simp
  then show ?thesis using ri' decode_encode_rlh [OF assms(5,6)] by simp
qed

text \<open>The headers of the database that is taken over: the log header of this peer is the one in memory.\<close>

lemma init_header_kv:
  assumes "rsbr_init_header rdb u ri = Some (0, ri')" and "raft_instance_is_recovering ri"
    and "rs_rir (ri_backend_arg ri) = Some rir" and "rir_db rir = Some db"
  shows "\<exists>rir' db'. rs_rir (ri_backend_arg ri') = Some rir' \<and> rir_db rir' = Some db' \<and> backend_only ri ri' \<and>
     kv db' ''default'' (RAFT_LOG_HEADER_FMT (ri_raft_uuid_str ri) (ri_this_peer_uuid_str ri)) = Some (encode_rlh (ri_log_hdr ri)) \<and>
     (\<forall>k. log_key k \<longrightarrow> kv db' ''default'' k = kv db ''default'' k)"
proof -
  obtain rir0 wb r1 where r0: "rsbr_ri_to_rirdb ri = Some rir0" and w: "rsbr_batch_write rdb True wb rir0 ri = Some r1"
    and hw: "rsbr_header_write rdb r1 = Some (0, ri')" and off: "list_all off_log wb"
    using assms(1,2) by (auto simp: rsbr_init_header_def bind_Some Let_def split: if_splits)
  have "rir0 = rir" using rirdb_rs_rir [OF r0] assms(3) by simp
  then obtain rir1 db1 where d1: "rs_rir (ri_backend_arg r1) = Some rir1" "rir_db rir1 = Some db1"
    and k1: "kv db1 = fold wb_apply wb (kv db)"
    using batch_put_kv [OF w] assms(4) by blast
  have bo: "backend_only ri r1" using w by (rule batch_write_frame)
  let ?H = "RAFT_LOG_HEADER_FMT (ri_raft_uuid_str ri) (ri_this_peer_uuid_str ri)"
  have f: "ri_raft_uuid_str r1 = ri_raft_uuid_str ri" "ri_this_peer_uuid_str r1 = ri_this_peer_uuid_str ri" "ri_log_hdr r1 = ri_log_hdr ri"
    using bo by (elim backend_onlyE; simp)+
  obtain rirx where rx: "rsbr_ri_to_rirdb r1 = Some rirx"
    and w2: "rsbr_batch_write rdb True [WB_put None ?H (encode_rlh (ri_log_hdr ri))] rirx r1 = Some ri'"
    using hw by (auto simp: rsbr_header_write_def bind_Some f split: if_splits)
  have "rirx = rir1" using rirdb_rs_rir [OF rx] d1(1) by simp
  then obtain rir2 db2 where d2: "rs_rir (ri_backend_arg ri') = Some rir2" "rir_db rir2 = Some db2"
    and k2: "kv db2 = fold wb_apply [WB_put None ?H (encode_rlh (ri_log_hdr ri))] (kv db1)"
    using batch_put_kv [OF w2] d1(2) by blast
  have "log_key k \<Longrightarrow> kv db2 ''default'' k = kv db ''default'' k" for k
    using off_log_fold [OF off, of k "kv db"] by (auto simp: k2 k1 cf_of_def)
  moreover have "kv db2 ''default'' ?H = Some (encode_rlh (ri_log_hdr ri))" by (simp add: k2 cf_of_def)
  ultimately show ?thesis
    using d2 backend_only_trans [OF bo batch_write_frame [OF w2]] by blast
qed

end

text \<open>
  C34. What a recovery leaves: when the scrub of the peer's database succeeds, every entry header of
  the log has this peer as its owner and is otherwise the peer's, and the log header of this peer,
  in memory and in the database, is the peer's log header: whatever this server had as its term and
  vote, it continues with the term and the vote of the peer.
\<close>

theorem recovered_database_is_own:
  assumes "rocksdb_store rdb kv" and "rsbr_bulk_recovery_db_scrub (rdb, fs) env ri = Some (0, ri')"
    and "rs_rir (ri_backend_arg ri) = Some rir" and "rir_db rir = Some db"
    and "kv db ''default'' (RAFT_LOG_HEADER_FMT (ri_raft_uuid_str ri)
           (fs_uuid_unparse fs (rrh_peer_uuid (ri_recovery_handle ri)))) = Some (encode_rlh h)"
    and "- (2 ^ 63) \<le> rlh_term h" and "rlh_term h < 2 ^ 63"
    and "headers_in (kv db ''default'') (ri_lowest_idx ri) (ri_entries_detected_at_startup ri) e"
    and "headers_ok (ri_lowest_idx ri) (ri_entries_detected_at_startup ri) e"
  shows "\<exists>rir' db'. rs_rir (ri_backend_arg ri') = Some rir' \<and> rir_db rir' = Some db' \<and> ri_log_hdr ri' = h \<and>
     kv db' ''default'' (RAFT_LOG_HEADER_FMT (ri_raft_uuid_str ri) (ri_this_peer_uuid_str ri)) = Some (encode_rlh h) \<and>
     headers_in (kv db' ''default'') (ri_lowest_idx ri) (ri_entries_detected_at_startup ri)
       (own_header (ri_csn_this_peer ri) e)"
proof -
  let ?p = "fs_uuid_unparse fs (rrh_peer_uuid (ri_recovery_handle ri))" and ?lo = "ri_lowest_idx ri"
  let ?n = "ri_entries_detected_at_startup ri" and ?rp = "ri\<lparr>ri_this_peer_uuid_str := ?p\<rparr>"
  obtain r1 r2 where ld: "rsbr_header_load rdb ?rp = Some (0, r1)"
    and sc: "rsbr_bulk_recovery_db_scrub_entry_headers rdb env r1 = Some (0, r2)"
    and ih: "rsbr_init_header rdb (fs_uuid_generate fs (fs_of r2)) (r2\<lparr>ri_this_peer_uuid_str := ri_this_peer_uuid_str ri\<rparr>) = Some (0, ri')"
    and rec: "raft_instance_is_recovering ri"
    using assms(2) by (auto simp: rsbr_bulk_recovery_db_scrub_def bind_Some Let_def split: if_splits)
  have r1: "r1 = ?rp\<lparr>ri_log_hdr := h\<rparr>"
    using assms(3-7) by (intro rocksdb_store.header_load_kv [OF assms(1) ld]) simp_all
  have lp: "scrub_entry_headers_loop rdb (nat (?n - ?lo)) ?lo (re_header (env_uninit env)) r1 = Some (0, r2)"
    and le: "?lo \<le> ?n"
    using sc by (auto simp: rsbr_bulk_recovery_db_scrub_entry_headers_def bind_Some Let_def r1 split: if_splits)
  have n: "?lo + int (nat (?n - ?lo)) = ?n" using le by simp
  have m1: "rs_rir (ri_backend_arg r1) = Some rir" by (simp add: r1 assms(3))
  obtain rir2 db2 where d2: "rs_rir (ri_backend_arg r2) = Some rir2" "rir_db rir2 = Some db2" "backend_only r1 r2"
    and hin: "headers_in (kv db2 ''default'') ?lo ?n (own_header (ri_csn_this_peer ri) e)"
    using rocksdb_store.scrub_loop_kv [OF assms(1) lp m1 assms(4), of e, unfolded n] assms(8,9) by (auto simp: r1)
  let ?r3 = "r2\<lparr>ri_this_peer_uuid_str := ri_this_peer_uuid_str ri\<rparr>"
  have f: "raft_instance_is_recovering ?r3" "ri_log_hdr ?r3 = h" "ri_raft_uuid_str ?r3 = ri_raft_uuid_str ri"
    using d2(3) rec by (elim backend_onlyE; simp add: r1 raft_instance_is_recovering_def)+
  obtain rir' db' where d': "rs_rir (ri_backend_arg ri') = Some rir'" "rir_db rir' = Some db'" "backend_only ?r3 ri'"
    "kv db' ''default'' (RAFT_LOG_HEADER_FMT (ri_raft_uuid_str ri) (ri_this_peer_uuid_str ri)) = Some (encode_rlh h)"
    "\<forall>k. log_key k \<longrightarrow> kv db' ''default'' k = kv db2 ''default'' k"
    using rocksdb_store.init_header_kv [OF assms(1) ih f(1), of rir2 db2] d2 f by auto
  have "ri_log_hdr ri' = h" using d'(3) f(2) by (elim backend_onlyE) simp
  moreover have "headers_in (kv db' ''default'') ?lo ?n (own_header (ri_csn_this_peer ri) e)"
    using hin d'(5) by (simp add: headers_in_def)
  ultimately show ?thesis using d' by blast
qed

text \<open>A member that votes in term 9 takes over a database with one entry, of a peer in term 4.\<close>

definition demo_peer_header :: raft_log_header where
  "demo_peer_header = zero_rlh\<lparr>rlh_magic := RAFT_HEADER_MAGIC, rlh_term := 4, rlh_voted_for := 2\<rparr>"

definition demo_peer_db :: memdb where
  "demo_peer_db = [((''default'', RAFT_LOG_HEADER_FMT ''raft'' ''2''), encode_rlh demo_peer_header),
     ((''default'', RAFT_ENTRY_HEADER_KEY_PRINTF 0), encode_reh (re_header (demo_entry 0)))]"

definition demo_recovering :: "(unit, memdb) rocks_instance" where
  "demo_recovering = demo_inst \<lparr>rs_fs = (), rs_rir = Some (demo_rir demo_peer_db)\<rparr>
     \<lparr>ri_proc_state := RAFT_PROC_STATE_RECOVERING, ri_lowest_idx := 0, ri_entries_detected_at_startup := 1,
      ri_csn_this_peer := 3, ri_log_hdr := zero_rlh\<lparr>rlh_magic := RAFT_HEADER_MAGIC, rlh_term := 9, rlh_voted_for := 3\<rparr>,
      ri_recovery_handle := (ri_recovery_handle (demo_inst ()))\<lparr>rrh_peer_uuid := 2, rrh_peer_db_uuid := 1\<rparr>\<rparr>"

lemma demo_recovering_simps [simp]:
  "ri_proc_state demo_recovering = RAFT_PROC_STATE_RECOVERING" "ri_lowest_idx demo_recovering = 0"
  "ri_entries_detected_at_startup demo_recovering = 1" "ri_csn_this_peer demo_recovering = 3"
  "ri_db_uuid demo_recovering = 1" "ri_raft_uuid_str demo_recovering = ''raft''"
  "rrh_peer_uuid (ri_recovery_handle demo_recovering) = 2" "rrh_peer_db_uuid (ri_recovery_handle demo_recovering) = 1"
  "ri_backend_arg demo_recovering = \<lparr>rs_fs = (), rs_rir = Some (demo_rir demo_peer_db)\<rparr>"
  "ri_db_recovery_uuid demo_recovering = 0"
  by (simp_all add: demo_recovering_def)

lemma demo_peer_db_gets:
  "map_of demo_peer_db (''default'', RAFT_LOG_HEADER_FMT ''raft'' ''2'') = Some (encode_rlh demo_peer_header)"
  "map_of demo_peer_db (''default'', RAFT_ENTRY_HEADER_KEY_PRINTF 0) = Some (encode_reh (re_header (demo_entry 0)))"
  by (simp_all add: demo_peer_db_def key_formats bytes_of_def)

lemma demo_entry_header: "reh_fits (re_header (demo_entry 0))" "reh_magic (re_header (demo_entry 0)) = RAFT_ENTRY_MAGIC"
  "reh_index (re_header (demo_entry 0)) = 0"
  by (simp_all add: demo_entry_def reh_fits_def null_reh_def)

lemma demo_peer_header: "decode_rlh (encode_rlh demo_peer_header) = demo_peer_header" "rlh_magic demo_peer_header = RAFT_HEADER_MAGIC"
  by (simp_all add: decode_encode_rlh demo_peer_header_def)

lemma demo_scrub: "\<exists>ri'. rsbr_bulk_recovery_db_scrub (mem_rocksdb, demo_fs) demo_base demo_recovering = Some (0, ri')"
proof -
  let ?r = "demo_recovering\<lparr>ri_this_peer_uuid_str := ''2'', ri_log_hdr := demo_peer_header\<rparr>"
  let ?h = "re_header (demo_entry 0)"
  have ne: "RAFT_LOG_HEADER_FMT ''raft'' ''2'' \<noteq> []" "RAFT_ENTRY_HEADER_KEY_PRINTF 0 \<noteq> []" by (simp_all add: key_formats bytes_of_def)
  have un: "fs_uuid_unparse demo_fs 2 = ''2''" by (simp add: demo_fs_def)
  have ld: "rsbr_header_load mem_rocksdb (demo_recovering\<lparr>ri_this_peer_uuid_str := ''2''\<rparr>) = Some (0, ?r)"
    by (simp add: rsbr_header_load_def rsbr_ri_to_rirdb_def rsbr_get_exact_val_size_def rsbr_get_def mem_rocksdb_def
        demo_peer_db_gets demo_peer_header ne, simp add: sizeof_raft_log_header_def)
  have rd: "rsbr_entry_header_read mem_rocksdb ?r (b\<lparr>reh_index := 0\<rparr>) = Some (0, ?h)" if "reh_fits b" for b
    using that length_encode_reh [of ?h] length_encode_reh [of "b\<lparr>reh_index := 0\<rparr>"] demo_entry_header(1)
      decode_encode_reh [OF demo_entry_header(1), of "[]"]
    by (simp add: rsbr_entry_header_read_def rsbr_ri_to_rirdb_def rsbr_get_exact_val_size_def rsbr_get_def mem_rocksdb_def
        demo_peer_db_gets ne reh_fits_def, simp add: RAFT_ENTRY_HEADER_RESERVE_def)
  obtain rir2 where wr: "rsbr_entry_header_write_recovery_scrub mem_rocksdb ?r (?h\<lparr>reh_self_uuid := 3\<rparr>) = Some (set_rir rir2 ?r)"
    and rir2: "rir_db rir2 \<noteq> None" "rir_writeoptions_sync rir2" "rir_writebatch rir2 = Some []"
    by (simp add: rsbr_entry_header_write_recovery_scrub_def raft_instance_is_recovering_def rsbr_ri_to_rirdb_def
        rsbr_batch_write_def mem_rocksdb_def)
  have "\<exists>ri'. rsbr_init_header mem_rocksdb u (set_rir rir2 ?r\<lparr>ri_this_peer_uuid_str := s\<rparr>) = Some (0, ri')" for u s
    using rir2 demo_peer_header(2)
    by (auto simp: rsbr_init_header_def raft_instance_is_recovering_def rsbr_ri_to_rirdb_def set_rir_def Let_def
        rsbr_batch_write_def mem_rocksdb_def rsbr_header_write_def)
  moreover have "reh_fits (re_header (env_uninit (demo_base :: (unit, memdb) rocks_raft_env)))"
    by (simp add: demo_base_def null_reh_def reh_fits_def)
  ultimately show ?thesis
    using rd wr demo_entry_header
    by (simp add: rsbr_bulk_recovery_db_scrub_def un ld Let_def raft_instance_is_recovering_def
      rsbr_bulk_recovery_db_scrub_entry_headers_def)
qed

theorem recovered_database_is_own_witness:
  "\<exists>ri'. rsbr_bulk_recovery_db_scrub (mem_rocksdb, demo_fs) demo_base demo_recovering = Some (0, ri') \<and>
     rlh_term (ri_log_hdr demo_recovering) = 9 \<and> rlh_term (ri_log_hdr ri') = 4 \<and> rlh_voted_for (ri_log_hdr ri') = 2"
proof -
  obtain ri' where sc: "rsbr_bulk_recovery_db_scrub (mem_rocksdb, demo_fs) demo_base demo_recovering = Some (0, ri')"
    using demo_scrub by blast
  have k: "memdb_kv demo_peer_db ''default'' k = map_of demo_peer_db (''default'', k)" for k
    by (simp add: memdb_kv_def)
  have z: "0 \<le> j \<and> j < 1 \<longleftrightarrow> j = 0" for j :: int by auto
  have hin: "headers_in (memdb_kv demo_peer_db ''default'') (ri_lowest_idx demo_recovering)
      (ri_entries_detected_at_startup demo_recovering) (\<lambda>_. re_header (demo_entry 0))"
    "headers_ok (ri_lowest_idx demo_recovering) (ri_entries_detected_at_startup demo_recovering) (\<lambda>_. re_header (demo_entry 0))"
    using demo_peer_db_gets(2) demo_entry_header by (simp_all add: headers_in_def headers_ok_def k z key_idx_def)
  have "ri_log_hdr ri' = demo_peer_header"
    using recovered_database_is_own [OF memdb.rocksdb_store_axioms sc, of "demo_rir demo_peer_db" demo_peer_db
        demo_peer_header "\<lambda>_. re_header (demo_entry 0)"] hin demo_peer_db_gets(1)
    by (auto simp: k demo_fs_def demo_peer_header_def)
  then show ?thesis
    using sc by (intro exI [of _ ri']) (simp add: demo_peer_header_def demo_recovering_def)
qed

end
