(* ===== verification/Raft_Reftree.thy ===== *)
theory Raft_Reftree
  imports "HOL-Library.DAList"
begin

text \<open>
  The reference-counted trees of \<open>niova/ref_tree_proto.h\<close>, which the client library uses for its
  pending requests. The trees are not part of this repository: their operations are a parameter, and
  the locale \<open>ref_tree\<close> states what the client library relies on. An association list satisfies it.
\<close>

text \<open>
  The operations on a tree of type \<open>'t\<close>. \<open>rt_lookup\<close> finds an element and takes a reference.
  \<open>rt_get_add\<close> does so too and adds the element its constructor gives (\<^term>\<open>None\<close> if there is no
  memory) when there is none; the flag says whether it was there. \<open>rt_ref_get\<close> takes a reference on an
  element of the tree. \<open>rt_put\<close> drops a reference; the element that had its last reference dropped
  leaves the tree and is returned for the destructor. \<open>rt_foreach\<close> gives the keys in the order of the
  walk. \<open>rt_elem\<close> and \<open>rt_set\<close> read and write an element through a pointer.
\<close>

record ('k, 'e, 't) ref_tree_ops =
  rt_lookup :: "'t \<Rightarrow> 'k \<Rightarrow> 'e option \<times> 't"
  rt_get_add :: "'t \<Rightarrow> 'k \<Rightarrow> 'e option \<Rightarrow> ('e \<times> bool) option \<times> 't"
  rt_ref_get :: "'t \<Rightarrow> 'k \<Rightarrow> 't"
  rt_put :: "'t \<Rightarrow> 'k \<Rightarrow> 'e option \<times> 't"
  rt_foreach :: "'t \<Rightarrow> 'k list"
  rt_elem :: "'t \<Rightarrow> 'k \<Rightarrow> 'e option"
  rt_set :: "'t \<Rightarrow> 'k \<Rightarrow> 'e \<Rightarrow> 't"

text \<open>A tree is a finite map from keys to elements and their numbers of references.\<close>

locale ref_tree =
  fixes rt :: "('k, 'e, 't) ref_tree_ops" and refs :: "'t \<Rightarrow> 'k \<Rightarrow> ('e \<times> nat) option"
  assumes lookup_fst: "fst (rt_lookup rt t k) = map_option fst (refs t k)"
    and lookup_snd: "refs (snd (rt_lookup rt t k)) = (refs t)(k := map_option (apsnd Suc) (refs t k))"
    and get_add_fst: "fst (rt_get_add rt t k c) = (case refs t k of Some (e, n) \<Rightarrow> Some (e, True)
      | None \<Rightarrow> map_option (\<lambda>e. (e, False)) c)"
    and get_add_snd: "refs (snd (rt_get_add rt t k c)) = (refs t)(k := (case refs t k of Some (e, n) \<Rightarrow> Some (e, Suc n)
      | None \<Rightarrow> map_option (\<lambda>e. (e, 1)) c))"
    and ref_get: "refs (rt_ref_get rt t k) = (refs t)(k := map_option (apsnd Suc) (refs t k))"
    and put_fst: "fst (rt_put rt t k) = (case refs t k of Some (e, n) \<Rightarrow> if n \<le> 1 then Some e else None | None \<Rightarrow> None)"
    and put_snd: "refs (snd (rt_put rt t k)) = (refs t)(k := (case refs t k of
      Some (e, n) \<Rightarrow> if n \<le> 1 then None else Some (e, n - 1) | None \<Rightarrow> None))"
    and foreach: "set (rt_foreach rt t) = dom (refs t)" "distinct (rt_foreach rt t)"
    and elem: "rt_elem rt t k = map_option fst (refs t k)"
    and set_elem: "refs (rt_set rt t k e) = (refs t)(k := map_option (apfst (\<lambda>_. e)) (refs t k))"
begin

lemmas tree_laws = lookup_fst lookup_snd get_add_fst get_add_snd ref_get put_fst put_snd elem set_elem

lemma finite_tree: "finite (dom (refs t))"
  using foreach(1) [of t] by (metis List.finite_set)

end

section \<open>An association list\<close>

type_synonym ('k, 'e) reftab = "('k, 'e \<times> nat) alist"

definition reftab_upd :: "'k \<Rightarrow> ('e \<times> nat) option \<Rightarrow> ('k, 'e) reftab \<Rightarrow> ('k, 'e) reftab" where
  "reftab_upd k v t = (case v of None \<Rightarrow> DAList.delete k t | Some x \<Rightarrow> DAList.update k x t)"

abbreviation reftab_refs :: "('k, 'e) reftab \<Rightarrow> 'k \<Rightarrow> ('e \<times> nat) option" where
  "reftab_refs \<equiv> DAList.lookup"

lemma reftab_upd_refs [simp]: "reftab_refs (reftab_upd k v t) = (reftab_refs t)(k := v)"
  by (auto simp: reftab_upd_def fun_eq_iff lookup_delete split: option.split)

lemma reftab_refs_empty [simp]: "reftab_refs DAList.empty = Map.empty"
  by (simp add: DAList.lookup_def DAList.empty.rep_eq)

definition reftab_keys :: "('k, 'e) reftab \<Rightarrow> 'k list" where
  "reftab_keys t = map fst (alist.impl_of t)"

lemma reftab_keys_refs: "set (reftab_keys t) = dom (reftab_refs t)" "distinct (reftab_keys t)"
  by (simp_all add: reftab_keys_def DAList.lookup_def dom_map_of_conv_image_fst)

definition reftab_ops :: "('k, 'e, ('k, 'e) reftab) ref_tree_ops" where
  "reftab_ops =
     \<lparr>rt_lookup = (\<lambda>t k. (map_option fst (reftab_refs t k), reftab_upd k (map_option (apsnd Suc) (reftab_refs t k)) t)),
      rt_get_add = (\<lambda>t k c. (case reftab_refs t k of
          Some (e, n) \<Rightarrow> (Some (e, True), reftab_upd k (Some (e, Suc n)) t)
        | None \<Rightarrow> (map_option (\<lambda>e. (e, False)) c, reftab_upd k (map_option (\<lambda>e. (e, 1)) c) t))),
      rt_ref_get = (\<lambda>t k. reftab_upd k (map_option (apsnd Suc) (reftab_refs t k)) t),
      rt_put = (\<lambda>t k. (case reftab_refs t k of
          Some (e, n) \<Rightarrow> if n \<le> 1 then (Some e, reftab_upd k None t) else (None, reftab_upd k (Some (e, n - 1)) t)
        | None \<Rightarrow> (None, t))),
      rt_foreach = reftab_keys,
      rt_elem = (\<lambda>t k. map_option fst (reftab_refs t k)),
      rt_set = (\<lambda>t k e. reftab_upd k (map_option (apfst (\<lambda>_. e)) (reftab_refs t k)) t)\<rparr>"

interpretation reftab: ref_tree "reftab_ops :: ('k, 'e, ('k, 'e) reftab) ref_tree_ops" reftab_refs
  by unfold_locales (auto simp: reftab_ops_def reftab_keys_refs fun_eq_iff split: option.split)

end
