(* ===== verification/Raft_Clientlib.thy ===== *)
theory Raft_Clientlib
  imports Raft_Net Raft_Reftree
begin

text \<open>
  The client library (\<open>raft_client.c\<close>) and the parts of \<open>raft_net.c\<close> it calls. A client keeps a tree of
  pending requests, one per user id, and a queue of requests to be sent; a thread sends what is
  queued, completes requests whose replies arrive, and on a timer looks for the leader, retries and
  expires requests. A completed request is reported by a callback or by waking the blocked caller.
\<close>

abbreviation ECANCELED :: int where "ECANCELED \<equiv> 125"
abbreviation EFBIG :: int where "EFBIG \<equiv> 27"

section \<open>Data\<close>

text \<open>A user id of version 0 is six words of 64 bits, the first two of which are a uuid.\<close>

record raft_net_client_user_id =
  rncui_v0_uint64 :: "u64 list"
  rncui_version :: u32

definition RAFT_NET_CLIENT_USER_ID_V0_NUINT64 :: nat where "RAFT_NET_CLIENT_USER_ID_V0_NUINT64 = 6"

text \<open>The order of the ids in the tree: the first word that differs decides.\<close>

fun user_id_words_cmp :: "u64 list \<Rightarrow> u64 list \<Rightarrow> int" where
  "user_id_words_cmp (a # as) (b # bs) = (if a \<noteq> b then if a < b then -1 else 1 else user_id_words_cmp as bs)"
| "user_id_words_cmp _ _ = 0"

definition raft_net_client_user_id_cmp :: "raft_net_client_user_id \<Rightarrow> raft_net_client_user_id \<Rightarrow> int option" where
  "raft_net_client_user_id_cmp a b = do {
     NIOVA_ASSERT (rncui_version a = 0 \<and> rncui_version b = 0);
     Some (user_id_words_cmp (take RAFT_NET_CLIENT_USER_ID_V0_NUINT64 (rncui_v0_uint64 a))
       (take RAFT_NET_CLIENT_USER_ID_V0_NUINT64 (rncui_v0_uint64 b))) }"

lemma user_id_words_cmp_0: "length as = length bs \<Longrightarrow> user_id_words_cmp as bs = 0 \<longleftrightarrow> as = bs"
  by (induction as bs rule: list_induct2) auto

lemma user_id_cmp_0:
  assumes "rncui_version a = 0" "rncui_version b = 0"
    and "length (rncui_v0_uint64 a) = RAFT_NET_CLIENT_USER_ID_V0_NUINT64"
    and "length (rncui_v0_uint64 b) = RAFT_NET_CLIENT_USER_ID_V0_NUINT64"
  shows "raft_net_client_user_id_cmp a b = Some 0 \<longleftrightarrow> a = b"
  using assms user_id_words_cmp_0 [of "rncui_v0_uint64 a" "rncui_v0_uint64 b"]
  by (auto simp: raft_net_client_user_id_cmp_def intro: raft_net_client_user_id.equality)

text \<open>A buffer: what it holds and its length.\<close>

record iovec =
  iov_base :: "u8 list"
  iov_len :: nat

definition RAFT_CLIENT_REQUEST_HANDLE_MAX_IOVS :: nat where "RAFT_CLIENT_REQUEST_HANDLE_MAX_IOVS = 8"

text \<open>
  The request handle. \<open>rcrh_async_cb\<close> says whether a callback was given; \<open>rcrh_completion_notifier\<close> is
  the value of the blocked thread's variable, if there is one. The address of the replying server
  is a number. Bit fields are Booleans.
\<close>

record raft_client_request_handle =
  rcrh_ready :: bool
  rcrh_completing :: bool
  rcrh_initializing :: bool
  rcrh_blocking :: bool
  rcrh_sendq :: bool
  rcrh_send_failed :: bool
  rcrh_cancel :: bool
  rcrh_cb_exec :: bool
  rcrh_op_wr :: bool
  rcrh_history_cache :: bool
  rcrh_pending_op_cache :: bool
  rcrh_alloc_get_buffer_for_user :: bool
  rcrh_leader_not_viable_delay :: bool
  rcrh_error :: int
  rcrh_sin_reply_addr :: nat
  rcrh_submitted :: timespec
  rcrh_last_send :: timespec
  rcrh_completion_latency_ms :: u64
  rcrh_timeout :: timespec
  rcrh_num_sends :: nat
  rcrh_reply_used_size :: nat
  rcrh_reply_size :: nat
  rcrh_send_niovs :: nat
  rcrh_recv_niovs :: nat
  rcrh_iovs :: "iovec list"
  rcrh_completion_notifier :: "int option"
  rcrh_async_cb :: bool
  rcrh_arg :: nat
  rcrh_rpc_request :: raft_client_rpc_msg

record raft_client_sub_app =
  rcsa_rncui :: raft_net_client_user_id
  rcsa_rh :: raft_client_request_handle

definition zero_rcrm :: raft_client_rpc_msg where
  "zero_rcrm = \<lparr>rcrm_type = RAFT_CLIENT_RPC_MSG_TYPE_INVALID, rcrm_data_size = 0, rcrm_msg_id = 0,
     rcrm_raft_id = null_uuid, rcrm_sender_id = null_uuid, rcrm_dest_id = null_uuid, rcrm_app_error = 0,
     rcrm_sys_error = 0, rcrm_user_tag = 0, rcrm_data = []\<rparr>"

definition zero_iovec :: iovec where "zero_iovec = \<lparr>iov_base = [], iov_len = 0\<rparr>"

definition zero_rcrh :: raft_client_request_handle where
  "zero_rcrh = \<lparr>rcrh_ready = False, rcrh_completing = False, rcrh_initializing = False, rcrh_blocking = False,
     rcrh_sendq = False, rcrh_send_failed = False, rcrh_cancel = False, rcrh_cb_exec = False, rcrh_op_wr = False,
     rcrh_history_cache = False, rcrh_pending_op_cache = False, rcrh_alloc_get_buffer_for_user = False,
     rcrh_leader_not_viable_delay = False, rcrh_error = 0, rcrh_sin_reply_addr = 0, rcrh_submitted = 0,
     rcrh_last_send = 0, rcrh_completion_latency_ms = 0, rcrh_timeout = 0, rcrh_num_sends = 0,
     rcrh_reply_used_size = 0, rcrh_reply_size = 0, rcrh_send_niovs = 0, rcrh_recv_niovs = 0,
     rcrh_iovs = replicate RAFT_CLIENT_REQUEST_HANDLE_MAX_IOVS zero_iovec, rcrh_completion_notifier = None,
     rcrh_async_cb = False, rcrh_arg = 0, rcrh_rpc_request = zero_rcrm\<rparr>"

datatype raft_client_recent_op_types =
    RAFT_CLIENT_RECENT_OP_TYPE_READ
  | RAFT_CLIENT_RECENT_OP_TYPE_WRITE
  | RAFT_CLIENT_RECENT_OP_TYPE_PENDING

record raft_client_sub_app_req_history =
  rcsarh_size :: nat
  rcsarh_cnt :: nat
  rcsarh_sa :: "raft_client_sub_app list option"

text \<open>What the library does to its surroundings, in order.\<close>

datatype raft_client_event =
    Cl_async_cb raft_net_client_user_id nat int "u8 list"
  | Cl_wake raft_net_client_user_id int
  | Cl_send uuid raft_client_rpc_msg "iovec list"
  | Cl_notify
  | Cl_timer nat

text \<open>
  The instance: \<open>rci_sub_apps\<close> is the tree of type \<open>'t\<close>, the queue holds the user ids of its elements.
  The last two fields before the events are the static variables of \<open>raft_client_rpc_sender\<close>.
\<close>

record ('b, 't) raft_client_instance =
  rci_sub_apps :: 't
  rci_ri :: "'b raft_instance"
  rci_sendq :: "raft_net_client_user_id list"
  rci_last_request_sent :: timespec
  rci_last_request_ackd :: timespec
  rci_last_msg_recvd :: timespec
  rci_sub_app_cnt :: int
  rci_msg_id_counter :: u32
  rci_msg_id_prefix :: u32
  rci_leader_csn :: "uuid option"
  rci_leader_redirect :: bool
  rci_requests_throttled :: bool
  rci_leader_alive_cnt :: nat
  rci_recent_ops :: "raft_client_recent_op_types \<Rightarrow> raft_client_sub_app_req_history"
  rci_interval_start :: timespec
  rci_interval_rpc_cnt :: nat
  rci_events :: "raft_client_event list"

datatype raft_client_fault =
    async_raft_client_request_expire
  | raft_client_recv_handler_bypass
  | raft_client_recv_handler_process_reply_bypass

text \<open>
  The surroundings: the environment of the network code, injected faults, whether a request can be
  allocated, what fresh memory of a size holds (if there is any), the application's function from a
  reply and its size to a user id, and functions of other libraries: the size of a list of buffers,
  copying into it (the result and what each buffer then holds), the atomic increment (the new counter and its value in a 64-bit expression).
\<close>

record 'b raft_client_env =
  ce_env :: "'b raft_env"
  ce_fault :: "raft_client_fault \<Rightarrow> bool"
  ce_calloc :: bool
  ce_malloc :: "nat \<Rightarrow> u8 list option"
  ce_obj_id_cb :: "u8 list \<Rightarrow> nat \<Rightarrow> int + raft_net_client_user_id"
  ce_iovs_total_size :: "iovec list \<Rightarrow> nat"
  ce_copy_to_iovs :: "u8 list \<Rightarrow> nat \<Rightarrow> iovec list \<Rightarrow> int \<times> (nat \<Rightarrow> u8 list)"
  ce_atomic_inc :: "u32 \<Rightarrow> u32 \<times> u64"

type_synonym 't client_tree = "(raft_net_client_user_id, raft_client_sub_app, 't) ref_tree_ops"

section \<open>Constants\<close>

definition RAFT_CLIENT_RPC_SENDER_MAX :: nat where "RAFT_CLIENT_RPC_SENDER_MAX = 8"
definition RAFT_CLIENT_MAX_SUB_APP_INSTANCES :: nat where "RAFT_CLIENT_MAX_SUB_APP_INSTANCES = 4096"
definition RAFT_CLIENT_SUCCESSFUL_PING_UNTIL_VIABLE :: nat where "RAFT_CLIENT_SUCCESSFUL_PING_UNTIL_VIABLE = 4"
definition RAFT_CLIENT_TIMERFD_EXPIRE_MS :: nat where "RAFT_CLIENT_TIMERFD_EXPIRE_MS = 10"
definition RAFT_CLIENT_REQUEST_RATE_PER_SEC :: nat where "RAFT_CLIENT_REQUEST_RATE_PER_SEC = 10000"
definition RAFT_CLIENT_RATE_QUANTUM_MSEC :: nat where "RAFT_CLIENT_RATE_QUANTUM_MSEC = 2"
definition RAFT_CLIENT_OP_HISTORY_SIZE :: nat where "RAFT_CLIENT_OP_HISTORY_SIZE = 64"

definition RAFT_CLIENT_STALE_SERVER_TIME_MS :: nat where
  "RAFT_CLIENT_STALE_SERVER_TIME_MS = RAFT_CLIENT_TIMERFD_EXPIRE_MS * RAFT_CLIENT_TIMERFD_EXPIRE_MS"

definition raftClientStaleServerTimeMS :: nat where
  "raftClientStaleServerTimeMS = RAFT_CLIENT_STALE_SERVER_TIME_MS * RAFT_CLIENT_TIMERFD_EXPIRE_MS"

definition raftClientIdlePingServerTimeMS :: nat where
  "raftClientIdlePingServerTimeMS = RAFT_CLIENT_STALE_SERVER_TIME_MS"

definition raftClientRetryTimeoutMS :: nat where
  "raftClientRetryTimeoutMS = RAFT_CLIENT_TIMERFD_EXPIRE_MS * 1000"

section \<open>Network functions for clients\<close>

definition raft_client_rpc_msg_size :: "nat \<Rightarrow> nat" where
  "raft_client_rpc_msg_size app_payload_size = sizeof_raft_client_rpc_msg + app_payload_size"

definition raft_client_rpc_msg_size_is_valid :: "raft_instance_store_type \<Rightarrow> nat \<Rightarrow> bool" where
  "raft_client_rpc_msg_size_is_valid store_type app_payload_size \<longleftrightarrow>
     raft_client_rpc_msg_size app_payload_size \<le> raft_net_max_rpc_size store_type"

definition raft_net_send_client_msg ::
  "'b raft_env \<Rightarrow> raft_client_rpc_msg \<Rightarrow> 'b raft_instance \<Rightarrow> int \<times> 'b raft_instance" where
  "raft_net_send_client_msg env rcrm ri = (case ri_csn_leader ri of
       None \<Rightarrow> (- EINVAL, ri)
     | Some leader \<Rightarrow> raft_net_send_msg env leader (sizeof_raft_client_rpc_msg + unat (rcrm_data_size rcrm)) True ri)"

definition raft_net_send_client_msgv ::
  "'b raft_client_env \<Rightarrow> raft_client_rpc_msg \<Rightarrow> iovec list \<Rightarrow> 'b raft_instance \<Rightarrow> int \<times> 'b raft_instance" where
  "raft_net_send_client_msgv ce rcrm iovs ri = (case ri_csn_leader ri of
       None \<Rightarrow> (- EINVAL, ri)
     | Some leader \<Rightarrow>
         if 255 < length iovs \<or> ce_iovs_total_size ce iovs \<noteq> unat (rcrm_data_size rcrm) then (- EMSGSIZE, ri)
         else raft_net_send_msg (ce_env ce) leader
                (sizeof_raft_client_rpc_msg + ce_iovs_total_size ce iovs) True ri)"

definition raft_net_comm_get_last_recv :: "'b raft_instance \<Rightarrow> uuid \<Rightarrow> int + timespec" where
  "raft_net_comm_get_last_recv ri peer_uuid =
     (if uuid_is_null peer_uuid then Inl (- EINVAL)
      else case raft_peer_2_idx ri peer_uuid of
          None \<Rightarrow> Inl (- ERANGE)
        | Some i \<Rightarrow> if num_members ri \<le> i then Inl (- ERANGE) else Inr (ri_last_recv ri ! i))"

text \<open>
  The loop over the servers: the recency is compared with a value that starts at 0, and no unsigned
  number is less.
\<close>

fun most_recent_loop ::
  "'b raft_env \<Rightarrow> 'b raft_instance \<Rightarrow> nat list \<Rightarrow> nat \<Rightarrow> nat \<Rightarrow> nat option" where
  "most_recent_loop env ri [] best_peer recency_value = Some best_peer"
| "most_recent_loop env ri (idx # idxs) best_peer recency_value = (
     let (rc, since_last_recv) = raft_net_comm_recency env ri idx RAFT_COMM_RECENCY_RECV
     in if rc = - EALREADY then most_recent_loop env ri idxs best_peer recency_value
        else if rc \<noteq> 0 then None
        else if since_last_recv < recency_value then most_recent_loop env ri idxs idx since_last_recv
        else most_recent_loop env ri idxs best_peer recency_value)"

definition raft_net_get_most_recently_responsive_server :: "'b raft_env \<Rightarrow> 'b raft_instance \<Rightarrow> nat option" where
  "raft_net_get_most_recently_responsive_server env ri = (
     let n = num_members ri
     in if n = 0 then None
        else let start_peer = env_random env mod n
             in most_recent_loop env ri (map (\<lambda>i. (i + start_peer) mod n) [0..<n]) start_peer 0)"

definition raft_net_server_target_check_by_idx ::
  "'b raft_env \<Rightarrow> 'b raft_instance \<Rightarrow> nat \<Rightarrow> nat \<Rightarrow> int" where
  "raft_net_server_target_check_by_idx env ri idx stale_timeout_ms = (
     let (rc, recency_ms) = raft_net_comm_recency env ri idx RAFT_COMM_RECENCY_UNACKED_SEND
     in if rc = 0 then if stale_timeout_ms < recency_ms then - ETIMEDOUT else 0 else rc)"

definition raft_net_apply_leader_redirect ::
  "'b raft_env \<Rightarrow> uuid \<Rightarrow> nat \<Rightarrow> 'b raft_instance \<Rightarrow> (int \<times> 'b raft_instance) option" where
  "raft_net_apply_leader_redirect env redirect_target stale_timeout_ms ri =
     (if uuid_is_null redirect_target then Some (- EINVAL, ri)
      else case raft_peer_2_idx ri redirect_target of
          None \<Rightarrow> Some (- ENOENT, ri)
        | Some leader_idx \<Rightarrow> do {
            NIOVA_ASSERT (leader_idx < env_max_raft_peers env);
            let ri = ri\<lparr>ri_csn_leader := Some (ri_csn_raft_peers ri ! leader_idx)\<rparr>;
            let rc = raft_net_server_target_check_by_idx env ri leader_idx stale_timeout_ms;
            Some (0, if rc = - ETIMEDOUT then ri\<lparr>ri_last_send := (ri_last_send ri)[leader_idx := 0]\<rparr> else ri) })"

section \<open>The leader\<close>

definition raft_client_server_target_needs_ping :: "'b raft_env \<Rightarrow> 'b raft_instance \<Rightarrow> uuid \<Rightarrow> bool" where
  "raft_client_server_target_needs_ping env ri server_uuid = (case raft_peer_2_idx ri server_uuid of
       None \<Rightarrow> True
     | Some i \<Rightarrow> let (rc, recency_ms) = raft_net_comm_recency env ri i RAFT_COMM_RECENCY_RECV
                 in rc \<noteq> 0 \<or> raftClientIdlePingServerTimeMS < recency_ms)"

definition raft_client_server_target_is_stale :: "'b raft_env \<Rightarrow> 'b raft_instance \<Rightarrow> uuid \<Rightarrow> bool" where
  "raft_client_server_target_is_stale env ri server_uuid = (case raft_peer_2_idx ri server_uuid of
       None \<Rightarrow> True
     | Some i \<Rightarrow> let (rc, recency_ms) = raft_net_comm_recency env ri i RAFT_COMM_RECENCY_UNACKED_SEND
                 in rc \<noteq> 0 \<or> raftClientStaleServerTimeMS < recency_ms)"

definition raft_client_leader_is_viable :: "'b raft_env \<Rightarrow> ('b, 't) raft_client_instance \<Rightarrow> bool" where
  "raft_client_leader_is_viable env rci \<longleftrightarrow>
     RAFT_CLIENT_SUCCESSFUL_PING_UNTIL_VIABLE < rci_leader_alive_cnt rci \<and>
     (case rci_leader_csn rci of None \<Rightarrow> False
      | Some leader \<Rightarrow> ri_csn_leader (rci_ri rci) = Some leader \<and>
          \<not> raft_client_server_target_is_stale env (rci_ri rci) leader)"

definition emit_cl :: "raft_client_event list \<Rightarrow> ('b, 't) raft_client_instance \<Rightarrow> ('b, 't) raft_client_instance" where
  "emit_cl es rci = rci\<lparr>rci_events := rci_events rci @ es\<rparr>"

definition raft_client_rpc_msg_assign_id ::
  "'b raft_client_env \<Rightarrow> raft_client_rpc_msg \<Rightarrow> ('b, 't) raft_client_instance
     \<Rightarrow> raft_client_rpc_msg \<times> ('b, 't) raft_client_instance" where
  "raft_client_rpc_msg_assign_id ce rcrm rci = (
     let (counter, val) = ce_atomic_inc ce (rci_msg_id_counter rci)
     in (rcrm\<lparr>rcrm_msg_id := or (push_bit 32 (ucast (rci_msg_id_prefix rci))) val\<rparr>,
         rci\<lparr>rci_msg_id_counter := counter\<rparr>))"

definition raft_client_rpc_msg_init ::
  "'b raft_client_env \<Rightarrow> raft_client_rpc_msg_type \<Rightarrow> nat \<Rightarrow> uuid \<Rightarrow> u64 \<Rightarrow> ('b, 't) raft_client_instance
     \<Rightarrow> (int + raft_client_rpc_msg) \<times> ('b, 't) raft_client_instance" where
  "raft_client_rpc_msg_init ce msg_type data_size dest_csn tag rci =
     (if msg_type \<notin> {RAFT_CLIENT_RPC_MSG_TYPE_PING, RAFT_CLIENT_RPC_MSG_TYPE_WRITE, RAFT_CLIENT_RPC_MSG_TYPE_READ}
      then (Inl (- EOPNOTSUPP), rci)
      else if msg_type \<in> {RAFT_CLIENT_RPC_MSG_TYPE_READ, RAFT_CLIENT_RPC_MSG_TYPE_WRITE} \<and>
        (data_size = 0 \<or> \<not> raft_client_rpc_msg_size_is_valid (ri_store_type (rci_ri rci)) data_size)
      then (Inl (- EMSGSIZE), rci)
      else let ri = rci_ri rci;
               rcrm = zero_rcrm\<lparr>rcrm_type := msg_type, rcrm_data_size := of_nat data_size, rcrm_user_tag := tag,
                 rcrm_raft_id := ri_csn_raft ri, rcrm_dest_id := dest_csn, rcrm_sender_id := ri_csn_this_peer ri\<rparr>;
               (rcrm, rci) = raft_client_rpc_msg_assign_id ce rcrm rci
           in (Inr rcrm, rci))"

definition RAFT_NET_TAG_NONE :: u64 where "RAFT_NET_TAG_NONE = 0"

definition raft_client_rpc_ping_init ::
  "'b raft_client_env \<Rightarrow> uuid \<Rightarrow> ('b, 't) raft_client_instance
     \<Rightarrow> (int + raft_client_rpc_msg) \<times> ('b, 't) raft_client_instance" where
  "raft_client_rpc_ping_init ce leader rci =
     raft_client_rpc_msg_init ce RAFT_CLIENT_RPC_MSG_TYPE_PING 0 leader RAFT_NET_TAG_NONE rci"

definition raft_client_ping_raft_service ::
  "'b raft_client_env \<Rightarrow> ('b, 't) raft_client_instance \<Rightarrow> ('b, 't) raft_client_instance option" where
  "raft_client_ping_raft_service ce rci = (case ri_csn_leader (rci_ri rci) of
       None \<Rightarrow> Some rci
     | Some leader \<Rightarrow> (case raft_client_rpc_ping_init ce leader rci of
           (Inl rc, rci) \<Rightarrow> None
         | (Inr rcrm, rci) \<Rightarrow>
             let (rc, ri) = raft_net_send_client_msg (ce_env ce) rcrm (rci_ri rci); rci = rci\<lparr>rci_ri := ri\<rparr>
             in Some (if rc = 0 \<and> env_net_can_send (ce_env ce) leader then emit_cl [Cl_send leader rcrm []] rci else rci)))"

definition raft_client_set_ping_target ::
  "'b raft_env \<Rightarrow> ('b, 't) raft_client_instance \<Rightarrow> ('b, 't) raft_client_instance option" where
  "raft_client_set_ping_target env rci = (
     let ri = rci_ri rci
     in if ri_csn_leader ri \<noteq> None \<and> rci_leader_redirect rci then Some (rci\<lparr>rci_leader_redirect := False\<rparr>)
        else if (case ri_csn_leader ri of None \<Rightarrow> True | Some l \<Rightarrow> raft_client_server_target_is_stale env ri l)
        then do {
          tgt \<leftarrow> raft_net_get_most_recently_responsive_server env ri;
          NIOVA_ASSERT (tgt < num_members ri);
          Some (rci\<lparr>rci_ri := ri\<lparr>ri_csn_leader := Some (ri_csn_raft_peers ri ! tgt)\<rparr>\<rparr>) }
        else Some rci)"

definition raft_client_instance_reset_leader_info ::
  "bool \<Rightarrow> ('b, 't) raft_client_instance \<Rightarrow> ('b, 't) raft_client_instance" where
  "raft_client_instance_reset_leader_info nullify_leader_csn rci =
     (if nullify_leader_csn then rci\<lparr>rci_leader_csn := None\<rparr> else rci)\<lparr>rci_leader_alive_cnt := 0\<rparr>"

definition raft_client_instance_progress_leader_info ::
  "uuid \<Rightarrow> ('b, 't) raft_client_instance \<Rightarrow> ('b, 't) raft_client_instance" where
  "raft_client_instance_progress_leader_info sender_csn rci =
     (if rci_leader_csn rci \<noteq> None \<and> rci_leader_csn rci \<noteq> Some sender_csn then rci
      else rci\<lparr>rci_leader_alive_cnt := rci_leader_alive_cnt rci + 1, rci_leader_csn := Some sender_csn\<rparr>)"

definition raft_client_process_ping_reply ::
  "raft_client_rpc_msg \<Rightarrow> uuid \<Rightarrow> ('b, 't) raft_client_instance \<Rightarrow> ('b, 't) raft_client_instance" where
  "raft_client_process_ping_reply rcrm sender_csn rci = (
     let rci = (if rci_leader_csn rci \<noteq> Some sender_csn then raft_client_instance_reset_leader_info True rci else rci);
         err = rcrm_sys_error rcrm
     in if err = 0 then raft_client_instance_progress_leader_info sender_csn rci
        else if err \<in> {- EINPROGRESS, - EAGAIN, - EBUSY} then raft_client_instance_reset_leader_info False rci
        else if err \<in> {- ENOENT, - ENOSYS} then raft_client_instance_reset_leader_info True rci
        else rci)"

definition raft_client_update_leader_from_redirect ::
  "'b raft_env \<Rightarrow> raft_client_rpc_msg \<Rightarrow> ('b, 't) raft_client_instance \<Rightarrow> ('b, 't) raft_client_instance option" where
  "raft_client_update_leader_from_redirect env rcrm rci = do {
     let rci = raft_client_instance_reset_leader_info True rci;
     (rc, ri) \<leftarrow> raft_net_apply_leader_redirect env (rcrm_dest_id rcrm) raftClientStaleServerTimeMS (rci_ri rci);
     let rci = rci\<lparr>rci_ri := ri\<rparr>;
     Some (if rc = 0 then rci\<lparr>rci_leader_redirect := True, rci_leader_csn := ri_csn_leader ri\<rparr> else rci) }"

end
