(* ===== verification/Raft_Requests.thy ===== *)
theory Raft_Requests
  imports Raft_Clientlib
begin

text \<open>
  The requests of the client library (\<open>raft_client.c\<close>): the tree of pending requests and its reference
  counts, the send queue, submission, cancellation, expiry, replies, and the sender with its rate limit.

  A pointer to a request is its user id: the holder of a reference finds the request in the tree under
  it. An access through a pointer whose request has left the tree is \<^term>\<open>None\<close>, as an abort is.
\<close>

section \<open>Access to a request\<close>

definition sa_get :: "'t client_tree \<Rightarrow> raft_net_client_user_id \<Rightarrow> ('b, 't) raft_client_instance \<Rightarrow> raft_client_sub_app option" where
  "sa_get rt k rci = rt_elem rt (rci_sub_apps rci) k"

definition sa_set ::
  "'t client_tree \<Rightarrow> raft_net_client_user_id \<Rightarrow> raft_client_sub_app \<Rightarrow> ('b, 't) raft_client_instance
     \<Rightarrow> ('b, 't) raft_client_instance" where
  "sa_set rt k sa rci = rci\<lparr>rci_sub_apps := rt_set rt (rci_sub_apps rci) k sa\<rparr>"

definition sa_ref :: "'t client_tree \<Rightarrow> raft_net_client_user_id \<Rightarrow> ('b, 't) raft_client_instance \<Rightarrow> ('b, 't) raft_client_instance" where
  "sa_ref rt k rci = rci\<lparr>rci_sub_apps := rt_ref_get rt (rci_sub_apps rci) k\<rparr>"

definition rh_upd ::
  "(raft_client_request_handle \<Rightarrow> raft_client_request_handle) \<Rightarrow> raft_client_sub_app \<Rightarrow> raft_client_sub_app" where
  "rh_upd f sa = sa\<lparr>rcsa_rh := f (rcsa_rh sa)\<rparr>"

text \<open>The field \<open>rcrh_error\<close> has 16 bits.\<close>

definition to_int16 :: "int \<Rightarrow> int" where
  "to_int16 e = sint (word_of_int e :: 16 word)"

section \<open>The number of requests\<close>

definition raft_client_sub_app_total_dec :: "('b, 't) raft_client_instance \<Rightarrow> ('b, 't) raft_client_instance option" where
  "raft_client_sub_app_total_dec rci = do {
     let total = rci_sub_app_cnt rci - 1;
     NIOVA_ASSERT (0 \<le> total);
     Some (rci\<lparr>rci_sub_app_cnt := total\<rparr>) }"

definition raft_client_sub_app_total_inc :: "('b, 't) raft_client_instance \<Rightarrow> ('b, 't) raft_client_instance option" where
  "raft_client_sub_app_total_inc rci = do {
     let total = rci_sub_app_cnt rci + 1;
     NIOVA_ASSERT (0 \<le> total);
     Some (rci\<lparr>rci_sub_app_cnt := total\<rparr>) }"

definition raft_client_sub_app_may_add_new :: "('b, 't) raft_client_instance \<Rightarrow> bool option" where
  "raft_client_sub_app_may_add_new rci = do {
     let total = rci_sub_app_cnt rci;
     NIOVA_ASSERT (0 \<le> total);
     Some (if int RAFT_CLIENT_MAX_SUB_APP_INSTANCES \<le> total then False else True) }"

section \<open>The history of requests\<close>

definition raft_client_op_history_reset_cnt ::
  "raft_client_recent_op_types \<Rightarrow> ('b, 't) raft_client_instance \<Rightarrow> ('b, 't) raft_client_instance" where
  "raft_client_op_history_reset_cnt type rci =
     rci\<lparr>rci_recent_ops := (rci_recent_ops rci)(type := (rci_recent_ops rci type)\<lparr>rcsarh_cnt := 0\<rparr>)\<rparr>"

text \<open>A modulus of zero traps, and the memory of the history must be there.\<close>

definition raft_client_op_history_add_item ::
  "raft_client_recent_op_types \<Rightarrow> raft_client_sub_app \<Rightarrow> ('b, 't) raft_client_instance
     \<Rightarrow> ('b, 't) raft_client_instance option" where
  "raft_client_op_history_add_item type item rci = do {
     NIOVA_ASSERT (\<not> rcrh_history_cache (rcsa_rh item));
     let rh = rci_recent_ops rci type;
     sas \<leftarrow> rcsarh_sa rh;
     if rcsarh_size rh = 0 then None
     else do {
       let idx = rcsarh_cnt rh mod rcsarh_size rh;
       let copy = rh_upd (\<lambda>h. h\<lparr>rcrh_history_cache := True\<rparr>) item;
       let copy = (if type = RAFT_CLIENT_RECENT_OP_TYPE_PENDING
         then rh_upd (\<lambda>h. h\<lparr>rcrh_pending_op_cache := True\<rparr>) copy else copy);
       let rh = rh\<lparr>rcsarh_cnt := rcsarh_cnt rh + 1, rcsarh_sa := Some (sas[idx := copy])\<rparr>;
       Some (rci\<lparr>rci_recent_ops := (rci_recent_ops rci)(type := rh)\<rparr>) } }"

definition raft_client_op_history_destroy :: "('b, 't) raft_client_instance \<Rightarrow> ('b, 't) raft_client_instance" where
  "raft_client_op_history_destroy rci = rci\<lparr>rci_recent_ops := (\<lambda>type. let rh = rci_recent_ops rci type in
     if rcsarh_size rh \<noteq> 0 \<and> rcsarh_sa rh \<noteq> None then rh\<lparr>rcsarh_size := 0, rcsarh_sa := None\<rparr>
     else rh\<lparr>rcsarh_size := 0\<rparr>)\<rparr>"

text \<open>The histories are created in the order of their types; memory may run out at each.\<close>

fun op_history_create_loop ::
  "'b raft_client_env \<Rightarrow> raft_client_recent_op_types list \<Rightarrow> ('b, 't) raft_client_instance
     \<Rightarrow> int \<times> ('b, 't) raft_client_instance" where
  "op_history_create_loop ce [] rci = (0, rci)"
| "op_history_create_loop ce (i # is) rci = (
     let rh = rci_recent_ops rci i
     in if rcsarh_size rh \<noteq> 0 \<or> rcsarh_sa rh \<noteq> None then (- EALREADY, rci)
        else let rci = rci\<lparr>rci_recent_ops := (rci_recent_ops rci)(i := rh\<lparr>rcsarh_size := RAFT_CLIENT_OP_HISTORY_SIZE,
                 rcsarh_cnt := 0, rcsarh_sa := (if ce_calloc ce then Some (replicate RAFT_CLIENT_OP_HISTORY_SIZE
                   \<lparr>rcsa_rncui = \<lparr>rncui_v0_uint64 = replicate RAFT_NET_CLIENT_USER_ID_V0_NUINT64 0, rncui_version = 0\<rparr>,
                    rcsa_rh = zero_rcrh\<rparr>) else None)\<rparr>)\<rparr>
             in if \<not> ce_calloc ce then (- ENOMEM, raft_client_op_history_destroy rci)
                else op_history_create_loop ce is rci)"

definition raft_client_op_history_create ::
  "'b raft_client_env \<Rightarrow> ('b, 't) raft_client_instance \<Rightarrow> int \<times> ('b, 't) raft_client_instance" where
  "raft_client_op_history_create ce rci = op_history_create_loop ce [RAFT_CLIENT_RECENT_OP_TYPE_READ,
     RAFT_CLIENT_RECENT_OP_TYPE_WRITE, RAFT_CLIENT_RECENT_OP_TYPE_PENDING] rci"

section \<open>Construction, destruction, references\<close>

definition raft_client_sub_app_construct ::
  "'b raft_client_env \<Rightarrow> raft_net_client_user_id \<Rightarrow> raft_client_sub_app option" where
  "raft_client_sub_app_construct ce rncui =
     (if ce_calloc ce then Some \<lparr>rcsa_rncui = rncui, rcsa_rh = zero_rcrh\<lparr>rcrh_initializing := True\<rparr>\<rparr> else None)"

text \<open>
  The callback is given the buffer after the first receive buffer, which must be in the array; the
  error given to a blocked thread is not positive.
\<close>

definition raft_client_sub_app_destruct ::
  "raft_client_sub_app \<Rightarrow> ('b, 't) raft_client_instance \<Rightarrow> ('b, 't) raft_client_instance option" where
  "raft_client_sub_app_destruct destroy rci = do {
     let rcrh = rcsa_rh destroy;
     NIOVA_ASSERT (\<not> rcrh_cb_exec rcrh);
     let err = - \<bar>rcrh_error rcrh\<bar>;
     rci \<leftarrow> (if rcrh_async_cb rcrh then do {
         let ret_err = (if rcrh_error rcrh \<noteq> 0 then err else int (rcrh_reply_used_size rcrh));
         NIOVA_ASSERT (rcrh_send_niovs rcrh + 1 < length (rcrh_iovs rcrh));
         Some (emit_cl [Cl_async_cb (rcsa_rncui destroy) (rcrh_arg rcrh) ret_err
           (iov_base (rcrh_iovs rcrh ! (rcrh_send_niovs rcrh + 1)))] rci) }
       else Some rci);
     rci \<leftarrow> (if rcrh_blocking rcrh then do {
         NIOVA_ASSERT (rcrh_completion_notifier rcrh = Some 1 \<and> err \<noteq> 1);
         Some (emit_cl [Cl_wake (rcsa_rncui destroy) err] rci) }
       else Some rci);
     raft_client_sub_app_total_dec rci }"

definition raft_client_sub_app_put ::
  "'t client_tree \<Rightarrow> raft_net_client_user_id \<Rightarrow> ('b, 't) raft_client_instance \<Rightarrow> ('b, 't) raft_client_instance option" where
  "raft_client_sub_app_put rt k rci = do {
     sa \<leftarrow> sa_get rt k rci;
     let (destroy, t) = rt_put rt (rci_sub_apps rci) k;
     let rci = rci\<lparr>rci_sub_apps := t\<rparr>;
     case destroy of None \<Rightarrow> Some rci | Some sa \<Rightarrow> raft_client_sub_app_destruct sa rci }"

definition raft_client_sub_app_done ::
  "'t client_tree \<Rightarrow> raft_net_client_user_id \<Rightarrow> int \<Rightarrow> ('b, 't) raft_client_instance
     \<Rightarrow> ('b, 't) raft_client_instance option" where
  "raft_client_sub_app_done rt k error rci = do {
     sa \<leftarrow> sa_get rt k rci;
     let rcrh = rcsa_rh sa;
     NIOVA_ASSERT (\<not> rcrh_cb_exec rcrh \<and> \<not> rcrh_ready rcrh);
     let rcrh = rcrh\<lparr>rcrh_error := to_int16 error\<rparr>;
     rcrh \<leftarrow> (if \<not> rcrh_cancel rcrh then do {
         NIOVA_ASSERT (rcrh_completing rcrh);
         Some (rcrh\<lparr>rcrh_completing := False, rcrh_ready := True\<rparr>) }
       else do { NIOVA_ASSERT (\<not> rcrh_completing rcrh); Some rcrh });
     let sa = sa\<lparr>rcsa_rh := rcrh\<rparr>;
     rci \<leftarrow> raft_client_op_history_add_item
       (if rcrh_op_wr rcrh then RAFT_CLIENT_RECENT_OP_TYPE_WRITE else RAFT_CLIENT_RECENT_OP_TYPE_READ) sa
       (sa_set rt k sa rci);
     raft_client_sub_app_put rt k rci }"

definition raft_client_sub_app_lookup ::
  "'t client_tree \<Rightarrow> raft_net_client_user_id \<Rightarrow> ('b, 't) raft_client_instance
     \<Rightarrow> raft_client_sub_app option \<times> ('b, 't) raft_client_instance" where
  "raft_client_sub_app_lookup rt rncui rci = (
     let (sa, t) = rt_lookup rt (rci_sub_apps rci) rncui in (sa, rci\<lparr>rci_sub_apps := t\<rparr>))"

text \<open>
  The result says whether a new request is in the tree. Where the tree has called the constructor, the
  constructor has counted the request.
\<close>

definition raft_client_sub_app_add ::
  "'t client_tree \<Rightarrow> 'b raft_client_env \<Rightarrow> raft_net_client_user_id \<Rightarrow> ('b, 't) raft_client_instance
     \<Rightarrow> (bool \<times> ('b, 't) raft_client_instance) option" where
  "raft_client_sub_app_add rt ce rncui rci = (
     let (r, t) = rt_get_add rt (rci_sub_apps rci) rncui (raft_client_sub_app_construct ce rncui);
         rci = rci\<lparr>rci_sub_apps := t\<rparr>
     in case r of
          None \<Rightarrow> Some (False, rci)
        | Some (sa, existed) \<Rightarrow>
            if existed then do { rci \<leftarrow> raft_client_sub_app_put rt rncui rci; Some (False, rci) }
            else do { rci \<leftarrow> raft_client_sub_app_total_inc rci; Some (True, rci) })"

section \<open>The send queue\<close>

definition raft_client_request_send_queue_add_locked ::
  "'t client_tree \<Rightarrow> raft_net_client_user_id \<Rightarrow> ('b, 't) raft_client_instance \<Rightarrow> ('b, 't) raft_client_instance option" where
  "raft_client_request_send_queue_add_locked rt k rci = do {
     sa \<leftarrow> sa_get rt k rci;
     NIOVA_ASSERT (\<not> rcrh_sendq (rcsa_rh sa) \<and> \<not> rcrh_initializing (rcsa_rh sa));
     let rci = sa_set rt k (rh_upd (\<lambda>h. h\<lparr>rcrh_sendq := True\<rparr>) sa) rci;
     let rci = sa_ref rt k rci;
     Some (rci\<lparr>rci_sendq := rci_sendq rci @ [k]\<rparr>) }"

definition raft_client_request_send_queue_remove_prep_locked ::
  "'t client_tree \<Rightarrow> raft_net_client_user_id \<Rightarrow> ('b, 't) raft_client_instance
     \<Rightarrow> (int \<times> ('b, 't) raft_client_instance) option" where
  "raft_client_request_send_queue_remove_prep_locked rt k rci = do {
     sa \<leftarrow> sa_get rt k rci;
     let rh = rcsa_rh sa;
     NIOVA_ASSERT (rcrh_sendq rh);
     let rci = rci\<lparr>rci_sendq := remove1 k (rci_sendq rci)\<rparr>;
     let rci = sa_set rt k (rh_upd (\<lambda>h. h\<lparr>rcrh_sendq := False\<rparr>) sa) rci;
     Some (if rcrh_cancel rh \<or> rcrh_ready rh \<or> rcrh_completing rh then - ESTALE else 0, rci) }"

definition raft_client_request_send_queue_remove_done ::
  "'t client_tree \<Rightarrow> raft_net_client_user_id \<Rightarrow> ('b, 't) raft_client_instance \<Rightarrow> ('b, 't) raft_client_instance option" where
  "raft_client_request_send_queue_remove_done rt k rci = do {
     sa \<leftarrow> sa_get rt k rci;
     NIOVA_ASSERT (\<not> rcrh_sendq (rcsa_rh sa));
     raft_client_sub_app_put rt k rci }"

section \<open>Cancellation and expiry\<close>

definition raft_client_sub_app_cancel_pending_req ::
  "'t client_tree \<Rightarrow> raft_net_client_user_id \<Rightarrow> int \<Rightarrow> ('b, 't) raft_client_instance
     \<Rightarrow> (int \<times> ('b, 't) raft_client_instance) option" where
  "raft_client_sub_app_cancel_pending_req rt k error rci = do {
     sa \<leftarrow> sa_get rt k rci;
     let rcrh = rcsa_rh sa;
     if \<not> rcrh_completing rcrh \<and> \<not> rcrh_ready rcrh then do {
       let rci = sa_set rt k (rh_upd (\<lambda>h. h\<lparr>rcrh_cancel := True\<rparr>) sa) rci;
       rci \<leftarrow> raft_client_sub_app_done rt k error rci;
       Some (- ECANCELED, rci) }
     else if rcrh_cancel rcrh then Some (- EALREADY, rci)
     else Some (0, rci) }"

definition raft_client_request_cancel ::
  "'t client_tree \<Rightarrow> raft_net_client_user_id \<Rightarrow> ('b, 't) raft_client_instance
     \<Rightarrow> (int \<times> ('b, 't) raft_client_instance) option" where
  "raft_client_request_cancel rt rncui rci = (case raft_client_sub_app_lookup rt rncui rci of
       (None, rci) \<Rightarrow> Some (- ENOENT, rci)
     | (Some sa, rci) \<Rightarrow>
         if \<not> rcrh_initializing (rcsa_rh sa) then Some (- EINPROGRESS, rci)
         else do {
           (rc, rci) \<leftarrow> raft_client_sub_app_cancel_pending_req rt rncui (- ECANCELED) rci;
           rci \<leftarrow> raft_client_sub_app_put rt rncui rci;
           Some (0, rci) })"

definition queued_ms :: "'b raft_client_env \<Rightarrow> raft_client_request_handle \<Rightarrow> nat" where
  "queued_ms ce h = timespec_2_msec (env_realtime (ce_env ce)) - timespec_2_msec (rcrh_submitted h)"

definition request_expired :: "'b raft_client_env \<Rightarrow> raft_client_request_handle \<Rightarrow> bool" where
  "request_expired ce h \<longleftrightarrow>
     timespec_2_msec (rcrh_timeout h) < queued_ms ce h \<or> ce_fault ce async_raft_client_request_expire"

text \<open>
  One request of the walk: the number of requests queued and the requests expired so far are
  counted on. A request that the walk does not pass over is recorded in the history of pending ones.
\<close>

definition check_pending_action ::
  "'t client_tree \<Rightarrow> 'b raft_client_env \<Rightarrow> bool \<Rightarrow> raft_net_client_user_id \<Rightarrow> raft_client_sub_app
     \<Rightarrow> ('b, 't) raft_client_instance \<Rightarrow> nat \<Rightarrow> raft_net_client_user_id list
     \<Rightarrow> (('b, 't) raft_client_instance \<times> nat \<times> raft_net_client_user_id list) option" where
  "check_pending_action rt ce leader_viable k sa rci cnt expiredq = (let h = rcsa_rh sa in
     if request_expired ce h then Some (sa_ref rt k rci, cnt, k # expiredq)
     else if leader_viable then do {
       let rci = (if rcrh_leader_not_viable_delay h
         then sa_set rt k (rh_upd (\<lambda>h. h\<lparr>rcrh_leader_not_viable_delay := False\<rparr>) sa) rci else rci);
       if rcrh_leader_not_viable_delay h \<or> rcrh_num_sends h = 0 \<or> raftClientRetryTimeoutMS < queued_ms ce h
       then do {
         rci \<leftarrow> raft_client_request_send_queue_add_locked rt k rci;
         Some (rci, cnt + 1, expiredq) }
       else Some (rci, cnt, expiredq) }
     else Some (rci, cnt, expiredq))"

definition check_pending_request ::
  "'t client_tree \<Rightarrow> 'b raft_client_env \<Rightarrow> bool \<Rightarrow> raft_net_client_user_id
     \<Rightarrow> ('b, 't) raft_client_instance \<Rightarrow> nat \<Rightarrow> raft_net_client_user_id list
     \<Rightarrow> (('b, 't) raft_client_instance \<times> nat \<times> raft_net_client_user_id list) option" where
  "check_pending_request rt ce leader_viable k rci cnt expiredq = do {
     sa \<leftarrow> sa_get rt k rci;
     if rcrh_cancel (rcsa_rh sa) \<or> rcrh_sendq (rcsa_rh sa) \<or> rcrh_initializing (rcsa_rh sa)
     then Some (rci, cnt, expiredq)
     else do {
       (rci, cnt, expiredq) \<leftarrow> check_pending_action rt ce leader_viable k sa rci cnt expiredq;
       sa \<leftarrow> sa_get rt k rci;
       rci \<leftarrow> raft_client_op_history_add_item RAFT_CLIENT_RECENT_OP_TYPE_PENDING sa rci;
       Some (rci, cnt, expiredq) } }"

fun check_pending_loop ::
  "'t client_tree \<Rightarrow> 'b raft_client_env \<Rightarrow> bool \<Rightarrow> raft_net_client_user_id list
     \<Rightarrow> ('b, 't) raft_client_instance \<Rightarrow> nat \<Rightarrow> raft_net_client_user_id list
     \<Rightarrow> (('b, 't) raft_client_instance \<times> nat \<times> raft_net_client_user_id list) option" where
  "check_pending_loop rt ce leader_viable [] rci cnt expiredq = Some (rci, cnt, expiredq)"
| "check_pending_loop rt ce leader_viable (k # ks) rci cnt expiredq = do {
     (rci, cnt, expiredq) \<leftarrow> check_pending_request rt ce leader_viable k rci cnt expiredq;
     check_pending_loop rt ce leader_viable ks rci cnt expiredq }"

fun expire_loop ::
  "'t client_tree \<Rightarrow> raft_net_client_user_id list \<Rightarrow> ('b, 't) raft_client_instance
     \<Rightarrow> ('b, 't) raft_client_instance option" where
  "expire_loop rt [] rci = Some rci"
| "expire_loop rt (k # ks) rci = do {
     (rc, rci) \<leftarrow> raft_client_sub_app_cancel_pending_req rt k (- ETIMEDOUT) rci;
     rci \<leftarrow> raft_client_sub_app_put rt k rci;
     expire_loop rt ks rci }"

definition raft_client_check_pending_requests ::
  "'t client_tree \<Rightarrow> 'b raft_client_env \<Rightarrow> ('b, 't) raft_client_instance \<Rightarrow> ('b, 't) raft_client_instance option" where
  "raft_client_check_pending_requests rt ce rci = do {
     let leader_viable = raft_client_leader_is_viable (ce_env ce) rci;
     let rci = raft_client_op_history_reset_cnt RAFT_CLIENT_RECENT_OP_TYPE_PENDING rci;
     (rci, cnt, expiredq) \<leftarrow> check_pending_loop rt ce leader_viable (rt_foreach rt (rci_sub_apps rci)) rci 0 [];
     let rci = (if cnt \<noteq> 0 then emit_cl [Cl_notify] rci else rci);
     expire_loop rt expiredq rci }"

text \<open>On the timer: pinging the leader, or a server that may be it, then the pending requests.\<close>

definition timer_ping ::
  "'b raft_client_env \<Rightarrow> ('b, 't) raft_client_instance \<Rightarrow> ('b, 't) raft_client_instance option" where
  "timer_ping ce rci =
     (if raft_client_leader_is_viable (ce_env ce) rci then do {
        leader \<leftarrow> ri_csn_leader (rci_ri rci);
        if raft_client_server_target_needs_ping (ce_env ce) (rci_ri rci) leader
        then raft_client_ping_raft_service ce rci else Some rci }
      else do {
        rci \<leftarrow> raft_client_set_ping_target (ce_env ce) rci;
        raft_client_ping_raft_service ce rci })"

definition raft_client_timerfd_cb ::
  "'t client_tree \<Rightarrow> 'b raft_client_env \<Rightarrow> ('b, 't) raft_client_instance \<Rightarrow> ('b, 't) raft_client_instance option" where
  "raft_client_timerfd_cb rt ce rci = do {
     rci \<leftarrow> timer_ping ce rci;
     rci \<leftarrow> raft_client_check_pending_requests rt ce rci;
     Some (emit_cl [Cl_timer RAFT_CLIENT_TIMERFD_EXPIRE_MS] rci) }"

section \<open>Submission\<close>

text \<open>
  The arguments of a submission: the user id, the buffers to send and to fill, whether the library
  allocates the buffer of the reply, the timeout, the options, whether there is a callback, the
  argument for it and the tag.
\<close>

record raft_client_submission =
  sub_rncui :: raft_net_client_user_id
  sub_src_iovs :: "iovec list"
  sub_dest_iovs :: "iovec list"
  sub_allocate_get_buffer_for_user :: bool
  sub_timeout :: timespec
  sub_RCRT_WRITE :: bool
  sub_RCRT_NON_BLOCKING :: bool
  sub_user_cb :: bool
  sub_user_arg :: nat
  sub_tag :: u64

definition raft_client_request_handle_init ::
  "'b raft_client_env \<Rightarrow> raft_client_submission \<Rightarrow> timespec \<Rightarrow> raft_client_request_handle
     \<Rightarrow> ('b, 't) raft_client_instance \<Rightarrow> ((int + raft_client_request_handle) \<times> ('b, 't) raft_client_instance) option" where
  "raft_client_request_handle_init ce sub now rcrh rci = do {
     NIOVA_ASSERT (rcrh_initializing rcrh);
     let nsrc_iovs = length (sub_src_iovs sub);
     let ndest_iovs = length (sub_dest_iovs sub);
     NIOVA_ASSERT (nsrc_iovs + ndest_iovs \<le> RAFT_CLIENT_REQUEST_HANDLE_MAX_IOVS);
     case ri_csn_leader (rci_ri rci) of
       None \<Rightarrow> Some (Inl (- ENOTCONN), rci)
     | Some leader \<Rightarrow>
         (case raft_client_rpc_msg_init ce
             (if sub_RCRT_WRITE sub then RAFT_CLIENT_RPC_MSG_TYPE_WRITE else RAFT_CLIENT_RPC_MSG_TYPE_READ)
             (ce_iovs_total_size ce (sub_src_iovs sub)) leader (sub_tag sub) rci of
           (Inl rc, rci) \<Rightarrow> Some (Inl rc, rci)
         | (Inr rcrm, rci) \<Rightarrow>
             let rcrh = rcrh\<lparr>rcrh_rpc_request := rcrm, rcrh_arg := sub_user_arg sub, rcrh_async_cb := sub_user_cb sub,
                   rcrh_submitted := now, rcrh_initializing := True, rcrh_send_niovs := nsrc_iovs,
                   rcrh_recv_niovs := ndest_iovs,
                   rcrh_alloc_get_buffer_for_user := sub_allocate_get_buffer_for_user sub,
                   rcrh_blocking := \<not> sub_RCRT_NON_BLOCKING sub, rcrh_op_wr := sub_RCRT_WRITE sub,
                   rcrh_iovs := sub_src_iovs sub @ sub_dest_iovs sub @ drop (nsrc_iovs + ndest_iovs) (rcrh_iovs rcrh)\<rparr>
             in Some (Inr (if sub_timeout sub \<noteq> 0 then rcrh\<lparr>rcrh_timeout := sub_timeout sub\<rparr> else rcrh), rci)) }"

text \<open>
  The last part of a submission: a blocking one waits until it is woken and then returns what it
  is woken with.
\<close>

datatype raft_client_submit_result = Submit_returns int | Submit_waits

definition raft_client_request_submit_enqueue ::
  "'t client_tree \<Rightarrow> 'b raft_client_env \<Rightarrow> raft_net_client_user_id \<Rightarrow> ('b, 't) raft_client_instance
     \<Rightarrow> (raft_client_submit_result \<times> ('b, 't) raft_client_instance) option" where
  "raft_client_request_submit_enqueue rt ce k rci = do {
     let queue = raft_client_leader_is_viable (ce_env ce) rci;
     sa \<leftarrow> sa_get rt k rci;
     let block = rcrh_blocking (rcsa_rh sa);
     let sa = rh_upd (\<lambda>h. h\<lparr>rcrh_completion_notifier := (if block then Some 1 else None)\<rparr>) sa;
     NIOVA_ASSERT (rcrh_initializing (rcsa_rh sa));
     let sa = rh_upd (\<lambda>h. h\<lparr>rcrh_initializing := False\<rparr>) sa;
     rci \<leftarrow> (if queue then raft_client_request_send_queue_add_locked rt k (sa_set rt k sa rci)
       else Some (sa_set rt k (rh_upd (\<lambda>h. h\<lparr>rcrh_leader_not_viable_delay := True\<rparr>) sa) rci));
     let rci = (if queue then emit_cl [Cl_notify] rci else rci);
     Some (if block then Submit_waits else Submit_returns 0, rci) }"

text \<open>
  The part before it: checks, adding the request to the tree, filling it. The result is what
  the submission returns; \<^term>\<open>None\<close> if it goes on.
\<close>

definition request_submit_fill ::
  "'t client_tree \<Rightarrow> 'b raft_client_env \<Rightarrow> raft_client_submission \<Rightarrow> ('b, 't) raft_client_instance
     \<Rightarrow> (int option \<times> ('b, 't) raft_client_instance) option" where
  "request_submit_fill rt ce sub rci = do {
     let rncui = sub_rncui sub;
     sa \<leftarrow> sa_get rt rncui rci;
     (r, rci) \<leftarrow> raft_client_request_handle_init ce sub (env_realtime (ce_env ce)) (rcsa_rh sa) rci;
     case r of
       Inl rc \<Rightarrow> do { rci \<leftarrow> raft_client_sub_app_put rt rncui rci; Some (Some rc, rci) }
     | Inr rcrh \<Rightarrow> Some (None, sa_set rt rncui (sa\<lparr>rcsa_rh := rcrh\<rparr>) rci) }"

definition request_submit_prepare ::
  "'t client_tree \<Rightarrow> 'b raft_client_env \<Rightarrow> raft_client_submission \<Rightarrow> ('b, 't) raft_client_instance
     \<Rightarrow> (int option \<times> ('b, 't) raft_client_instance) option" where
  "request_submit_prepare rt ce sub rci = (
     let st = ri_store_type (rci_ri rci); rncui = sub_rncui sub
     in if sub_RCRT_NON_BLOCKING sub \<and> \<not> sub_user_cb sub then Some (Some (- EINVAL), rci)
        else if RAFT_CLIENT_REQUEST_HANDLE_MAX_IOVS < length (sub_src_iovs sub) + length (sub_dest_iovs sub)
        then Some (Some (- EFBIG), rci)
        else if \<not> raft_client_rpc_msg_size_is_valid st (ce_iovs_total_size ce (sub_src_iovs sub)) \<or>
          \<not> raft_client_rpc_msg_size_is_valid st (ce_iovs_total_size ce (sub_dest_iovs sub))
        then Some (Some (- E2BIG), rci)
        else if ri_csn_leader (rci_ri rci) = None then Some (Some (- ENOTCONN), rci)
        else do {
          may_add_new \<leftarrow> raft_client_sub_app_may_add_new rci;
          if \<not> may_add_new then Some (Some (- ENOSPC), rci)
          else do {
            (added, rci) \<leftarrow> raft_client_sub_app_add rt ce rncui rci;
            if \<not> added then Some (Some (- EALREADY), rci)
            else request_submit_fill rt ce sub rci } })"

definition raft_client_request_submit ::
  "'t client_tree \<Rightarrow> 'b raft_client_env \<Rightarrow> raft_client_submission \<Rightarrow> ('b, 't) raft_client_instance
     \<Rightarrow> (raft_client_submit_result \<times> ('b, 't) raft_client_instance) option" where
  "raft_client_request_submit rt ce sub rci = do {
     (r, rci) \<leftarrow> request_submit_prepare rt ce sub rci;
     case r of Some rc \<Rightarrow> Some (Submit_returns rc, rci)
     | None \<Rightarrow> raft_client_request_submit_enqueue rt ce (sub_rncui sub) rci }"

section \<open>Replies\<close>

text \<open>
  What a matching reply does to a request that still waits: the size check, the buffer
  allocated for the user in the second receive buffer, which must be in the array, the address of the
  server, the copy into the receive buffers. The result is the handle and the size error.
\<close>

definition reply_alloc_buffer ::
  "'b raft_client_env \<Rightarrow> raft_client_request_handle \<Rightarrow> int \<Rightarrow> (int \<times> raft_client_request_handle) option" where
  "reply_alloc_buffer ce rcrh reply_size_error = (let r = rcrh_send_niovs rcrh in
     if \<not> rcrh_alloc_get_buffer_for_user rcrh then Some (reply_size_error, rcrh)
     else do {
       NIOVA_ASSERT (r < length (rcrh_iovs rcrh));
       if iov_len (rcrh_iovs rcrh ! r) < rcrh_reply_size rcrh then do {
         NIOVA_ASSERT (r + 1 < length (rcrh_iovs rcrh));
         let user_alloc_sz = rcrh_reply_size rcrh - iov_len (rcrh_iovs rcrh ! r);
         case ce_malloc ce user_alloc_sz of
           None \<Rightarrow> Some (- ENOMEM, rcrh\<lparr>rcrh_iovs := (rcrh_iovs rcrh)[r + 1 := \<lparr>iov_base = [], iov_len = 0\<rparr>]\<rparr>)
         | Some buf \<Rightarrow> Some (0, rcrh\<lparr>rcrh_iovs := (rcrh_iovs rcrh)[r + 1 := \<lparr>iov_base = buf, iov_len = user_alloc_sz\<rparr>]\<rparr>) }
       else Some (reply_size_error, rcrh) })"

definition reply_fill ::
  "'b raft_client_env \<Rightarrow> raft_client_rpc_msg \<Rightarrow> nat \<Rightarrow> timespec \<Rightarrow> raft_client_request_handle
     \<Rightarrow> (int \<times> raft_client_request_handle) option" where
  "reply_fill ce rcrm from last_msg_recvd rcrh = do {
     let size = unat (rcrm_data_size rcrm);
     let r = rcrh_send_niovs rcrh;
     let n = rcrh_recv_niovs rcrh;
     let rcrh = rcrh\<lparr>rcrh_reply_size := size\<rparr>;
     let err = (if ce_iovs_total_size ce (take n (drop r (rcrh_iovs rcrh))) < size then - E2BIG else 0);
     (err, rcrh) \<leftarrow> reply_alloc_buffer ce rcrh err;
     let rcrh = rcrh\<lparr>rcrh_sin_reply_addr := from, rcrh_completing := True\<rparr>;
     rcrh \<leftarrow> (if err = 0 \<and> n \<noteq> 0 then do {
         let recv_iovs = take n (drop r (rcrh_iovs rcrh));
         let (rrc, contents) = ce_copy_to_iovs ce (rcrm_data rcrm) size recv_iovs;
         let filled = map (\<lambda>i. (recv_iovs ! i)\<lparr>iov_base := contents i\<rparr>) [0..<length recv_iovs];
         NIOVA_ASSERT (0 \<le> rrc);
         NIOVA_ASSERT (nat rrc = min size (ce_iovs_total_size ce filled));
         Some (rcrh\<lparr>rcrh_iovs := take r (rcrh_iovs rcrh) @ filled @ drop (r + n) (rcrh_iovs rcrh),
           rcrh_reply_used_size := nat rrc\<rparr>) }
       else Some rcrh);
     Some (err, rcrh\<lparr>rcrh_completion_latency_ms :=
       of_nat (timespec_2_msec last_msg_recvd) - of_nat (timespec_2_msec (rcrh_submitted rcrh))\<rparr>) }"

definition raft_client_reply_try_complete ::
  "'t client_tree \<Rightarrow> 'b raft_client_env \<Rightarrow> raft_client_rpc_msg \<Rightarrow> nat \<Rightarrow> ('b, 't) raft_client_instance
     \<Rightarrow> ('b, 't) raft_client_instance option" where
  "raft_client_reply_try_complete rt ce rcrm from rci =
     (case ce_obj_id_cb ce (rcrm_data rcrm) (unat (rcrm_data_size rcrm)) of
        Inl rc \<Rightarrow> Some rci
      | Inr rncui \<Rightarrow> (case raft_client_sub_app_lookup rt rncui rci of
          (None, rci) \<Rightarrow> Some rci
        | (Some sa, rci) \<Rightarrow> do {
            let rcrh = rcsa_rh sa;
            if rcrh_initializing rcrh \<or> rcrm_msg_id rcrm \<noteq> rcrm_msg_id (rcrh_rpc_request rcrh)
            then raft_client_sub_app_put rt rncui rci
            else do {
              rci \<leftarrow> (if rcrh_ready rcrh then Some rci
                else if rcrh_completing rcrh then None
                else if rcrh_cancel rcrh then Some rci
                else do {
                  (reply_size_error, rcrh) \<leftarrow> reply_fill ce rcrm from (rci_last_msg_recvd rci) rcrh;
                  let rci = sa_set rt rncui (sa\<lparr>rcsa_rh := rcrh\<rparr>) rci;
                  raft_client_sub_app_done rt rncui
                    (if reply_size_error \<noteq> 0 then reply_size_error else rcrm_app_error rcrm) rci });
              raft_client_sub_app_put rt rncui rci } }))"

definition raft_client_recv_handler_process_reply ::
  "'t client_tree \<Rightarrow> 'b raft_client_env \<Rightarrow> raft_client_rpc_msg \<Rightarrow> uuid \<Rightarrow> nat \<Rightarrow> ('b, 't) raft_client_instance
     \<Rightarrow> ('b, 't) raft_client_instance option" where
  "raft_client_recv_handler_process_reply rt ce rcrm sender_csn from rci =
     (if ce_fault ce raft_client_recv_handler_process_reply_bypass then Some rci
      else if Some sender_csn \<noteq> ri_csn_leader (rci_ri rci) then Some rci
      else if rcrm_sys_error rcrm \<noteq> 0 then Some rci
      else raft_client_reply_try_complete rt ce rcrm from
        (rci\<lparr>rci_last_request_ackd := env_realtime (ce_env ce)\<rparr>))"

definition raft_client_recv_handler ::
  "'t client_tree \<Rightarrow> 'b raft_client_env \<Rightarrow> raft_client_rpc_msg \<Rightarrow> nat \<Rightarrow> nat \<Rightarrow> ('b, 't) raft_client_instance
     \<Rightarrow> ('b, 't) raft_client_instance option" where
  "raft_client_recv_handler rt ce rcrm recv_bytes from rci = (let ri = rci_ri rci; env = ce_env ce in
     if ri_csn_leader ri = None \<or> recv_bytes = 0 \<or> ce_fault ce raft_client_recv_handler_bypass then Some rci
     else if recv_bytes < sizeof_raft_client_rpc_msg \<or> raft_net_max_rpc_size (ri_store_type ri) < recv_bytes
     then Some rci
     else case raft_net_verify_sender_server_msg env ri (rcrm_sender_id rcrm) (rcrm_raft_id rcrm) of
         None \<Rightarrow> Some rci
       | Some sender_csn \<Rightarrow> do {
           let ri = raft_net_update_last_comm_time env (rcrm_sender_id rcrm) False ri;
           case raft_net_comm_get_last_recv ri (rcrm_sender_id rcrm) of
             Inl rc \<Rightarrow> None
           | Inr last_recv \<Rightarrow> do {
               let rci = rci\<lparr>rci_ri := ri, rci_last_msg_recvd := last_recv\<rparr>;
               if rcrm_type rcrm = RAFT_CLIENT_RPC_MSG_TYPE_PING_REPLY
               then Some (raft_client_process_ping_reply rcrm sender_csn rci)
               else if rcrm_type rcrm = RAFT_CLIENT_RPC_MSG_TYPE_REDIRECT
               then raft_client_update_leader_from_redirect env rcrm rci
               else if rcrm_sys_error rcrm = 0 \<and> rcrm_type rcrm = RAFT_CLIENT_RPC_MSG_TYPE_REPLY
               then raft_client_recv_handler_process_reply rt ce rcrm sender_csn from rci
               else Some rci } })"

section \<open>The sender\<close>

definition raft_client_rpc_launch ::
  "'t client_tree \<Rightarrow> 'b raft_client_env \<Rightarrow> raft_net_client_user_id \<Rightarrow> ('b, 't) raft_client_instance
     \<Rightarrow> (int \<times> ('b, 't) raft_client_instance) option" where
  "raft_client_rpc_launch rt ce k rci = do {
     sa \<leftarrow> sa_get rt k rci;
     let h = rcsa_rh sa;
     NIOVA_ASSERT (\<not> rcrh_sendq h);
     let iovs = take (rcrh_send_niovs h) (rcrh_iovs h);
     let (rc, ri) = raft_net_send_client_msgv ce (rcrh_rpc_request h) iovs (rci_ri rci);
     let rci = rci\<lparr>rci_ri := ri\<rparr>;
     if rc \<noteq> 0 then Some (rc, rci)
     else do {
       leader \<leftarrow> ri_csn_leader ri;
       let now = env_realtime (ce_env ce);
       let rci = rci\<lparr>rci_last_request_sent := now\<rparr>;
       let rci = sa_set rt k (rh_upd (\<lambda>h. h\<lparr>rcrh_last_send := now, rcrh_num_sends := rcrh_num_sends h + 1\<rparr>) sa) rci;
       Some (0, if env_net_can_send (ce_env ce) leader then emit_cl [Cl_send leader (rcrh_rpc_request h) iovs] rci
                else rci) } }"

text \<open>Sending the request taken off the queue: the flag says that it failed for good.\<close>

definition sendq_head_launch ::
  "'t client_tree \<Rightarrow> 'b raft_client_env \<Rightarrow> raft_net_client_user_id \<Rightarrow> ('b, 't) raft_client_instance
     \<Rightarrow> (int \<times> bool \<times> ('b, 't) raft_client_instance) option" where
  "sendq_head_launch rt ce k rci = do {
     (rc, rci) \<leftarrow> raft_client_rpc_launch rt ce k rci;
     if rc \<noteq> 0 \<and> rc \<noteq> - EAGAIN then do {
       sa \<leftarrow> sa_get rt k rci;
       Some (rc, True, sa_set rt k (rh_upd (\<lambda>h. h\<lparr>rcrh_cancel := True, rcrh_send_failed := True\<rparr>) sa) rci) }
     else Some (rc, False, rci) }"

definition raft_client_rpc_sendq_dequeue_head_and_send ::
  "'t client_tree \<Rightarrow> 'b raft_client_env \<Rightarrow> ('b, 't) raft_client_instance
     \<Rightarrow> (int \<times> ('b, 't) raft_client_instance) option" where
  "raft_client_rpc_sendq_dequeue_head_and_send rt ce rci = (case rci_sendq rci of
       [] \<Rightarrow> Some (- ENOENT, rci)
     | k # _ \<Rightarrow> do {
         (rc, rci) \<leftarrow> raft_client_request_send_queue_remove_prep_locked rt k rci;
         (rc, cancel, rci) \<leftarrow> (if rc = 0 then sendq_head_launch rt ce k rci else Some (rc, False, rci));
         rci \<leftarrow> (if cancel then raft_client_sub_app_done rt k rc rci
           else raft_client_request_send_queue_remove_done rt k rci);
         Some (rc, rci) })"

text \<open>Every pass of the loop takes the head off the queue, or ends the loop.\<close>

lemma total_dec_sendq: "raft_client_sub_app_total_dec rci = Some rci' \<Longrightarrow> rci_sendq rci' = rci_sendq rci"
  by (auto simp: raft_client_sub_app_total_dec_def split: if_splits)

lemma put_sendq: "raft_client_sub_app_put rt k rci = Some rci' \<Longrightarrow> rci_sendq rci' = rci_sendq rci"
  by (auto simp: raft_client_sub_app_put_def raft_client_sub_app_destruct_def bind_Some emit_cl_def Let_def case_prod_beta
      dest!: total_dec_sendq split: option.splits if_splits)

lemma history_sendq: "raft_client_op_history_add_item ty sa rci = Some rci' \<Longrightarrow> rci_sendq rci' = rci_sendq rci"
  by (auto simp: raft_client_op_history_add_item_def bind_Some Let_def split: if_splits)

lemma done_sendq: "raft_client_sub_app_done rt k e rci = Some rci' \<Longrightarrow> rci_sendq rci' = rci_sendq rci"
  by (auto simp: raft_client_sub_app_done_def bind_Some Let_def sa_set_def
      dest!: put_sendq history_sendq split: if_splits)

lemma launch_sendq: "raft_client_rpc_launch rt ce k rci = Some (rc, rci') \<Longrightarrow> rci_sendq rci' = rci_sendq rci"
proof -
  have "wp (raft_client_rpc_launch rt ce k rci) (\<lambda>x. rci_sendq (snd x) = rci_sendq rci)"
    unfolding raft_client_rpc_launch_def Let_def case_prod_beta
    by (auto simp: wp_simps sa_set_def emit_cl_def intro!: wpI)
  then show "raft_client_rpc_launch rt ce k rci = Some (rc, rci') \<Longrightarrow> rci_sendq rci' = rci_sendq rci"
    by (auto dest: wpD)
qed

lemma dequeue_sendq:
  "raft_client_rpc_sendq_dequeue_head_and_send rt ce rci = Some (rc, rci') \<Longrightarrow> rci_sendq rci' = tl (rci_sendq rci)"
  by (auto simp: raft_client_rpc_sendq_dequeue_head_and_send_def bind_Some Let_def sa_set_def
      raft_client_request_send_queue_remove_prep_locked_def raft_client_request_send_queue_remove_done_def
      sendq_head_launch_def dest!: put_sendq done_sendq launch_sendq split: list.splits if_splits)

lemma dequeue_empty:
  "rci_sendq rci = [] \<Longrightarrow> raft_client_rpc_sendq_dequeue_head_and_send rt ce rci = Some (- ENOENT, rci)"
  by (simp add: raft_client_rpc_sendq_dequeue_head_and_send_def)

lemma dequeue_progress:
  assumes "raft_client_rpc_sendq_dequeue_head_and_send rt ce rci = Some (rc, rci')" "rc \<noteq> - ENOENT"
  shows "length (rci_sendq rci') < length (rci_sendq rci)"
  using assms dequeue_empty [of rci rt ce] dequeue_sendq [OF assms(1)] by (cases "rci_sendq rci") auto

function rpc_sender_loop ::
  "'t client_tree \<Rightarrow> 'b raft_client_env \<Rightarrow> nat \<Rightarrow> ('b, 't) raft_client_instance \<Rightarrow> ('b, 't) raft_client_instance option" where
  "rpc_sender_loop rt ce remaining_sends rci =
     (if remaining_sends = 0 then Some rci
      else case raft_client_rpc_sendq_dequeue_head_and_send rt ce rci of
          None \<Rightarrow> None
        | Some (rc, rci') \<Rightarrow>
            if rc = 0 then rpc_sender_loop rt ce (remaining_sends - 1)
              (rci'\<lparr>rci_interval_rpc_cnt := rci_interval_rpc_cnt rci' + 1\<rparr>)
            else if rc = - ENOENT then Some rci'
            else rpc_sender_loop rt ce remaining_sends rci')"
  by pat_completeness auto

termination
  by (relation "measure (\<lambda>(rt, ce, n, rci). length (rci_sendq rci))") (auto dest: dequeue_progress)

declare rpc_sender_loop.simps [simp del]

definition raft_client_rpc_sender ::
  "'t client_tree \<Rightarrow> 'b raft_client_env \<Rightarrow> ('b, 't) raft_client_instance \<Rightarrow> ('b, 't) raft_client_instance option" where
  "raft_client_rpc_sender rt ce rci = do {
     let now = env_unstable (ce_env ce);
     let start_msecs = timespec_2_msec (rci_interval_start rci);
     let now_msecs = timespec_2_msec now;
     let rci = (if now_msecs < start_msecs \<or> RAFT_CLIENT_RATE_QUANTUM_MSEC < now_msecs - start_msecs
       then rci\<lparr>rci_interval_start := now, rci_interval_rpc_cnt := 0\<rparr> else rci);
     let rate_per_quantum = RAFT_CLIENT_REQUEST_RATE_PER_SEC div (1000 div RAFT_CLIENT_RATE_QUANTUM_MSEC);
     if rate_per_quantum \<le> rci_interval_rpc_cnt rci then Some (rci\<lparr>rci_requests_throttled := True\<rparr>)
     else do {
       rci \<leftarrow> rpc_sender_loop rt ce
         (min RAFT_CLIENT_RPC_SENDER_MAX (rate_per_quantum - rci_interval_rpc_cnt rci)) rci;
       Some (if rci_sendq rci \<noteq> [] then emit_cl [Cl_notify] (rci\<lparr>rci_requests_throttled := True\<rparr>) else rci) } }"

section \<open>The thread\<close>

text \<open>The head of the thread's loop: whether the sender runs after the events is the first result.\<close>

definition client_thread_head :: "('b, 't) raft_client_instance \<Rightarrow> bool \<times> ('b, 't) raft_client_instance" where
  "client_thread_head rci = (
     let requests_throttled = rci_requests_throttled rci;
         rci = (if requests_throttled then rci\<lparr>rci_requests_throttled := False\<rparr> else rci)
     in (requests_throttled, emit_cl [Cl_timer (if requests_throttled then RAFT_CLIENT_RATE_QUANTUM_MSEC div 2
          else RAFT_CLIENT_TIMERFD_EXPIRE_MS)] rci))"

section \<open>Instances\<close>

text \<open>
  Memory cleared for an instance: the tree in it is not initialised. \<open>raft_client_instance_init\<close>
  makes the tree empty (\<open>t\<close>) and attaches the raft instance.
\<close>

definition zero_rci :: "'t \<Rightarrow> 'b raft_instance \<Rightarrow> ('b, 't) raft_client_instance" where
  "zero_rci t ri = \<lparr>rci_sub_apps = t, rci_ri = ri, rci_sendq = [], rci_last_request_sent = 0, rci_last_request_ackd = 0,
     rci_last_msg_recvd = 0, rci_sub_app_cnt = 0, rci_msg_id_counter = 0, rci_msg_id_prefix = 0, rci_leader_csn = None,
     rci_leader_redirect = False, rci_requests_throttled = False, rci_leader_alive_cnt = 0,
     rci_recent_ops = (\<lambda>_. \<lparr>rcsarh_size = 0, rcsarh_cnt = 0, rcsarh_sa = None\<rparr>), rci_interval_start = 0,
     rci_interval_rpc_cnt = 0, rci_events = []\<rparr>"

definition raft_client_instance_init ::
  "'t \<Rightarrow> 'b raft_instance \<Rightarrow> ('b, 't) raft_client_instance \<Rightarrow> ('b, 't) raft_client_instance" where
  "raft_client_instance_init t ri rci = rci\<lparr>rci_sub_apps := t, rci_sendq := [], rci_ri := ri\<rparr>"

definition raft_client_msg_internals_init :: "u32 \<Rightarrow> ('b, 't) raft_client_instance \<Rightarrow> ('b, 't) raft_client_instance" where
  "raft_client_msg_internals_init seed rci = rci\<lparr>rci_msg_id_prefix := seed, rci_msg_id_counter := 0\<rparr>"

text \<open>The slots of the process: a handle is the position of its slot.\<close>

definition RAFT_CLIENT_MAX_INSTANCES :: nat where "RAFT_CLIENT_MAX_INSTANCES = 8"

type_synonym ('b, 't) client_slots = "('b, 't) raft_client_instance option list"

definition raft_client_instance_lookup :: "('b, 't) client_slots \<Rightarrow> nat option \<Rightarrow> ('b, 't) raft_client_instance option" where
  "raft_client_instance_lookup slots instance = (case instance of None \<Rightarrow> None
     | Some i \<Rightarrow> if i < length slots then slots ! i else None)"

definition raft_client_instance_release :: "('b, 't) client_slots \<Rightarrow> nat option \<Rightarrow> int \<times> ('b, 't) client_slots" where
  "raft_client_instance_release slots instance = (case instance of None \<Rightarrow> (- EINVAL, slots)
     | Some i \<Rightarrow> if i < length slots \<and> slots ! i \<noteq> None then (0, slots[i := None]) else (- ENOENT, slots))"

fun instance_assign_loop ::
  "'b raft_client_env \<Rightarrow> ('b, 't) raft_client_instance \<Rightarrow> ('b, 't) client_slots \<Rightarrow> nat option \<times> ('b, 't) client_slots" where
  "instance_assign_loop ce zero [] = (None, [])"
| "instance_assign_loop ce zero (Some rci # slots) =
     (let (i, slots) = instance_assign_loop ce zero slots in (map_option Suc i, Some rci # slots))"
| "instance_assign_loop ce zero (None # slots) =
     (if \<not> ce_calloc ce then (None, None # slots)
      else let (rc, rci) = raft_client_op_history_create ce zero
           in if rc \<noteq> 0 then (None, None # slots) else (Some 0, Some rci # slots))"

definition raft_client_instance_assign ::
  "'b raft_client_env \<Rightarrow> ('b, 't) raft_client_instance \<Rightarrow> ('b, 't) client_slots \<Rightarrow> nat option \<times> ('b, 't) client_slots" where
  "raft_client_instance_assign ce zero slots = instance_assign_loop ce zero slots"

text \<open>Destroying an instance: the thread is halted first (\<open>halt_rc\<close>).\<close>

definition raft_client_destroy :: "int \<Rightarrow> ('b, 't) client_slots \<Rightarrow> nat option \<Rightarrow> int \<times> ('b, 't) client_slots" where
  "raft_client_destroy halt_rc slots instance =
     (if instance = None then (- EINVAL, slots)
      else case raft_client_instance_lookup slots instance of None \<Rightarrow> (- ENODEV, slots)
        | Some rci \<Rightarrow> if halt_rc \<noteq> 0 then (halt_rc, slots) else raft_client_instance_release slots instance)"

record raft_client_leader_info =
  rcli_leader_uuid :: uuid
  rcli_leader_alive_cnt :: nat
  rcli_leader_viable :: bool

definition raft_client_get_leader_info ::
  "'b raft_env \<Rightarrow> ('b, 't) client_slots \<Rightarrow> nat option \<Rightarrow> int + raft_client_leader_info" where
  "raft_client_get_leader_info env slots instance = (case raft_client_instance_lookup slots instance of
       None \<Rightarrow> Inl (- EINVAL)
     | Some rci \<Rightarrow> (case ri_csn_leader (rci_ri rci) of
         None \<Rightarrow> Inl (- ENOENT)
       | Some leader \<Rightarrow> Inr \<lparr>rcli_leader_uuid = leader, rcli_leader_alive_cnt = rci_leader_alive_cnt rci,
           rcli_leader_viable = raft_client_leader_is_viable env rci\<rparr>))"

section \<open>The steps of a client\<close>

text \<open>
  A step is an event of the client's thread (timer, message, sender, head of its loop) or a part of a call of an
  application thread: the first part of a submission, its last part, a cancellation. The surroundings
  of each step are arbitrary. A request that is being initialised is not cancelled.
\<close>

datatype client_action =
    Act_timer
  | Act_recv
  | Act_sender
  | Act_loop
  | Act_submit
  | Act_enqueue raft_net_client_user_id bool bool
  | Act_cancel

inductive client_step ::
  "'t client_tree \<Rightarrow> client_action \<Rightarrow> ('b, 't) raft_client_instance \<Rightarrow> ('b, 't) raft_client_instance \<Rightarrow> bool"
  for rt :: "'t client_tree" where
  timer: "raft_client_timerfd_cb rt ce rci = Some r \<Longrightarrow> client_step rt Act_timer rci r"
| recv: "raft_client_recv_handler rt ce rcrm bytes from rci = Some r \<Longrightarrow> client_step rt Act_recv rci r"
| sender: "raft_client_rpc_sender rt ce rci = Some r \<Longrightarrow> client_step rt Act_sender rci r"
| loop: "client_step rt Act_loop rci (snd (client_thread_head rci))"
| submit: "request_submit_prepare rt ce sub rci = Some (res, r) \<Longrightarrow> client_step rt Act_submit rci r"
| enqueue: "sa_get rt k rci = Some sa \<Longrightarrow> raft_client_request_submit_enqueue rt ce k rci = Some (res, r) \<Longrightarrow>
    client_step rt (Act_enqueue k (rcrh_blocking (rcsa_rh sa)) (rcrh_async_cb (rcsa_rh sa))) rci r"
| cancel: "(\<And>sa. sa_get rt k rci = Some sa \<Longrightarrow> \<not> rcrh_initializing (rcsa_rh sa)) \<Longrightarrow>
    raft_client_request_cancel rt k rci = Some (rc, r) \<Longrightarrow> client_step rt Act_cancel rci r"

inductive client_run ::
  "'t client_tree \<Rightarrow> ('b, 't) raft_client_instance \<Rightarrow> client_action list \<Rightarrow> ('b, 't) raft_client_instance \<Rightarrow> bool"
  for rt :: "'t client_tree" and rci :: "('b, 't) raft_client_instance" where
  start: "client_run rt rci [] rci"
| step: "client_run rt rci as r \<Longrightarrow> client_step rt a r s \<Longrightarrow> client_run rt rci (as @ [a]) s"

end
