(* ===== verification/Raft_Clientinv.thy ===== *)
theory Raft_Clientinv
  imports Raft_Requests
begin

text \<open>
  The table of requests of the client library: its well-formedness with a count of the references,
  and what every operation on a request keeps of it.
\<close>

section \<open>A well-formed table\<close>

text \<open>
  Between the steps of the client, a request in the table is under its own id, has not been reported,
  is not half completed, and one being initialised is neither done nor queued.
\<close>

definition sub_app_ok :: "raft_net_client_user_id \<Rightarrow> raft_client_sub_app \<Rightarrow> bool" where
  "sub_app_ok k sa \<longleftrightarrow> rcsa_rncui sa = k \<and> (let h = rcsa_rh sa in
     \<not> rcrh_cb_exec h \<and> \<not> rcrh_history_cache h \<and> \<not> rcrh_completing h \<and> \<not> (rcrh_ready h \<and> rcrh_cancel h) \<and>
     (rcrh_initializing h \<longrightarrow> \<not> rcrh_ready h \<and> \<not> rcrh_cancel h \<and> \<not> rcrh_sendq h) \<and>
     (rcrh_blocking h \<and> \<not> rcrh_initializing h \<longrightarrow> rcrh_completion_notifier h = Some 1))"

text \<open>The reference of the constructor is dropped when the request is done or cancelled.\<close>

definition sub_app_owned :: "raft_client_sub_app \<Rightarrow> bool" where
  "sub_app_owned sa \<longleftrightarrow> \<not> rcrh_ready (rcsa_rh sa) \<and> \<not> rcrh_cancel (rcsa_rh sa)"

text \<open>
  The table: the queue holds the flagged requests, each once; the counter counts the requests; and a
  request has at least the references of its owner, of the queue, and \<open>L\<close> others.
\<close>

definition table_ok ::
  "(raft_net_client_user_id \<Rightarrow> nat) \<Rightarrow> (raft_net_client_user_id \<Rightarrow> (raft_client_sub_app \<times> nat) option)
     \<Rightarrow> raft_net_client_user_id list \<Rightarrow> int \<Rightarrow> bool" where
  "table_ok L R Q cnt \<longleftrightarrow> distinct Q \<and> finite (dom R) \<and> cnt = int (card (dom R)) \<and> (\<forall>k. 0 < L k \<longrightarrow> R k \<noteq> None) \<and>
     (\<forall>k. k \<in> set Q \<longleftrightarrow> (\<exists>sa n. R k = Some (sa, n) \<and> rcrh_sendq (rcsa_rh sa))) \<and>
     (\<forall>k sa n. R k = Some (sa, n) \<longrightarrow> sub_app_ok k sa \<and> 1 \<le> n \<and>
        of_bool (sub_app_owned sa) + of_bool (rcrh_sendq (rcsa_rh sa)) + L k \<le> n)"

lemma table_okD:
  assumes "table_ok L R Q cnt" "R k = Some (sa, n)"
  shows "sub_app_ok k sa" "1 \<le> n" "of_bool (sub_app_owned sa) + of_bool (rcrh_sendq (rcsa_rh sa)) + L k \<le> n"
    "k \<in> set Q \<longleftrightarrow> rcrh_sendq (rcsa_rh sa)" "0 < cnt"
  using assms by (auto simp: table_ok_def card_gt_0_iff)

lemma table_ok_held: "table_ok L R Q cnt \<Longrightarrow> 0 < L k \<Longrightarrow> \<exists>sa n. R k = Some (sa, n)"
  by (fastforce simp: table_ok_def)

lemma table_ok_set:
  assumes "table_ok L R Q cnt" "R k = Some (sa, n)" "sub_app_ok k sa'"
    and "rcrh_sendq (rcsa_rh sa') = rcrh_sendq (rcsa_rh sa)" "1 \<le> n'"
    and "of_bool (sub_app_owned sa') + of_bool (rcrh_sendq (rcsa_rh sa')) + l \<le> n'"
  shows "table_ok (L(k := l)) (R(k \<mapsto> (sa', n'))) Q cnt"
  using assms by (auto simp: table_ok_def insert_absorb domIff)

lemma table_ok_enqueue:
  assumes "table_ok L R Q cnt" "R k = Some (sa, n)" "sub_app_ok k sa'"
    and "\<not> rcrh_sendq (rcsa_rh sa)" "rcrh_sendq (rcsa_rh sa')" "1 \<le> n'"
    and "of_bool (sub_app_owned sa') + 1 + l \<le> n'"
  shows "table_ok (L(k := l)) (R(k \<mapsto> (sa', n'))) (Q @ [k]) cnt"
  using assms by (auto simp: table_ok_def insert_absorb domIff)

lemma table_ok_dequeue:
  assumes "table_ok L R Q cnt" "R k = Some (sa, n)" "sub_app_ok k sa'"
    and "\<not> rcrh_sendq (rcsa_rh sa')" "1 \<le> n'" "of_bool (sub_app_owned sa') + l \<le> n'"
  shows "table_ok (L(k := l)) (R(k \<mapsto> (sa', n'))) (remove1 k Q) cnt"
  using assms by (auto simp: table_ok_def insert_absorb domIff)

lemma table_ok_delete:
  assumes "table_ok L R Q cnt" "R k = Some (sa, n)" "\<not> rcrh_sendq (rcsa_rh sa)"
  shows "table_ok (L(k := 0)) (R(k := None)) Q (cnt - 1)"
proof -
  have "card (dom R - {k}) = card (dom R) - 1" "0 < card (dom R)"
    using assms by (auto simp: table_ok_def domIff card_gt_0_iff card_Diff_singleton_if)
  then show ?thesis
    using assms by (auto simp: table_ok_def)
qed

lemma table_ok_add:
  assumes "table_ok L R Q cnt" "R k = None" "sub_app_ok k sa" "\<not> rcrh_sendq (rcsa_rh sa)"
    "1 \<le> n" "of_bool (sub_app_owned sa) + l \<le> n"
  shows "table_ok (L(k := l)) (R(k \<mapsto> (sa, n))) Q (cnt + 1)"
  using assms by (auto simp: table_ok_def domIff)

section \<open>Completions\<close>

definition wakes :: "raft_net_client_user_id \<Rightarrow> raft_client_event list \<Rightarrow> nat" where
  "wakes k es = length [e \<leftarrow> es. case e of Cl_wake j _ \<Rightarrow> j = k | _ \<Rightarrow> False]"

definition callbacks :: "raft_net_client_user_id \<Rightarrow> raft_client_event list \<Rightarrow> nat" where
  "callbacks k es = length [e \<leftarrow> es. case e of Cl_async_cb j _ _ _ \<Rightarrow> j = k | _ \<Rightarrow> False]"

text \<open>A request that has been accepted owes a wake-up, a callback, or both.\<close>

definition owes_wake :: "raft_client_sub_app \<Rightarrow> bool" where
  "owes_wake sa \<longleftrightarrow> \<not> rcrh_initializing (rcsa_rh sa) \<and> rcrh_blocking (rcsa_rh sa)"

definition owes_callback :: "raft_client_sub_app \<Rightarrow> bool" where
  "owes_callback sa \<longleftrightarrow> \<not> rcrh_initializing (rcsa_rh sa) \<and> rcrh_async_cb (rcsa_rh sa)"

definition owed :: "(raft_client_sub_app \<Rightarrow> bool) \<Rightarrow> (raft_client_sub_app \<times> nat) option \<Rightarrow> nat" where
  "owed f r = (case r of Some (sa, n) \<Rightarrow> of_bool (f sa) | None \<Rightarrow> 0)"

lemma owed_simps [simp]: "owed f None = 0" "owed f (Some (sa, n)) = of_bool (f sa)"
  by (simp_all add: owed_def)

lemma completions_simps [simp]:
  "wakes k [] = 0" "wakes k (es @ fs) = wakes k es + wakes k fs"
  "wakes k (Cl_wake j e # es) = of_bool (j = k) + wakes k es"
  "wakes k (Cl_async_cb j a e b # es) = wakes k es" "wakes k (Cl_send u m iovs # es) = wakes k es"
  "wakes k (Cl_notify # es) = wakes k es" "wakes k (Cl_timer t # es) = wakes k es"
  "callbacks k [] = 0" "callbacks k (es @ fs) = callbacks k es + callbacks k fs"
  "callbacks k (Cl_wake j e # es) = callbacks k es"
  "callbacks k (Cl_async_cb j a e b # es) = of_bool (j = k) + callbacks k es"
  "callbacks k (Cl_send u m iovs # es) = callbacks k es"
  "callbacks k (Cl_notify # es) = callbacks k es" "callbacks k (Cl_timer t # es) = callbacks k es"
  by (simp_all add: wakes_def callbacks_def)

text \<open>What the destructor reports; the buffer of the callback must be in the array.\<close>

definition sub_app_fits :: "raft_client_sub_app \<Rightarrow> bool" where
  "sub_app_fits sa \<longleftrightarrow>
     (rcrh_async_cb (rcsa_rh sa) \<longrightarrow> rcrh_send_niovs (rcsa_rh sa) + 1 < length (rcrh_iovs (rcsa_rh sa)))"

definition completion_events :: "raft_client_sub_app \<Rightarrow> raft_client_event list" where
  "completion_events sa = (let h = rcsa_rh sa; err = - \<bar>rcrh_error h\<bar> in
     (if rcrh_async_cb h then [Cl_async_cb (rcsa_rncui sa) (rcrh_arg h)
        (if rcrh_error h \<noteq> 0 then err else int (rcrh_reply_used_size h))
        (iov_base (rcrh_iovs h ! (rcrh_send_niovs h + 1)))] else []) @
     (if rcrh_blocking h then [Cl_wake (rcsa_rncui sa) err] else []))"

lemma completion_events_count:
  "wakes k (completion_events sa) = of_bool (rcrh_blocking (rcsa_rh sa) \<and> k = rcsa_rncui sa)"
  "callbacks k (completion_events sa) = of_bool (rcrh_async_cb (rcsa_rh sa) \<and> k = rcsa_rncui sa)"
  by (auto simp: completion_events_def Let_def)

lemma destruct_eq:
  assumes "\<not> rcrh_cb_exec (rcsa_rh sa)" "0 < rci_sub_app_cnt rci"
    and "rcrh_blocking (rcsa_rh sa) \<longrightarrow> rcrh_completion_notifier (rcsa_rh sa) = Some 1"
  shows "raft_client_sub_app_destruct sa rci =
    (if sub_app_fits sa then Some (rci\<lparr>rci_events := rci_events rci @ completion_events sa,
       rci_sub_app_cnt := rci_sub_app_cnt rci - 1\<rparr>) else None)"
  using assms by (auto simp: raft_client_sub_app_destruct_def raft_client_sub_app_total_dec_def sub_app_fits_def
      completion_events_def emit_cl_def Let_def)

section \<open>What the operations keep\<close>

definition client_ok ::
  "('t \<Rightarrow> raft_net_client_user_id \<Rightarrow> (raft_client_sub_app \<times> nat) option) \<Rightarrow> (raft_net_client_user_id \<Rightarrow> nat)
     \<Rightarrow> ('b, 't) raft_client_instance \<Rightarrow> bool" where
  "client_ok refs L rci \<longleftrightarrow> table_ok L (refs (rci_sub_apps rci)) (rci_sendq rci) (rci_sub_app_cnt rci)"

definition histories_ok :: "('b, 't) raft_client_instance \<Rightarrow> bool" where
  "histories_ok rci \<longleftrightarrow> (\<forall>ty. rcsarh_size (rci_recent_ops rci ty) \<noteq> 0 \<and> rcsarh_sa (rci_recent_ops rci ty) \<noteq> None)"

definition requests_fit ::
  "('t \<Rightarrow> raft_net_client_user_id \<Rightarrow> (raft_client_sub_app \<times> nat) option) \<Rightarrow> ('b, 't) raft_client_instance \<Rightarrow> bool" where
  "requests_fit refs rci \<longleftrightarrow> (\<forall>k sa n. refs (rci_sub_apps rci) k = Some (sa, n) \<longrightarrow> sub_app_fits sa)"

text \<open>
  What happens to requests in \<open>K\<close> concerns no other, is on record in the events, adds no request, and
  neither loses nor repeats a completion.
\<close>

definition touched ::
  "('t \<Rightarrow> raft_net_client_user_id \<Rightarrow> (raft_client_sub_app \<times> nat) option) \<Rightarrow> raft_net_client_user_id set
     \<Rightarrow> ('b, 't) raft_client_instance \<Rightarrow> ('b, 't) raft_client_instance \<Rightarrow> bool" where
  "touched refs K rci rci' \<longleftrightarrow>
     (\<forall>j. j \<notin> K \<longrightarrow> refs (rci_sub_apps rci') j = refs (rci_sub_apps rci) j) \<and>
     (\<exists>es. rci_events rci' = rci_events rci @ es) \<and>
     (\<forall>j sa' n'. refs (rci_sub_apps rci') j = Some (sa', n') \<longrightarrow> (\<exists>sa n. refs (rci_sub_apps rci) j = Some (sa, n) \<and>
       owes_wake sa' = owes_wake sa \<and> owes_callback sa' = owes_callback sa)) \<and>
     (\<forall>j. wakes j (rci_events rci') + owed owes_wake (refs (rci_sub_apps rci') j) =
       wakes j (rci_events rci) + owed owes_wake (refs (rci_sub_apps rci) j)) \<and>
     (\<forall>j. callbacks j (rci_events rci') + owed owes_callback (refs (rci_sub_apps rci') j) =
       callbacks j (rci_events rci) + owed owes_callback (refs (rci_sub_apps rci) j)) \<and>
     (requests_fit refs rci \<longrightarrow> requests_fit refs rci') \<and> (histories_ok rci \<longrightarrow> histories_ok rci')"

lemma touched_refl [simp]: "touched refs K rci rci"
  by (simp add: touched_def)

lemma touched_trans:
  assumes "touched refs K rci rci'" "touched refs K' rci' rci''" "K \<subseteq> K''" "K' \<subseteq> K''"
  shows "touched refs K'' rci rci''"
proof -
  have "\<exists>sa n. refs (rci_sub_apps rci) j = Some (sa, n) \<and> owes_wake sa' = owes_wake sa \<and> owes_callback sa' = owes_callback sa"
    if "refs (rci_sub_apps rci'') j = Some (sa', n')" for j sa' n'
    using assms(1,2) that unfolding touched_def by metis
  moreover have "\<exists>es. rci_events rci'' = rci_events rci @ es"
    using assms(1,2) unfolding touched_def by (metis append.assoc)
  moreover have "refs (rci_sub_apps rci'') j = refs (rci_sub_apps rci) j" if "j \<notin> K''" for j
    using assms that unfolding touched_def by (metis subsetD)
  ultimately show ?thesis
    using assms(1,2) unfolding touched_def by simp
qed

lemma touched_mono: "touched refs K rci rci' \<Longrightarrow> K \<subseteq> K' \<Longrightarrow> touched refs K' rci rci'"
  by (auto simp: touched_def)

lemma touched_UNIV: "touched refs K rci rci' \<Longrightarrow> touched refs K' rci' rci'' \<Longrightarrow> touched refs UNIV rci rci''"
  by (erule touched_trans) auto

text \<open>A change of the request \<open>k\<close> alone.\<close>

lemma touched_setI:
  assumes "refs (rci_sub_apps rci) k = Some (sa, n)"
    and "refs (rci_sub_apps rci') = (refs (rci_sub_apps rci))(k \<mapsto> (sa', n'))"
    and "rci_events rci' = rci_events rci" "rci_recent_ops rci' = rci_recent_ops rci"
    and "owes_wake sa' = owes_wake sa" "owes_callback sa' = owes_callback sa"
    and "sub_app_fits sa \<longrightarrow> sub_app_fits sa'"
  shows "touched refs {k} rci rci'"
  using assms by (auto simp: touched_def requests_fit_def histories_ok_def)

text \<open>A change of neither the requests nor the completions.\<close>

lemma touched_frameI:
  assumes "refs (rci_sub_apps rci') = refs (rci_sub_apps rci)" "rci_events rci' = rci_events rci @ es"
    and "\<And>k. wakes k es = 0" "\<And>k. callbacks k es = 0" "histories_ok rci \<longrightarrow> histories_ok rci'"
  shows "touched refs K rci rci'"
  using assms by (auto simp: touched_def requests_fit_def)

lemma client_ok_frame:
  assumes "refs (rci_sub_apps rci') = refs (rci_sub_apps rci)" "rci_sendq rci' = rci_sendq rci"
    "rci_sub_app_cnt rci' = rci_sub_app_cnt rci"
  shows "client_ok refs L rci' = client_ok refs L rci"
  using assms by (simp add: client_ok_def)

lemma history_add_item_eq:
  assumes "raft_client_op_history_add_item ty sa rci = Some rci'"
  shows "\<exists>f. rci' = rci\<lparr>rci_recent_ops := f\<rparr>" "histories_ok rci \<longrightarrow> histories_ok rci'"
  using assms by (auto simp: raft_client_op_history_add_item_def bind_Some Let_def histories_ok_def split: if_splits)

lemma history_add_item_defined:
  "\<not> rcrh_history_cache (rcsa_rh sa) \<Longrightarrow> histories_ok rci \<Longrightarrow> \<exists>rci'. raft_client_op_history_add_item ty sa rci = Some rci'"
  unfolding histories_ok_def by (drule spec [of _ ty]) (auto simp: raft_client_op_history_add_item_def Let_def)

section \<open>Operations on one request\<close>

text \<open>What of a request no operation changes between its acceptance and its destruction.\<close>

definition same_request :: "raft_client_sub_app \<Rightarrow> raft_client_sub_app \<Rightarrow> bool" where
  "same_request sa sa' \<longleftrightarrow> rcsa_rncui sa' = rcsa_rncui sa \<and> (let h = rcsa_rh sa; h' = rcsa_rh sa' in
     rcrh_cb_exec h' = rcrh_cb_exec h \<and> rcrh_history_cache h' = rcrh_history_cache h \<and>
     rcrh_initializing h' = rcrh_initializing h \<and> rcrh_blocking h' = rcrh_blocking h \<and>
     rcrh_async_cb h' = rcrh_async_cb h \<and> rcrh_completion_notifier h' = rcrh_completion_notifier h) \<and>
     (sub_app_fits sa \<longrightarrow> sub_app_fits sa')"

lemma same_request_owes:
  assumes "same_request sa sa'"
  shows "owes_wake sa' = owes_wake sa" "owes_callback sa' = owes_callback sa" "sub_app_fits sa \<Longrightarrow> sub_app_fits sa'"
  using assms by (auto simp: same_request_def owes_wake_def owes_callback_def Let_def)

locale client_table = ref_tree rt refs
  for rt :: "'t client_tree" and refs :: "'t \<Rightarrow> raft_net_client_user_id \<Rightarrow> (raft_client_sub_app \<times> nat) option"
begin

lemmas touched_set = touched_setI [where refs = refs]

lemma sa_get_eq: "sa_get rt k rci = map_option fst (refs (rci_sub_apps rci) k)"
  by (simp add: sa_get_def elem)

lemma wp_sa_get:
  assumes "\<And>sa n. refs (rci_sub_apps rci) k = Some (sa, n) \<Longrightarrow> Q sa"
  shows "wp (sa_get rt k rci) Q"
  using assms by (auto simp: wp_def sa_get_eq)

lemma sa_set_refs:
  "refs (rci_sub_apps rci) k = Some (sa, n) \<Longrightarrow>
   refs (rci_sub_apps (sa_set rt k sa' rci)) = (refs (rci_sub_apps rci))(k \<mapsto> (sa', n))"
  by (simp add: sa_set_def set_elem)

lemma sa_ref_refs:
  "refs (rci_sub_apps rci) k = Some (sa, n) \<Longrightarrow>
   refs (rci_sub_apps (sa_ref rt k rci)) = (refs (rci_sub_apps rci))(k \<mapsto> (sa, Suc n))"
  by (simp add: sa_ref_def ref_get)

lemma sa_frames [simp]:
  "rci_sendq (sa_set rt k sa rci) = rci_sendq rci" "rci_sub_app_cnt (sa_set rt k sa rci) = rci_sub_app_cnt rci"
  "rci_events (sa_set rt k sa rci) = rci_events rci" "rci_recent_ops (sa_set rt k sa rci) = rci_recent_ops rci"
  "rci_ri (sa_set rt k sa rci) = rci_ri rci"
  "rci_sendq (sa_ref rt k rci) = rci_sendq rci" "rci_sub_app_cnt (sa_ref rt k rci) = rci_sub_app_cnt rci"
  "rci_events (sa_ref rt k rci) = rci_events rci" "rci_recent_ops (sa_ref rt k rci) = rci_recent_ops rci"
  by (simp_all add: sa_set_def sa_ref_def)

lemma put_eq:
  assumes "client_ok refs L rci" "0 < L k" "refs (rci_sub_apps rci) k = Some (sa, n)"
  obtains t where "refs t = (refs (rci_sub_apps rci))(k := if n = 1 then None else Some (sa, n - 1))"
    "raft_client_sub_app_put rt k rci = (if n = 1 then
       if sub_app_fits sa then Some (rci\<lparr>rci_sub_apps := t, rci_events := rci_events rci @ completion_events sa,
         rci_sub_app_cnt := rci_sub_app_cnt rci - 1\<rparr>) else None
     else Some (rci\<lparr>rci_sub_apps := t\<rparr>))"
proof
  let ?t = "snd (rt_put rt (rci_sub_apps rci) k)"
  note ok = table_okD [OF assms(1) [unfolded client_ok_def] assms(3)]
  show "refs ?t = (refs (rci_sub_apps rci))(k := if n = 1 then None else Some (sa, n - 1))"
    using assms(3) ok(2) by (auto simp: put_snd)
  have "n = 1 \<Longrightarrow> \<not> rcrh_initializing (rcsa_rh sa)"
    using ok(1,3) assms(2) by (auto simp: sub_app_ok_def sub_app_owned_def Let_def split: if_splits)
  then show "raft_client_sub_app_put rt k rci = (if n = 1 then
       if sub_app_fits sa then Some (rci\<lparr>rci_sub_apps := ?t, rci_events := rci_events rci @ completion_events sa,
         rci_sub_app_cnt := rci_sub_app_cnt rci - 1\<rparr>) else None
     else Some (rci\<lparr>rci_sub_apps := ?t\<rparr>))"
    using assms(3) ok put_fst [of "rci_sub_apps rci" k]
    by (auto simp: raft_client_sub_app_put_def sa_get_eq case_prod_beta Let_def destruct_eq sub_app_ok_def)
qed

lemma put_wp:
  assumes "client_ok refs L rci" "0 < L k"
  shows "wp (raft_client_sub_app_put rt k rci) (\<lambda>r. client_ok refs (L(k := L k - 1)) r \<and> touched refs {k} rci r)"
proof -
  obtain sa n where r: "refs (rci_sub_apps rci) k = Some (sa, n)"
    using assms table_ok_held unfolding client_ok_def by blast
  note ok = assms(1) [unfolded client_ok_def]
  note sa = table_okD [OF ok r]
  obtain t where t: "refs t = (refs (rci_sub_apps rci))(k := if n = 1 then None else Some (sa, n - 1))"
    "raft_client_sub_app_put rt k rci = (if n = 1 then
       if sub_app_fits sa then Some (rci\<lparr>rci_sub_apps := t, rci_events := rci_events rci @ completion_events sa,
         rci_sub_app_cnt := rci_sub_app_cnt rci - 1\<rparr>) else None
     else Some (rci\<lparr>rci_sub_apps := t\<rparr>))"
    using put_eq [OF assms r] .
  show ?thesis
  proof (cases "n = 1")
    case True
    then have f: "\<not> rcrh_sendq (rcsa_rh sa)" "\<not> sub_app_owned sa" "L k = 1"
      using sa(3) assms(2) by (auto split: if_splits)
    then have "\<not> rcrh_initializing (rcsa_rh sa)" "rcsa_rncui sa = k"
      using sa(1) by (auto simp: sub_app_ok_def sub_app_owned_def Let_def)
    with True t r table_ok_delete [OF ok r f(1)] f(3) show ?thesis
      by (auto simp: wp_simps client_ok_def touched_def completion_events_count owes_wake_def owes_callback_def
          requests_fit_def histories_ok_def)
  next
    case False
    with table_ok_set [OF ok r sa(1) HOL.refl, of "n - 1" "L k - 1"] sa(2,3) assms(2)
    have "table_ok (L(k := L k - 1)) ((refs (rci_sub_apps rci))(k \<mapsto> (sa, n - 1))) (rci_sendq rci) (rci_sub_app_cnt rci)"
      by auto
    with False t r show ?thesis
      by (auto simp: wp_simps client_ok_def intro!: touched_setI [where sa = sa and n = n])
  qed
qed

lemma put_defined:
  assumes "client_ok refs L rci" "0 < L k" "requests_fit refs rci"
  shows "\<exists>r. raft_client_sub_app_put rt k rci = Some r"
proof -
  obtain sa n where r: "refs (rci_sub_apps rci) k = Some (sa, n)"
    using assms(1,2) table_ok_held unfolding client_ok_def by blast
  show ?thesis
    using put_eq [OF assms(1,2) r] assms(3) r by (metis requests_fit_def)
qed

lemma history_wp:
  assumes "\<And>r. client_ok refs L r = client_ok refs L rci \<Longrightarrow> touched refs K rci r \<Longrightarrow> rci_sub_apps r = rci_sub_apps rci \<Longrightarrow>
    rci_sendq r = rci_sendq rci \<Longrightarrow> rci_events r = rci_events rci \<Longrightarrow> Q r"
  shows "wp (raft_client_op_history_add_item ty sa rci) Q"
proof (rule wpI)
  fix r assume r: "raft_client_op_history_add_item ty sa rci = Some r"
  obtain f where f: "r = rci\<lparr>rci_recent_ops := f\<rparr>" and h: "histories_ok rci \<longrightarrow> histories_ok r"
    using history_add_item_eq [OF r] by blast
  show "Q r"
    by (rule assms) (use f h in \<open>auto simp: client_ok_def intro!: touched_frameI [where es = "[]"]\<close>)
qed

text \<open>
  A request that waits and is then marked as cancelled or completing gives up its owner's reference when
  it is done.
\<close>

lemma done_wp:
  assumes ok: "client_ok refs L rci" and r: "refs (rci_sub_apps rci) k = Some (sa, n)"
    and own: "sub_app_owned sa" "\<not> rcrh_initializing (rcsa_rh sa)"
    and same: "same_request sa sa'" "rcrh_sendq (rcsa_rh sa') = rcrh_sendq (rcsa_rh sa)" "\<not> rcrh_ready (rcsa_rh sa')"
  shows "wp (raft_client_sub_app_done rt k e (sa_set rt k sa' rci)) (\<lambda>r. client_ok refs L r \<and> touched refs {k} rci r)"
proof -
  note sa = table_okD [OF ok [unfolded client_ok_def] r]
  have done': "wp (raft_client_op_history_add_item ty sa'' (sa_set rt k sa'' (sa_set rt k sa' rci)) \<bind>
      raft_client_sub_app_put rt k) (\<lambda>r. client_ok refs L r \<and> touched refs {k} rci r)"
    if sa'': "same_request sa sa''" "\<not> sub_app_owned sa''" "sub_app_ok k sa''"
      "rcrh_sendq (rcsa_rh sa'') = rcrh_sendq (rcsa_rh sa)" for sa'' ty
  proof -
    let ?rci = "sa_set rt k sa'' (sa_set rt k sa' rci)"
    have refs: "refs (rci_sub_apps ?rci) = (refs (rci_sub_apps rci))(k \<mapsto> (sa'', n))"
      by (simp add: sa_set_refs [OF r] sa_set_refs [where sa = sa' and n = n])
    have ok': "client_ok refs (L(k := L k + 1)) ?rci"
      using table_ok_set [OF ok [unfolded client_ok_def] r sa''(3,4) sa(2), of "L k + 1"] sa(3) own(1) sa''(2,4) refs
      by (simp add: client_ok_def)
    have t: "touched refs {k} rci ?rci"
      by (rule touched_set [OF r refs]) (use same_request_owes [OF sa''(1)] in auto)
    show ?thesis
      unfolding wp_bind
    proof (rule history_wp [where L = "L(k := L k + 1)" and K = "{k}"])
      fix x assume x: "client_ok refs (L(k := L k + 1)) x = client_ok refs (L(k := L k + 1)) ?rci"
        "touched refs {k} ?rci x"
      show "wp (raft_client_sub_app_put rt k x) (\<lambda>r. client_ok refs L r \<and> touched refs {k} rci r)"
        by (rule wp_call [OF put_wp [where L = "L(k := L k + 1)"]])
          (use x ok' t in \<open>auto intro: touched_trans\<close>)
    qed
  qed
  have get: "sa_get rt k (sa_set rt k sa' rci) = Some sa'"
    by (simp add: sa_get_eq sa_set_refs [OF r])
  show ?thesis
  proof (cases "rcrh_cancel (rcsa_rh sa')")
    case True
    let ?sa = "sa'\<lparr>rcsa_rh := rcsa_rh sa'\<lparr>rcrh_error := to_int16 e\<rparr>\<rparr>"
    have "same_request sa ?sa" "\<not> sub_app_owned ?sa" "rcrh_sendq (rcsa_rh ?sa) = rcrh_sendq (rcsa_rh sa)"
      using same True by (simp_all add: same_request_def sub_app_owned_def sub_app_fits_def Let_def)
    moreover have "\<not> rcrh_completing (rcsa_rh sa') \<Longrightarrow> sub_app_ok k ?sa"
      using sa(1) own same True by (auto simp: same_request_def sub_app_ok_def Let_def)
    ultimately show ?thesis
      using done' [of ?sa] True same by (auto simp: raft_client_sub_app_done_def get Let_def wp_None)
  next
    case False
    let ?sa = "sa'\<lparr>rcsa_rh := rcsa_rh sa'\<lparr>rcrh_error := to_int16 e, rcrh_completing := False, rcrh_ready := True\<rparr>\<rparr>"
    have "same_request sa ?sa" "\<not> sub_app_owned ?sa" "rcrh_sendq (rcsa_rh ?sa) = rcrh_sendq (rcsa_rh sa)" "sub_app_ok k ?sa"
      using sa(1) own same False
      by (simp_all add: same_request_def sub_app_owned_def sub_app_fits_def sub_app_ok_def Let_def)
    then show ?thesis
      using done' [of ?sa] False same by (auto simp: raft_client_sub_app_done_def get Let_def wp_None)
  qed
qed

lemma cancel_pending_wp:
  assumes "client_ok refs L rci" "refs (rci_sub_apps rci) k = Some (sa, n)"
    and "\<not> rcrh_cancel (rcsa_rh sa)" "\<not> rcrh_initializing (rcsa_rh sa)"
  shows "wp (raft_client_sub_app_cancel_pending_req rt k e rci)
    (\<lambda>x. client_ok refs L (snd x) \<and> touched refs {k} rci (snd x))"
  unfolding raft_client_sub_app_cancel_pending_req_def Let_def
  using assms
  by (auto simp: sa_get_eq wp_simps sub_app_owned_def same_request_def rh_upd_def sub_app_fits_def Let_def
      intro!: wp_call [OF done_wp [OF assms(1,2)]])

lemma queue_add_wp:
  assumes "client_ok refs L rci" "refs (rci_sub_apps rci) k = Some (sa, n)"
  shows "wp (raft_client_request_send_queue_add_locked rt k rci)
    (\<lambda>r. client_ok refs L r \<and> touched refs {k} rci r \<and> refs (rci_sub_apps r) k =
      Some (rh_upd (\<lambda>h. h\<lparr>rcrh_sendq := True\<rparr>) sa, Suc n))"
proof -
  let ?sa = "rh_upd (\<lambda>h. h\<lparr>rcrh_sendq := True\<rparr>) sa"
  note sa = table_okD [OF assms(1) [unfolded client_ok_def] assms(2)]
  have refs: "refs (rci_sub_apps (sa_ref rt k (sa_set rt k ?sa rci))) = (refs (rci_sub_apps rci))(k \<mapsto> (?sa, Suc n))"
    by (simp add: sa_set_refs [OF assms(2)] sa_ref_refs [where sa = ?sa and n = n])
  have "table_ok (L(k := L k)) ((refs (rci_sub_apps rci))(k \<mapsto> (?sa, Suc n))) (rci_sendq rci @ [k]) (rci_sub_app_cnt rci)"
    if "\<not> rcrh_sendq (rcsa_rh sa)" "\<not> rcrh_initializing (rcsa_rh sa)"
    by (rule table_ok_enqueue [OF assms(1) [unfolded client_ok_def] assms(2)])
      (use sa that in \<open>auto simp: sub_app_ok_def rh_upd_def sub_app_owned_def Let_def\<close>)
  then show ?thesis
    unfolding raft_client_request_send_queue_add_locked_def Let_def
    using assms(2) refs
    by (auto simp: sa_get_eq wp_simps client_ok_def owes_wake_def owes_callback_def sub_app_fits_def rh_upd_def
        intro!: touched_set [OF assms(2)])
qed

lemma remove_prep_wp:
  assumes "client_ok refs L rci" "refs (rci_sub_apps rci) k = Some (sa, n)"
  shows "wp (raft_client_request_send_queue_remove_prep_locked rt k rci)
    (\<lambda>x. client_ok refs (L(k := L k + 1)) (snd x) \<and> touched refs {k} rci (snd x) \<and>
      refs (rci_sub_apps (snd x)) k = Some (rh_upd (\<lambda>h. h\<lparr>rcrh_sendq := False\<rparr>) sa, n) \<and>
      (fst x = 0 \<longrightarrow> sub_app_owned sa) \<and> (fst x \<noteq> 0 \<longrightarrow> fst x = - ESTALE) \<and> \<not> rcrh_initializing (rcsa_rh sa))"
proof -
  let ?sa = "rh_upd (\<lambda>h. h\<lparr>rcrh_sendq := False\<rparr>) sa"
  let ?r = "sa_set rt k ?sa (rci\<lparr>rci_sendq := remove1 k (rci_sendq rci)\<rparr>)"
  note sa = table_okD [OF assms(1) [unfolded client_ok_def] assms(2)]
  have "table_ok (L(k := L k + 1)) ((refs (rci_sub_apps rci))(k \<mapsto> (?sa, n))) (remove1 k (rci_sendq rci)) (rci_sub_app_cnt rci)"
    if "rcrh_sendq (rcsa_rh sa)"
    by (rule table_ok_dequeue [OF assms(1) [unfolded client_ok_def] assms(2)])
      (use sa that in \<open>auto simp: sub_app_ok_def rh_upd_def sub_app_owned_def Let_def\<close>)
  moreover have "refs (rci_sub_apps ?r) = (refs (rci_sub_apps rci))(k \<mapsto> (?sa, n))"
    using assms(2) by (simp add: sa_set_def set_elem)
  moreover from this have "touched refs {k} rci ?r"
    by (rule touched_set [OF assms(2)]) (auto simp: owes_wake_def owes_callback_def sub_app_fits_def rh_upd_def)
  ultimately show ?thesis
    unfolding raft_client_request_send_queue_remove_prep_locked_def Let_def
    using assms(2) sa(1)
    by (auto simp: sa_get_eq wp_simps client_ok_def sub_app_owned_def sub_app_ok_def Let_def)
qed

end

interpretation client_reftab: client_table "reftab_ops :: (raft_net_client_user_id, raft_client_sub_app) reftab client_tree" reftab_refs
  by unfold_locales

end
