(* ===== verification/Raft_Clientrun.thy ===== *)
theory Raft_Clientrun
  imports Raft_Clientinv
begin

text \<open>
  The steps of a client - the timer, arriving messages, the sender, submissions and cancellations by
  application threads - and what holds in every run of them.
\<close>

section \<open>Steps that leave the requests alone\<close>

text \<open>Pings and the search for the leader change neither the requests nor the queue and complete nothing.\<close>

definition client_frame :: "('b, 't) raft_client_instance \<Rightarrow> ('b, 't) raft_client_instance \<Rightarrow> bool" where
  "client_frame rci r \<longleftrightarrow> rci_sub_apps r = rci_sub_apps rci \<and> rci_sendq r = rci_sendq rci \<and>
     rci_sub_app_cnt r = rci_sub_app_cnt rci \<and>
     (\<forall>ty. rcsarh_size (rci_recent_ops r ty) = rcsarh_size (rci_recent_ops rci ty) \<and>
       rcsarh_sa (rci_recent_ops r ty) = rcsarh_sa (rci_recent_ops rci ty)) \<and>
     (\<exists>es. rci_events r = rci_events rci @ es \<and> (\<forall>k. wakes k es = 0 \<and> callbacks k es = 0))"

lemma client_frame_ok:
  assumes "client_frame rci r"
  shows "client_ok refs L r = client_ok refs L rci" "touched refs K rci r"
  using assms by (auto simp: client_frame_def client_ok_def histories_ok_def intro!: touched_frameI)

lemma client_frame_refl [simp]: "client_frame rci rci"
  by (simp add: client_frame_def)

lemma client_frame_trans: "client_frame rci r \<Longrightarrow> client_frame r s \<Longrightarrow> client_frame rci s"
  by (auto simp: client_frame_def)

lemma msg_init_frame: "client_frame rci (snd (raft_client_rpc_msg_init ce ty sz dest tag rci))"
  by (auto simp: raft_client_rpc_msg_init_def raft_client_rpc_msg_assign_id_def client_frame_def Let_def case_prod_beta)

lemma ping_frame: "wp (raft_client_ping_raft_service ce rci) (client_frame rci)"
proof (rule wpI)
  fix r assume r: "raft_client_ping_raft_service ce rci = Some r"
  show "client_frame rci r"
  proof (cases "ri_csn_leader (rci_ri rci)")
    case None
    with r show ?thesis by (simp add: raft_client_ping_raft_service_def)
  next
    case (Some leader)
    obtain m s where m: "raft_client_rpc_ping_init ce leader rci = (m, s)"
      by (cases "raft_client_rpc_ping_init ce leader rci")
    then have "client_frame rci s"
      using msg_init_frame [of rci ce RAFT_CLIENT_RPC_MSG_TYPE_PING 0 leader RAFT_NET_TAG_NONE]
      by (simp add: raft_client_rpc_ping_init_def)
    with r Some m show ?thesis
      by (auto simp: raft_client_ping_raft_service_def case_prod_beta Let_def client_frame_def emit_cl_def
          split: sum.splits)
  qed
qed

lemma ping_target_frame: "wp (raft_client_set_ping_target env rci) (client_frame rci)"
  by (rule wpI) (auto simp: raft_client_set_ping_target_def client_frame_def bind_Some Let_def split: if_splits)

lemma timer_ping_frame: "wp (timer_ping ce rci) (client_frame rci)"
  unfolding timer_ping_def
  by (auto simp: wp_simps intro!: wpI [of "ri_csn_leader (rci_ri rci)"] ping_frame
      wp_call [OF ping_target_frame] wp_call [OF ping_frame] intro: client_frame_trans)

lemma reset_cnt_frame: "client_frame rci (raft_client_op_history_reset_cnt ty rci)"
  by (simp add: raft_client_op_history_reset_cnt_def client_frame_def)

lemma emit_frame: "(\<And>k. wakes k es = 0 \<and> callbacks k es = 0) \<Longrightarrow> client_frame rci (emit_cl es rci)"
  by (simp add: client_frame_def emit_cl_def)

context client_table
begin

lemma sa_set_ok:
  assumes "client_ok refs L rci" "refs (rci_sub_apps rci) k = Some (sa, n)"
    and "same_request sa sa'" "rcrh_sendq (rcsa_rh sa') = rcrh_sendq (rcsa_rh sa)"
    and "rcrh_ready (rcsa_rh sa') = rcrh_ready (rcsa_rh sa)" "rcrh_cancel (rcsa_rh sa') = rcrh_cancel (rcsa_rh sa)"
    and "rcrh_completing (rcsa_rh sa') = rcrh_completing (rcsa_rh sa)"
  shows "client_ok refs L (sa_set rt k sa' rci)" "touched refs {k} rci (sa_set rt k sa' rci)"
proof -
  note sa = table_okD [OF assms(1) [unfolded client_ok_def] assms(2)]
  have "table_ok (L(k := L k)) (refs (rci_sub_apps (sa_set rt k sa' rci))) (rci_sendq rci) (rci_sub_app_cnt rci)"
    unfolding sa_set_refs [OF assms(2)]
    by (rule table_ok_set [OF assms(1) [unfolded client_ok_def] assms(2)])
      (use sa assms(3-7) in \<open>auto simp: sub_app_ok_def same_request_def sub_app_owned_def Let_def\<close>)
  then show "client_ok refs L (sa_set rt k sa' rci)"
    unfolding fun_upd_triv by (simp add: client_ok_def)
  show "touched refs {k} rci (sa_set rt k sa' rci)"
    by (rule touched_set [OF assms(2) sa_set_refs [OF assms(2)]]) (use same_request_owes [OF assms(3)] in auto)
qed

section \<open>Expiry\<close>

text \<open>The requests on the list of expired ones, each with a reference of the list.\<close>

definition expirable :: "('b, 't) raft_client_instance \<Rightarrow> raft_net_client_user_id \<Rightarrow> bool" where
  "expirable rci k \<longleftrightarrow> (\<exists>sa n. refs (rci_sub_apps rci) k = Some (sa, n) \<and>
     \<not> rcrh_cancel (rcsa_rh sa) \<and> \<not> rcrh_initializing (rcsa_rh sa))"

lemma expirable_touched: "touched refs K rci rci' \<Longrightarrow> k \<notin> K \<Longrightarrow> expirable rci' k = expirable rci k"
  by (simp add: expirable_def touched_def)

abbreviation listed :: "(raft_net_client_user_id \<Rightarrow> nat) \<Rightarrow> raft_net_client_user_id list \<Rightarrow> raft_net_client_user_id \<Rightarrow> nat" where
  "listed L ks \<equiv> (\<lambda>k. L k + of_bool (k \<in> set ks))"

lemma expire_loop_wp:
  assumes "client_ok refs (listed L ks) rci" "distinct ks" "\<And>k. k \<in> set ks \<Longrightarrow> expirable rci k"
  shows "wp (expire_loop rt ks rci) (\<lambda>r. client_ok refs L r \<and> touched refs (set ks) rci r)"
  using assms
proof (induction ks arbitrary: rci)
  case Nil
  then show ?case by (simp add: wp_simps)
next
  case (Cons k ks)
  obtain sa n where r: "refs (rci_sub_apps rci) k = Some (sa, n)" "\<not> rcrh_cancel (rcsa_rh sa)"
    "\<not> rcrh_initializing (rcsa_rh sa)"
    using Cons.prems(3) [of k] by (auto simp: expirable_def)
  have L: "(listed L (k # ks))(k := listed L (k # ks) k - 1) = listed L ks"
    using Cons.prems(2) by (auto simp: fun_eq_iff)
  show ?case
    unfolding expire_loop.simps wp_bind wp_case_prod
  proof (rule wp_call [OF cancel_pending_wp [OF Cons.prems(1) r]], rule wp_call [OF put_wp])
    fix x r
    assume "client_ok refs (listed L (k # ks)) (snd x) \<and> touched refs {k} rci (snd x)"
      and "client_ok refs ((listed L (k # ks))(k := listed L (k # ks) k - 1)) r \<and> touched refs {k} (snd x) r"
    then have s: "client_ok refs (listed L ks) r" "touched refs {k} rci r"
      using L by (auto intro: touched_trans)
    have "expirable r j" if "j \<in> set ks" for j
      using expirable_touched [OF s(2), of j] that Cons.prems(2,3) by auto
    then show "wp (expire_loop rt ks r) (\<lambda>r. client_ok refs L r \<and> touched refs (set (k # ks)) rci r)"
      by (intro wp_call [OF Cons.IH [OF s(1)]]) (use Cons.prems(2) s(2) in \<open>auto intro: touched_trans\<close>)
  qed auto
qed

text \<open>What one pass of the walk leaves.\<close>

definition walked ::
  "(raft_net_client_user_id \<Rightarrow> nat) \<Rightarrow> raft_net_client_user_id \<Rightarrow> raft_net_client_user_id list \<Rightarrow> ('b, 't) raft_client_instance
     \<Rightarrow> ('b, 't) raft_client_instance \<times> nat \<times> raft_net_client_user_id list \<Rightarrow> bool" where
  "walked L k q rci x = (case x of (r, c, q') \<Rightarrow>
     client_ok refs (listed L q') r \<and> touched refs {k} rci r \<and> (q' = q \<or> q' = k # q \<and> expirable r k))"

lemma check_pending_action_wp:
  assumes ok: "client_ok refs (listed L q) rci" and k: "k \<notin> set q"
    and r: "refs (rci_sub_apps rci) k = Some (sa, n)" "\<not> rcrh_cancel (rcsa_rh sa)" "\<not> rcrh_initializing (rcsa_rh sa)"
  shows "wp (check_pending_action rt ce v k sa rci c q) (walked L k q rci)"
proof -
  note sa = table_okD [OF ok [unfolded client_ok_def] r(1)]
  let ?e = "sa_ref rt k rci"
  let ?d = "sa_set rt k (rh_upd (\<lambda>h. h\<lparr>rcrh_leader_not_viable_delay := False\<rparr>) sa) rci"
  have "listed L (k # q) = (listed L q)(k := listed L q k + 1)"
    using k by (auto simp: fun_eq_iff)
  then have e: "client_ok refs (listed L (k # q)) ?e"
    using table_ok_set [OF ok [unfolded client_ok_def] r(1) sa(1) HOL.refl, of "Suc n" "listed L q k + 1"] sa(3)
    by (simp add: client_ok_def sa_ref_refs [OF r(1)])
  have "touched refs {k} rci ?e"
    by (rule touched_set [OF r(1) sa_ref_refs [OF r(1)]]) auto
  with e r have walk_e: "walked L k q rci (?e, c, k # q)"
    by (simp add: walked_def expirable_def sa_ref_refs [OF r(1)])
  have d: "client_ok refs (listed L q) ?d" "touched refs {k} rci ?d"
    by (rule sa_set_ok [OF ok r(1)]; auto simp: same_request_def sub_app_fits_def rh_upd_def)+
  have add: "wp (raft_client_request_send_queue_add_locked rt k s \<bind> (\<lambda>r. Some (r, c + 1, q))) (walked L k q rci)"
    if "client_ok refs (listed L q) s" "touched refs {k} rci s" for s
  proof (cases "refs (rci_sub_apps s) k")
    case None
    then show ?thesis
      by (simp add: raft_client_request_send_queue_add_locked_def sa_get_eq wp_simps)
  next
    case (Some x)
    with that show ?thesis
      unfolding wp_bind
      by (cases x) (auto simp: walked_def wp_Some intro!: wp_call [OF queue_add_wp [OF that(1)]] intro: touched_trans)
  qed
  show ?thesis
    unfolding check_pending_action_def Let_def
    using walk_e d add [OF d] add [OF ok] ok by (simp add: wp_Some walked_def)
qed

lemma check_pending_request_wp:
  assumes ok: "client_ok refs (listed L q) rci" and k: "k \<notin> set q"
  shows "wp (check_pending_request rt ce v k rci c q) (walked L k q rci)"
proof -
  have hist: "wp (sa_get rt k r) (\<lambda>sa. wp (raft_client_op_history_add_item RAFT_CLIENT_RECENT_OP_TYPE_PENDING sa r)
      (\<lambda>r. walked L k q rci (r, c', q')))"
    if "walked L k q rci (r, c', q')" for r c' q'
    using that
    by (intro wp_sa_get history_wp [where L = "listed L q'" and K = "{}"])
      (auto simp: walked_def expirable_def intro: touched_trans)
  show ?thesis
    unfolding check_pending_request_def wp_bind
  proof (rule wp_sa_get)
    fix sa n assume r: "refs (rci_sub_apps rci) k = Some (sa, n)"
    have "walked L k q rci (rci, c, q)"
      using ok by (simp add: walked_def)
    then show "wp (if rcrh_cancel (rcsa_rh sa) \<or> rcrh_sendq (rcsa_rh sa) \<or> rcrh_initializing (rcsa_rh sa)
      then Some (rci, c, q)
      else do {
        (rci, cnt, expiredq) \<leftarrow> check_pending_action rt ce v k sa rci c q;
        sa \<leftarrow> sa_get rt k rci;
        rci \<leftarrow> raft_client_op_history_add_item RAFT_CLIENT_RECENT_OP_TYPE_PENDING sa rci;
        Some (rci, cnt, expiredq) }) (walked L k q rci)"
      by (auto simp: wp_simps intro!: hist wp_call [OF check_pending_action_wp [OF ok k r]])
  qed
qed

lemma check_pending_loop_wp:
  assumes "client_ok refs (listed L q) rci" "distinct ks" "set ks \<inter> set q = {}" "distinct q"
    and "\<And>k. k \<in> set q \<Longrightarrow> expirable rci k"
  shows "wp (check_pending_loop rt ce v ks rci c q) (\<lambda>(r, c', q'). client_ok refs (listed L q') r \<and>
    touched refs (set ks) rci r \<and> distinct q' \<and> set q' \<subseteq> set q \<union> set ks \<and> (\<forall>k \<in> set q'. expirable r k))"
  using assms
proof (induction ks arbitrary: rci c q)
  case Nil
  then show ?case by (simp add: wp_simps)
next
  case (Cons k ks)
  show ?case
    unfolding check_pending_loop.simps wp_bind
  proof (rule wp_call [OF check_pending_request_wp [OF Cons.prems(1)]])
    show "k \<notin> set q"
      using Cons.prems(3) by auto
    fix x assume w: "walked L k q rci x"
    obtain r c' q' where x: "x = (r, c', q')" by (cases x)
    have r: "client_ok refs (listed L q') r" "touched refs {k} rci r" "q' = q \<or> q' = k # q \<and> expirable r k"
      using w by (auto simp: x walked_def)
    have "expirable r j" if "j \<in> set q'" for j
      using r(3) that Cons.prems(3,5) expirable_touched [OF r(2), of j] by (cases "j = k") auto
    with Cons.prems r(3) show "wp (case x of (rci, cnt, expiredq) \<Rightarrow> check_pending_loop rt ce v ks rci cnt expiredq)
      (\<lambda>(r, c', q'). client_ok refs (listed L q') r \<and> touched refs (set (k # ks)) rci r \<and> distinct q' \<and>
        set q' \<subseteq> set q \<union> set (k # ks) \<and> (\<forall>k \<in> set q'. expirable r k))"
      unfolding x prod.case
      by (intro wp_call [OF Cons.IH [OF r(1)]]) (auto intro: touched_trans [OF r(2)])
  qed
qed

lemma check_pending_wp:
  fixes rci :: "('b, 't) raft_client_instance"
  assumes ok: "client_ok refs L rci"
  shows "wp (raft_client_check_pending_requests rt ce rci) (\<lambda>r. client_ok refs L r \<and> touched refs UNIV rci r)"
proof -
  let ?rci = "raft_client_op_history_reset_cnt RAFT_CLIENT_RECENT_OP_TYPE_PENDING rci"
  have t0: "client_ok refs (listed L []) ?rci" "touched refs UNIV rci ?rci"
    using client_frame_ok [OF reset_cnt_frame] ok by auto
  have after: "wp (expire_loop rt q (if c \<noteq> 0 then emit_cl [Cl_notify] r else r))
      (\<lambda>r. client_ok refs L r \<and> touched refs UNIV rci r)"
    if q: "client_ok refs (listed L q) r" "touched refs K ?rci r" "distinct q" "\<forall>k \<in> set q. expirable r k" for q c r K
  proof -
    let ?r = "if c \<noteq> 0 then emit_cl [Cl_notify] r else r"
    have f: "client_frame r ?r"
      by (auto intro: emit_frame)
    have "client_ok refs (listed L q) ?r"
      using client_frame_ok(1) [OF f] q(1) by blast
    moreover have "touched refs UNIV rci ?r"
      by (rule touched_UNIV [OF touched_UNIV [OF t0(2) q(2)] client_frame_ok(2) [OF f]])
    moreover have "\<And>k. k \<in> set q \<Longrightarrow> expirable ?r k"
      using q(4) f by (simp add: expirable_def client_frame_def)
    ultimately show ?thesis
      using q(3) by (intro wp_call [OF expire_loop_wp]) (auto intro: touched_trans)
  qed
  show ?thesis
    unfolding raft_client_check_pending_requests_def Let_def wp_bind wp_case_prod
  proof (rule wp_call [OF check_pending_loop_wp [OF t0(1)]])
    fix x :: "('b, 't) raft_client_instance \<times> nat \<times> raft_net_client_user_id list"
    assume "case x of (r, c', q') \<Rightarrow> client_ok refs (listed L q') r \<and>
      touched refs (set (rt_foreach rt (rci_sub_apps ?rci))) ?rci r \<and> distinct q' \<and>
      set q' \<subseteq> set [] \<union> set (rt_foreach rt (rci_sub_apps ?rci)) \<and> (\<forall>k \<in> set q'. expirable r k)"
    then show "wp (expire_loop rt (snd (snd x)) (if fst (snd x) \<noteq> 0 then emit_cl [Cl_notify] (fst x) else fst x))
        (\<lambda>r. client_ok refs L r \<and> touched refs UNIV rci r)"
      by (intro after) (auto simp: case_prod_beta)
  qed (simp_all add: foreach(2))
qed

lemma timer_wp:
  assumes ok: "client_ok refs L rci"
  shows "wp (raft_client_timerfd_cb rt ce rci) (\<lambda>r. client_ok refs L r \<and> touched refs UNIV rci r)"
proof -
  have rest: "wp (raft_client_check_pending_requests rt ce s)
      (\<lambda>r. wp (Some (emit_cl [Cl_timer RAFT_CLIENT_TIMERFD_EXPIRE_MS] r))
        (\<lambda>r. client_ok refs L r \<and> touched refs UNIV rci r))" if f: "client_frame rci s" for s
  proof (rule wp_call [OF check_pending_wp])
    show "client_ok refs L s"
      using client_frame_ok(1) [OF f] ok by blast
    fix x assume x: "client_ok refs L x \<and> touched refs UNIV s x"
    let ?x = "emit_cl [Cl_timer RAFT_CLIENT_TIMERFD_EXPIRE_MS] x"
    have e: "client_frame x ?x"
      by (rule emit_frame) simp
    have "touched refs UNIV rci ?x"
      using touched_UNIV [OF touched_UNIV [OF client_frame_ok(2) [OF f]] client_frame_ok(2) [OF e]] x by blast
    then show "wp (Some ?x) (\<lambda>r. client_ok refs L r \<and> touched refs UNIV rci r)"
      using client_frame_ok(1) [OF e] x by (simp add: wp_Some)
  qed
  show ?thesis
    unfolding raft_client_timerfd_cb_def wp_bind by (rule wp_call [OF timer_ping_frame rest])
qed

section \<open>Replies\<close>

lemma lookup_refs:
  assumes "raft_client_sub_app_lookup rt k rci = (s, r)"
  shows "s = map_option fst (refs (rci_sub_apps rci) k)"
    "r = rci\<lparr>rci_sub_apps := snd (rt_lookup rt (rci_sub_apps rci) k)\<rparr>"
  using assms lookup_fst [of "rci_sub_apps rci" k]
  by (auto simp: raft_client_sub_app_lookup_def case_prod_beta Let_def)

lemma lookup_ok:
  assumes ok: "client_ok refs L rci" and lk: "raft_client_sub_app_lookup rt k rci = (Some sa, r)"
  obtains n where "refs (rci_sub_apps r) k = Some (sa, Suc n)" "refs (rci_sub_apps rci) k = Some (sa, n)"
    "client_ok refs (L(k := L k + 1)) r" "touched refs {k} rci r" "rci_ri r = rci_ri rci" "rci_events r = rci_events rci"
proof -
  obtain n where r: "refs (rci_sub_apps rci) k = Some (sa, n)"
    using lookup_refs(1) [OF lk] by (cases "refs (rci_sub_apps rci) k") auto
  have u: "refs (rci_sub_apps r) = (refs (rci_sub_apps rci))(k \<mapsto> (sa, Suc n))"
    using lookup_refs(2) [OF lk] r by (simp add: lookup_snd)
  note sa = table_okD [OF ok [unfolded client_ok_def] r]
  have "table_ok (L(k := L k + 1)) (refs (rci_sub_apps r)) (rci_sendq rci) (rci_sub_app_cnt rci)"
    unfolding u by (rule table_ok_set [OF ok [unfolded client_ok_def] r sa(1) HOL.refl]) (use sa in auto)
  then have "client_ok refs (L(k := L k + 1)) r"
    using lookup_refs(2) [OF lk] by (simp add: client_ok_def)
  moreover have "touched refs {k} rci r"
    by (rule touched_set [OF r u]) (use lookup_refs(2) [OF lk] in auto)
  ultimately show thesis
    using that r u lookup_refs(2) [OF lk] by simp
qed

lemma lookup_none:
  assumes "raft_client_sub_app_lookup rt k rci = (None, r)"
  shows "client_ok refs L r = client_ok refs L rci" "touched refs K rci r"
proof -
  have r: "r = rci\<lparr>rci_sub_apps := snd (rt_lookup rt (rci_sub_apps rci) k)\<rparr>" "refs (rci_sub_apps rci) k = None"
    using lookup_refs [OF assms] by auto
  then have u: "refs (rci_sub_apps r) = refs (rci_sub_apps rci)"
    by (simp add: lookup_snd fun_upd_idem)
  with r(1) show "client_ok refs L r = client_ok refs L rci" "touched refs K rci r"
    by (auto simp: client_ok_def histories_ok_def intro!: touched_frameI [where es = "[]"])
qed

end

text \<open>A reply fills the buffers and marks the request as completing; the rest of it stays.\<close>

definition reply_filled :: "raft_client_request_handle \<Rightarrow> raft_client_request_handle \<Rightarrow> bool" where
  "reply_filled h h' \<longleftrightarrow> rcrh_ready h' = rcrh_ready h \<and> rcrh_cancel h' = rcrh_cancel h \<and> rcrh_sendq h' = rcrh_sendq h \<and>
     rcrh_cb_exec h' = rcrh_cb_exec h \<and> rcrh_history_cache h' = rcrh_history_cache h \<and>
     rcrh_initializing h' = rcrh_initializing h \<and> rcrh_blocking h' = rcrh_blocking h \<and>
     rcrh_async_cb h' = rcrh_async_cb h \<and> rcrh_completion_notifier h' = rcrh_completion_notifier h \<and>
     rcrh_send_niovs h' = rcrh_send_niovs h \<and> length (rcrh_iovs h') = length (rcrh_iovs h)"

lemma reply_alloc_buffer_wp: "wp (reply_alloc_buffer ce h e) (\<lambda>x. reply_filled h (snd x))"
  unfolding reply_alloc_buffer_def Let_def
  by (auto simp: wp_simps reply_filled_def split: option.split)

lemma reply_fill_wp: "wp (reply_fill ce m from t h) (\<lambda>x. reply_filled h (snd x))"
proof -
  let ?h = "h\<lparr>rcrh_reply_size := unat (rcrm_data_size m)\<rparr>"
  have fill: "reply_filled h (g\<lparr>rcrh_sin_reply_addr := from, rcrh_completing := True, rcrh_completion_latency_ms := l\<rparr>)"
    "length is = length (rcrh_iovs g) \<Longrightarrow> reply_filled h (g\<lparr>rcrh_sin_reply_addr := from, rcrh_completing := True,
       rcrh_iovs := is, rcrh_reply_used_size := u, rcrh_completion_latency_ms := l\<rparr>)"
    if "reply_filled ?h g" for g l "is" u
    using that by (simp_all add: reply_filled_def)
  show ?thesis
    unfolding reply_fill_def Let_def wp_bind [of "reply_alloc_buffer _ _ _"] wp_case_prod
    by (rule wp_call [OF reply_alloc_buffer_wp]) (simp add: wp_simps fill)
qed

lemma reply_filled_same: "reply_filled (rcsa_rh sa) h \<Longrightarrow> same_request sa (sa\<lparr>rcsa_rh := h\<rparr>)"
  by (simp add: reply_filled_def same_request_def sub_app_fits_def Let_def)

context client_table
begin

lemma try_complete_wp:
  assumes ok: "client_ok refs L rci"
  shows "wp (raft_client_reply_try_complete rt ce m from rci) (\<lambda>r. client_ok refs L r \<and> touched refs UNIV rci r)"
proof (cases "ce_obj_id_cb ce (rcrm_data m) (unat (rcrm_data_size m))")
  case (Inl e)
  with ok show ?thesis
    by (simp add: raft_client_reply_try_complete_def wp_Some)
next
  case (Inr k)
  obtain s r where lk: "raft_client_sub_app_lookup rt k rci = (s, r)"
    by (cases "raft_client_sub_app_lookup rt k rci")
  show ?thesis
  proof (cases s)
    case None
    with lookup_none [of k rci r] Inr lk ok show ?thesis
      by (simp add: raft_client_reply_try_complete_def wp_Some)
  next
    case (Some sa)
    obtain n where r: "refs (rci_sub_apps r) k = Some (sa, Suc n)" "client_ok refs (L(k := L k + 1)) r" "touched refs {k} rci r"
      using lookup_ok [OF ok lk [unfolded Some]] by metis
    have put: "wp (raft_client_sub_app_put rt k x) (\<lambda>r. client_ok refs L r \<and> touched refs UNIV rci r)"
      if "client_ok refs (L(k := L k + 1)) x" "touched refs K r x" for x K
      by (rule wp_call [OF put_wp [OF that(1)]])
        (use that(2) r(3) in \<open>auto intro: touched_UNIV [OF touched_UNIV]\<close>)
    have complete: "wp (reply_fill ce m from t (rcsa_rh sa)) (\<lambda>x.
        wp (raft_client_sub_app_done rt k (E (fst x)) (sa_set rt k (sa\<lparr>rcsa_rh := snd x\<rparr>) r)) (\<lambda>y.
          wp (raft_client_sub_app_put rt k y) (\<lambda>r. client_ok refs L r \<and> touched refs UNIV rci r)))"
      if "sub_app_owned sa" "\<not> rcrh_initializing (rcsa_rh sa)" for t E
    proof (rule wp_call [OF reply_fill_wp])
      fix x :: "int \<times> raft_client_request_handle"
      assume "reply_filled (rcsa_rh sa) (snd x)"
      with that show "wp (raft_client_sub_app_done rt k (E (fst x)) (sa_set rt k (sa\<lparr>rcsa_rh := snd x\<rparr>) r)) (\<lambda>y.
          wp (raft_client_sub_app_put rt k y) (\<lambda>r. client_ok refs L r \<and> touched refs UNIV rci r))"
        by (intro wp_call [OF done_wp [OF r(2,1)]])
          (auto simp: reply_filled_same reply_filled_def sub_app_owned_def intro: put)
    qed
    have self: "wp (raft_client_sub_app_put rt k r) (\<lambda>r. client_ok refs L r \<and> touched refs UNIV rci r)"
      using put [OF r(2) touched_refl] .
    show ?thesis
      unfolding raft_client_reply_try_complete_def
      using complete [of "rci_last_msg_recvd r" "\<lambda>e. if e \<noteq> 0 then e else rcrm_app_error m"]
      by (simp add: Inr lk Some Let_def wp_bind wp_Some wp_None wp_case_prod self sub_app_owned_def)
  qed
qed

end

end
