(* ===== verification/Raft_Clientsafe.thy ===== *)
theory Raft_Clientsafe
  imports Raft_Clientrun
begin

text \<open>
  The sender and submissions keep the table of requests too. The steps of a client form a transition
  system; its runs keep the table well formed, complete each accepted request at most once, and never
  complete a request that has lost a reference.
\<close>

section \<open>Messages and the sender\<close>

lemma zero_rcrh_simps [simp]:
  "\<not> rcrh_ready zero_rcrh" "\<not> rcrh_completing zero_rcrh" "\<not> rcrh_blocking zero_rcrh" "\<not> rcrh_sendq zero_rcrh"
  "\<not> rcrh_cancel zero_rcrh" "\<not> rcrh_cb_exec zero_rcrh" "\<not> rcrh_history_cache zero_rcrh" "\<not> rcrh_async_cb zero_rcrh"
  by (simp_all add: zero_rcrh_def)

lemma table_ok_queued: "table_ok L R Q cnt \<Longrightarrow> k \<in> set Q \<Longrightarrow> \<exists>sa n. R k = Some (sa, n)"
  unfolding table_ok_def by blast

lemma table_ok_mono: "table_ok L R Q cnt \<Longrightarrow> (\<And>k. L' k \<le> L k) \<Longrightarrow> table_ok L' R Q cnt"
  unfolding table_ok_def by (meson add_left_mono order_trans less_le_trans)

lemma ping_reply_frame: "client_frame rci (raft_client_process_ping_reply m s rci)"
  by (simp add: raft_client_process_ping_reply_def raft_client_instance_reset_leader_info_def
      raft_client_instance_progress_leader_info_def client_frame_def Let_def)

lemma redirect_frame: "wp (raft_client_update_leader_from_redirect env m rci) (client_frame rci)"
  by (rule wpI) (auto simp: raft_client_update_leader_from_redirect_def bind_Some Let_def client_frame_def
      raft_client_instance_reset_leader_info_def)

text \<open>The results of sending after which the request has lost a reference for good.\<close>

definition send_failed :: "int \<Rightarrow> bool" where
  "send_failed rc \<longleftrightarrow> rc \<noteq> 0 \<and> rc \<noteq> - EAGAIN \<and> rc \<noteq> - ESTALE"

text \<open>No completion is lost or repeated.\<close>

definition balanced ::
  "('t \<Rightarrow> raft_net_client_user_id \<Rightarrow> (raft_client_sub_app \<times> nat) option)
     \<Rightarrow> ('b, 't) raft_client_instance \<Rightarrow> ('b, 't) raft_client_instance \<Rightarrow> bool" where
  "balanced refs rci rci' \<longleftrightarrow>
     (\<forall>j. wakes j (rci_events rci') + owed owes_wake (refs (rci_sub_apps rci') j) =
       wakes j (rci_events rci) + owed owes_wake (refs (rci_sub_apps rci) j)) \<and>
     (\<forall>j. callbacks j (rci_events rci') + owed owes_callback (refs (rci_sub_apps rci') j) =
       callbacks j (rci_events rci) + owed owes_callback (refs (rci_sub_apps rci) j))"

lemma touched_balanced: "touched refs K rci r \<Longrightarrow> balanced refs rci r"
  by (simp add: touched_def balanced_def)

lemma balanced_trans: "balanced refs rci r \<Longrightarrow> balanced refs r s \<Longrightarrow> balanced refs rci s"
  by (simp add: balanced_def)

context client_table
begin

definition keeps :: "(raft_net_client_user_id \<Rightarrow> nat) \<Rightarrow> ('b, 't) raft_client_instance \<Rightarrow> ('b, 't) raft_client_instance \<Rightarrow> bool" where
  "keeps L rci r \<longleftrightarrow> client_ok refs L r \<and> balanced refs rci r \<and> (\<forall>j. 0 < L j \<longrightarrow>
     owed owes_wake (refs (rci_sub_apps r) j) = owed owes_wake (refs (rci_sub_apps rci) j) \<and>
     owed owes_callback (refs (rci_sub_apps r) j) = owed owes_callback (refs (rci_sub_apps rci) j))"

lemma keepsI:
  assumes "client_ok refs L r" "touched refs K rci r"
  shows "keeps L rci r"
proof -
  have "owed owes_wake (refs (rci_sub_apps r) j) = owed owes_wake (refs (rci_sub_apps rci) j) \<and>
      owed owes_callback (refs (rci_sub_apps r) j) = owed owes_callback (refs (rci_sub_apps rci) j)" if L: "0 < L j" for j
  proof -
    obtain sa n where "refs (rci_sub_apps r) j = Some (sa, n)"
      using table_ok_held [where L = L and k = j, OF assms(1) [unfolded client_ok_def] L] by blast
    with assms(2) show ?thesis
      by (fastforce simp: touched_def)
  qed
  with assms show ?thesis
    by (simp add: keeps_def touched_balanced)
qed

lemma keeps_directI:
  assumes "client_ok refs L r" "balanced refs rci r" "L k = 0"
    and "\<And>j. j \<noteq> k \<Longrightarrow> refs (rci_sub_apps r) j = refs (rci_sub_apps rci) j"
  shows "keeps L rci r"
  using assms unfolding keeps_def by (metis less_irrefl)

lemma keeps_refl: "client_ok refs L rci \<Longrightarrow> keeps L rci rci"
  by (erule keepsI) (rule touched_refl)

lemma keeps_trans: "keeps L rci r \<Longrightarrow> keeps L r s \<Longrightarrow> keeps L rci s"
  unfolding keeps_def using balanced_trans by metis

lemma keeps_frame: "client_ok refs L rci \<Longrightarrow> client_frame rci r \<Longrightarrow> keeps L rci r"
  using client_frame_ok keepsI by blast

lemma keeps_ok: "keeps L rci r \<Longrightarrow> client_ok refs L r"
  by (simp add: keeps_def)

lemma wp_keeps_after_frame:
  assumes "client_frame rci s" "client_ok refs L rci" "client_ok refs L s \<Longrightarrow> wp m (keeps L s)"
  shows "wp m (keeps L rci)"
  by (rule wp_call [OF assms(3)]) (use keeps_frame [OF assms(2,1)] in \<open>auto intro: keeps_trans keeps_ok\<close>)

lemma try_complete_keeps: "client_ok refs L rci \<Longrightarrow> wp (raft_client_reply_try_complete rt ce m from rci) (keeps L rci)"
  by (rule wp_call [OF try_complete_wp]) (auto intro: keepsI)

lemma timer_keeps: "client_ok refs L rci \<Longrightarrow> wp (raft_client_timerfd_cb rt ce rci) (keeps L rci)"
  by (rule wp_call [OF timer_wp]) (auto intro: keepsI)

lemma process_reply_keeps:
  assumes "client_ok refs L rci"
  shows "wp (raft_client_recv_handler_process_reply rt ce m s from rci) (keeps L rci)"
proof -
  have "wp (raft_client_reply_try_complete rt ce m from (rci\<lparr>rci_last_request_ackd := t\<rparr>)) (keeps L rci)" for t
    by (rule wp_keeps_after_frame [OF _ assms try_complete_keeps]) (simp add: client_frame_def)
  with keeps_refl [OF assms] show ?thesis
    unfolding raft_client_recv_handler_process_reply_def by (simp add: wp_Some)
qed

lemma recv_handler_keeps:
  assumes ok: "client_ok refs L rci"
  shows "wp (raft_client_recv_handler rt ce m bytes from rci) (keeps L rci)"
proof -
  let ?r = "\<lambda>ri t. rci\<lparr>rci_ri := ri, rci_last_msg_recvd := t\<rparr>"
  have f: "client_frame rci (?r ri t)" for ri t
    by (simp add: client_frame_def)
  have reply: "wp (raft_client_recv_handler_process_reply rt ce m s from (?r ri t)) (keeps L rci)" for s ri t
    by (rule wp_keeps_after_frame [OF f ok process_reply_keeps])
  have redirect: "wp (raft_client_update_leader_from_redirect env m (?r ri t)) (keeps L rci)" for env ri t
    by (rule wp_call [OF redirect_frame keeps_frame [OF ok client_frame_trans [OF f]]])
  note others = keeps_frame [OF ok f] keeps_frame [OF ok client_frame_trans [OF f ping_reply_frame]] keeps_refl [OF ok]
  show ?thesis
    unfolding raft_client_recv_handler_def Let_def
    by (simp add: wp_Some wp_None reply redirect others split: option.split sum.split)
qed

text \<open>What sending leaves of a request.\<close>

definition launched ::
  "(raft_net_client_user_id \<Rightarrow> nat) \<Rightarrow> ('b, 't) raft_client_instance \<Rightarrow> raft_net_client_user_id \<Rightarrow> raft_client_sub_app
     \<Rightarrow> nat \<Rightarrow> ('b, 't) raft_client_instance \<Rightarrow> bool" where
  "launched L rci k sa n s \<longleftrightarrow> client_ok refs L s \<and> touched refs {k} rci s \<and>
    (\<exists>sa'. refs (rci_sub_apps s) k = Some (sa', n) \<and> same_request sa sa' \<and>
      sub_app_owned sa' = sub_app_owned sa \<and> rcrh_sendq (rcsa_rh sa') = rcrh_sendq (rcsa_rh sa))"

lemma launch_wp:
  assumes ok: "client_ok refs L rci" and r: "refs (rci_sub_apps rci) k = Some (sa, n)"
  shows "wp (raft_client_rpc_launch rt ce k rci) (\<lambda>x. launched L rci k sa n (snd x))"
proof -
  let ?sa = "rh_upd (\<lambda>h. h\<lparr>rcrh_last_send := env_realtime (ce_env ce), rcrh_num_sends := Suc (rcrh_num_sends h)\<rparr>) sa"
  have f: "client_frame rci (rci\<lparr>rci_ri := ri\<rparr>)" "client_frame rci (rci\<lparr>rci_ri := ri, rci_last_request_sent := t\<rparr>)" for ri t
    by (simp_all add: client_frame_def)
  have same: "same_request sa ?sa" "rcrh_sendq (rcsa_rh ?sa) = rcrh_sendq (rcsa_rh sa)"
    "rcrh_ready (rcsa_rh ?sa) = rcrh_ready (rcsa_rh sa)" "rcrh_cancel (rcsa_rh ?sa) = rcrh_cancel (rcsa_rh sa)"
    "rcrh_completing (rcsa_rh ?sa) = rcrh_completing (rcsa_rh sa)" "same_request sa sa"
    by (auto simp: same_request_def sub_app_fits_def rh_upd_def Let_def)
  have sent: "launched L rci k sa n s"
    if s: "client_frame (sa_set rt k ?sa (rci\<lparr>rci_ri := ri, rci_last_request_sent := t\<rparr>)) s" for ri t s
  proof -
    let ?r = "rci\<lparr>rci_ri := ri, rci_last_request_sent := t\<rparr>"
    have r': "refs (rci_sub_apps ?r) k = Some (sa, n)" and ok': "client_ok refs L ?r"
      using r ok client_frame_ok(1) [OF f(2)] by auto
    note set = sa_set_ok [OF ok' r' same(1-5)]
    have "touched refs {k} ?r s"
      by (rule touched_trans [OF set(2) client_frame_ok(2) [OF s, where K = "{}"]]) auto
    then have "touched refs {k} rci s"
      by (rule touched_trans [OF client_frame_ok(2) [OF f(2), where K = "{}"]]) auto
    moreover have "refs (rci_sub_apps s) k = Some (?sa, n)"
      using s sa_set_refs [OF r', of ?sa] by (simp add: client_frame_def)
    ultimately show ?thesis
      using set(1) client_frame_ok(1) [OF s] same by (auto simp: launched_def sub_app_owned_def)
  qed
  have fail: "launched L rci k sa n (rci\<lparr>rci_ri := ri\<rparr>)" for ri
    using ok client_frame_ok [OF f(1)] r same(6) by (auto simp: launched_def)
  have get: "sa_get rt k rci = Some sa"
    using r by (simp add: sa_get_eq)
  show ?thesis
    unfolding raft_client_rpc_launch_def Let_def case_prod_beta get
    by (simp add: wp_simps fail) (auto intro!: wpI sent [OF client_frame_refl] sent [OF emit_frame])
qed

lemma dequeue_wp:
  fixes rci :: "('b, 't) raft_client_instance"
  assumes ok: "client_ok refs L rci"
  shows "wp (raft_client_rpc_sendq_dequeue_head_and_send rt ce rci) (\<lambda>x. keeps L rci (snd x) \<and>
    (\<forall>k ks. send_failed (fst x) \<longrightarrow> rci_sendq rci = k # ks \<longrightarrow> keeps (L(k := L k + 1)) rci (snd x)))"
proof (cases "rci_sendq rci")
  case Nil
  then show ?thesis
    using keeps_refl [OF ok] by (simp add: raft_client_rpc_sendq_dequeue_head_and_send_def wp_Some)
next
  case (Cons k ks)
  then obtain sa n where r: "refs (rci_sub_apps rci) k = Some (sa, n)"
    using table_ok_queued [OF ok [unfolded client_ok_def], of k] by auto
  let ?sa = "rh_upd (\<lambda>h. h\<lparr>rcrh_sendq := False\<rparr>) sa"
  let ?L = "L(k := L k + 1)"
  let ?P = "\<lambda>e s. keeps L rci s \<and> (send_failed e \<longrightarrow> keeps ?L rci s)"
  have drop: "wp (raft_client_request_send_queue_remove_done rt k s) (keeps L rci)"
    if "client_ok refs ?L s" "touched refs UNIV rci s" for s
    unfolding raft_client_request_send_queue_remove_done_def wp_bind wp_assert
    by (intro wp_sa_get impI wp_call [OF put_wp [OF that(1)]]) (use that(2) in \<open>auto intro: keepsI [OF _ touched_UNIV]\<close>)
  have finish: "wp (sendq_head_launch rt ce k s) (\<lambda>y. wp (if fst (snd y) then raft_client_sub_app_done rt k (fst y) (snd (snd y))
        else raft_client_request_send_queue_remove_done rt k (snd (snd y))) (?P (fst y)))"
    if s: "client_ok refs ?L s" "touched refs UNIV rci s" "refs (rci_sub_apps s) k = Some (?sa, n)"
      "sub_app_owned sa" "\<not> rcrh_initializing (rcsa_rh sa)" for s
    unfolding sendq_head_launch_def wp_bind wp_case_prod
  proof (rule wp_call [OF launch_wp [OF s(1,3)]])
    fix x :: "int \<times> ('b, 't) raft_client_instance"
    assume l: "launched ?L s k ?sa n (snd x)"
    then obtain sa' where sa': "refs (rci_sub_apps (snd x)) k = Some (sa', n)" "same_request ?sa sa'"
        "sub_app_owned sa'" "\<not> rcrh_initializing (rcsa_rh sa')"
      using s(4,5) by (auto simp: launched_def same_request_def sub_app_owned_def rh_upd_def Let_def)
    have ok': "client_ok refs ?L (snd x)" "touched refs UNIV rci (snd x)"
      using l s(2) by (auto simp: launched_def intro: touched_UNIV)
    let ?c = "rh_upd (\<lambda>h. h\<lparr>rcrh_cancel := True, rcrh_send_failed := True\<rparr>) sa'"
    have "same_request sa' ?c" "rcrh_sendq (rcsa_rh ?c) = rcrh_sendq (rcsa_rh sa')" "\<not> rcrh_ready (rcsa_rh ?c)"
      using sa'(3) by (simp_all add: same_request_def sub_app_owned_def sub_app_fits_def rh_upd_def Let_def)
    note d = done_wp [OF ok'(1) sa'(1,3,4) this]
    have weaker: "client_ok refs L x" if "client_ok refs ?L x" for x
      using table_ok_mono [OF that [unfolded client_ok_def], of L] by (simp add: client_ok_def)
    have cancelled: "wp (raft_client_sub_app_done rt k e (sa_set rt k ?c (snd x))) (?P e)" for e
      by (rule wp_call [OF d]) (use ok'(2) in \<open>blast intro: weaker keepsI [OF _ touched_UNIV]\<close>)
    have get: "sa_get rt k (snd x) = Some sa'"
      using sa'(1) by (simp add: sa_get_eq)
    show "wp (if fst x \<noteq> 0 \<and> fst x \<noteq> - EAGAIN then do {
          sa \<leftarrow> sa_get rt k (snd x);
          Some (fst x, True, sa_set rt k (rh_upd (\<lambda>h. h\<lparr>rcrh_cancel := True, rcrh_send_failed := True\<rparr>) sa) (snd x)) }
        else Some (fst x, False, snd x))
      (\<lambda>y. wp (if fst (snd y) then raft_client_sub_app_done rt k (fst y) (snd (snd y))
        else raft_client_request_send_queue_remove_done rt k (snd (snd y))) (?P (fst y)))"
      using cancelled [of "fst x"] wp_call [OF drop [OF ok'], of "?P (fst x)"] by (auto simp: get wp_Some send_failed_def)
  qed
  show ?thesis
    unfolding raft_client_rpc_sendq_dequeue_head_and_send_def Cons list.case wp_bind wp_case_prod
    using finish wp_call [OF drop, of _ "?P (- ESTALE)"]
    by (intro wp_call [OF remove_prep_wp [OF ok r]]) (auto simp: wp_simps send_failed_def intro: touched_mono)
qed

lemma dequeue_keeps:
  "client_ok refs L rci \<Longrightarrow> wp (raft_client_rpc_sendq_dequeue_head_and_send rt ce rci) (\<lambda>x. keeps L rci (snd x))"
  by (rule wp_call [OF dequeue_wp]) auto

lemma sender_loop_keeps:
  "client_ok refs L rci \<Longrightarrow> wp (rpc_sender_loop rt ce m rci) (keeps L rci)"
proof (induction "length (rci_sendq rci)" arbitrary: m rci rule: less_induct)
  case less
  show ?case
  proof (cases "raft_client_rpc_sendq_dequeue_head_and_send rt ce rci")
    case None
    then show ?thesis
      using keeps_refl [OF less.prems] by (subst rpc_sender_loop.simps) (simp add: wp_Some wp_None)
  next
    case (Some x)
    obtain rc r where x: "x = (rc, r)" by (cases x)
    have r: "keeps L rci r"
      using wpD [OF dequeue_keeps [OF less.prems] Some] by (simp add: x)
    let ?r = "r\<lparr>rci_interval_rpc_cnt := rci_interval_rpc_cnt r + 1\<rparr>"
    have "client_frame r ?r"
      by (simp add: client_frame_def)
    then have r': "keeps L rci ?r"
      using r keeps_frame keeps_ok keeps_trans by blast
    have shorter: "rc \<noteq> - ENOENT \<Longrightarrow> length (rci_sendq r) < length (rci_sendq rci)"
      using dequeue_progress [OF Some [unfolded x]] .
    have "wp (rpc_sender_loop rt ce n r) (keeps L rci)" "wp (rpc_sender_loop rt ce n ?r) (keeps L rci)" if "rc \<noteq> - ENOENT" for n
      using wp_call [OF less.hyps [OF _ keeps_ok [OF r]] keeps_trans [OF r]] that
        wp_call [OF less.hyps [OF _ keeps_ok [OF r']] keeps_trans [OF r']] shorter by auto
    then show ?thesis
      using r keeps_refl [OF less.prems]
      by (subst rpc_sender_loop.simps) (simp add: wp_Some Some x)
  qed
qed

lemma sender_keeps:
  assumes ok: "client_ok refs L rci"
  shows "wp (raft_client_rpc_sender rt ce rci) (keeps L rci)"
proof -
  have f: "client_frame rci (rci\<lparr>rci_interval_start := t, rci_interval_rpc_cnt := 0\<rparr>)"
    "client_frame s (s\<lparr>rci_requests_throttled := True\<rparr>)"
    "client_frame s (emit_cl [Cl_notify] (s\<lparr>rci_requests_throttled := True\<rparr>))" for t and s :: "('b, 'c) raft_client_instance"
    by (simp_all add: client_frame_def emit_cl_def)
  have g: "keeps L rci (s\<lparr>rci_requests_throttled := True\<rparr>)"
    "keeps L rci (emit_cl [Cl_notify] (s\<lparr>rci_requests_throttled := True\<rparr>))" if "keeps L rci s" for s
    using keeps_trans [OF that keeps_frame [OF keeps_ok [OF that]]] f(2,3) by blast+
  have loop: "wp (rpc_sender_loop rt ce m s) (\<lambda>x. wp (Some (if rci_sendq x \<noteq> [] then emit_cl [Cl_notify] (x\<lparr>rci_requests_throttled := True\<rparr>) else x))
      (keeps L rci))" if "keeps L rci s" for m s
    by (rule wp_call [OF sender_loop_keeps [OF keeps_ok [OF that]]])
      (use that in \<open>auto simp: wp_Some intro: g keeps_trans\<close>)
  have start: "keeps L rci (if c then rci\<lparr>rci_interval_start := t, rci_interval_rpc_cnt := 0\<rparr> else rci)" for c t
    using keeps_refl [OF ok] keeps_frame [OF ok f(1)] by simp
  show ?thesis
    unfolding raft_client_rpc_sender_def Let_def wp_if wp_bind
    using g(1) [OF start] loop [OF start] by (simp add: wp_Some)
qed

section \<open>Submission and cancellation\<close>

lemma add_wp:
  assumes ok: "client_ok refs L rci"
  shows "wp (raft_client_sub_app_add rt ce k rci) (\<lambda>x. if fst x
    then L k = 0 \<and> keeps L rci (snd x) \<and>
      refs (rci_sub_apps (snd x)) k = Some (\<lparr>rcsa_rncui = k, rcsa_rh = zero_rcrh\<lparr>rcrh_initializing := True\<rparr>\<rparr>, 1)
    else keeps L rci (snd x))"
proof -
  let ?c = "raft_client_sub_app_construct ce k"
  let ?r = "rci\<lparr>rci_sub_apps := snd (rt_get_add rt (rci_sub_apps rci) k ?c)\<rparr>"
  note ok' = ok [unfolded client_ok_def]
  show ?thesis
  proof (cases "refs (rci_sub_apps rci) k")
    case None
    then have L: "L k = 0"
      using table_ok_held [OF ok', of k] by auto
    show ?thesis
    proof (cases ?c)
      case no: None
      have "refs (rci_sub_apps ?r) = refs (rci_sub_apps rci)"
        using None no by (simp add: get_add_snd fun_upd_idem)
      then have "keeps L rci ?r"
        using ok by (intro keepsI [where K = "{}"])
          (auto simp: client_ok_def histories_ok_def intro!: touched_frameI [where es = "[]"])
      then show ?thesis
        using None no get_add_fst [of "rci_sub_apps rci" k ?c]
        by (simp add: raft_client_sub_app_add_def case_prod_beta Let_def wp_Some)
    next
      case (Some sa)
      then have sa: "sa = \<lparr>rcsa_rncui = k, rcsa_rh = zero_rcrh\<lparr>rcrh_initializing := True\<rparr>\<rparr>"
        by (auto simp: raft_client_sub_app_construct_def split: if_splits)
      have u: "refs (rci_sub_apps ?r) = (refs (rci_sub_apps rci))(k \<mapsto> (sa, 1))"
        using None Some by (simp add: get_add_snd)
      let ?s = "?r\<lparr>rci_sub_app_cnt := rci_sub_app_cnt rci + 1\<rparr>"
      have "table_ok (L(k := L k)) ((refs (rci_sub_apps rci))(k \<mapsto> (sa, 1))) (rci_sendq rci) (rci_sub_app_cnt rci + 1)"
        by (rule table_ok_add [OF ok' None]) (auto simp: sa sub_app_ok_def sub_app_owned_def L)
      then have "client_ok refs L ?s"
        using u by (simp add: client_ok_def)
      moreover have "balanced refs rci ?s"
        using u None by (auto simp: balanced_def owes_wake_def owes_callback_def sa)
      ultimately have "keeps L rci ?s"
        using u by (intro keeps_directI [where k = k and L = L, OF _ _ L]) auto
      then show ?thesis
        using None Some u sa L get_add_fst [of "rci_sub_apps rci" k ?c]
        by (simp add: raft_client_sub_app_add_def raft_client_sub_app_total_inc_def case_prod_beta Let_def wp_simps)
    qed
  next
    case (Some x)
    obtain sa n where x: "x = (sa, n)" by (cases x)
    note r = Some [unfolded x]
    have u: "refs (rci_sub_apps ?r) = (refs (rci_sub_apps rci))(k \<mapsto> (sa, Suc n))"
      using r by (simp add: get_add_snd)
    note o = table_okD [OF ok' r]
    have "table_ok (L(k := L k + 1)) ((refs (rci_sub_apps rci))(k \<mapsto> (sa, Suc n))) (rci_sendq rci) (rci_sub_app_cnt rci)"
      by (rule table_ok_set [OF ok' r o(1) HOL.refl]) (use o in auto)
    then have "client_ok refs (L(k := L k + 1)) ?r"
      using u by (simp add: client_ok_def)
    moreover have "touched refs {k} rci ?r"
      by (rule touched_set [OF r u]) auto
    ultimately have "wp (raft_client_sub_app_put rt k ?r) (keeps L rci)"
      by (intro wp_call [OF put_wp]) (auto intro: keepsI [OF _ touched_UNIV])
    then show ?thesis
      using r get_add_fst [of "rci_sub_apps rci" k ?c]
      by (simp add: raft_client_sub_app_add_def case_prod_beta Let_def wp_simps)
  qed
qed

end

text \<open>The handle of a submission keeps the flags of a fresh request.\<close>

definition handle_started :: "raft_client_request_handle \<Rightarrow> raft_client_request_handle \<Rightarrow> bool" where
  "handle_started h h' \<longleftrightarrow> rcrh_initializing h' \<and> rcrh_ready h' = rcrh_ready h \<and> rcrh_cancel h' = rcrh_cancel h \<and>
     rcrh_sendq h' = rcrh_sendq h \<and> rcrh_completing h' = rcrh_completing h \<and> rcrh_cb_exec h' = rcrh_cb_exec h \<and>
     rcrh_history_cache h' = rcrh_history_cache h"

lemma handle_init_wp:
  "wp (raft_client_request_handle_init ce sub now h rci)
    (\<lambda>x. client_frame rci (snd x) \<and> (\<forall>h'. fst x = Inr h' \<longrightarrow> handle_started h h'))"
  unfolding raft_client_request_handle_init_def Let_def
  by (auto simp: wp_simps handle_started_def msg_init_frame split: option.split sum.split)

context client_table
begin

text \<open>A request whose initialisation failed is dropped without a word.\<close>

lemma put_fresh_keeps:
  assumes ok: "client_ok refs L rci" and L: "L k = 0"
    and r: "refs (rci_sub_apps rci) k = Some (\<lparr>rcsa_rncui = k, rcsa_rh = zero_rcrh\<lparr>rcrh_initializing := True\<rparr>\<rparr>, 1)"
  shows "wp (raft_client_sub_app_put rt k rci) (keeps L rci)"
proof -
  let ?sa = "\<lparr>rcsa_rncui = k, rcsa_rh = zero_rcrh\<lparr>rcrh_initializing := True\<rparr>\<rparr>"
  let ?t = "snd (rt_put rt (rci_sub_apps rci) k)"
  let ?r = "rci\<lparr>rci_sub_apps := ?t, rci_sub_app_cnt := rci_sub_app_cnt rci - 1\<rparr>"
  note o = table_okD [OF ok [unfolded client_ok_def] r]
  have e: "completion_events ?sa = []" "sub_app_fits ?sa"
    by (simp_all add: completion_events_def sub_app_fits_def Let_def)
  have "raft_client_sub_app_put rt k rci = Some ?r"
    using r o(5) put_fst [of "rci_sub_apps rci" k]
    by (simp add: raft_client_sub_app_put_def sa_get_eq case_prod_beta Let_def destruct_eq e)
  moreover have "table_ok (L(k := 0)) (refs (rci_sub_apps ?r)) (rci_sendq rci) (rci_sub_app_cnt rci - 1)"
    using table_ok_delete [OF ok [unfolded client_ok_def] r] r by (simp add: put_snd)
  then have "client_ok refs L ?r"
    using L by (simp add: client_ok_def fun_upd_idem)
  moreover have "balanced refs rci ?r"
    using r by (auto simp: balanced_def put_snd owes_wake_def owes_callback_def)
  ultimately show ?thesis
    by (auto simp: wp_Some put_snd intro!: keeps_directI [where k = k and L = L, OF _ _ L])
qed

lemma submit_fill_keeps:
  assumes ok: "client_ok refs L rci" and k: "k = sub_rncui sub" and L: "L k = 0"
    and r: "refs (rci_sub_apps rci) k = Some (\<lparr>rcsa_rncui = k, rcsa_rh = zero_rcrh\<lparr>rcrh_initializing := True\<rparr>\<rparr>, 1)"
  shows "wp (request_submit_fill rt ce sub rci) (\<lambda>x. keeps L rci (snd x))"
proof -
  let ?sa = "\<lparr>rcsa_rncui = k, rcsa_rh = zero_rcrh\<lparr>rcrh_initializing := True\<rparr>\<rparr>"
  have get: "sa_get rt k rci = Some ?sa"
    using r by (simp add: sa_get_eq)
  have fail: "wp (raft_client_sub_app_put rt k s) (keeps L rci)" if f: "client_frame rci s" for s
    by (rule wp_keeps_after_frame [OF f ok put_fresh_keeps [where L = L and k = k, OF _ L]])
      (use f r in \<open>auto simp: client_frame_def\<close>)
  have filled: "keeps L rci (sa_set rt k \<lparr>rcsa_rncui = k, rcsa_rh = h\<rparr> s)"
    if f: "client_frame rci s" and h: "handle_started (rcsa_rh ?sa) h" for s h
  proof -
    have ok': "client_ok refs L s" and r': "refs (rci_sub_apps s) k = Some (?sa, 1)"
      using f r ok client_frame_ok(1) [OF f] by (auto simp: client_frame_def)
    note u = sa_set_refs [OF r', of "\<lparr>rcsa_rncui = k, rcsa_rh = h\<rparr>"]
    have "table_ok (L(k := L k)) (refs (rci_sub_apps (sa_set rt k \<lparr>rcsa_rncui = k, rcsa_rh = h\<rparr> s))) (rci_sendq s) (rci_sub_app_cnt s)"
      unfolding u by (rule table_ok_set [OF ok' [unfolded client_ok_def] r'])
        (use h L in \<open>auto simp: handle_started_def sub_app_ok_def sub_app_owned_def\<close>)
    then have "client_ok refs L (sa_set rt k \<lparr>rcsa_rncui = k, rcsa_rh = h\<rparr> s)"
      by (simp add: client_ok_def)
    moreover have "balanced refs s (sa_set rt k \<lparr>rcsa_rncui = k, rcsa_rh = h\<rparr> s)"
      using u r' h by (auto simp: balanced_def owes_wake_def owes_callback_def handle_started_def)
    ultimately have "keeps L s (sa_set rt k \<lparr>rcsa_rncui = k, rcsa_rh = h\<rparr> s)"
      using u by (intro keeps_directI [where k = k and L = L, OF _ _ L]) auto
    then show ?thesis
      by (rule keeps_trans [OF keeps_frame [OF ok f]])
  qed
  show ?thesis
    unfolding request_submit_fill_def Let_def k [symmetric] get Option.bind.bind_lunit wp_bind wp_case_prod
    by (rule wp_call [OF handle_init_wp]) (auto simp: wp_simps intro!: fail filled split: sum.split)
qed

lemma prepare_keeps:
  assumes ok: "client_ok refs L rci"
  shows "wp (request_submit_prepare rt ce sub rci) (\<lambda>x. keeps L rci (snd x))"
proof -
  note [simp] = keeps_refl [OF ok]
  have added: "wp (raft_client_sub_app_add rt ce (sub_rncui sub) rci) (\<lambda>x. (\<not> fst x \<longrightarrow> keeps L rci (snd x)) \<and>
      (fst x \<longrightarrow> wp (request_submit_fill rt ce sub (snd x)) (\<lambda>x. keeps L rci (snd x))))"
  proof (rule wp_call [OF add_wp [OF ok]], intro conjI impI)
    fix x assume x: "if fst x
      then L (sub_rncui sub) = 0 \<and> keeps L rci (snd x) \<and>
        refs (rci_sub_apps (snd x)) (sub_rncui sub) =
          Some (\<lparr>rcsa_rncui = sub_rncui sub, rcsa_rh = zero_rcrh\<lparr>rcrh_initializing := True\<rparr>\<rparr>, 1)
      else keeps L rci (snd x)"
    show "\<not> fst x \<Longrightarrow> keeps L rci (snd x)"
      using x by simp
    assume f: "fst x"
    with x have t: "keeps L rci (snd x)"
      by simp
    show "wp (request_submit_fill rt ce sub (snd x)) (\<lambda>x. keeps L rci (snd x))"
      by (rule wp_call [OF submit_fill_keeps [of L "snd x" "sub_rncui sub" sub ce] keeps_trans [OF t]])
        (use x f keeps_ok in auto)
  qed
  show ?thesis
    unfolding request_submit_prepare_def Let_def
    by (auto simp: wp_Some wp_bind wp_case_prod added intro!: wpI [of "raft_client_sub_app_may_add_new rci"])
qed

lemma cancel_wp:
  assumes ok: "client_ok refs L rci" and init: "\<And>sa. sa_get rt k rci = Some sa \<Longrightarrow> \<not> rcrh_initializing (rcsa_rh sa)"
  shows "wp (raft_client_request_cancel rt k rci) (\<lambda>x. keeps L rci (snd x) \<and>
    (fst x = - EINPROGRESS \<longrightarrow> keeps (L(k := L k + 1)) rci (snd x)))"
proof -
  obtain s r where lk: "raft_client_sub_app_lookup rt k rci = (s, r)"
    by (cases "raft_client_sub_app_lookup rt k rci")
  show ?thesis
  proof (cases s)
    case None
    then show ?thesis
      using lk ok lookup_none [of k rci r] by (auto simp: raft_client_request_cancel_def wp_Some intro: keepsI)
  next
    case (Some sa)
    obtain n where n: "refs (rci_sub_apps rci) k = Some (sa, n)" "client_ok refs (L(k := L k + 1)) r" "touched refs {k} rci r"
      using lookup_ok [OF ok lk [unfolded Some]] by metis
    have "client_ok refs L r"
      using table_ok_mono [OF n(2) [unfolded client_ok_def], of L] by (simp add: client_ok_def)
    moreover have "\<not> rcrh_initializing (rcsa_rh sa)"
      using init [of sa] n(1) by (simp add: sa_get_eq)
    ultimately show ?thesis
      using lk Some n by (auto simp: raft_client_request_cancel_def wp_Some intro: keepsI)
  qed
qed

text \<open>The last part of a submission makes the request owe its completion.\<close>

definition accepts ::
  "('b, 't) raft_client_instance \<Rightarrow> raft_net_client_user_id \<Rightarrow> raft_client_sub_app \<Rightarrow> ('b, 't) raft_client_instance \<Rightarrow> bool" where
  "accepts rci k sa r \<longleftrightarrow> rcrh_initializing (rcsa_rh sa) \<and>
     (\<forall>j. j \<noteq> k \<longrightarrow> refs (rci_sub_apps r) j = refs (rci_sub_apps rci) j) \<and>
     (\<forall>j. wakes j (rci_events r) + owed owes_wake (refs (rci_sub_apps r) j) =
       wakes j (rci_events rci) + owed owes_wake (refs (rci_sub_apps rci) j) + of_bool (j = k \<and> rcrh_blocking (rcsa_rh sa))) \<and>
     (\<forall>j. callbacks j (rci_events r) + owed owes_callback (refs (rci_sub_apps r) j) =
       callbacks j (rci_events rci) + owed owes_callback (refs (rci_sub_apps rci) j) + of_bool (j = k \<and> rcrh_async_cb (rcsa_rh sa)))"

lemma accepts_trans: "accepts rci k sa r \<Longrightarrow> touched refs {k} r s \<Longrightarrow> accepts rci k sa s"
  by (simp add: accepts_def touched_def)

lemma enqueue_wp:
  assumes ok: "client_ok refs L rci" and get: "sa_get rt k rci = Some sa"
  shows "wp (raft_client_request_submit_enqueue rt ce k rci) (\<lambda>x. client_ok refs L (snd x) \<and> accepts rci k sa (snd x))"
proof -
  obtain n where r: "refs (rci_sub_apps rci) k = Some (sa, n)"
    using get by (auto simp: sa_get_eq)
  note o = table_okD [OF ok [unfolded client_ok_def] r]
  define init where "init h = h\<lparr>rcrh_completion_notifier := (if rcrh_blocking (rcsa_rh sa) then Some 1 else None),
    rcrh_initializing := False\<rparr>" for h :: raft_client_request_handle
  have set: "client_ok refs L (sa_set rt k sa' rci)" "accepts rci k sa (sa_set rt k sa' rci)"
    if i: "rcrh_initializing (rcsa_rh sa)" and sa': "sa' = rh_upd (\<lambda>h. (init h)\<lparr>rcrh_leader_not_viable_delay := d h\<rparr>) sa" for sa' d
  proof -
    note u = sa_set_refs [OF r, of sa']
    have "table_ok (L(k := L k)) (refs (rci_sub_apps (sa_set rt k sa' rci))) (rci_sendq rci) (rci_sub_app_cnt rci)"
      unfolding u by (rule table_ok_set [OF ok [unfolded client_ok_def] r])
        (use i o in \<open>auto simp: sub_app_ok_def sa' init_def rh_upd_def sub_app_owned_def Let_def\<close>)
    then show "client_ok refs L (sa_set rt k sa' rci)"
      by (simp add: client_ok_def)
    show "accepts rci k sa (sa_set rt k sa' rci)"
      using u r i by (auto simp: accepts_def owes_wake_def owes_callback_def sa' init_def rh_upd_def)
  qed
  let ?sa = "rh_upd init sa"
  let ?d = "rh_upd (\<lambda>h. (init h)\<lparr>rcrh_leader_not_viable_delay := True\<rparr>) sa"
  have sa0: "?sa = rh_upd (\<lambda>h. (init h)\<lparr>rcrh_leader_not_viable_delay := rcrh_leader_not_viable_delay h\<rparr>) sa"
    by (simp add: rh_upd_def init_def)
  have queue: "wp (raft_client_request_send_queue_add_locked rt k (sa_set rt k ?sa rci)) (\<lambda>s.
      client_ok refs L (emit_cl [Cl_notify] s) \<and> accepts rci k sa (emit_cl [Cl_notify] s))"
    if i: "rcrh_initializing (rcsa_rh sa)"
  proof (rule wp_call [OF queue_add_wp [OF set(1) [OF i sa0]]])
    show "refs (rci_sub_apps (sa_set rt k ?sa rci)) k = Some (?sa, n)"
      using sa_set_refs [OF r] by simp
    fix s assume s: "client_ok refs L s \<and> touched refs {k} (sa_set rt k ?sa rci) s \<and>
      refs (rci_sub_apps s) k = Some (rh_upd (\<lambda>h. h\<lparr>rcrh_sendq := True\<rparr>) ?sa, Suc n)"
    have f: "client_frame s (emit_cl [Cl_notify] s)"
      by (rule emit_frame) simp
    have "accepts rci k sa s"
      using accepts_trans [OF set(2) [OF i sa0]] s by blast
    then show "client_ok refs L (emit_cl [Cl_notify] s) \<and> accepts rci k sa (emit_cl [Cl_notify] s)"
      using client_frame_ok(1) [OF f] accepts_trans [OF _ client_frame_ok(2) [OF f]] s by blast
  qed
  have delay: "client_ok refs L (sa_set rt k ?d rci) \<and> accepts rci k sa (sa_set rt k ?d rci)" if "rcrh_initializing (rcsa_rh sa)"
    using set [OF that, of ?d "\<lambda>_. True"] by simp
  have "rh_upd (\<lambda>h. h\<lparr>rcrh_initializing := False\<rparr>) (rh_upd (\<lambda>h. h\<lparr>rcrh_completion_notifier :=
      (if rcrh_blocking (rcsa_rh sa) then Some 1 else None)\<rparr>) sa) = ?sa"
    "rh_upd (\<lambda>h. h\<lparr>rcrh_leader_not_viable_delay := True\<rparr>) ?sa = ?d"
    "rcrh_initializing (rcsa_rh (rh_upd (\<lambda>h. h\<lparr>rcrh_completion_notifier := c\<rparr>) sa)) = rcrh_initializing (rcsa_rh sa)" for c
    by (simp_all add: rh_upd_def init_def)
  then show ?thesis
    unfolding raft_client_request_submit_enqueue_def Let_def get Option.bind.bind_lunit
    using queue delay by (simp add: wp_simps)
qed

end

section \<open>Steps and runs\<close>

text \<open>The submissions accepted in a run that owe a wake-up or a callback.\<close>

definition accepted_wakes :: "raft_net_client_user_id \<Rightarrow> client_action list \<Rightarrow> nat" where
  "accepted_wakes k as = length [a \<leftarrow> as. case a of Act_enqueue j b c \<Rightarrow> j = k \<and> b | _ \<Rightarrow> False]"

definition accepted_callbacks :: "raft_net_client_user_id \<Rightarrow> client_action list \<Rightarrow> nat" where
  "accepted_callbacks k as = length [a \<leftarrow> as. case a of Act_enqueue j b c \<Rightarrow> j = k \<and> c | _ \<Rightarrow> False]"

lemma accepted_append [simp]:
  "accepted_wakes k (as @ bs) = accepted_wakes k as + accepted_wakes k bs"
  "accepted_callbacks k (as @ bs) = accepted_callbacks k as + accepted_callbacks k bs"
  by (simp_all add: accepted_wakes_def accepted_callbacks_def)

lemma thread_head_frame: "client_frame rci (snd (client_thread_head rci))"
  by (simp add: client_thread_head_def client_frame_def emit_cl_def Let_def)

context client_table
begin

lemma step_cases:
  assumes "client_step rt a rci r" "client_ok refs L rci"
  obtains (keep) "\<And>j. accepted_wakes j [a] = 0 \<and> accepted_callbacks j [a] = 0" "keeps L rci r"
  | (accept) k sa where "a = Act_enqueue k (rcrh_blocking (rcsa_rh sa)) (rcrh_async_cb (rcsa_rh sa))"
      "sa_get rt k rci = Some sa" "client_ok refs L r" "accepts rci k sa r"
  using assms(1)
proof cases
  case timer
  with wpD [OF timer_keeps [OF assms(2)]] show thesis
    by (intro keep) (auto simp: accepted_wakes_def accepted_callbacks_def)
next
  case recv
  with wpD [OF recv_handler_keeps [OF assms(2)]] show thesis
    by (intro keep) (auto simp: accepted_wakes_def accepted_callbacks_def)
next
  case sender
  with wpD [OF sender_keeps [OF assms(2)]] show thesis
    by (intro keep) (auto simp: accepted_wakes_def accepted_callbacks_def)
next
  case loop
  with keeps_frame [OF assms(2) thread_head_frame] show thesis
    by (intro keep) (auto simp: accepted_wakes_def accepted_callbacks_def)
next
  case (submit ce sub res)
  with wpD [OF prepare_keeps [OF assms(2)] submit(2)] show thesis
    by (intro keep) (auto simp: accepted_wakes_def accepted_callbacks_def)
next
  case (enqueue k sa ce res)
  with wpD [OF enqueue_wp [OF assms(2) enqueue(2)] enqueue(3)] show thesis
    by (intro accept) auto
next
  case (cancel k rc)
  with wpD [OF cancel_wp [OF assms(2)] cancel(3)] show thesis
    by (intro keep) (auto simp: accepted_wakes_def accepted_callbacks_def)
qed

lemma step_ok:
  assumes "client_step rt a rci r" "client_ok refs L rci"
  shows "client_ok refs L r \<and>
    wakes j (rci_events r) + owed owes_wake (refs (rci_sub_apps r) j) =
       wakes j (rci_events rci) + owed owes_wake (refs (rci_sub_apps rci) j) + accepted_wakes j [a] \<and>
    callbacks j (rci_events r) + owed owes_callback (refs (rci_sub_apps r) j) =
       callbacks j (rci_events rci) + owed owes_callback (refs (rci_sub_apps rci) j) + accepted_callbacks j [a]"
  using assms
proof (cases rule: step_cases)
  case keep
  then show ?thesis by (simp add: keeps_def balanced_def)
next
  case accept
  then show ?thesis by (auto simp: accepts_def accepted_wakes_def accepted_callbacks_def)
qed

text \<open>A request with a reference nobody will drop stays, and owes what it owed.\<close>

definition pending_for_good :: "raft_net_client_user_id \<Rightarrow> bool \<Rightarrow> bool \<Rightarrow> ('b, 't) raft_client_instance \<Rightarrow> bool" where
  "pending_for_good k b c rci \<longleftrightarrow> client_ok refs ((\<lambda>_. 0)(k := 1)) rci \<and>
     (\<exists>sa n. refs (rci_sub_apps rci) k = Some (sa, n) \<and> owes_wake sa = b \<and> owes_callback sa = c)"

lemma step_pending_for_good:
  assumes step: "client_step rt a rci r" and p: "pending_for_good k b c rci" "b \<or> c"
  shows "pending_for_good k b c r \<and> accepted_wakes k [a] = 0 \<and> accepted_callbacks k [a] = 0"
proof -
  let ?L = "(\<lambda>_. 0)(k := 1 :: nat)"
  obtain sa n where sa: "refs (rci_sub_apps rci) k = Some (sa, n)" "owes_wake sa = b" "owes_callback sa = c"
    and ok: "client_ok refs ?L rci"
    using p(1) by (auto simp: pending_for_good_def)
  from step ok show ?thesis
  proof (cases rule: step_cases)
    case keep
    obtain sa' n' where sa': "refs (rci_sub_apps r) k = Some (sa', n')"
      using table_ok_held [of ?L _ _ _ k] keeps_ok [OF keep(2)] by (fastforce simp: client_ok_def)
    have "owes_wake sa' = b \<and> owes_callback sa' = c"
      using keep(2) sa sa' unfolding keeps_def by (metis fun_upd_same of_bool_eq_iff owed_simps(2) zero_less_one)
    with keep sa' show ?thesis
      by (auto simp: pending_for_good_def keeps_def)
  next
    case (accept j sj)
    have "j \<noteq> k"
      using accept(2,4) sa p(2) by (auto simp: sa_get_eq accepts_def owes_wake_def owes_callback_def)
    with accept sa show ?thesis
      by (auto simp: pending_for_good_def accepts_def accepted_wakes_def accepted_callbacks_def)
  qed
qed

lemma run_pending_for_good:
  assumes "client_run rt rci as r" "pending_for_good k b c rci" "b \<or> c"
  shows "pending_for_good k b c r \<and> accepted_wakes k as = 0 \<and> accepted_callbacks k as = 0"
  using assms
proof induction
  case start
  then show ?case by (simp add: accepted_wakes_def accepted_callbacks_def)
next
  case (step as r a s)
  then show ?case
    using step_pending_for_good [OF step.hyps(2), of k b c] by simp
qed

lemma run_ok:
  assumes "client_run rt rci as r" "client_ok refs L rci"
  shows "client_ok refs L r \<and>
    wakes j (rci_events r) + owed owes_wake (refs (rci_sub_apps r) j) =
       wakes j (rci_events rci) + owed owes_wake (refs (rci_sub_apps rci) j) + accepted_wakes j as \<and>
    callbacks j (rci_events r) + owed owes_callback (refs (rci_sub_apps r) j) =
       callbacks j (rci_events rci) + owed owes_callback (refs (rci_sub_apps rci) j) + accepted_callbacks j as"
  using assms
proof induction
  case start
  then show ?case by (simp add: accepted_wakes_def accepted_callbacks_def)
next
  case (step as r a s)
  then show ?case
    using step_ok [OF step.hyps(2), of L j] by simp
qed

lemma lost_reference:
  assumes ok: "client_ok refs (\<lambda>_. 0) rci"
    and sa: "sa_get rt k rci = Some sa" "\<not> rcrh_initializing (rcsa_rh sa)" "rcrh_blocking (rcsa_rh sa) \<or> rcrh_async_cb (rcsa_rh sa)"
    and lost: "raft_client_request_cancel rt k rci = Some (- EINPROGRESS, r) \<or>
      (\<exists>rc ks. rci_sendq rci = k # ks \<and> raft_client_rpc_sendq_dequeue_head_and_send rt ce rci = Some (rc, r) \<and> send_failed rc)"
    and run: "client_run rt r bs s"
  shows "refs (rci_sub_apps s) k \<noteq> None \<and> wakes k (rci_events s) = wakes k (rci_events rci) \<and>
    callbacks k (rci_events s) = callbacks k (rci_events rci)"
proof -
  let ?L = "(\<lambda>_. 0)(k := 0 + 1 :: nat)"
  have keep: "keeps ?L rci r"
    using lost
  proof
    assume "raft_client_request_cancel rt k rci = Some (- EINPROGRESS, r)"
    from wpD [OF cancel_wp [OF ok] this] sa(1,2) show ?thesis by auto
  next
    assume "\<exists>rc ks. rci_sendq rci = k # ks \<and> raft_client_rpc_sendq_dequeue_head_and_send rt ce rci = Some (rc, r) \<and> send_failed rc"
    then show ?thesis
      using wpD [OF dequeue_wp [OF ok]] by fastforce
  qed
  obtain n where n: "refs (rci_sub_apps rci) k = Some (sa, n)"
    using sa(1) by (auto simp: sa_get_eq)
  obtain sa' n' where n': "refs (rci_sub_apps r) k = Some (sa', n')"
    using table_ok_held [of ?L _ _ _ k] keeps_ok [OF keep] by (fastforce simp: client_ok_def)
  have "owed owes_wake (refs (rci_sub_apps r) k) = owed owes_wake (refs (rci_sub_apps rci) k)"
    "owed owes_callback (refs (rci_sub_apps r) k) = owed owes_callback (refs (rci_sub_apps rci) k)"
    using keep unfolding keeps_def by (metis add_0 fun_upd_same zero_less_one)+
  then have o: "owes_wake sa' = owes_wake sa" "owes_callback sa' = owes_callback sa" "owes_wake sa \<or> owes_callback sa"
    using n n' sa(2,3) by (simp_all add: owes_wake_def owes_callback_def of_bool_eq_iff)
  have bal: "wakes k (rci_events r) + owed owes_wake (refs (rci_sub_apps r) k) =
      wakes k (rci_events rci) + owed owes_wake (refs (rci_sub_apps rci) k)"
    "callbacks k (rci_events r) + owed owes_callback (refs (rci_sub_apps r) k) =
      callbacks k (rci_events rci) + owed owes_callback (refs (rci_sub_apps rci) k)"
    using keep unfolding keeps_def balanced_def by blast+
  have p: "pending_for_good k (owes_wake sa) (owes_callback sa) r"
    using keeps_ok [OF keep] n' o by (auto simp: pending_for_good_def)
  have q: "pending_for_good k (owes_wake sa) (owes_callback sa) s" "accepted_wakes k bs = 0" "accepted_callbacks k bs = 0"
    using run_pending_for_good [OF run p o(3)] by auto
  obtain sb m where m: "refs (rci_sub_apps s) k = Some (sb, m)" "owes_wake sb = owes_wake sa" "owes_callback sb = owes_callback sa"
    using q(1) by (auto simp: pending_for_good_def)
  show ?thesis
    using run_ok [OF run keeps_ok [OF keep], of k] bal n n' m o q(2,3) by simp
qed

lemma init_ok:
  assumes "refs t = Map.empty" "rci_sub_app_cnt rci = 0"
  shows "client_ok refs (\<lambda>_. 0) (raft_client_instance_init t ri rci)"
  using assms by (simp add: client_ok_def table_ok_def raft_client_instance_init_def)

lemma reach_ok:
  assumes "refs t = Map.empty" "rci_sub_app_cnt rci0 = 0" "client_run rt (raft_client_instance_init t ri rci0) as rci"
  shows "client_ok refs (\<lambda>_. 0) rci"
  using run_ok [OF assms(3) init_ok [OF assms(1,2)]] by blast

end

end
