(* ===== verification/Raft_Clientlive.thy ===== *)
theory Raft_Clientlive
  imports Raft_Clientsafe Raft_Example
begin

text \<open>
  The client does not lose a request that expires: the walk on the timer does not abort, and it
  completes the request with a timeout. The theorems on the runs of a client are stated at the end.
\<close>

section \<open>The timer does not abort\<close>

lemma bind_defined: "\<exists>x. m = Some x \<Longrightarrow> wp m (\<lambda>x. \<exists>y. f x = Some y) \<Longrightarrow> \<exists>y. m \<bind> f = Some y"
  by (auto simp: wp_def)

lemma most_recent_loop_start:
  "(\<And>i. i \<in> set is \<Longrightarrow> i < num_members ri) \<Longrightarrow> most_recent_loop env ri is p 0 = Some p"
proof (induction "is")
  case (Cons i "is")
  have "fst (raft_net_comm_recency env ri i RAFT_COMM_RECENCY_RECV) \<in> {0, - EALREADY}"
    using Cons.prems [of i] by (simp add: raft_net_comm_recency_def Let_def)
  with Cons show ?case
    by (auto simp: case_prod_beta Let_def)
qed simp

lemma most_recent_server:
  "0 < num_members ri \<Longrightarrow> raft_net_get_most_recently_responsive_server env ri = Some (env_random env mod num_members ri)"
  unfolding raft_net_get_most_recently_responsive_server_def Let_def
  by (subst most_recent_loop_start) auto

lemma ping_target_defined: "0 < num_members (rci_ri rci) \<Longrightarrow> \<exists>r. raft_client_set_ping_target env rci = Some r"
  by (auto simp: raft_client_set_ping_target_def most_recent_server Let_def)

lemma ping_defined: "\<exists>r. raft_client_ping_raft_service ce rci = Some r"
  by (auto simp: raft_client_ping_raft_service_def raft_client_rpc_ping_init_def raft_client_rpc_msg_init_def
      case_prod_beta Let_def split: option.split)

lemma timer_ping_defined:
  assumes "0 < num_members (rci_ri rci)"
  shows "\<exists>r. timer_ping ce rci = Some r"
proof (cases "raft_client_leader_is_viable (ce_env ce) rci")
  case True
  then obtain leader where "ri_csn_leader (rci_ri rci) = Some leader"
    by (auto simp: raft_client_leader_is_viable_def split: option.splits)
  with True ping_defined show ?thesis
    by (auto simp: timer_ping_def)
next
  case False
  with ping_target_defined [OF assms, of "ce_env ce"] ping_defined show ?thesis
    by (auto simp: timer_ping_def)
qed

section \<open>Expiry completes a request\<close>

text \<open>The request as it is when it is reported.\<close>

definition timed_out :: "raft_client_sub_app \<Rightarrow> raft_client_sub_app" where
  "timed_out sa = sa\<lparr>rcsa_rh := (rcsa_rh sa)\<lparr>rcrh_cancel := True, rcrh_error := - ETIMEDOUT\<rparr>\<rparr>"

text \<open>The requests the walk takes for expired.\<close>

definition walk_expires :: "'b raft_client_env \<Rightarrow> raft_client_sub_app \<Rightarrow> bool" where
  "walk_expires ce sa \<longleftrightarrow> \<not> rcrh_cancel (rcsa_rh sa) \<and> \<not> rcrh_sendq (rcsa_rh sa) \<and> \<not> rcrh_initializing (rcsa_rh sa) \<and>
     request_expired ce (rcsa_rh sa)"

lemma to_int16_ETIMEDOUT: "to_int16 (- ETIMEDOUT) = - ETIMEDOUT"
  by (simp add: to_int16_def)

context client_table
begin

lemma cancel_pending_defined:
  assumes ok: "client_ok refs L rci" and r: "refs (rci_sub_apps rci) k = Some (sa, n)"
    and f: "\<not> rcrh_cancel (rcsa_rh sa)" "histories_ok rci" "requests_fit refs rci" "\<not> rcrh_initializing (rcsa_rh sa)"
  shows "\<exists>x. raft_client_sub_app_cancel_pending_req rt k (- ETIMEDOUT) rci = Some x"
    and "sub_app_owned sa \<Longrightarrow> n = 2 \<Longrightarrow>
      \<exists>s. raft_client_sub_app_cancel_pending_req rt k (- ETIMEDOUT) rci = Some (- ECANCELED, s) \<and>
        refs (rci_sub_apps s) k = Some (timed_out sa, 1) \<and> rci_events s = rci_events rci"
proof -
  note o = table_okD [OF ok [unfolded client_ok_def] r]
  let ?c = "rh_upd (\<lambda>h. h\<lparr>rcrh_cancel := True\<rparr>) sa"
  let ?s = "sa_set rt k (timed_out sa) (sa_set rt k ?c rci)"
  have u: "refs (rci_sub_apps ?s) = (refs (rci_sub_apps rci))(k \<mapsto> (timed_out sa, n))"
    by (simp add: sa_set_refs [OF r] sa_set_refs [where sa = ?c and n = n])
  have eq: "raft_client_sub_app_cancel_pending_req rt k (- ETIMEDOUT) rci =
      raft_client_op_history_add_item (if rcrh_op_wr (rcsa_rh sa) then RAFT_CLIENT_RECENT_OP_TYPE_WRITE
        else RAFT_CLIENT_RECENT_OP_TYPE_READ) (timed_out sa) ?s \<bind>
      raft_client_sub_app_put rt k \<bind> (\<lambda>r. Some (- ECANCELED, r))" if "\<not> rcrh_ready (rcsa_rh sa)"
    using that o(1) r
    by (simp add: raft_client_sub_app_cancel_pending_req_def raft_client_sub_app_done_def sa_get_eq
        sa_set_refs [OF r] sub_app_ok_def rh_upd_def timed_out_def to_int16_ETIMEDOUT Let_def)
  obtain s where s: "raft_client_op_history_add_item (if rcrh_op_wr (rcsa_rh sa) then RAFT_CLIENT_RECENT_OP_TYPE_WRITE
      else RAFT_CLIENT_RECENT_OP_TYPE_READ) (timed_out sa) ?s = Some s"
    using history_add_item_defined [of "timed_out sa" ?s] o(1) f(2)
    by (auto simp: timed_out_def sub_app_ok_def histories_ok_def Let_def)
  obtain g where g: "s = ?s\<lparr>rci_recent_ops := g\<rparr>"
    using history_add_item_eq(1) [OF s] by blast
  have ok': "client_ok refs (L(k := L k + 1)) s" and fit: "requests_fit refs s" if "sub_app_owned sa"
  proof -
    have "table_ok (L(k := L k + 1)) (refs (rci_sub_apps ?s)) (rci_sendq rci) (rci_sub_app_cnt rci)"
      unfolding u by (rule table_ok_set [OF ok [unfolded client_ok_def] r])
        (use o that f in \<open>auto simp: sub_app_ok_def timed_out_def sub_app_owned_def Let_def\<close>)
    then show "client_ok refs (L(k := L k + 1)) s"
      by (simp add: client_ok_def g)
    show "requests_fit refs s"
      using f(3) u r by (auto simp: requests_fit_def g sub_app_fits_def timed_out_def)
  qed
  show "\<exists>x. raft_client_sub_app_cancel_pending_req rt k (- ETIMEDOUT) rci = Some x"
  proof (cases "rcrh_ready (rcsa_rh sa)")
    case True
    with r show ?thesis by (simp add: raft_client_sub_app_cancel_pending_req_def sa_get_eq)
  next
    case False
    then have "sub_app_owned sa"
      using f(1) by (simp add: sub_app_owned_def)
    then show ?thesis
      using put_defined [OF ok' _ fit, of k] eq [OF False] s by auto
  qed
  show "sub_app_owned sa \<Longrightarrow> n = 2 \<Longrightarrow>
      \<exists>s. raft_client_sub_app_cancel_pending_req rt k (- ETIMEDOUT) rci = Some (- ECANCELED, s) \<and>
        refs (rci_sub_apps s) k = Some (timed_out sa, 1) \<and> rci_events s = rci_events rci"
  proof -
    assume own: "sub_app_owned sa" and n: "n = 2"
    have rs: "refs (rci_sub_apps s) k = Some (timed_out sa, n)"
      using u by (simp add: g)
    obtain t where t: "refs t = (refs (rci_sub_apps s))(k := if n = 1 then None else Some (timed_out sa, n - 1))"
      "raft_client_sub_app_put rt k s = (if n = 1 then
         if sub_app_fits (timed_out sa) then Some (s\<lparr>rci_sub_apps := t, rci_events := rci_events s @ completion_events (timed_out sa),
           rci_sub_app_cnt := rci_sub_app_cnt s - 1\<rparr>) else None
       else Some (s\<lparr>rci_sub_apps := t\<rparr>))"
      by (rule put_eq [OF ok' [OF own] _ rs]) (simp, rule that)
    have "\<not> rcrh_ready (rcsa_rh sa)"
      using own by (simp add: sub_app_owned_def)
    from eq [OF this] show ?thesis
      using s t n by (simp add: g)
  qed
qed

lemma expire_loop_defined:
  assumes "client_ok refs (listed L ks) rci" "distinct ks" "\<And>k. k \<in> set ks \<Longrightarrow> expirable rci k"
    and "histories_ok rci" "requests_fit refs rci"
  shows "\<exists>r. expire_loop rt ks rci = Some r"
  using assms
proof (induction ks arbitrary: rci)
  case (Cons k ks)
  obtain sa n where r: "refs (rci_sub_apps rci) k = Some (sa, n)" "\<not> rcrh_cancel (rcsa_rh sa)"
    "\<not> rcrh_initializing (rcsa_rh sa)"
    using Cons.prems(3) [of k] by (auto simp: expirable_def)
  obtain x where x: "raft_client_sub_app_cancel_pending_req rt k (- ETIMEDOUT) rci = Some x"
    using cancel_pending_defined(1) [OF Cons.prems(1) r(1,2) Cons.prems(4,5) r(3)] by blast
  have x1: "client_ok refs (listed L (k # ks)) (snd x)" "touched refs {k} rci (snd x)"
    using wpD [OF cancel_pending_wp [OF Cons.prems(1) r] x] by auto
  have keep: "histories_ok (snd x)" "requests_fit refs (snd x)"
    using x1(2) Cons.prems(4,5) by (auto simp: touched_def)
  obtain s where s: "raft_client_sub_app_put rt k (snd x) = Some s"
    using put_defined [OF x1(1) _ keep(2), of k] by auto
  have L: "(listed L (k # ks))(k := listed L (k # ks) k - 1) = listed L ks"
    using Cons.prems(2) by (auto simp: fun_eq_iff)
  have s1: "client_ok refs (listed L ks) s" "touched refs {k} (snd x) s"
    using wpD [OF put_wp [OF x1(1)] s] L by auto
  have t: "touched refs {k} rci s"
    using touched_trans [OF x1(2) s1(2)] by simp
  have "expirable s j" if "j \<in> set ks" for j
    using expirable_touched [OF t, of j] that Cons.prems(2,3) by auto
  moreover have "histories_ok s" "requests_fit refs s"
    using s1(2) keep by (auto simp: touched_def)
  ultimately obtain q where "expire_loop rt ks s = Some q"
    using Cons.IH [OF s1(1)] Cons.prems(2) by auto
  with x s show ?case
    by (auto simp: case_prod_beta)
qed simp

lemma expire_loop_append:
  fixes rci :: "('b, 't) raft_client_instance"
  shows "expire_loop rt (ks @ js) rci = expire_loop rt ks rci \<bind> expire_loop rt js"
proof (induction ks arbitrary: rci)
  case (Cons k ks)
  have "expire_loop rt (ks @ js) = (\<lambda>rci :: ('b, 't) raft_client_instance. expire_loop rt ks rci \<bind> expire_loop rt js)"
    using Cons.IH by (simp add: fun_eq_iff)
  then show ?case by (simp add: case_prod_beta')
qed simp

lemma expire_loop_completes:
  assumes ok: "client_ok refs (listed L ks) rci" and d: "distinct ks" and e: "\<And>k. k \<in> set ks \<Longrightarrow> expirable rci k"
    and h: "histories_ok rci" "requests_fit refs rci" and k: "k \<in> set ks"
    and r: "refs (rci_sub_apps rci) k = Some (sa, 2)" "sub_app_owned sa"
  shows "\<exists>s es fs. expire_loop rt ks rci = Some s \<and> refs (rci_sub_apps s) k = None \<and>
    rci_events s = rci_events rci @ es @ completion_events (timed_out sa) @ fs"
proof -
  obtain as bs where ks: "ks = as @ k # bs"
    using k by (meson split_list)
  have L1: "listed L ks = listed (listed L (k # bs)) as"
    and L3: "(listed L (k # bs))(k := listed L (k # bs) k - 1) = listed L bs"
    using d by (auto simp: ks fun_eq_iff)
  have all: "\<exists>s. expire_loop rt ks rci = Some s"
    by (rule expire_loop_defined [OF ok d e h])
  then obtain s1 where s1: "expire_loop rt as rci = Some s1"
    by (auto simp: ks expire_loop_append bind_eq_Some_conv)
  have "client_ok refs (listed (listed L (k # bs)) as) rci"
    using ok unfolding L1 .
  then have t1: "client_ok refs (listed L (k # bs)) s1" "touched refs (set as) rci s1"
    using wpD [OF expire_loop_wp s1, of "listed L (k # bs)"] d e unfolding ks by auto
  have k1: "refs (rci_sub_apps s1) k = Some (sa, 2)" "histories_ok s1" "requests_fit refs s1"
    using t1(2) r d h unfolding ks by (auto simp: touched_def)
  have f: "\<not> rcrh_cancel (rcsa_rh sa)" "\<not> rcrh_initializing (rcsa_rh sa)"
    using e [OF k] r(1) by (auto simp: expirable_def)
  obtain s2 where s2: "raft_client_sub_app_cancel_pending_req rt k (- ETIMEDOUT) s1 = Some (- ECANCELED, s2)"
    "refs (rci_sub_apps s2) k = Some (timed_out sa, 1)" "rci_events s2 = rci_events s1"
    using cancel_pending_defined(2) [OF t1(1) k1(1) f(1) k1(2,3) f(2) r(2)] by auto
  have t2: "client_ok refs (listed L (k # bs)) s2" "touched refs {k} s1 s2"
    using wpD [OF cancel_pending_wp [OF t1(1) k1(1) f] s2(1)] by auto
  have fits: "sub_app_fits (timed_out sa)"
    using k1(1,3) by (auto simp: requests_fit_def sub_app_fits_def timed_out_def)
  obtain t where t: "refs t = (refs (rci_sub_apps s2))(k := None)"
    "raft_client_sub_app_put rt k s2 = Some (s2\<lparr>rci_sub_apps := t, rci_events := rci_events s2 @ completion_events (timed_out sa),
       rci_sub_app_cnt := rci_sub_app_cnt s2 - 1\<rparr>)"
    using put_eq [OF t2(1) _ s2(2)] fits by auto
  let ?s3 = "s2\<lparr>rci_sub_apps := t, rci_events := rci_events s2 @ completion_events (timed_out sa),
       rci_sub_app_cnt := rci_sub_app_cnt s2 - 1\<rparr>"
  have t3: "touched refs {k} s2 ?s3" "client_ok refs ((listed L (k # bs))(k := listed L (k # bs) k - 1)) ?s3"
    using wpD [OF put_wp [OF t2(1)] t(2)] by auto
  have ok3: "client_ok refs (listed L bs) ?s3"
    using t3(2) unfolding L3 .
  obtain s4 where s4: "expire_loop rt bs ?s3 = Some s4"
    using all s1 s2(1) t(2) by (auto simp: ks expire_loop_append)
  have eq: "expire_loop rt ks rci = Some s4"
    using s1 s2(1) t(2) s4 by (simp add: ks expire_loop_append)
  have "expirable ?s3 j" if "j \<in> set bs" for j
  proof -
    have "j \<noteq> k" "j \<notin> set as" "j \<in> set ks"
      using that d by (auto simp: ks)
    then show ?thesis
      using e [of j] expirable_touched [OF t1(2), of j] expirable_touched [OF t2(2), of j] expirable_touched [OF t3(1), of j] by simp
  qed
  then have t4: "touched refs (set bs) ?s3 s4"
    using wpD [OF expire_loop_wp [OF ok3] s4] d by (auto simp: ks)
  have "refs (rci_sub_apps s4) k = None"
    using t4 t(1) d by (auto simp: touched_def ks)
  moreover obtain es fs where "rci_events s1 = rci_events rci @ es" "rci_events s4 = rci_events ?s3 @ fs"
    using t1(2) t4 by (auto simp: touched_def)
  ultimately show ?thesis
    using eq s2(3) by auto
qed

section \<open>The walk lists an expired request\<close>

lemma queue_add_defined:
  "refs (rci_sub_apps rci) k = Some (sa, n) \<Longrightarrow> \<not> rcrh_sendq (rcsa_rh sa) \<Longrightarrow> \<not> rcrh_initializing (rcsa_rh sa) \<Longrightarrow>
   \<exists>r. raft_client_request_send_queue_add_locked rt k rci = Some r \<and> refs (rci_sub_apps r) k \<noteq> None"
  by (simp add: raft_client_request_send_queue_add_locked_def sa_get_eq Let_def sa_set_def sa_ref_def set_elem ref_get)

lemma check_pending_action_defined:
  assumes "refs (rci_sub_apps rci) k = Some (sa, n)" "\<not> rcrh_sendq (rcsa_rh sa)" "\<not> rcrh_initializing (rcsa_rh sa)"
  shows "\<exists>r c' q'. check_pending_action rt ce v k sa rci c q = Some (r, c', q') \<and> set q \<subseteq> set q' \<and>
    refs (rci_sub_apps r) k \<noteq> None \<and> (request_expired ce (rcsa_rh sa) \<longrightarrow> r = sa_ref rt k rci \<and> q' = k # q)"
proof -
  let ?d = "sa_set rt k (rh_upd (\<lambda>h. h\<lparr>rcrh_leader_not_viable_delay := False\<rparr>) sa) rci"
  obtain r1 where r1: "raft_client_request_send_queue_add_locked rt k rci = Some r1" "refs (rci_sub_apps r1) k \<noteq> None"
    using queue_add_defined [OF assms] by blast
  obtain r2 where r2: "raft_client_request_send_queue_add_locked rt k ?d = Some r2" "refs (rci_sub_apps r2) k \<noteq> None"
    using queue_add_defined [of ?d k "rh_upd (\<lambda>h. h\<lparr>rcrh_leader_not_viable_delay := False\<rparr>) sa" n] sa_set_refs [OF assms(1)] assms(2,3)
    by (auto simp: rh_upd_def)
  show ?thesis
    using r1 r2 assms(1) sa_ref_refs [OF assms(1)] sa_set_refs [OF assms(1)]
    by (auto simp: check_pending_action_def Let_def)
qed

lemma check_pending_request_defined:
  assumes ok: "client_ok refs (listed L q) rci" and k: "k \<notin> set q" and r: "refs (rci_sub_apps rci) k = Some (sa, n)"
    and h: "histories_ok rci"
  shows "\<exists>r c' q'. check_pending_request rt ce v k rci c q = Some (r, c', q') \<and> set q \<subseteq> set q' \<and>
    (walk_expires ce sa
      \<longrightarrow> refs (rci_sub_apps r) k = Some (sa, Suc n) \<and> q' = k # q)"
proof (cases "rcrh_cancel (rcsa_rh sa) \<or> rcrh_sendq (rcsa_rh sa) \<or> rcrh_initializing (rcsa_rh sa)")
  case True
  with r show ?thesis
    by (auto simp: check_pending_request_def sa_get_eq walk_expires_def)
next
  case False
  obtain s c' q' where s: "check_pending_action rt ce v k sa rci c q = Some (s, c', q')" "set q \<subseteq> set q'"
    "refs (rci_sub_apps s) k \<noteq> None" "request_expired ce (rcsa_rh sa) \<longrightarrow> s = sa_ref rt k rci \<and> q' = k # q"
    using check_pending_action_defined [OF r, of ce v c q] False by blast
  have w: "client_ok refs (listed L q') s" "touched refs {k} rci s"
    using wpD [OF check_pending_action_wp [OF ok k r] s(1)] False by (auto simp: walked_def)
  obtain sa' n' where sa': "refs (rci_sub_apps s) k = Some (sa', n')"
    using s(3) by auto
  have "\<not> rcrh_history_cache (rcsa_rh sa')" "histories_ok s"
    using table_okD(1) [OF w(1) [unfolded client_ok_def] sa'] w(2) h by (auto simp: sub_app_ok_def touched_def Let_def)
  then obtain t where t: "raft_client_op_history_add_item RAFT_CLIENT_RECENT_OP_TYPE_PENDING sa' s = Some t"
    using history_add_item_defined by blast
  then have "rci_sub_apps t = rci_sub_apps s"
    using history_add_item_eq(1) [OF t] by auto
  with False s r sa' t show ?thesis
    by (auto simp: check_pending_request_def sa_get_eq sa_ref_refs [OF r] walk_expires_def)
qed

lemma check_pending_loop_defined:
  assumes "client_ok refs (listed L q) rci" "distinct ks" "set ks \<inter> set q = {}" "distinct q"
    and "\<And>k. k \<in> set q \<Longrightarrow> expirable rci k" "set ks \<subseteq> dom (refs (rci_sub_apps rci))" "histories_ok rci"
  shows "\<exists>r c' q'. check_pending_loop rt ce v ks rci c q = Some (r, c', q') \<and> set q \<subseteq> set q' \<and>
    (\<forall>k sa n. k \<in> set ks \<longrightarrow> refs (rci_sub_apps rci) k = Some (sa, n) \<longrightarrow> walk_expires ce sa
      \<longrightarrow> refs (rci_sub_apps r) k = Some (sa, Suc n) \<and> k \<in> set q')"
  using assms
proof (induction ks arbitrary: rci c q)
  case (Cons k ks)
  obtain sa n where r: "refs (rci_sub_apps rci) k = Some (sa, n)"
    using Cons.prems(6) by auto
  have k: "k \<notin> set q" "k \<notin> set ks"
    using Cons.prems(2,3) by auto
  obtain s c' q' where s: "check_pending_request rt ce v k rci c q = Some (s, c', q')" "set q \<subseteq> set q'"
    "walk_expires ce sa \<longrightarrow> refs (rci_sub_apps s) k = Some (sa, Suc n) \<and> q' = k # q"
    using check_pending_request_defined [OF Cons.prems(1) k(1) r Cons.prems(7), of ce v c] by blast
  have w: "client_ok refs (listed L q') s" "touched refs {k} rci s" "q' = q \<or> q' = k # q \<and> expirable s k"
    using wpD [OF check_pending_request_wp [OF Cons.prems(1) k(1)] s(1)] by (auto simp: walked_def)
  have same: "refs (rci_sub_apps s) j = refs (rci_sub_apps rci) j" if "j \<noteq> k" for j
    using w(2) that by (simp add: touched_def)
  have dom: "set ks \<subseteq> dom (refs (rci_sub_apps s))"
  proof
    fix j assume "j \<in> set ks"
    with k same [of j] Cons.prems(6) show "j \<in> dom (refs (rci_sub_apps s))" by (cases "j = k") auto
  qed
  have prems: "distinct ks" "set ks \<inter> set q' = {}" "distinct q'"
    using Cons.prems(2-4) w(3) k by auto
  have exp: "expirable s j" if "j \<in> set q'" for j
    using w(3) that Cons.prems(5) expirable_touched [OF w(2), of j] k(1) by (cases "j = k") auto
  have hist: "histories_ok s"
    using w(2) Cons.prems(7) by (simp add: touched_def)
  obtain t c'' q'' where t: "check_pending_loop rt ce v ks s c' q' = Some (t, c'', q'')" "set q' \<subseteq> set q''"
    and listed: "\<And>k sa n. k \<in> set ks \<Longrightarrow> refs (rci_sub_apps s) k = Some (sa, n) \<Longrightarrow> walk_expires ce sa
      \<Longrightarrow> refs (rci_sub_apps t) k = Some (sa, Suc n) \<and> k \<in> set q''"
    using Cons.IH [OF w(1) prems exp dom hist, of c'] by blast
  have "touched refs (set ks) s t"
    using wpD [OF check_pending_loop_wp [OF w(1) prems exp] t(1)] by auto
  then have kt: "refs (rci_sub_apps t) k = refs (rci_sub_apps s) k"
    using k(2) by (simp add: touched_def)
  have "refs (rci_sub_apps t) j = Some (sj, Suc m) \<and> j \<in> set q''"
    if "j \<in> set (k # ks)" "refs (rci_sub_apps rci) j = Some (sj, m)" "walk_expires ce sj" for j sj m
  proof (cases "j = k")
    case True
    with that r s(3) t(2) kt show ?thesis by auto
  next
    case False
    with that same [of j] listed [of j sj m] show ?thesis by simp
  qed
  moreover have "check_pending_loop rt ce v (k # ks) rci c q = Some (t, c'', q'')"
    using s(1) t(1) by simp
  ultimately show ?case
    using s(2) t(2) by blast
qed simp

lemma timer_completes_expired:
  assumes ok: "client_ok refs L rci" and r: "refs (rci_sub_apps rci) k = Some (sa, 1)"
    and e: "walk_expires ce sa" "\<not> rcrh_ready (rcsa_rh sa)"
    and h: "histories_ok rci" "requests_fit refs rci" "0 < num_members (rci_ri rci)"
  shows "\<exists>s es fs. raft_client_timerfd_cb rt ce rci = Some s \<and> refs (rci_sub_apps s) k = None \<and>
    rci_events s = rci_events rci @ es @ completion_events (timed_out sa) @ fs"
proof -
  obtain p where p: "timer_ping ce rci = Some p"
    using timer_ping_defined [OF h(3)] by blast
  have fr: "client_frame rci p"
    by (rule wpD [OF timer_ping_frame p])
  let ?p = "raft_client_op_history_reset_cnt RAFT_CLIENT_RECENT_OP_TYPE_PENDING p"
  have f: "client_frame rci ?p"
    by (rule client_frame_trans [OF fr reset_cnt_frame])
  have p0: "client_ok refs (listed L []) ?p" "touched refs {} rci ?p" "refs (rci_sub_apps ?p) k = Some (sa, 1)"
    using client_frame_ok [OF f] ok r f by (auto simp: client_frame_def)
  have hp: "histories_ok ?p" "requests_fit refs ?p"
    using p0(2) h by (auto simp: touched_def)
  let ?v = "raft_client_leader_is_viable (ce_env ce) p"
  obtain s c q where s: "check_pending_loop rt ce ?v (rt_foreach rt (rci_sub_apps ?p)) ?p 0 [] = Some (s, c, q)"
    "refs (rci_sub_apps s) k = Some (sa, 2)" "k \<in> set q"
  proof -
    have "\<exists>s c q. check_pending_loop rt ce ?v (rt_foreach rt (rci_sub_apps ?p)) ?p 0 [] = Some (s, c, q) \<and> set [] \<subseteq> set q \<and>
      (\<forall>k sa n. k \<in> set (rt_foreach rt (rci_sub_apps ?p)) \<longrightarrow> refs (rci_sub_apps ?p) k = Some (sa, n) \<longrightarrow> walk_expires ce sa
        \<longrightarrow> refs (rci_sub_apps s) k = Some (sa, Suc n) \<and> k \<in> set q)"
      by (rule check_pending_loop_defined [OF p0(1) foreach(2)]) (simp_all add: foreach(1) hp(1))
    moreover have "k \<in> set (rt_foreach rt (rci_sub_apps ?p))"
      using p0(3) by (auto simp: foreach(1))
    ultimately show thesis
      using p0(3) e(1) that by (metis One_nat_def Suc_1)
  qed
  have w: "client_ok refs (listed L q) s" "touched refs (set (rt_foreach rt (rci_sub_apps ?p))) ?p s" "distinct q"
    "\<And>k. k \<in> set q \<Longrightarrow> expirable s k"
    using wpD [OF check_pending_loop_wp [OF p0(1) foreach(2)] s(1)] by auto
  let ?s = "if c \<noteq> 0 then emit_cl [Cl_notify] s else s"
  have fs: "client_frame s ?s"
    by (auto intro: emit_frame)
  have hs: "histories_ok ?s" "requests_fit refs ?s" "client_ok refs (listed L q) ?s" "refs (rci_sub_apps ?s) k = Some (sa, 2)"
    "\<And>k. k \<in> set q \<Longrightarrow> expirable ?s k"
    using client_frame_ok [OF fs] w hp s(2) fs by (auto simp: touched_def client_frame_def expirable_def split del: if_split)
  have "sub_app_owned sa"
    using e by (simp add: sub_app_owned_def walk_expires_def)
  then obtain z es fs' where z: "expire_loop rt q ?s = Some z" "refs (rci_sub_apps z) k = None"
    "rci_events z = rci_events ?s @ es @ completion_events (timed_out sa) @ fs'"
    using expire_loop_completes [OF hs(3) w(3) hs(5,1,2) s(3) hs(4)] by blast
  have eq: "raft_client_timerfd_cb rt ce rci = Some (emit_cl [Cl_timer RAFT_CLIENT_TIMERFD_EXPIRE_MS] z)"
    using p s(1) z(1) by (simp add: raft_client_timerfd_cb_def raft_client_check_pending_requests_def Let_def)
  obtain as where "rci_events ?s = rci_events rci @ as"
    using p0(2) w(2) fs by (auto simp: touched_def client_frame_def split del: if_split)
  with eq z show ?thesis
    by (intro exI [of _ "as @ es"] exI [of _ "fs' @ [Cl_timer RAFT_CLIENT_TIMERFD_EXPIRE_MS]"]
        exI [of _ "emit_cl [Cl_timer RAFT_CLIENT_TIMERFD_EXPIRE_MS] z"]) (simp add: emit_cl_def)
qed

end

section \<open>An example\<close>

text \<open>
  A client of the cluster \<open>{1, 2, 3}\<close> that takes server 2 for the leader and has not heard from it yet: a
  blocking write of four bytes with a timeout of half a second is accepted and waits for the leader.
\<close>

definition demo_user :: raft_net_client_user_id where
  "demo_user = \<lparr>rncui_v0_uint64 = [7, 7, 1, 0, 0, 0], rncui_version = 0\<rparr>"

definition demo_client_env :: "timespec \<Rightarrow> unit raft_client_env" where
  "demo_client_env now = \<lparr>ce_env = demo_base\<lparr>env_realtime := now\<rparr>, ce_fault = (\<lambda>_. False), ce_calloc = True,
     ce_malloc = (\<lambda>n. Some (replicate n 0)), ce_obj_id_cb = (\<lambda>_ _. Inr demo_user),
     ce_iovs_total_size = (\<lambda>iovs. sum_list (map iov_len iovs)),
     ce_copy_to_iovs = (\<lambda>bs n iovs. (int (min n (sum_list (map iov_len iovs))), \<lambda>i. iov_base (iovs ! i))),
     ce_atomic_inc = (\<lambda>c. (c + 1, ucast (c + 1)))\<rparr>"

definition demo_submission :: raft_client_submission where
  "demo_submission = \<lparr>sub_rncui = demo_user, sub_src_iovs = [\<lparr>iov_base = [1, 2, 3, 4], iov_len = 4\<rparr>], sub_dest_iovs = [],
     sub_allocate_get_buffer_for_user = False, sub_timeout = 500000000, sub_RCRT_WRITE = True,
     sub_RCRT_NON_BLOCKING = False, sub_user_cb = False, sub_user_arg = 0, sub_tag = 5\<rparr>"

definition demo_client_ri :: "unit raft_instance" where
  "demo_client_ri = (demo_inst ())\<lparr>ri_csn_leader := Some 2\<rparr>"

definition demo_zero :: "(unit, (raft_net_client_user_id, raft_client_sub_app) reftab) raft_client_instance" where
  "demo_zero = snd (raft_client_op_history_create (demo_client_env 0) (zero_rci DAList.empty demo_client_ri))"

abbreviation demo_client :: "(unit, (raft_net_client_user_id, raft_client_sub_app) reftab) raft_client_instance" where
  "demo_client \<equiv> raft_client_instance_init DAList.empty demo_client_ri demo_zero"

lemma demo_zero_fields:
  "rci_sub_app_cnt demo_zero = 0" "rci_events demo_zero = []" "rci_leader_alive_cnt demo_zero = 0" "histories_ok demo_zero"
  by (auto simp: demo_zero_def raft_client_op_history_create_def zero_rci_def demo_client_env_def histories_ok_def
      RAFT_CLIENT_OP_HISTORY_SIZE_def) (metis raft_client_recent_op_types.exhaust)+

text \<open>What the submission leaves: one request, accepted and not queued.\<close>

definition demo_waiting :: "raft_client_sub_app \<Rightarrow> bool" where
  "demo_waiting sa \<longleftrightarrow> (let h = rcsa_rh sa in \<not> rcrh_cancel h \<and> \<not> rcrh_ready h \<and> \<not> rcrh_sendq h \<and> \<not> rcrh_initializing h \<and>
     rcrh_blocking h \<and> \<not> rcrh_async_cb h \<and> rcrh_submitted h = 10000000000 \<and> rcrh_timeout h = 500000000)"

lemma demo_submit:
  "\<exists>c sa. request_submit_prepare reftab_ops (demo_client_env 10000000000) demo_submission demo_client = Some (None, c) \<and>
     sa_get reftab_ops demo_user c = Some sa \<and> rcrh_initializing (rcsa_rh sa) \<and> rcrh_blocking (rcsa_rh sa) \<and>
     \<not> rcrh_async_cb (rcsa_rh sa) \<and> \<not> rcrh_cancel (rcsa_rh sa) \<and> \<not> rcrh_ready (rcsa_rh sa) \<and> \<not> rcrh_sendq (rcsa_rh sa) \<and>
     rcrh_submitted (rcsa_rh sa) = 10000000000 \<and> rcrh_timeout (rcsa_rh sa) = 500000000 \<and>
     reftab_refs (rci_sub_apps c) = [demo_user \<mapsto> (sa, 1)] \<and>
     rci_leader_alive_cnt c = 0 \<and> rci_ri c = demo_client_ri \<and> rci_recent_ops c = rci_recent_ops demo_zero"
  by (simp add: request_submit_prepare_def demo_submission_def demo_client_ri_def raft_client_instance_init_def
      raft_client_rpc_msg_size_is_valid_def raft_client_rpc_msg_size_def raft_net_max_rpc_size_def sizeof_raft_client_rpc_msg_def
      demo_client_env_def raft_client_sub_app_may_add_new_def demo_zero_fields RAFT_CLIENT_MAX_SUB_APP_INSTANCES_def
      raft_client_sub_app_add_def reftab.get_add_fst raft_client_sub_app_construct_def raft_client_sub_app_total_inc_def
      request_submit_fill_def raft_client_request_handle_init_def raft_client_rpc_msg_init_def raft_client_rpc_msg_assign_id_def
      client_reftab.sa_get_eq reftab.get_add_snd reftab.set_elem sa_set_def case_prod_beta Let_def
      RAFT_CLIENT_REQUEST_HANDLE_MAX_IOVS_def)

lemma demo_accepted:
  obtains c sa where "client_run reftab_ops demo_client [Act_submit, Act_enqueue demo_user True False] c"
    "reftab_refs (rci_sub_apps c) = [demo_user \<mapsto> (sa, 1)]" "demo_waiting sa" "rci_ri c = demo_client_ri" "histories_ok c"
proof -
  let ?ce = "demo_client_env 10000000000"
  obtain c sa where c: "request_submit_prepare reftab_ops ?ce demo_submission demo_client = Some (None, c)"
    "sa_get reftab_ops demo_user c = Some sa" and sa: "rcrh_initializing (rcsa_rh sa)" "rcrh_blocking (rcsa_rh sa)"
    "\<not> rcrh_async_cb (rcsa_rh sa)" "\<not> rcrh_cancel (rcsa_rh sa)" "\<not> rcrh_ready (rcsa_rh sa)" "\<not> rcrh_sendq (rcsa_rh sa)"
    "rcrh_submitted (rcsa_rh sa) = 10000000000" "rcrh_timeout (rcsa_rh sa) = 500000000"
    and r: "reftab_refs (rci_sub_apps c) = [demo_user \<mapsto> (sa, 1)]"
    and f: "rci_leader_alive_cnt c = 0" "rci_ri c = demo_client_ri" "rci_recent_ops c = rci_recent_ops demo_zero"
    using demo_submit by blast
  let ?sa = "rh_upd (\<lambda>h. h\<lparr>rcrh_completion_notifier := Some 1, rcrh_initializing := False, rcrh_leader_not_viable_delay := True\<rparr>) sa"
  let ?d = "sa_set reftab_ops demo_user ?sa c"
  have "raft_client_request_submit_enqueue reftab_ops ?ce demo_user c = Some (Submit_waits, ?d)"
    using c(2) sa f(1) by (simp add: raft_client_request_submit_enqueue_def raft_client_leader_is_viable_def Let_def rh_upd_def)
  with c(2) sa have "client_step reftab_ops (Act_enqueue demo_user True False) c ?d"
    using client_step.enqueue [of reftab_ops demo_user c sa ?ce Submit_waits ?d] by simp
  moreover have "client_run reftab_ops demo_client [Act_submit] c"
    using client_run.step [OF client_run.start client_step.submit [OF c(1)]] by simp
  ultimately have "client_run reftab_ops demo_client [Act_submit, Act_enqueue demo_user True False] ?d"
    using client_run.step by fastforce
  moreover have "reftab_refs (rci_sub_apps ?d) = [demo_user \<mapsto> (?sa, 1)]"
    using r by (simp add: sa_set_def reftab.set_elem)
  moreover have "demo_waiting ?sa"
    using sa by (simp add: demo_waiting_def rh_upd_def Let_def)
  moreover have "rci_ri ?d = demo_client_ri" "histories_ok ?d"
    using f(2,3) demo_zero_fields(4) by (simp_all add: sa_set_def histories_ok_def)
  ultimately show thesis
    by (rule that)
qed

section \<open>The runs of a client\<close>



text \<open>
  C38. Every accepted request is completed at most once, and is in the table until then: the wake-ups
  of an id and the request of that id that still owes one are as many as the blocking
  submissions accepted under it; the same holds for the callbacks.
\<close>

theorem accepted_requests_completed_once:
  assumes "client_table rt refs" "refs t = Map.empty" "rci_sub_app_cnt rci0 = 0" "rci_events rci0 = []"
    and "client_run rt (raft_client_instance_init t ri rci0) as rci"
  shows "wakes k (rci_events rci) + owed owes_wake (refs (rci_sub_apps rci) k) = accepted_wakes k as \<and>
    callbacks k (rci_events rci) + owed owes_callback (refs (rci_sub_apps rci) k) = accepted_callbacks k as"
  using client_table.run_ok [OF assms(1,5) client_table.init_ok [OF assms(1-3)], of k] assms(2,4)
  by (simp add: raft_client_instance_init_def)

theorem accepted_requests_completed_once_witness:
  "\<exists>c as. client_run reftab_ops demo_client as c \<and> accepted_wakes demo_user as = 1 \<and>
    wakes demo_user (rci_events c) + owed owes_wake (reftab_refs (rci_sub_apps c) demo_user) = 1"
proof -
  let ?as = "[Act_submit, Act_enqueue demo_user True False]"
  obtain c where c: "client_run reftab_ops demo_client ?as c"
    using demo_accepted by blast
  have "accepted_wakes demo_user ?as = 1"
    by (simp add: accepted_wakes_def)
  then show ?thesis
    using accepted_requests_completed_once [OF client_reftab.client_table_axioms reftab_refs_empty demo_zero_fields(1,2) c]
      c by (intro exI [of _ c] exI [of _ ?as]) simp
qed

text \<open>
  C39. A request that waits for a reply longer than its timeout does not wait for ever: if nobody
  else holds it, the next timer event does not abort, takes it out of the table and reports
  \<open>-ETIMEDOUT\<close>, to the blocked thread and to the callback.
\<close>

theorem expired_request_times_out:
  assumes "client_table rt refs" "refs t = Map.empty" "rci_sub_app_cnt rci0 = 0"
    and "client_run rt (raft_client_instance_init t ri rci0) as rci"
    and "refs (rci_sub_apps rci) k = Some (sa, 1)" "walk_expires ce sa" "\<not> rcrh_ready (rcsa_rh sa)"
    and "histories_ok rci" "requests_fit refs rci" "0 < num_members (rci_ri rci)"
  shows "\<exists>r es. raft_client_timerfd_cb rt ce rci = Some r \<and> refs (rci_sub_apps r) k = None \<and>
    rci_events r = rci_events rci @ es \<and> (rcrh_blocking (rcsa_rh sa) \<longrightarrow> Cl_wake k (- ETIMEDOUT) \<in> set es) \<and>
    (rcrh_async_cb (rcsa_rh sa) \<longrightarrow> (\<exists>buf. Cl_async_cb k (rcrh_arg (rcsa_rh sa)) (- ETIMEDOUT) buf \<in> set es))"
proof -
  have ok: "client_ok refs (\<lambda>_. 0) rci"
    by (rule client_table.reach_ok [OF assms(1-4)])
  have "rcsa_rncui sa = k"
    using table_okD(1) [OF ok [unfolded client_ok_def] assms(5)] by (simp add: sub_app_ok_def)
  then have "rcrh_blocking (rcsa_rh sa) \<longrightarrow> Cl_wake k (- ETIMEDOUT) \<in> set (completion_events (timed_out sa))"
    "rcrh_async_cb (rcsa_rh sa) \<longrightarrow>
      (\<exists>buf. Cl_async_cb k (rcrh_arg (rcsa_rh sa)) (- ETIMEDOUT) buf \<in> set (completion_events (timed_out sa)))"
    by (auto simp: completion_events_def timed_out_def Let_def)
  moreover obtain r es fs where "raft_client_timerfd_cb rt ce rci = Some r" "refs (rci_sub_apps r) k = None"
    "rci_events r = rci_events rci @ es @ completion_events (timed_out sa) @ fs"
    using client_table.timer_completes_expired [OF assms(1) ok assms(5-10)] by blast
  ultimately show ?thesis
    by (intro exI [of _ r] exI [of _ "es @ completion_events (timed_out sa) @ fs"]) auto
qed

theorem expired_request_times_out_witness:
  "\<exists>c r es. client_run reftab_ops demo_client [Act_submit, Act_enqueue demo_user True False] c \<and>
    raft_client_timerfd_cb reftab_ops (demo_client_env 11000000000) c = Some r \<and>
    rci_events r = rci_events c @ es \<and> Cl_wake demo_user (- ETIMEDOUT) \<in> set es"
proof -
  obtain c sa where c: "client_run reftab_ops demo_client [Act_submit, Act_enqueue demo_user True False] c"
    "reftab_refs (rci_sub_apps c) = [demo_user \<mapsto> (sa, 1)]" "demo_waiting sa" "rci_ri c = demo_client_ri" "histories_ok c"
    using demo_accepted by blast
  have r: "reftab_refs (rci_sub_apps c) demo_user = Some (sa, 1)"
    using c(2) by simp
  have e: "walk_expires (demo_client_env 11000000000) sa" "\<not> rcrh_ready (rcsa_rh sa)" "rcrh_blocking (rcsa_rh sa)"
    using c(3) by (simp_all add: demo_waiting_def walk_expires_def request_expired_def queued_ms_def demo_client_env_def
        timespec_2_msec_def Let_def)
  have f: "requests_fit reftab_refs c" "0 < num_members (rci_ri c)"
    using c(2-4) by (simp_all add: requests_fit_def sub_app_fits_def demo_waiting_def demo_client_ri_def num_members_def Let_def
        split: if_splits)
  show ?thesis
    using expired_request_times_out [OF client_reftab.client_table_axioms reftab_refs_empty demo_zero_fields(1) c(1) r e(1,2) c(5) f]
      c(1) e(3) by blast
qed

text \<open>
  C40. Cancelling a pending request, or a failure to send it, loses a reference for good: the request
  is never completed. In every run that follows it stays in the table, and neither the
  callback nor the wake-up it owes ever happens.
\<close>

theorem lost_reference_never_completed:
  assumes "client_table rt refs" "refs t = Map.empty" "rci_sub_app_cnt rci0 = 0"
    and "client_run rt (raft_client_instance_init t ri rci0) as rci"
    and "sa_get rt k rci = Some sa" "\<not> rcrh_initializing (rcsa_rh sa)" "rcrh_blocking (rcsa_rh sa) \<or> rcrh_async_cb (rcsa_rh sa)"
    and "raft_client_request_cancel rt k rci = Some (- EINPROGRESS, r) \<or>
      (\<exists>rc ks. rci_sendq rci = k # ks \<and> raft_client_rpc_sendq_dequeue_head_and_send rt ce rci = Some (rc, r) \<and>
        rc \<noteq> 0 \<and> rc \<noteq> - EAGAIN \<and> rc \<noteq> - ESTALE)"
    and "client_run rt r bs s"
  shows "refs (rci_sub_apps s) k \<noteq> None \<and> wakes k (rci_events s) = wakes k (rci_events rci) \<and>
    callbacks k (rci_events s) = callbacks k (rci_events rci)"
  by (rule client_table.lost_reference [OF assms(1) client_table.reach_ok [OF assms(1-4)] assms(5-7) _ assms(9), of ce])
    (use assms(8) in \<open>simp add: send_failed_def\<close>)

theorem lost_reference_never_completed_witness:
  "\<exists>c r. client_run reftab_ops demo_client [Act_submit, Act_enqueue demo_user True False] c \<and>
    raft_client_request_cancel reftab_ops demo_user c = Some (- EINPROGRESS, r) \<and>
    (\<forall>bs s. client_run reftab_ops r bs s \<longrightarrow>
      reftab_refs (rci_sub_apps s) demo_user \<noteq> None \<and> wakes demo_user (rci_events s) = wakes demo_user (rci_events c))"
proof -
  obtain c sa where c: "client_run reftab_ops demo_client [Act_submit, Act_enqueue demo_user True False] c"
    "reftab_refs (rci_sub_apps c) = [demo_user \<mapsto> (sa, 1)]" "demo_waiting sa"
    using demo_accepted by blast
  have sa: "sa_get reftab_ops demo_user c = Some sa" "\<not> rcrh_initializing (rcsa_rh sa)" "rcrh_blocking (rcsa_rh sa)"
    using c(2,3) by (simp_all add: client_reftab.sa_get_eq demo_waiting_def Let_def)
  obtain x r where lk: "raft_client_sub_app_lookup reftab_ops demo_user c = (x, r)"
    by (cases "raft_client_sub_app_lookup reftab_ops demo_user c")
  have "x = Some sa"
    using client_reftab.lookup_refs(1) [OF lk] c(2) by simp
  with lk sa(2) have cancel: "raft_client_request_cancel reftab_ops demo_user c = Some (- EINPROGRESS, r)"
    by (simp add: raft_client_request_cancel_def)
  have "reftab_refs (rci_sub_apps s) demo_user \<noteq> None \<and> wakes demo_user (rci_events s) = wakes demo_user (rci_events c)"
    if "client_run reftab_ops r bs s" for bs s
    using lost_reference_never_completed [OF client_reftab.client_table_axioms reftab_refs_empty demo_zero_fields(1) c(1) sa(1,2)
        disjI1 [OF sa(3)] disjI1 [OF cancel] that] by blast
  with c(1) cancel show ?thesis
    by blast
qed

end
