(* ===== verification/Spec2Isabelle.thy ===== *)
theory Spec2Isabelle
  imports Raft_Restart Raft_Database Raft_Clientlive
begin

text \<open>
  A verification development for niova-raft, a Raft implementation in C. The server is a single
  process per member: one thread handles messages and timers, a second one syncs the log, a third one
  takes checkpoints and compacts the log. The log is kept by one of two backends behind a table of
  function pointers. Applications plug in a state machine through callbacks, and reach the servers
  through a client library, which keeps a table of pending requests and a thread that sends them to
  the leader, retries and expires them.

  \<^bold>\<open>How the code is modelled.\<close> A C structure is a record with the fields of the source, a handler a
  function from the instance to the instance. \<^term>\<open>None\<close> is the end of the process: \<open>NIOVA_ASSERT\<close>,
  \<open>FATAL_IF\<close> and the undefined accesses the code would make. Error codes are negative integers, as in
  the code. What the code sends, the timers it sets and the event pipes it notifies are recorded in
  order in \<open>ri_effects\<close>. What is not decided by this code (clocks, random numbers, injected faults,
  the network, the checksum function, uninitialised memory) is in the record \<open>raft_env\<close>; file
  operations are the record \<open>niova_io\<close>; the application and the node table are arguments. Indices and
  terms are integers and the sizes, counts and checksums words of their width; the on-disk encoding
  needs the integers to fit 64 bits, and the lemmas on it say so.

  \<^bold>\<open>The theories\<close>, in the order of the code:
  \<^item> \<open>Raft_Prelude\<close>: failure, postconditions of operations that may abort (\<open>wp\<close>), words, sorted lists,
    majorities.
  \<^item> \<open>Raft_Types\<close>: the structures and accessors of \<open>raft.h\<close> and \<open>raft_net.h\<close>.
  \<^item> \<open>Raft_Majority\<close>: \<open>raft_majority_index_value\<close>, \<open>raft_server_get_majority_entry_idx\<close>.
  \<^item> \<open>Raft_Entry\<close>: log entries and the newest-entry headers. \<open>Raft_Codec\<close>: their bytes on disk.
  \<^item> \<open>Raft_Net\<close>: sending to peers and verifying senders (\<open>raft_net.c\<close>).
  \<^item> \<open>Raft_Backend\<close>: the backend interface. The locale \<open>backend_frame\<close> says what a backend may change,
    \<open>log_backend\<close> what it promises about entries.
  \<^item> \<open>Raft_Log\<close>: reads guarded against compaction, sync, the log header, the scan at start-up.
  \<^item> \<open>Raft_Posix\<close>: \<open>raft_server_backend_posix.c\<close>. The locale \<open>posix_file\<close> states what reads and writes of
    a file do; under it the backend satisfies \<open>log_backend\<close>. A file in memory satisfies \<open>posix_file\<close>.
  \<^item> \<open>Raft_Example\<close>: a member of a cluster of three, for the concrete instances of the properties.
  \<^item> \<open>Raft_Disk\<close>: what the file backend guarantees when the disk works.
  \<^item> \<open>Raft_Election\<close>, \<open>Raft_Append\<close>, \<open>Raft_Leader\<close>, \<open>Raft_Client\<close>, \<open>Raft_Apply\<close>: the protocol of
    \<open>raft_server.c\<close>, from candidacies to applying committed entries.
  \<^item> \<open>Raft_Server\<close>: message dispatch, timer, event pipes and threads, and the server as a transition
    system \<open>server_step\<close> whose steps are complete handlers.
  \<^item> \<open>Raft_Invariant\<close>, \<open>Raft_Run\<close>: the locale \<open>server_inv\<close>, the laws under which a predicate is kept by
    every handler, and the proof that they suffice. \<open>Raft_Safety\<close>: its instances.
  \<^item> \<open>Raft_Tunables\<close>: the setters of the timing and store values. \<open>Raft_Startup\<close>: initialising,
    starting, stopping and restarting a server. \<open>Raft_Restart\<close>: what a start leaves.
  \<^item> \<open>Raft_Keys\<close>, \<open>Raft_Rocksdb\<close>, \<open>Raft_Store\<close>, \<open>Raft_Recovery\<close>: \<open>raft_server_backend_rocksdb.c\<close>, from the
    keys over the operations on an open database to the store directory and the bulk recovery. RocksDB
    is the record \<open>rocksdb\<close>, and the locale \<open>rocksdb_store\<close> states what its calls do; the file system is
    the record \<open>store_fs\<close>. \<open>Raft_Kvlog\<close>: the backend satisfies \<open>backend_frame\<close> and, under
    \<open>rocksdb_store\<close>, \<open>log_backend\<close>; a database in memory satisfies \<open>rocksdb_store\<close>. \<open>Raft_Database\<close>: what
    the backend guarantees, and what a recovery leaves.
  \<^item> \<open>Raft_Reftree\<close>: the locale \<open>ref_tree\<close>, what the code expects of the reference-counted tree, which
    comes from another repository; a table in memory satisfies it.
  \<^item> \<open>Raft_Clientlib\<close>, \<open>Raft_Requests\<close>: \<open>raft_client.c\<close> and the client functions of \<open>raft_net.c\<close>, from the
    choice of a leader over submission, sending, expiry and replies to the client as a transition
    system \<open>client_step\<close>. A submission is two steps, since its request is in the table before it is
    complete; a request between the two is not cancelled, because the code would free it under the
    submitting thread.
  \<^item> \<open>Raft_Clientinv\<close>: what a well-formed table of requests is. The locale \<open>client_table\<close> is a \<open>ref_tree\<close>
    of requests. \<open>Raft_Clientrun\<close>, \<open>Raft_Clientsafe\<close>: every operation and every run keep the table
    well formed and balance what is owed to the callers. \<open>Raft_Clientlive\<close>: the properties of the
    client, and a client in memory as their concrete instance.

  \<^bold>\<open>What is shown.\<close> Of one server, through every run: terms, votes and the commit index only move
  forward; applied, committed, synced and written indices stay in order, so the assertions on them
  hold; no second vote in a term; committed entries stay in the file. Of single handlers: a vote goes
  only to an up-to-date candidate and is recorded first; a leader has the votes of a majority; a
  commit index is reached by a majority; a request is accepted only at the end of a matching log; a
  deposed leader is refused. Of two servers: an entry that is sent and accepted is the same at both.
  Of the file backend: it refines a set of entries, entries and log headers are read back as written.
  Of the key-value backend: its keys sort as the log, it refines a set of entries, the ends of the log
  are found again, runs on it move forward in order; a recovery takes over the peer's term and vote,
  and one that was cut off is not resumed. Of a start: a restarted server has its log back, a started
  one is in order, its timers are in bounds. Of the client, in every run: the table of requests is well
  formed; an accepted request is completed at most once and is in the table until then; one whose time
  is over is completed with an error at the next timer event; one that was to be cancelled, or whose
  sending failed, is never completed.
  Where the code does not do what it means to, the behaviour is stated as it is.

  \<^bold>\<open>Bounds.\<close> \<open>raft_server_become_candidate\<close> and the functions it calls form a recursion through the
  sending of a vote to oneself; it ends after at most three levels (\<open>become_candidate_depth\<close>), since
  a candidate is never a pre-candidate again. The loop of \<open>raft_server_instance_run\<close>, which may go on
  for ever, takes a number of passes. The walk over the keys of the database ends when the iterator
  does, so it is a partial function, and it is shown to end. The client's sender takes a request off its
  queue in every pass. Every other loop is structural or has a measure.

  \<^bold>\<open>Not modelled.\<close> Sockets, threads and locks (each handler is one step), configuration files, the
  registry and control interface, histograms and logging; starting the client's thread, the
  parsing and printing of user ids; the vendored code.
\<close>

end
